(* ===== verification/Prelude.thy ===== *)
theory Prelude
  imports Main "HOL-Library.Word" "HOL-Library.Sublist" "HOL-Library.State_Monad"
begin

text \<open>
  What every component of the development shares.

  \<^item> The machine integers of the source (\<open>u32\<close>, \<open>u64\<close>) as words, with the saturating
    addition of \<^verbatim>\<open>u32::saturating_add\<close>.
  \<^item> Effectful code. An \<^verbatim>\<open>async fn\<close> of the source that reads and writes shared state is a
    value of \<open>('s, 'a) state\<close> of HOL-Library's state monad; a fallible one returns a sum,
    \<open>Inl\<close> the error. \<open>try_op\<close> is the source's \<^verbatim>\<open>?\<close>. \<open>wp m Q s\<close> says that \<open>m\<close>, run from
    \<open>s\<close>, ends in a result and a state that satisfy \<open>Q\<close>; the collection \<open>wp_simps\<close>
    computes it, so a proof about an operation follows the operation's own branches.
  \<^item> Strings. A Rust \<^verbatim>\<open>String\<close> is its list of UTF-8 bytes (\<open>string\<close>), so \<open>length\<close> is
    \<^verbatim>\<open>str::len\<close>; \<open>is_char_boundary\<close>, the prefix, suffix and splitting functions and the
    decimal rendering and parsing of the standard library are here.
  \<^item> The interface \<open>state_machine\<close> (an initial state, a step per event, an invariant), which
    the components instantiate, and the interface \<open>text_cutter\<close> for the functions that cap
    a string at a byte budget.
\<close>

section \<open>Machine integers\<close>

type_synonym u32 = "32 word"
type_synonym u64 = "64 word"

definition saturating_add :: "'a::len word \<Rightarrow> 'a word \<Rightarrow> 'a word" where
  "saturating_add a b = (if unat a + unat b < 2 ^ LENGTH('a) then a + b else - 1)"

lemma unat_bound: "unat (w :: 'a::len word) < 2 ^ LENGTH('a)"
  by (rule unsigned_less)

lemma unat_max_word: "unat (- 1 :: 'a::len word) = 2 ^ LENGTH('a) - 1"
  by (simp add: unsigned_minus_1_eq_mask mask_eq_exp_minus_1)

lemma unat_saturating_add:
  "unat (saturating_add a (b :: 'a::len word)) = min (unat a + unat b) (2 ^ LENGTH('a) - 1)"
proof (cases "unat a + unat b < 2 ^ LENGTH('a)")
  case True
  then show ?thesis
    by (simp add: saturating_add_def unat_word_ariths)
next
  case False
  then show ?thesis
    by (simp add: saturating_add_def unat_max_word)
qed

lemma saturating_add_max: "saturating_add (- 1) (1 :: 'a::len word) = - 1"
proof (rule word_unat_eq_iff [THEN iffD2])
  show "unat (saturating_add (- 1) (1 :: 'a word)) = unat (- 1 :: 'a word)"
    by (simp add: unat_saturating_add unat_max_word)
qed

section \<open>Effectful operations\<close>

named_theorems wp_simps \<open>rules that compute \<open>wp\<close> of the constructs of an operation\<close>

abbreviation ret :: "'a \<Rightarrow> ('s, 'a) state" where
  "ret \<equiv> State_Monad.return"

definition modify :: "('s \<Rightarrow> 's) \<Rightarrow> ('s, unit) state" where
  "modify f = State (\<lambda>s. ((), f s))"

definition gets :: "('s \<Rightarrow> 'a) \<Rightarrow> ('s, 'a) state" where
  "gets f = State (\<lambda>s. (f s, s))"

text \<open>The \<^verbatim>\<open>?\<close> operator: an error ends the enclosing operation with that error.\<close>

definition try_op :: "('s, 'e + 'a) state \<Rightarrow> ('a \<Rightarrow> ('s, 'e + 'b) state) \<Rightarrow> ('s, 'e + 'b) state" where
  "try_op m f = do { r \<leftarrow> m; case r of Inl e \<Rightarrow> ret (Inl e) | Inr x \<Rightarrow> f x }"

text \<open>A pure fallible step inside an operation.\<close>

definition lift_result :: "'e + 'a \<Rightarrow> ('s, 'e + 'a) state" where
  "lift_result r = ret r"

definition wp :: "('s, 'a) state \<Rightarrow> ('a \<Rightarrow> 's \<Rightarrow> bool) \<Rightarrow> 's \<Rightarrow> bool" where
  "wp m Q s = (case run_state m s of (a, s') \<Rightarrow> Q a s')"

lemma wp_ret [wp_simps]: "wp (ret a) Q s = Q a s"
  by (simp add: wp_def)

lemma wp_bind [wp_simps]: "wp (State_Monad.bind m f) Q s = wp m (\<lambda>a. wp (f a) Q) s"
  by (simp add: wp_def split: prod.split)

lemma wp_modify [wp_simps]: "wp (modify f) Q s = Q () (f s)"
  by (simp add: wp_def modify_def)

lemma wp_gets [wp_simps]: "wp (gets f) Q s = Q (f s) s"
  by (simp add: wp_def gets_def)

lemma wp_get [wp_simps]: "wp State_Monad.get Q s = Q s s"
  by (simp add: wp_def)

lemma wp_try_op [wp_simps]:
  "wp (try_op m f) Q s =
     wp m (\<lambda>r s'. case r of Inl e \<Rightarrow> Q (Inl e) s' | Inr x \<Rightarrow> wp (f x) Q s') s"
  by (auto simp: try_op_def wp_bind wp_ret wp_def split: sum.split prod.split)

lemma wp_lift_result [wp_simps]: "wp (lift_result r) Q s = Q r s"
  by (simp add: lift_result_def wp_ret)

lemma wp_mono: "wp m Q s \<Longrightarrow> (\<And>a s'. Q a s' \<Longrightarrow> Q' a s') \<Longrightarrow> wp m Q' s"
  by (auto simp: wp_def split: prod.splits)

lemma wp_conj: "wp m (\<lambda>a s'. Q a s' \<and> R a s') s \<longleftrightarrow> wp m Q s \<and> wp m R s"
  by (auto simp: wp_def split: prod.splits)

lemma wp_run: "wp m Q s \<Longrightarrow> run_state m s = (a, s') \<Longrightarrow> Q a s'"
  by (simp add: wp_def)

lemma wp_runI: "(\<And>a s'. run_state m s = (a, s') \<Longrightarrow> Q a s') \<Longrightarrow> wp m Q s"
  by (simp add: wp_def split: prod.split)

section \<open>Results\<close>

lemma map_sum_eq_Inl [simp]: "map_sum f g r = Inl e \<longleftrightarrow> (\<exists>e'. r = Inl e' \<and> e = f e')"
  by (cases r) auto

lemma map_sum_eq_Inr [simp]: "map_sum f g r = Inr x \<longleftrightarrow> (\<exists>x'. r = Inr x' \<and> x = g x')"
  by (cases r) auto

section \<open>Strings as UTF-8 bytes\<close>

text \<open>\<^verbatim>\<open>u8\<close> continuation bytes are \<^verbatim>\<open>0x80..=0xBF\<close>.\<close>

definition is_continuation :: "char \<Rightarrow> bool" where
  "is_continuation c \<longleftrightarrow> 128 \<le> (of_char c :: nat) \<and> (of_char c :: nat) < 192"

definition is_char_boundary :: "string \<Rightarrow> nat \<Rightarrow> bool" where
  "is_char_boundary s i \<longleftrightarrow>
     i = 0 \<or> i = length s \<or> (i < length s \<and> \<not> is_continuation (s ! i))"

text \<open>The loop \<^verbatim>\<open>while !text.is_char_boundary(end) { end -= 1 }\<close>.\<close>

fun char_boundary_at_or_below :: "string \<Rightarrow> nat \<Rightarrow> nat" where
  "char_boundary_at_or_below s 0 = 0"
| "char_boundary_at_or_below s (Suc n) =
     (if is_char_boundary s (Suc n) then Suc n else char_boundary_at_or_below s n)"

lemma char_boundary_le: "char_boundary_at_or_below s n \<le> n"
  by (induction n) (auto intro: le_SucI)

lemma char_boundary_is_boundary: "is_char_boundary s (char_boundary_at_or_below s n)"
  by (induction n) (auto simp: is_char_boundary_def)

lemma char_boundary_greatest:
  "is_char_boundary s i \<Longrightarrow> i \<le> n \<Longrightarrow> i \<le> char_boundary_at_or_below s n"
proof (induction n)
  case 0
  then show ?case by simp
next
  case (Suc n)
  then show ?case by (cases "i = Suc n") auto
qed

section \<open>The interface of the functions that cap a string\<close>

text \<open>
  A cutter keeps a string that fits its budget and otherwise returns the longest prefix
  within the budget that ends at a character boundary.
\<close>

locale text_cutter =
  fixes cut :: "string \<Rightarrow> string"
    and budget :: nat
  assumes cut_fits: "length s \<le> budget \<Longrightarrow> cut s = s"
    and cut_long: "budget < length s \<Longrightarrow> cut s = take (char_boundary_at_or_below s budget) s"
begin

lemma cut_length: "length (cut s) \<le> budget"
proof (cases "length s \<le> budget")
  case True
  then show ?thesis by (simp add: cut_fits)
next
  case False
  then show ?thesis
    using char_boundary_le [of s budget] by (simp add: cut_long)
qed

lemma cut_prefix: "prefix (cut s) s"
proof (cases "length s \<le> budget")
  case True
  then show ?thesis by (simp add: cut_fits)
next
  case False
  then show ?thesis by (simp add: cut_long take_is_prefix)
qed

lemma cut_boundary: "is_char_boundary s (length (cut s))"
proof (cases "length s \<le> budget")
  case True
  then show ?thesis by (simp add: cut_fits is_char_boundary_def)
next
  case False
  then have "char_boundary_at_or_below s budget \<le> length s"
    using char_boundary_le [of s budget] by simp
  with False show ?thesis
    by (simp add: cut_long min_def char_boundary_is_boundary)
qed

lemma cut_longest:
  assumes "is_char_boundary s i" and "i \<le> budget" and "i \<le> length s"
  shows "i \<le> length (cut s)"
proof (cases "length s \<le> budget")
  case True
  with assms show ?thesis by (simp add: cut_fits)
next
  case False
  have "i \<le> char_boundary_at_or_below s budget"
    using assms by (intro char_boundary_greatest)
  with False assms show ?thesis by (simp add: cut_long)
qed

lemma cut_idem: "cut (cut s) = cut s"
  by (rule cut_fits) (rule cut_length)

end

section \<open>The interface of a machine with an invariant\<close>

locale state_machine =
  fixes step :: "'s \<Rightarrow> 'e \<Rightarrow> 's"
    and inv :: "'s \<Rightarrow> bool"
  assumes step_inv: "inv s \<Longrightarrow> inv (step s e)"
begin

lemma run_inv: "inv s \<Longrightarrow> inv (foldl step s es)"
  by (induction es arbitrary: s) (auto intro: step_inv)

lemma trace_inv: "inv s \<Longrightarrow> inv (foldl step s (take n es))"
  by (rule run_inv)

end

end
