(* ===== verification/Rust_Strings.thy ===== *)
theory Rust_Strings
  imports Prelude
begin

text \<open>
  The string functions of Rust's standard library that the modelled code calls, on strings as
  lists of UTF-8 bytes: \<^verbatim>\<open>strip_prefix\<close>, \<^verbatim>\<open>strip_suffix\<close>, \<^verbatim>\<open>split_once\<close>, \<^verbatim>\<open>rsplit_once\<close>,
  \<^verbatim>\<open>contains\<close>, \<^verbatim>\<open>replace\<close>, \<^verbatim>\<open>join\<close>, the decimal rendering of an unsigned integer by
  \<^verbatim>\<open>format!\<close>, its parsing by \<^verbatim>\<open>str::parse::<u64>\<close> and the \<^verbatim>\<open>Debug\<close> rendering of a
  \<^verbatim>\<open>Duration\<close>. The lemmas give the round trips the file-name schemes of the runtime
  directory rest on, stated once in the interface \<open>numbered_name\<close>.
\<close>

section \<open>Prefixes, suffixes, splitting\<close>

definition strip_prefix :: "string \<Rightarrow> string \<Rightarrow> string option" where
  "strip_prefix p s = (if prefix p s then Some (drop (length p) s) else None)"

definition strip_suffix :: "string \<Rightarrow> string \<Rightarrow> string option" where
  "strip_suffix p s = (if suffix p s then Some (take (length s - length p) s) else None)"

text \<open>The first occurrence of the pattern splits the string.\<close>

fun split_once :: "string \<Rightarrow> string \<Rightarrow> (string \<times> string) option" where
  "split_once p s =
     (if prefix p s then Some ([], drop (length p) s)
      else case s of [] \<Rightarrow> None
        | c # cs \<Rightarrow> map_option (\<lambda>(a, b). (c # a, b)) (split_once p cs))"

declare split_once.simps [simp del]

text \<open>The last occurrence of a one-character pattern splits the string.\<close>

definition rsplit_once :: "char \<Rightarrow> string \<Rightarrow> (string \<times> string) option" where
  "rsplit_once c s =
     (if c \<in> set s
      then Some (rev (tl (dropWhile (\<lambda>x. x \<noteq> c) (rev s))), rev (takeWhile (\<lambda>x. x \<noteq> c) (rev s)))
      else None)"

definition str_contains :: "string \<Rightarrow> string \<Rightarrow> bool" where
  "str_contains s p \<longleftrightarrow> split_once p s \<noteq> None"

text \<open>\<^verbatim>\<open>str::replace\<close> for a non-empty pattern: every non-overlapping occurrence, left to right.\<close>

function str_replace :: "string \<Rightarrow> string \<Rightarrow> string \<Rightarrow> string" where
  "str_replace p r s =
     (case s of [] \<Rightarrow> []
      | c # cs \<Rightarrow> if p \<noteq> [] \<and> prefix p s then r @ str_replace p r (drop (length p) s)
                 else c # str_replace p r cs)"
  by pat_completeness auto
termination
  by (relation "measure (\<lambda>(p, r, s). length s)") (auto simp: prefix_def)

declare str_replace.simps [simp del]

fun str_join :: "string \<Rightarrow> string list \<Rightarrow> string" where
  "str_join sep [] = []"
| "str_join sep [x] = x"
| "str_join sep (x # y # ys) = x @ sep @ str_join sep (y # ys)"

section \<open>Decimal numbers\<close>

definition digit_char :: "nat \<Rightarrow> char" where
  "digit_char n = char_of (48 + n)"

definition is_ascii_digit :: "char \<Rightarrow> bool" where
  "is_ascii_digit c \<longleftrightarrow> 48 \<le> (of_char c :: nat) \<and> (of_char c :: nat) \<le> 57"

definition digit_value :: "char \<Rightarrow> nat" where
  "digit_value c = of_char c - 48"

fun dec :: "nat \<Rightarrow> string" where
  "dec n = (if n < 10 then [digit_char n] else dec (n div 10) @ [digit_char (n mod 10)])"

declare dec.simps [simp del]

definition show_u64 :: "u64 \<Rightarrow> string" where
  "show_u64 e = dec (unat e)"

fun digits_value :: "nat \<Rightarrow> string \<Rightarrow> nat" where
  "digits_value acc [] = acc"
| "digits_value acc (c # cs) = digits_value (10 * acc + digit_value c) cs"

text \<open>
  \<^verbatim>\<open>str::parse::<u64>\<close>: one leading \<^verbatim>\<open>+\<close> is accepted, no other sign; an empty digit string,
  a non-digit and a value of \<open>2 ^ 64\<close> or more are errors.
\<close>

definition parse_u64 :: "string \<Rightarrow> u64 option" where
  "parse_u64 s =
     (let ds = (case s of c # cs \<Rightarrow> if c = CHR ''+'' then cs else s | [] \<Rightarrow> [])
      in if ds \<noteq> [] \<and> list_all is_ascii_digit ds \<and> digits_value 0 ds < 2 ^ 64
         then Some (word_of_nat (digits_value 0 ds)) else None)"

section \<open>Durations\<close>

text \<open>A \<^verbatim>\<open>std::time::Duration\<close> is its number of nanoseconds.\<close>

type_synonym duration = nat

definition from_millis :: "nat \<Rightarrow> duration" where
  "from_millis ms = ms * 1000000"

definition from_secs :: "nat \<Rightarrow> duration" where
  "from_secs s = s * 1000000000"

definition pad_left :: "nat \<Rightarrow> string \<Rightarrow> string" where
  "pad_left w s = replicate (w - length s) (CHR ''0'') @ s"

definition trim_zeros :: "string \<Rightarrow> string" where
  "trim_zeros s = rev (dropWhile (\<lambda>c. c = CHR ''0'') (rev s))"

definition fmt_decimal :: "nat \<Rightarrow> nat \<Rightarrow> nat \<Rightarrow> string" where
  "fmt_decimal n unit width =
     (let f = trim_zeros (pad_left width (dec (n mod unit)))
      in dec (n div unit) @ (if n mod unit = 0 then [] else ''.'' @ f))"

definition debug_duration :: "duration \<Rightarrow> string" where
  "debug_duration d =
     (if 1000000000 \<le> d then fmt_decimal d 1000000000 9 @ ''s''
      else if 1000000 \<le> d then fmt_decimal d 1000000 6 @ ''ms''
      else if 1000 \<le> d then fmt_decimal d 1000 3 @ [char_of (194 :: nat), char_of (181 :: nat)] @ ''s''
      else dec d @ ''ns'')"

section \<open>Lemmas\<close>

lemma strip_prefix_append [simp]: "strip_prefix p (p @ s) = Some s"
  by (simp add: strip_prefix_def)

lemma strip_prefix_Some: "strip_prefix p s = Some r \<longleftrightarrow> s = p @ r"
  by (auto simp: strip_prefix_def prefix_def)

lemma strip_suffix_append [simp]: "strip_suffix p (s @ p) = Some s"
  by (simp add: strip_suffix_def suffix_def)

lemma strip_suffix_Some: "strip_suffix p s = Some r \<longleftrightarrow> s = r @ p"
  by (auto simp: strip_suffix_def suffix_def)

lemma split_once_Some: "split_once p s = Some (a, b) \<Longrightarrow> s = a @ p @ b"
proof (induction p s arbitrary: a b rule: split_once.induct)
  case (1 p s)
  show ?case
  proof (cases "prefix p s")
    case True
    with "1.prems" show ?thesis
      by (auto simp: split_once.simps [of p s] prefix_def)
  next
    case False
    with "1.prems" obtain c cs a' where s: "s = c # cs" and a: "a = c # a'"
      and rec: "split_once p cs = Some (a', b)"
      by (auto simp: split_once.simps [of p s] split: list.splits)
    from "1.IH" [OF False s rec] s a show ?thesis by simp
  qed
qed

lemma str_contains_iff: "str_contains s p \<longleftrightarrow> (\<exists>a b. s = a @ p @ b)"
proof
  assume "str_contains s p"
  then obtain a b where "split_once p s = Some (a, b)"
    by (auto simp: str_contains_def)
  then show "\<exists>a b. s = a @ p @ b" by (blast dest: split_once_Some)
next
  assume "\<exists>a b. s = a @ p @ b"
  then obtain a b where s: "s = a @ p @ b" by blast
  have "split_once p (a @ p @ b) \<noteq> None"
  proof (induction a)
    case Nil
    show ?case by (subst split_once.simps) simp
  next
    case (Cons c a)
    then show ?case by (subst split_once.simps) auto
  qed
  with s show "str_contains s p" by (simp add: str_contains_def)
qed

lemma str_contains_skip:
  assumes "str_contains s p" and "\<not> prefix p s"
  obtains c cs where "s = c # cs" "str_contains cs p"
proof -
  from assms(1) obtain a b where s: "s = a @ p @ b" by (auto simp: str_contains_iff)
  with assms(2) obtain c a' where "a = c # a'" by (cases a) (auto simp: prefix_def)
  with s that [of c "a' @ p @ b"] show thesis by (auto simp: str_contains_iff)
qed

lemma str_replace_Nil [simp]: "str_replace p r [] = []"
  by (subst str_replace.simps) simp

lemma str_replace_hit:
  "p \<noteq> [] \<and> prefix p s \<Longrightarrow> str_replace p r s = r @ str_replace p r (drop (length p) s)"
  by (subst str_replace.simps) (cases s; simp)

lemma str_replace_skip:
  "\<not> (p \<noteq> [] \<and> prefix p (c # cs)) \<Longrightarrow> str_replace p r (c # cs) = c # str_replace p r cs"
  by (subst str_replace.simps) auto

lemma of_char_digit [simp]: "n < 10 \<Longrightarrow> (of_char (digit_char n) :: nat) = 48 + n"
  by (simp add: digit_char_def)

lemma is_ascii_digit_digit_char [simp]: "n < 10 \<Longrightarrow> is_ascii_digit (digit_char n)"
  by (simp add: is_ascii_digit_def)

lemma digit_value_digit_char [simp]: "n < 10 \<Longrightarrow> digit_value (digit_char n) = n"
  by (simp add: digit_value_def)

lemma dec_digits [simp]: "c \<in> set (dec n) \<Longrightarrow> is_ascii_digit c"
proof (induction n rule: dec.induct)
  case (1 n)
  then show ?case by (auto simp: dec.simps [of n] split: if_splits)
qed

lemma dec_nonempty [simp]: "dec n \<noteq> []"
  by (subst dec.simps) simp

lemma digits_value_append: "digits_value acc (xs @ ys) = digits_value (digits_value acc xs) ys"
  by (induction xs arbitrary: acc) auto

lemma digits_value_dec [simp]: "digits_value 0 (dec n) = n"
proof (induction n rule: dec.induct)
  case (1 n)
  then show ?case by (cases "n < 10") (auto simp: dec.simps [of n] digits_value_append)
qed

lemma dec_inject [simp]: "dec m = dec n \<longleftrightarrow> m = n"
  by (metis digits_value_dec)

lemma show_u64_inject [simp]: "show_u64 d = show_u64 e \<longleftrightarrow> d = e"
  by (simp add: show_u64_def word_unat_eq_iff)

lemma not_digit_plus [simp]: "\<not> is_ascii_digit (CHR ''+'')"
  by (simp add: is_ascii_digit_def)

lemma digits_not_in:
  assumes "\<not> is_ascii_digit c"
  shows "c \<notin> set (show_u64 e)"
  using assms by (auto simp: show_u64_def dest: dec_digits)

lemma parse_u64_show [simp]: "parse_u64 (show_u64 e) = Some e"
proof -
  obtain c cs where ds: "dec (unat e) = c # cs"
    by (meson dec_nonempty neq_Nil_conv)
  have "c \<noteq> CHR ''+''"
    using digits_not_in [OF not_digit_plus, of e] ds by (auto simp: show_u64_def)
  moreover have "list_all is_ascii_digit (c # cs)"
    using dec_digits [of _ "unat e"] by (auto simp: list_all_iff ds)
  moreover have "digits_value 0 (c # cs) = unat e"
    using digits_value_dec [of "unat e"] by (simp only: ds)
  moreover have "unat e < 2 ^ 64"
    using unsigned_less [of e] by simp
  ultimately show ?thesis
    by (simp only: parse_u64_def Let_def show_u64_def ds list.case if_False) simp
qed

text \<open>
  A digit string followed by a character that is no digit is determined by the whole: the
  file names of different epochs never meet, not even as prefixes.
\<close>

lemma digits_append_inject:
  assumes "list_all is_ascii_digit ds" and "list_all is_ascii_digit es"
    and "\<not> is_ascii_digit c" and "\<not> is_ascii_digit d"
    and "ds @ c # xs = es @ d # ys"
  shows "ds = es \<and> c # xs = d # ys"
  using assms
proof (induction ds arbitrary: es)
  case Nil
  then show ?case by (cases es) auto
next
  case (Cons a ds)
  then show ?case by (cases es) auto
qed

lemma show_u64_append_inject:
  assumes "show_u64 d @ c # xs = show_u64 e @ c' # ys"
    and "\<not> is_ascii_digit c" and "\<not> is_ascii_digit c'"
  shows "d = e"
proof -
  have "list_all is_ascii_digit (show_u64 x)" for x
    by (auto simp: list_all_iff show_u64_def)
  from digits_append_inject [OF this this assms(2,3,1)] show ?thesis by simp
qed

section \<open>The interface of a numbered file name\<close>

text \<open>
  A scheme that renders a number into a file name and reads it back. Different numbers have
  different names, and a name read back is the name of the number read.
\<close>

locale numbered_name =
  fixes name :: "u64 \<Rightarrow> string"
    and number :: "string \<Rightarrow> u64 option"
  assumes number_name: "number (name n) = Some n"
begin

lemma name_inject: "name m = name n \<longleftrightarrow> m = n"
  by (metis number_name option.inject)

lemma name_not_alien: "number s = None \<Longrightarrow> s \<noteq> name n"
  by (auto simp: number_name)

lemma numbers_of_names: "List.map_filter number (map name ns) = ns"
  by (induction ns) (simp_all add: number_name)

end

end
