(* ===== verification/Metadata.thy ===== *)
theory Metadata
  imports Rust_Strings
begin

text \<open>
  The crate \<^verbatim>\<open>nyanpasu-core-metadata\<close>: the core kinds (\<^verbatim>\<open>kind.rs\<close>), the version a core reports
  (\<^verbatim>\<open>feature.rs\<close>) and which kind speaks which optional controller transport from which release
  on (\<^verbatim>\<open>feature/clash.rs\<close>). The third-party crate \<^verbatim>\<open>semver\<close> is the parameter \<open>semver\<close>: what
  \<^verbatim>\<open>Version::parse\<close> reads from a text and whether a \<^verbatim>\<open>>=\<close> requirement accepts a release.
\<close>

section \<open>Definitions\<close>

datatype core_kind = Mihomo | ClashRust | ClashPremium | Meow

fun kind_as_ref :: "core_kind \<Rightarrow> string" where
  "kind_as_ref Mihomo = ''mihomo''"
| "kind_as_ref ClashRust = ''clash-rs''"
| "kind_as_ref ClashPremium = ''clash''"
| "kind_as_ref Meow = ''meow''"

type_synonym version = "nat \<times> nat \<times> nat"

record semver =
  version_parse :: "string \<Rightarrow> version option"
  req_ge_matches :: "version \<Rightarrow> version \<Rightarrow> bool"

datatype core_version = Release version | Nightly | Unknown

text \<open>
  The length in bytes of the white-space character a string starts with, 0 when it starts
  with none: \<^verbatim>\<open>char::is_whitespace\<close> (Unicode \<^verbatim>\<open>White_Space\<close>) on the UTF-8 encoding.
\<close>

definition byte_at :: "string \<Rightarrow> nat \<Rightarrow> nat" where
  "byte_at s i = (if i < length s then of_char (s ! i) else 256)"

definition whitespace_len :: "string \<Rightarrow> nat" where
  "whitespace_len s =
     (let a = byte_at s 0; b = byte_at s 1; c = byte_at s 2
      in if (9 \<le> a \<and> a \<le> 13) \<or> a = 32 then 1
         else if a = 194 \<and> (b = 133 \<or> b = 160) then 2
         else if (a = 225 \<and> b = 154 \<and> c = 128) \<or> (a = 227 \<and> b = 128 \<and> c = 128)
           \<or> (a = 226 \<and> b = 129 \<and> c = 159)
           \<or> (a = 226 \<and> b = 128 \<and> (128 \<le> c \<and> c \<le> 138 \<or> c = 168 \<or> c = 169 \<or> c = 175)) then 3
         else 0)"

function split_whitespace_aux :: "string \<Rightarrow> string \<Rightarrow> string list" where
  "split_whitespace_aux tok s =
     (case s of [] \<Rightarrow> (if tok = [] then [] else [rev tok])
      | c # cs \<Rightarrow>
          if whitespace_len s = 0 then split_whitespace_aux (c # tok) cs
          else (if tok = [] then [] else [rev tok]) @
            split_whitespace_aux [] (drop (whitespace_len s) s))"
  by pat_completeness auto
termination
  by (relation "measure (\<lambda>(t, s). length s)") (auto simp: diff_less)

declare split_whitespace_aux.simps [simp del]

definition split_whitespace :: "string \<Rightarrow> string list" where
  "split_whitespace s = split_whitespace_aux [] s"

definition is_ascii_alphanumeric :: "char \<Rightarrow> bool" where
  "is_ascii_alphanumeric c \<longleftrightarrow>
     (let n = (of_char c :: nat) in (48 \<le> n \<and> n \<le> 57) \<or> (65 \<le> n \<and> n \<le> 90) \<or> (97 \<le> n \<and> n \<le> 122))"

definition trim_matches :: "(char \<Rightarrow> bool) \<Rightarrow> string \<Rightarrow> string" where
  "trim_matches p s = rev (dropWhile p (rev (dropWhile p s)))"

definition version_noise :: "char \<Rightarrow> bool" where
  "version_noise c \<longleftrightarrow> \<not> is_ascii_alphanumeric c \<and> c \<notin> set ''.-+_''"

fun parse_version_tokens :: "semver \<Rightarrow> string list \<Rightarrow> core_version" where
  "parse_version_tokens sv [] = Unknown"
| "parse_version_tokens sv (t # ts) =
     (let token = trim_matches version_noise t;
          bare = (case strip_prefix ''v'' token of Some r \<Rightarrow> r | None \<Rightarrow> token)
      in case version_parse sv bare of
           Some v \<Rightarrow> Release v
         | None \<Rightarrow>
             if list_ex (\<lambda>p. case strip_prefix p token of Some r \<Rightarrow> r \<noteq> [] | None \<Rightarrow> False)
                  [''alpha-'', ''nightly-'']
             then Nightly else parse_version_tokens sv ts)"

definition core_version_parse :: "semver \<Rightarrow> string \<Rightarrow> core_version" where
  "core_version_parse sv raw = parse_version_tokens sv (split_whitespace raw)"

datatype support = Yes | Since version | No

datatype feature = NamedPipeIpc | UnixSocketIpc | DisableTcpController

definition all_features :: "feature list" where
  "all_features = [NamedPipeIpc, UnixSocketIpc, DisableTcpController]"

definition MIHOMO_UNIX :: version where "MIHOMO_UNIX = (1, 18, 4)"
definition MIHOMO_PIPE :: version where "MIHOMO_PIPE = (1, 18, 9)"
definition CLASH_RS_UNIX :: version where "CLASH_RS_UNIX = (0, 9, 1)"
definition CLASH_RS_PIPE :: version where "CLASH_RS_PIPE = (0, 9, 7)"

fun since :: "semver \<Rightarrow> version \<Rightarrow> core_version option \<Rightarrow> support" where
  "since sv req (Some (Release v)) = (if req_ge_matches sv req v then Yes else No)"
| "since sv req (Some Nightly) = Yes"
| "since sv req (Some Unknown) = No"
| "since sv req None = Since req"

fun supports :: "semver \<Rightarrow> core_kind \<Rightarrow> feature \<Rightarrow> core_version option \<Rightarrow> support" where
  "supports sv Mihomo NamedPipeIpc v = since sv MIHOMO_PIPE v"
| "supports sv Mihomo UnixSocketIpc v = since sv MIHOMO_UNIX v"
| "supports sv Mihomo DisableTcpController v = No"
| "supports sv ClashRust NamedPipeIpc v = since sv CLASH_RS_PIPE v"
| "supports sv ClashRust UnixSocketIpc v = since sv CLASH_RS_UNIX v"
| "supports sv ClashRust DisableTcpController v = No"
| "supports sv ClashPremium f v = No"
| "supports sv Meow f v = No"

text \<open>An \<^verbatim>\<open>EnumSet\<close> is a set; its iteration order is the declaration order.\<close>

definition features :: "semver \<Rightarrow> core_kind \<Rightarrow> core_version option \<Rightarrow> feature set" where
  "features sv k v = set (filter (\<lambda>f. supports sv k f v = Yes) all_features)"

definition potential_features :: "semver \<Rightarrow> core_kind \<Rightarrow> feature set" where
  "potential_features sv k = set (filter (\<lambda>f. supports sv k f None \<noteq> No) all_features)"

definition enumset_iter :: "feature set \<Rightarrow> feature list" where
  "enumset_iter fs = filter (\<lambda>f. f \<in> fs) all_features"

section \<open>Lemmas\<close>

lemma set_all_features [simp]: "set all_features = UNIV"
proof -
  have "f \<in> set all_features" for f
    by (cases f) (simp_all add: all_features_def)
  then show ?thesis by blast
qed

lemma set_enumset_iter [simp]: "set (enumset_iter fs) = fs"
  by (auto simp: enumset_iter_def)

text \<open>A feature that is enabled for a known version is one the display set offers.\<close>

lemma since_Yes_not_No: "since sv r v = Yes \<Longrightarrow> since sv r None \<noteq> No"
  by simp

lemma features_subset_potential: "features sv k v \<subseteq> potential_features sv k"
proof
  fix f
  assume "f \<in> features sv k v"
  then have "supports sv k f v = Yes" by (simp add: features_def)
  then have "supports sv k f None \<noteq> No" by (cases k; cases f) auto
  then show "f \<in> potential_features sv k" by (simp add: potential_features_def)
qed

lemma potential_features_empty:
  "potential_features sv k = {} \<longleftrightarrow> k = ClashPremium \<or> k = Meow"
proof (cases k)
  case Mihomo
  have "UnixSocketIpc \<in> potential_features sv Mihomo"
    by (simp add: potential_features_def)
  with Mihomo show ?thesis by auto
next
  case ClashRust
  have "UnixSocketIpc \<in> potential_features sv ClashRust"
    by (simp add: potential_features_def)
  with ClashRust show ?thesis by auto
qed (simp_all add: potential_features_def)

end
