(* ===== verification/Errors.thy ===== *)
theory Errors
  imports Metadata
begin

text \<open>
  The revisions of \<^verbatim>\<open>state.rs\<close> and the error type of \<^verbatim>\<open>error.rs\<close> of the crate
  \<^verbatim>\<open>nyanpasu-core-manager\<close>, with the \<^verbatim>\<open>Display\<close> text of every error, which the manager stores in
  stop reasons and quarantine records. An error of a third-party crate (\<^verbatim>\<open>ProcessError\<close>,
  \<^verbatim>\<open>clash_api::Error\<close>, \<^verbatim>\<open>serde_yaml_ng::Error\<close>, \<^verbatim>\<open>std::io::Error\<close>) is the text it displays.
\<close>

section \<open>Definitions\<close>

record revision_id =
  rid_epoch :: u64
  rid_generation :: u64
  rid_effective_hash :: string

record config_revision =
  rev_epoch :: u64
  rev_generation :: u64
  rev_source_hash :: string
  rev_effective_hash :: string
  rev_runtime_path :: string

definition revision_id_of :: "config_revision \<Rightarrow> revision_id" where
  "revision_id_of r =
     \<lparr>rid_epoch = rev_epoch r, rid_generation = rev_generation r,
      rid_effective_hash = rev_effective_hash r\<rparr>"

definition revision_id_display :: "revision_id \<Rightarrow> string" where
  "revision_id_display r =
     ''epoch '' @ show_u64 (rid_epoch r) @ '' generation '' @ show_u64 (rid_generation r) @
     '' ('' @ rid_effective_hash r @ '')''"

text \<open>
  The derived \<^verbatim>\<open>Debug\<close> of \<^verbatim>\<open>Option<RevisionId>\<close>. The hash is the manager's own hexadecimal one, so
  no character of it needs an escape.
\<close>

fun debug_revision_id_option :: "revision_id option \<Rightarrow> string" where
  "debug_revision_id_option None = ''None''"
| "debug_revision_id_option (Some r) =
     ''Some(RevisionId { epoch: '' @ show_u64 (rid_epoch r) @ '', generation: '' @
     show_u64 (rid_generation r) @ '', effective_hash: '' @ [char_of (34 :: nat)] @
     rid_effective_hash r @ [char_of (34 :: nat)] @ '' })''"

datatype error =
    AlreadyRunning
  | NotStarted
  | ConfigNotFound string
  | BinaryNotFound string
  | CoreVersionProbeFailed string string
  | ControllerMissing
  | RequiredLocalIpcUnsupported core_kind string
  | ConfigCheckFailed string
  | InvalidConfig string
  | InvalidManagerOptions string
  | InvalidHealthPolicy string
  | UnsafeRuntimeArtifact string
  | RuntimeDirectoryOwned string
  | StopUnconfirmed string
  | ManagerQuarantined u64 string
  | RevisionConflict revision_id "revision_id option"
  | ApplyFailed string
  | ApplyRollbackFailed string string
  | DurabilityUncertain error string
  | StartupTimeout string
  | StartupFailed string
  | Process string
  | Api string
  | Yaml string
  | Io string

fun to_string :: "error \<Rightarrow> string" where
  "to_string AlreadyRunning = ''core is already running''"
| "to_string NotStarted = ''core is not running''"
| "to_string (ConfigNotFound p) = ''config file not found: '' @ p"
| "to_string (BinaryNotFound p) = ''core binary not found: '' @ p"
| "to_string (CoreVersionProbeFailed p d) =
     ''failed to probe version from core binary `'' @ p @ ''`: '' @ d"
| "to_string ControllerMissing =
     ''no external controller configured; the version health probe needs one''"
| "to_string (RequiredLocalIpcUnsupported k v) =
     ''core `'' @ kind_as_ref k @ ''` version `'' @ v @
     ''` does not support the required local IPC transport; use LocalIpcPolicy::Prefer or LocalIpcPolicy::Disable''"
| "to_string (ConfigCheckFailed m) = ''config check failed: '' @ m"
| "to_string (InvalidConfig m) = ''invalid runtime config: '' @ m"
| "to_string (InvalidManagerOptions m) = ''invalid manager options: '' @ m"
| "to_string (InvalidHealthPolicy m) = ''invalid health policy: '' @ m"
| "to_string (UnsafeRuntimeArtifact p) = ''unsafe runtime artifact: '' @ p"
| "to_string (RuntimeDirectoryOwned p) =
     ''runtime directory is already owned by another manager: '' @ p"
| "to_string (StopUnconfirmed m) = ''core process death could not be confirmed: '' @ m"
| "to_string (ManagerQuarantined e r) =
     ''manager is quarantined by uncertain epoch '' @ show_u64 e @ '': '' @ r"
| "to_string (RevisionConflict expected actual) =
     ''config revision conflict: expected '' @ revision_id_display expected @
     '', actual '' @ debug_revision_id_option actual"
| "to_string (ApplyFailed m) = ''config apply failed: '' @ m"
| "to_string (ApplyRollbackFailed a r) =
     ''config apply failed ('' @ a @ ''); rollback also failed ('' @ r @ '')''"
| "to_string (DurabilityUncertain e w) = to_string e @ ''; runtime durability warning: '' @ w"
| "to_string (StartupTimeout t) =
     ''core did not become healthy before the startup timeout; diagnostic log tail:'' @
     [char_of (10 :: nat)] @ t"
| "to_string (StartupFailed t) =
     ''core failed to start; diagnostic log tail:'' @ [char_of (10 :: nat)] @ t"
| "to_string (Process m) = m"
| "to_string (Api m) = m"
| "to_string (Yaml m) = ''failed to process config YAML: '' @ m"
| "to_string (Io m) = m"

fun is_stop_unconfirmed :: "error \<Rightarrow> bool" where
  "is_stop_unconfirmed (StopUnconfirmed _) = True"
| "is_stop_unconfirmed _ = False"

section \<open>Lemmas\<close>

lemma is_stop_unconfirmed_iff: "is_stop_unconfirmed e \<longleftrightarrow> (\<exists>m. e = StopUnconfirmed m)"
  by (cases e) auto

lemma revision_id_of_eq:
  "revision_id_of r = revision_id_of r' \<longleftrightarrow>
     rev_epoch r = rev_epoch r' \<and> rev_generation r = rev_generation r' \<and>
     rev_effective_hash r = rev_effective_hash r'"
  by (simp add: revision_id_of_def)

end
