(* ===== verification/Health.thy ===== *)
theory Health
  imports Errors
begin

text \<open>
  The health policy and the health tracker of \<^verbatim>\<open>health/mod.rs\<close>, and the probe results of
  \<^verbatim>\<open>health/probe.rs\<close>. \<open>observe\<close> is the tracker's step, with the counters at their width.
  The abstract specification \<open>spec_state\<close> reads the tracker's state off the history of
  observations alone: how many successes end the history, how many counted failures lie after the
  last success. The lemmas relate every tracker field to that history; \<open>observe_refines_spec\<close>
  is the refinement. An \<^verbatim>\<open>Instant\<close> is a number of nanoseconds.
\<close>

section \<open>Definitions\<close>

definition MAX_LAST_ERROR_BYTES :: nat where
  "MAX_LAST_ERROR_BYTES = 512"

record health_policy =
  hp_interval :: duration
  hp_timeout :: duration
  hp_failure_threshold :: u32
  hp_success_threshold :: u32
  hp_start_period :: duration

text \<open>The thresholds are \<^verbatim>\<open>NonZeroU32\<close>.\<close>

definition nonzero_thresholds :: "health_policy \<Rightarrow> bool" where
  "nonzero_thresholds p \<longleftrightarrow> hp_failure_threshold p \<noteq> 0 \<and> hp_success_threshold p \<noteq> 0"

definition health_policy_new ::
  "duration \<Rightarrow> duration \<Rightarrow> u32 \<Rightarrow> u32 \<Rightarrow> duration \<Rightarrow> error + health_policy" where
  "health_policy_new interval timeout failure_threshold success_threshold start_period =
     (if interval = 0 then Inl (InvalidHealthPolicy ''interval must be greater than zero'')
      else if timeout = 0 then Inl (InvalidHealthPolicy ''timeout must be greater than zero'')
      else Inr \<lparr>hp_interval = interval, hp_timeout = timeout,
        hp_failure_threshold = failure_threshold, hp_success_threshold = success_threshold,
        hp_start_period = start_period\<rparr>)"

definition default_health_policy :: health_policy where
  "default_health_policy =
     \<lparr>hp_interval = from_millis 250, hp_timeout = from_secs 1, hp_failure_threshold = 3,
      hp_success_threshold = 1, hp_start_period = 0\<rparr>"

datatype probe_result = PHealthy | PUnhealthy "string option"

definition is_healthy :: "probe_result \<Rightarrow> bool" where
  "is_healthy r \<longleftrightarrow> r = PHealthy"

datatype probe_phase = Readiness | Liveness | Reconcile

datatype tracker_state = TStarting | THealthy | TUnhealthy

record tracker_update =
  tu_state :: tracker_state
  tu_transitioned :: bool
  tu_consecutive_failures :: u32
  tu_last_error :: "string option"

record health_tracker =
  ht_policy :: health_policy
  ht_started_at :: nat
  ht_grace_ended :: bool
  ht_state :: tracker_state
  ht_consecutive_failures :: u32
  ht_consecutive_successes :: u32
  ht_last_error :: "string option"

definition health_tracker_new :: "health_policy \<Rightarrow> nat \<Rightarrow> health_tracker" where
  "health_tracker_new policy started_at =
     \<lparr>ht_policy = policy, ht_started_at = started_at, ht_grace_ended = False,
      ht_state = TStarting, ht_consecutive_failures = 0, ht_consecutive_successes = 0,
      ht_last_error = None\<rparr>"

definition cap_detail :: "string \<Rightarrow> string" where
  "cap_detail detail =
     (if length detail \<le> MAX_LAST_ERROR_BYTES then detail
      else take (char_boundary_at_or_below detail MAX_LAST_ERROR_BYTES) detail)"

fun observe_result :: "health_tracker \<Rightarrow> nat \<Rightarrow> probe_result \<Rightarrow> health_tracker" where
  "observe_result t now PHealthy =
     (let t1 = t\<lparr>ht_grace_ended := True, ht_consecutive_failures := 0, ht_last_error := None\<rparr>
      in if ht_state t = THealthy then t1\<lparr>ht_consecutive_successes := 0\<rparr>
         else let n = saturating_add (ht_consecutive_successes t) 1
              in if hp_success_threshold (ht_policy t) \<le> n
                 then t1\<lparr>ht_state := THealthy, ht_consecutive_successes := 0\<rparr>
                 else t1\<lparr>ht_consecutive_successes := n\<rparr>)"
| "observe_result t now (PUnhealthy detail) =
     (let t1 = t\<lparr>ht_consecutive_successes := 0, ht_last_error := map_option cap_detail detail\<rparr>;
          grace_active = (\<not> ht_grace_ended t \<and>
            now < ht_started_at t + hp_start_period (ht_policy t))
      in if grace_active then t1
         else let n = saturating_add (ht_consecutive_failures t) 1
              in if ht_state t \<noteq> TUnhealthy \<and> hp_failure_threshold (ht_policy t) \<le> n
                 then t1\<lparr>ht_consecutive_failures := n, ht_state := TUnhealthy\<rparr>
                 else t1\<lparr>ht_consecutive_failures := n\<rparr>)"

definition observe ::
  "health_tracker \<Rightarrow> nat \<Rightarrow> probe_result \<Rightarrow> tracker_update \<times> health_tracker" where
  "observe t now result =
     (let t' = observe_result t now result
      in (\<lparr>tu_state = ht_state t', tu_transitioned = (ht_state t \<noteq> ht_state t'),
           tu_consecutive_failures = ht_consecutive_failures t',
           tu_last_error = ht_last_error t'\<rparr>, t'))"

definition observe_all :: "health_tracker \<Rightarrow> (nat \<times> probe_result) list \<Rightarrow> health_tracker" where
  "observe_all t es = foldl (\<lambda>t (now, r). snd (observe t now r)) t es"

section \<open>The specification: a function of the history\<close>

text \<open>
  One observation as the specification sees it: a success, a failure that counts, or a failure
  inside the start period. The start period ends with its duration or with the first success. A
  history has its newest observation first.
\<close>

datatype verdict = Success | Failure | Ignored

definition verdict_of :: "nat \<Rightarrow> duration \<Rightarrow> verdict list \<Rightarrow> nat \<times> probe_result \<Rightarrow> verdict" where
  "verdict_of start period h = (\<lambda>(now, r).
     if r = PHealthy then Success
     else if Success \<notin> set h \<and> now < start + period then Ignored else Failure)"

fun history :: "nat \<Rightarrow> duration \<Rightarrow> (nat \<times> probe_result) list \<Rightarrow> verdict list" where
  "history start period [] = []"
| "history start period (e # es) =
     (let h = history start period es in verdict_of start period h e # h)"

definition success_streak :: "verdict list \<Rightarrow> nat" where
  "success_streak h = length (takeWhile (\<lambda>v. v = Success) h)"

definition failure_streak :: "verdict list \<Rightarrow> nat" where
  "failure_streak h = length (filter (\<lambda>v. v = Failure) (takeWhile (\<lambda>v. v \<noteq> Success) h))"

fun spec_state :: "nat \<Rightarrow> nat \<Rightarrow> verdict list \<Rightarrow> tracker_state" where
  "spec_state f s [] = TStarting"
| "spec_state f s (Success # h) =
     (if s \<le> success_streak (Success # h) then THealthy else spec_state f s h)"
| "spec_state f s (Failure # h) =
     (if f \<le> failure_streak (Failure # h) then TUnhealthy else spec_state f s h)"
| "spec_state f s (Ignored # h) = spec_state f s h"

section \<open>The cap on a probe's error text\<close>

interpretation cap: text_cutter cap_detail MAX_LAST_ERROR_BYTES
  by unfold_locales (auto simp: cap_detail_def)

section \<open>The tracker and its history\<close>

text \<open>
  What the tracker's fields mean. The success counter is kept only while the state is not
  healthy, below its threshold; the failure counter saturates.
\<close>

definition tracks :: "health_policy \<Rightarrow> nat \<Rightarrow> verdict list \<Rightarrow> health_tracker \<Rightarrow> bool" where
  "tracks p start h t \<longleftrightarrow>
     ht_policy t = p \<and> ht_started_at t = start \<and>
     ht_grace_ended t = (Success \<in> set h) \<and>
     ht_state t = spec_state (unat (hp_failure_threshold p)) (unat (hp_success_threshold p)) h \<and>
     unat (ht_consecutive_failures t) = min (failure_streak h) (2 ^ 32 - 1) \<and>
     (ht_state t \<noteq> THealthy \<longrightarrow> unat (ht_consecutive_successes t) = success_streak h)"

lemma failure_streak_simps [simp]:
  "failure_streak [] = 0"
  "failure_streak (Success # h) = 0"
  "failure_streak (Failure # h) = Suc (failure_streak h)"
  "failure_streak (Ignored # h) = failure_streak h"
  by (simp_all add: failure_streak_def)

lemma success_streak_simps [simp]:
  "success_streak [] = 0"
  "success_streak (Success # h) = Suc (success_streak h)"
  "success_streak (Failure # h) = 0"
  "success_streak (Ignored # h) = 0"
  by (simp_all add: success_streak_def)

lemma snd_observe [simp]: "snd (observe t now r) = observe_result t now r"
  by (simp add: observe_def Let_def)

lemma tracks_new: "tracks p start [] (health_tracker_new p start)"
  by (simp add: tracks_def health_tracker_new_def)

lemma threshold_saturating:
  fixes thr c :: u32
  assumes "unat c = min n (2 ^ 32 - 1)"
  shows "thr \<le> saturating_add c 1 \<longleftrightarrow> unat thr \<le> Suc n"
    and "unat (saturating_add c 1) = min (Suc n) (2 ^ 32 - 1)"
proof -
  have "unat thr < 2 ^ 32"
    using unat_bound [of thr] by simp
  moreover show *: "unat (saturating_add c 1) = min (Suc n) (2 ^ 32 - 1)"
    using assms by (simp add: unat_saturating_add)
  ultimately show "thr \<le> saturating_add c 1 \<longleftrightarrow> unat thr \<le> Suc n"
    by (auto simp: word_le_nat_alt)
qed

lemma threshold_below:
  fixes thr c :: u32
  assumes "unat c = n" and "\<not> unat thr \<le> Suc n"
  shows "unat (saturating_add c 1) = Suc n"
  using assms unat_bound [of thr] by (simp add: unat_saturating_add)

lemma min_of_unat: "unat (c :: u32) = n \<Longrightarrow> unat c = min n (2 ^ 32 - 1)"
  using unat_bound [of c] by simp

lemma tracks_success:
  assumes "tracks p start h t"
  shows "tracks p start (Success # h) (snd (observe t now PHealthy))"
proof (cases "ht_state t = THealthy")
  case True
  with assms show ?thesis by (simp add: tracks_def Let_def)
next
  case False
  with assms have "unat (ht_consecutive_successes t) = success_streak h"
    by (simp add: tracks_def)
  note thr = threshold_saturating(1) [OF min_of_unat [OF this]] threshold_below [OF this]
  from assms False show ?thesis by (auto simp: tracks_def Let_def thr)
qed

lemma tracks_failure:
  assumes "tracks p start h t"
  shows "tracks p start (verdict_of start (hp_start_period p) h (now, PUnhealthy d) # h)
           (snd (observe t now (PUnhealthy d)))"
proof -
  from assms have "unat (ht_consecutive_failures t) = min (failure_streak h) (2 ^ 32 - 1)"
    by (simp add: tracks_def)
  note thr = threshold_saturating [OF this]
  from assms show ?thesis
    by (auto simp: tracks_def Let_def verdict_of_def thr)
qed

lemma tracks_step:
  "tracks p start h t \<Longrightarrow>
   tracks p start (verdict_of start (hp_start_period p) h (now, r) # h) (snd (observe t now r))"
proof (cases r)
  case PHealthy
  moreover assume "tracks p start h t"
  ultimately show ?thesis by (simp add: verdict_of_def tracks_success [simplified])
next
  case (PUnhealthy d)
  moreover assume "tracks p start h t"
  ultimately show ?thesis using tracks_failure by blast
qed

lemma observe_all_snoc:
  "observe_all t (es @ [(now, r)]) = snd (observe (observe_all t es) now r)"
  by (simp add: observe_all_def)

lemma tracks_observe_all:
  "tracks p start (history start (hp_start_period p) (rev es))
     (observe_all (health_tracker_new p start) es)"
proof (induction es rule: rev_induct)
  case Nil
  show ?case by (simp add: observe_all_def tracks_new)
next
  case (snoc e es)
  then show ?case
    using tracks_step by (cases e) (simp add: observe_all_snoc Let_def)
qed

section \<open>Properties\<close>

text \<open>
  C28. The tracker implements its specification: after any sequence of observations, the state is
  the one \<open>spec_state\<close> reads off the history alone, and the failure counter is the number of
  counted failures since the last success, saturated at \<^verbatim>\<open>u32::MAX\<close>.
\<close>

theorem observe_refines_spec:
  "ht_state (observe_all (health_tracker_new p start) es) =
     spec_state (unat (hp_failure_threshold p)) (unat (hp_success_threshold p))
       (history start (hp_start_period p) (rev es)) \<and>
   unat (ht_consecutive_failures (observe_all (health_tracker_new p start) es)) =
     min (failure_streak (history start (hp_start_period p) (rev es))) (2 ^ 32 - 1)"
  using tracks_observe_all [of p start es] by (simp add: tracks_def)

text \<open>
  No flapping: one observation moves the tracker to healthy only when it and the observations
  right before it are a run of at least \<open>success_threshold\<close> successes, and to unhealthy only when
  at least \<open>failure_threshold\<close> failures were counted since the last success.
\<close>

theorem observe_transition_needs_threshold:
  assumes "e = (now, r)"
    and "tu_transitioned (fst (observe (observe_all (health_tracker_new p start) es) now r))"
  shows "(r = PHealthy \<longrightarrow>
            unat (hp_success_threshold p)
              \<le> success_streak (history start (hp_start_period p) (rev (es @ [e])))) \<and>
         (r \<noteq> PHealthy \<longrightarrow>
            unat (hp_failure_threshold p)
              \<le> failure_streak (history start (hp_start_period p) (rev (es @ [e]))))"
proof -
  let ?t = "observe_all (health_tracker_new p start) es"
  let ?h = "history start (hp_start_period p) (rev es)"
  let ?f = "unat (hp_failure_threshold p)" and ?s = "unat (hp_success_threshold p)"
  have before: "ht_state ?t = spec_state ?f ?s ?h"
    using tracks_observe_all [of p start es] by (simp add: tracks_def)
  have after: "ht_state (snd (observe ?t now r)) =
      spec_state ?f ?s (verdict_of start (hp_start_period p) ?h e # ?h)"
    using tracks_observe_all [of p start "es @ [e]"] assms(1)
    by (simp add: tracks_def observe_all_snoc Let_def)
  have "ht_state ?t \<noteq> ht_state (snd (observe ?t now r))"
    using assms(2) by (simp add: observe_def Let_def)
  then show ?thesis
    using before after assms(1)
    by (auto simp: verdict_of_def Let_def split: if_splits)
qed

definition sample_policy :: health_policy where
  "sample_policy =
     \<lparr>hp_interval = 1, hp_timeout = 1, hp_failure_threshold = 2, hp_success_threshold = 1,
      hp_start_period = 0\<rparr>"

theorem observe_transition_needs_threshold_witness:
  "tu_transitioned (fst (observe (observe_all (health_tracker_new sample_policy 0)
     [(1, PHealthy), (2, PUnhealthy None)]) 4 (PUnhealthy None))) \<and>
   2 \<le> failure_streak (history 0 0 (rev ([(1, PHealthy), (2, PUnhealthy None)]
     @ [(4, PUnhealthy None)])))"
proof -
  have trans: "tu_transitioned (fst (observe (observe_all (health_tracker_new sample_policy 0)
      [(1, PHealthy), (2, PUnhealthy None)]) 4 (PUnhealthy None)))"
    by (simp add: observe_all_def observe_def health_tracker_new_def sample_policy_def
        saturating_add_def Let_def word_le_nat_alt)
  show ?thesis
    using trans observe_transition_needs_threshold [OF refl trans]
    by (simp add: sample_policy_def)
qed

text \<open>
  The error text a tracker keeps is at most 512 bytes, is a prefix of the probe's text that
  ends at a character boundary, and no longer such prefix fits.
\<close>

theorem cap_detail_correct:
  "length (cap_detail d) \<le> 512 \<and> prefix (cap_detail d) d \<and>
   is_char_boundary d (length (cap_detail d)) \<and>
   (\<forall>i. is_char_boundary d i \<longrightarrow> i \<le> 512 \<longrightarrow> i \<le> length d \<longrightarrow> i \<le> length (cap_detail d))"
  using cap.cut_length [of d] cap.cut_prefix [of d] cap.cut_boundary [of d]
    cap.cut_longest [of d]
  by (simp add: MAX_LAST_ERROR_BYTES_def)

theorem cap_detail_correct_witness:
  "is_char_boundary (replicate 600 (CHR ''x'')) 512 \<and>
   512 \<le> length (cap_detail (replicate 600 (CHR ''x'')))"
proof -
  have b: "is_char_boundary (replicate 600 (CHR ''x'')) 512"
    by (simp add: is_char_boundary_def is_continuation_def)
  show ?thesis
    using b cap_detail_correct [of "replicate 600 (CHR ''x'')"] by simp
qed

end
