(* ===== verification/Core_State.thy ===== *)
theory Core_State
  imports Health
begin

text \<open>
  Launch specifications (\<^verbatim>\<open>spec.rs\<close>), the instance and manager states (\<^verbatim>\<open>state.rs\<close>), the
  controller endpoint of the crate \<^verbatim>\<open>clash-api\<close> and the status publication of
  \<^verbatim>\<open>manager/publish.rs\<close>. A watch channel is the value it holds; publishing is a function on
  that value which takes the clock reading of \<^verbatim>\<open>now_ms\<close> as an argument. Paths are strings;
  timestamps are integers. The restart policy and the backoff of the external crate
  \<^verbatim>\<open>nyanpasu-utils\<close> are only stored, passed on and compared by their \<^verbatim>\<open>Debug\<close> text, so they
  are that text.

  The lemmas show that a publication never touches the time of the last lifecycle change unless
  the lifecycle changed, and that an instance's update reaches the manager's status only under
  the epoch of the published revision.
\<close>

section \<open>Launch specifications\<close>

datatype platform = Windows | Unix

type_synonym path = string

record core_spec =
  cs_kind :: core_kind
  cs_binary_path :: path
  cs_version :: "string option"
  cs_features :: "string list"

record instance_options =
  io_startup_timeout :: duration
  io_health :: health_policy
  io_restart_policy :: string
  io_backoff :: string

record instance_spec =
  is_core :: core_spec
  is_config_path :: path
  is_working_dir :: path
  is_pid_file :: "path option"
  is_options :: instance_options

definition debug_health_policy :: "health_policy \<Rightarrow> string" where
  "debug_health_policy p =
     ''HealthPolicy { interval: '' @ debug_duration (hp_interval p) @
     '', timeout: '' @ debug_duration (hp_timeout p) @
     '', failure_threshold: '' @ dec (unat (hp_failure_threshold p)) @
     '', success_threshold: '' @ dec (unat (hp_success_threshold p)) @
     '', start_period: '' @ debug_duration (hp_start_period p) @ '' }''"

definition debug_instance_options :: "instance_options \<Rightarrow> string" where
  "debug_instance_options o' =
     ''InstanceOptions { startup_timeout: '' @ debug_duration (io_startup_timeout o') @
     '', health: '' @ debug_health_policy (io_health o') @
     '', restart_policy: '' @ io_restart_policy o' @
     '', backoff: '' @ io_backoff o' @ '' }''"

datatype local_ipc_policy = Force | Prefer | Disable

record manager_options =
  mo_runtime_dir :: "path option"
  mo_local_ipc_policy :: local_ipc_policy
  mo_controller_template :: "string option"
  mo_control_timeout :: duration
  mo_reconcile_timeout :: duration
  mo_stop_timeout :: duration
  mo_log_sink_enabled :: bool
  mo_log_max_bytes :: u64
  mo_log_max_files :: nat

definition default_manager_options :: manager_options where
  "default_manager_options =
     \<lparr>mo_runtime_dir = None, mo_local_ipc_policy = Disable, mo_controller_template = None,
      mo_control_timeout = from_secs 10, mo_reconcile_timeout = from_secs 30,
      mo_stop_timeout = from_secs 10, mo_log_sink_enabled = True,
      mo_log_max_bytes = 4 * 1024 * 1024, mo_log_max_files = 5\<rparr>"

section \<open>The controller endpoint\<close>

text \<open>
  A \<^verbatim>\<open>Url\<close> of the external crate \<^verbatim>\<open>url\<close>, as the accessors the source reads; its parser is a
  parameter of the functions that call it (\<open>Inl\<close> the parse error's text). An error of
  the crate \<^verbatim>\<open>clash-api\<close> is its \<^verbatim>\<open>Display\<close> text.
\<close>

record url =
  url_scheme :: string
  url_authority :: string
  url_path :: string
  url_query :: "string option"
  url_fragment :: "string option"
  url_cannot_be_a_base :: bool

datatype host = NamedPipe path | UnixSocket path | Http url

record resolved_controller =
  rc_host :: host
  rc_secret :: "string option"

text \<open>The serialization of a URL, as its \<^verbatim>\<open>Display\<close> writes it.\<close>

definition url_display :: "url \<Rightarrow> string" where
  "url_display u =
     url_scheme u @ '':'' @ (if url_cannot_be_a_base u then [] else ''//'' @ url_authority u) @
     url_path u @
     (case url_query u of None \<Rightarrow> [] | Some q \<Rightarrow> ''?'' @ q) @
     (case url_fragment u of None \<Rightarrow> [] | Some f \<Rightarrow> ''#'' @ f)"

definition normalize_base_url :: "url \<Rightarrow> error + url" where
  "normalize_base_url u =
     (if url_scheme u \<noteq> ''http'' \<and> url_scheme u \<noteq> ''https''
      then Inl (Api (''unsupported Clash API URL scheme `'' @ url_scheme u @ ''`''))
      else if url_cannot_be_a_base u
      then Inl (Api (''URL cannot be used as a Clash API base URL: '' @ url_display u))
      else if url_query u \<noteq> None \<or> url_fragment u \<noteq> None
      then Inl (Api (''Clash API base URL must not contain a query or fragment: '' @ url_display u))
      else Inr (if suffix ''/'' (url_path u) then u else u\<lparr>url_path := url_path u @ ''/''\<rparr>))"

definition parse_complete_url :: "(string \<Rightarrow> string + url) \<Rightarrow> string \<Rightarrow> error + host" where
  "parse_complete_url url_parse value =
     (case url_parse value of
        Inl source \<Rightarrow> Inl (Api (''invalid Clash API base URL `'' @ value @ ''`: '' @ source))
      | Inr u \<Rightarrow> map_sum id Http (normalize_base_url u))"

definition parse_controller_url ::
  "(string \<Rightarrow> string + url) \<Rightarrow> string \<Rightarrow> string \<Rightarrow> error + host" where
  "parse_controller_url url_parse value default_scheme =
     (if str_contains value ''://'' then parse_complete_url url_parse value
      else parse_complete_url url_parse (default_scheme @ ''://'' @ value))"

definition host_http :: "(string \<Rightarrow> string + url) \<Rightarrow> string \<Rightarrow> error + host" where
  "host_http url_parse base_url = parse_controller_url url_parse base_url ''http''"

section \<open>Instance and manager states\<close>

datatype health_state = HStarting | HHealthy | HUnhealthy

record health_status =
  hs_state :: health_state
  hs_changed_at :: int
  hs_consecutive_failures :: u32
  hs_last_error :: "string option"
  hs_last_success_at :: "int option"

definition health_status_starting :: "int \<Rightarrow> health_status" where
  "health_status_starting now =
     \<lparr>hs_state = HStarting, hs_changed_at = now, hs_consecutive_failures = 0,
      hs_last_error = None, hs_last_success_at = None\<rparr>"

datatype stop_reason = Finished | User | StopError string

fun stop_reason_display :: "stop_reason \<Rightarrow> string" where
  "stop_reason_display Finished = ''core exited''"
| "stop_reason_display User = ''stopped by user''"
| "stop_reason_display (StopError m) = m"

datatype instance_state = IStarting | IRunning u32 | IRestarting u32 | IStopping | IStopped stop_reason

fun is_terminal :: "instance_state \<Rightarrow> bool" where
  "is_terminal (IStopped _) = True"
| "is_terminal _ = False"

record instance_status =
  ist_state :: instance_state
  ist_health :: "health_status option"

definition instance_status_initial :: "int \<Rightarrow> instance_status" where
  "instance_status_initial now =
     \<lparr>ist_state = IStarting, ist_health = Some (health_status_starting now)\<rparr>"

datatype core_state =
    CStopped "stop_reason option"
  | CStarting u64
  | CRunning u64 u32
  | CRestarting u64 u32
  | CSwitching "u64 option" u64
  | CStopping u64

datatype runtime_feature = LocalIpc

record spec_summary =
  ss_kind :: core_kind
  ss_config_path :: path
  ss_capabilities :: "feature list"
  ss_runtime_features :: "runtime_feature list"

record core_status =
  st_state :: core_state
  st_changed_at :: int
  st_health :: "health_status option"
  st_spec :: "spec_summary option"
  st_controller :: "host option"
  st_revision :: "config_revision option"

definition core_status_initial :: "int \<Rightarrow> core_status" where
  "core_status_initial now =
     \<lparr>st_state = CStopped None, st_changed_at = now, st_health = None, st_spec = None,
      st_controller = None, st_revision = None\<rparr>"

section \<open>Publication of the manager's status\<close>

definition default_health_for_state ::
  "int \<Rightarrow> health_status option \<Rightarrow> core_state \<Rightarrow> health_status option" where
  "default_health_for_state now previous state =
     (let target = (case state of
            CStarting _ \<Rightarrow> Some HStarting | CRestarting _ _ \<Rightarrow> Some HStarting
          | CSwitching _ _ \<Rightarrow> Some HStarting | CRunning _ _ \<Rightarrow> Some HHealthy
          | CStopping _ \<Rightarrow> None | CStopped _ \<Rightarrow> None)
      in case target of None \<Rightarrow> None
         | Some target \<Rightarrow>
             let health = (health_status_starting now)\<lparr>hs_state := target\<rparr>
             in Some (case previous of None \<Rightarrow> health
                | Some prev \<Rightarrow>
                    if hs_state prev = target
                    then health\<lparr>hs_changed_at := hs_changed_at prev,
                      hs_consecutive_failures := hs_consecutive_failures prev,
                      hs_last_error := hs_last_error prev,
                      hs_last_success_at := hs_last_success_at prev\<rparr>
                    else health))"

definition touch :: "int \<Rightarrow> bool \<Rightarrow> core_status \<Rightarrow> core_status" where
  "touch now lifecycle_changed s = (if lifecycle_changed then s\<lparr>st_changed_at := now\<rparr> else s)"

definition publish_status ::
  "int \<Rightarrow> core_state \<Rightarrow> spec_summary option \<Rightarrow> host option \<Rightarrow> config_revision option \<Rightarrow>
   core_status \<Rightarrow> core_status" where
  "publish_status now state spec controller revision status =
     touch now (st_state status \<noteq> state)
       (status\<lparr>st_state := state,
         st_health := default_health_for_state now (st_health status) state,
         st_spec := spec, st_controller := controller, st_revision := revision\<rparr>)"

definition spec_summary_of ::
  "instance_spec \<Rightarrow> feature set \<Rightarrow> runtime_feature set \<Rightarrow> spec_summary" where
  "spec_summary_of spec capabilities runtime_features =
     \<lparr>ss_kind = cs_kind (is_core spec), ss_config_path = is_config_path spec,
      ss_capabilities = enumset_iter capabilities,
      ss_runtime_features = (if LocalIpc \<in> runtime_features then [LocalIpc] else [])\<rparr>"

text \<open>The instance supplies its health and its controller.\<close>

definition publish_instance_status ::
  "int \<Rightarrow> health_status option \<Rightarrow> host \<Rightarrow> core_state \<Rightarrow> instance_spec \<Rightarrow> config_revision \<Rightarrow>
   feature set \<Rightarrow> runtime_feature set \<Rightarrow> core_status \<Rightarrow> core_status" where
  "publish_instance_status now health controller state source_spec revision caps rfs status =
     touch now (st_state status \<noteq> state)
       (status\<lparr>st_state := state, st_health := health,
         st_spec := Some (spec_summary_of source_spec caps rfs),
         st_controller := Some controller, st_revision := Some revision\<rparr>)"

fun instance_core_state :: "u64 \<Rightarrow> instance_state \<Rightarrow> core_state" where
  "instance_core_state epoch IStarting = CStarting epoch"
| "instance_core_state epoch (IRunning pid) = CRunning epoch pid"
| "instance_core_state epoch (IRestarting attempt) = CRestarting epoch attempt"
| "instance_core_state epoch IStopping = CStopping epoch"
| "instance_core_state epoch (IStopped reason) = CStopped (Some reason)"

text \<open>The result says whether the watchers are woken.\<close>

definition apply_epoch_status ::
  "int \<Rightarrow> core_status \<Rightarrow> u64 \<Rightarrow> instance_status \<Rightarrow> bool \<times> core_status" where
  "apply_epoch_status now status epoch inst =
     (if map_option rev_epoch (st_revision status) \<noteq> Some epoch then (False, status)
      else let state = instance_core_state epoch (ist_state inst);
               lifecycle_changed = (st_state status \<noteq> state);
               health_changed = (st_health status \<noteq> ist_health inst)
           in if \<not> lifecycle_changed \<and> \<not> health_changed then (False, status)
              else (True, touch now lifecycle_changed
                     (status\<lparr>st_state := state, st_health := ist_health inst\<rparr>)))"

section \<open>Lemmas\<close>

lemma touch_simps [simp]:
  "st_state (touch now b s) = st_state s" "st_health (touch now b s) = st_health s"
  "st_spec (touch now b s) = st_spec s" "st_controller (touch now b s) = st_controller s"
  "st_revision (touch now b s) = st_revision s"
  "st_changed_at (touch now b s) = (if b then now else st_changed_at s)"
  by (simp_all add: touch_def)

lemma publish_status_simps [simp]:
  "st_state (publish_status now state spec controller revision status) = state"
  "st_spec (publish_status now state spec controller revision status) = spec"
  "st_controller (publish_status now state spec controller revision status) = controller"
  "st_revision (publish_status now state spec controller revision status) = revision"
  by (simp_all add: publish_status_def)

lemma publish_instance_status_simps [simp]:
  "st_state (publish_instance_status now h c state spec r cs rs status) = state"
  "st_health (publish_instance_status now h c state spec r cs rs status) = h"
  "st_controller (publish_instance_status now h c state spec r cs rs status) = Some c"
  "st_revision (publish_instance_status now h c state spec r cs rs status) = Some r"
  by (simp_all add: publish_instance_status_def)

lemma default_health_state:
  "default_health_for_state now prev state = Some h \<Longrightarrow>
     hs_state h = (case state of CRunning _ _ \<Rightarrow> HHealthy | _ \<Rightarrow> HStarting)"
  by (cases state; cases prev)
    (auto simp: default_health_for_state_def health_status_starting_def Let_def split: if_splits)

text \<open>
  The stream of one instance's updates reaches the published status only under its own
  epoch, and a pure health change leaves the time of the last lifecycle change alone: an update
  of another epoch changes nothing and wakes no watcher; an update of the published epoch
  installs exactly the instance's state and health, keeps specification, controller and
  revision, wakes the watchers exactly when something changed, and moves the time of the last
  lifecycle change exactly when the lifecycle state changed.
\<close>

theorem apply_epoch_status_correct:
  "apply_epoch_status now status epoch inst = (woken, status') \<Longrightarrow>
   (map_option rev_epoch (st_revision status) \<noteq> Some epoch \<longrightarrow> status' = status \<and> \<not> woken) \<and>
   (map_option rev_epoch (st_revision status) = Some epoch \<longrightarrow>
      st_state status' = instance_core_state epoch (ist_state inst) \<and>
      st_health status' = ist_health inst \<and>
      st_spec status' = st_spec status \<and> st_controller status' = st_controller status \<and>
      st_revision status' = st_revision status \<and>
      (woken \<longleftrightarrow> (st_state status, st_health status) \<noteq> (st_state status', st_health status')) \<and>
      st_changed_at status' =
        (if st_state status' = st_state status then st_changed_at status else now))"
  by (auto simp: apply_epoch_status_def Let_def split: if_splits)

definition sample_revision :: "u64 \<Rightarrow> config_revision" where
  "sample_revision e = \<lparr>rev_epoch = e, rev_generation = 1, rev_source_hash = ''s'',
     rev_effective_hash = ''h'', rev_runtime_path = ''/r/c''\<rparr>"

definition sample_running_status :: core_status where
  "sample_running_status = (core_status_initial 7)\<lparr>st_state := CRunning 3 30,
     st_revision := Some (sample_revision 3)\<rparr>"

theorem apply_epoch_status_correct_witness:
  "snd (apply_epoch_status 99 sample_running_status 2
      \<lparr>ist_state = IStopped Finished, ist_health = None\<rparr>) = sample_running_status \<and>
   st_changed_at (snd (apply_epoch_status 99 sample_running_status 3
      \<lparr>ist_state = IRunning 30, ist_health = Some (health_status_starting 8)\<rparr>)) = 7"
proof -
  let ?stale = "\<lparr>ist_state = IStopped Finished, ist_health = None\<rparr>"
  let ?pure = "\<lparr>ist_state = IRunning 30, ist_health = Some (health_status_starting 8)\<rparr>"
  have e: "map_option rev_epoch (st_revision sample_running_status) = Some 3"
    and st: "st_state sample_running_status = CRunning 3 30"
    and at: "st_changed_at sample_running_status = 7"
    by (simp_all add: sample_running_status_def sample_revision_def core_status_initial_def)
  show ?thesis
    using apply_epoch_status_correct [of 99 sample_running_status 2 ?stale, OF prod.collapse [symmetric]]
      apply_epoch_status_correct [of 99 sample_running_status 3 ?pure, OF prod.collapse [symmetric]]
      e st at by simp
qed

end
