(* ===== verification/Log.thy ===== *)
theory Log
  imports Metadata
begin

text \<open>
  The normalization of core console output: the record types of the crate
  \<^verbatim>\<open>nyanpasu-core-metadata\<close> (\<^verbatim>\<open>log.rs\<close>) and the parser of \<^verbatim>\<open>nyanpasu-core-manager\<close>'s
  \<^verbatim>\<open>log.rs\<close>. The calendar of the external crate \<^verbatim>\<open>chrono\<close> is the parameter \<open>chrono\<close>; the
  instant a line is observed is an argument. A slice outside a character boundary, on which
  Rust panics, is a value of its own, so that a theorem can say where the parser panics and
  where it does not.
\<close>

section \<open>Records\<close>

datatype log_level = LTrace | LDebug | LInfo | LWarning | LError | LFatal

fun level_rank :: "log_level \<Rightarrow> nat" where
  "level_rank LTrace = 0"
| "level_rank LDebug = 1"
| "level_rank LInfo = 2"
| "level_rank LWarning = 3"
| "level_rank LError = 4"
| "level_rank LFatal = 5"

lemma level_rank_inject: "level_rank a = level_rank b \<Longrightarrow> a = b"
  by (cases a; cases b) simp_all

text \<open>The derived \<^verbatim>\<open>Ord\<close> of \<^verbatim>\<open>LogLevel\<close>.\<close>

instantiation log_level :: linorder
begin

definition less_eq_log_level :: "log_level \<Rightarrow> log_level \<Rightarrow> bool" where
  "less_eq_log_level a b \<longleftrightarrow> level_rank a \<le> level_rank b"

definition less_log_level :: "log_level \<Rightarrow> log_level \<Rightarrow> bool" where
  "less_log_level a b \<longleftrightarrow> level_rank a < level_rank b"

instance
  by standard (auto simp: less_eq_log_level_def less_log_level_def intro: level_rank_inject)

end

datatype log_stream = Stdout | Stderr

record log_timestamp =
  lt_raw :: string
  lt_unix_ms :: "int option"
  lt_inferred :: bool

record log_field =
  lf_key :: string
  lf_value :: string

record log_frame =
  fr_at :: int
  fr_epoch :: u64
  fr_kind :: core_kind
  fr_stream :: log_stream
  fr_level :: log_level
  fr_timestamp :: "log_timestamp option"
  fr_target :: "string option"
  fr_message :: string
  fr_fields :: "log_field list"
  fr_raw :: string
  fr_truncated :: bool

section \<open>Byte budgets\<close>

definition MAX_CONTINUATION_LINES :: nat where "MAX_CONTINUATION_LINES = 16"
definition MAX_LOG_TEXT_BYTES :: nat where "MAX_LOG_TEXT_BYTES = 16 * 1024"
definition MAX_LOG_TARGET_BYTES :: nat where "MAX_LOG_TARGET_BYTES = 2048"
definition MAX_LOG_TIMESTAMP_RAW_BYTES :: nat where "MAX_LOG_TIMESTAMP_RAW_BYTES = 256"
definition MAX_LOG_FIELDS :: nat where "MAX_LOG_FIELDS = 64"
definition MAX_LOG_FIELD_TEXT_BYTES :: nat where "MAX_LOG_FIELD_TEXT_BYTES = 1024"

definition NL :: char where "NL = char_of (10 :: nat)"

text \<open>The flag says that something was left behind.\<close>

definition append_bounded :: "string \<Rightarrow> string \<Rightarrow> nat \<Rightarrow> bool \<times> string" where
  "append_bounded text line max_bytes =
     (if max_bytes \<le> length text then (True, text)
      else if line = [] then (False, text @ [NL])
      else let budget = max_bytes - length text - 1;
               e = char_boundary_at_or_below line (min budget (length line))
           in if e = 0 then (True, text)
              else (e < length line, text @ [NL] @ take e line))"

definition truncate_text :: "nat \<Rightarrow> string \<Rightarrow> bool \<times> string" where
  "truncate_text max_bytes text =
     (if length text \<le> max_bytes then (False, text)
      else (True, take (char_boundary_at_or_below text max_bytes) text))"

definition bound_field :: "log_field \<Rightarrow> bool \<times> log_field" where
  "bound_field f =
     (let (c1, key) = truncate_text MAX_LOG_FIELD_TEXT_BYTES (lf_key f);
          (c2, value) = truncate_text MAX_LOG_FIELD_TEXT_BYTES (lf_value f)
      in (c1 \<or> c2, f\<lparr>lf_key := key, lf_value := value\<rparr>))"

definition bound_frame :: "log_frame \<Rightarrow> log_frame" where
  "bound_frame frame =
     (let (c1, message) = truncate_text MAX_LOG_TEXT_BYTES (fr_message frame);
          (c2, raw) = truncate_text MAX_LOG_TEXT_BYTES (fr_raw frame);
          target = map_option (truncate_text MAX_LOG_TARGET_BYTES) (fr_target frame);
          c3 = (case target of Some (c, _) \<Rightarrow> c | None \<Rightarrow> False);
          timestamp = map_option (\<lambda>t. (truncate_text MAX_LOG_TIMESTAMP_RAW_BYTES (lt_raw t), t))
            (fr_timestamp frame);
          c4 = (case timestamp of Some ((c, _), _) \<Rightarrow> c | None \<Rightarrow> False);
          c5 = (MAX_LOG_FIELDS < length (fr_fields frame));
          fields = map bound_field (take MAX_LOG_FIELDS (fr_fields frame));
          c6 = list_ex fst fields
      in frame\<lparr>fr_message := message, fr_raw := raw, fr_target := map_option snd target,
           fr_timestamp := map_option (\<lambda>((_, r), t). t\<lparr>lt_raw := r\<rparr>) timestamp,
           fr_fields := map snd fields,
           fr_truncated := (fr_truncated frame \<or> c1 \<or> c2 \<or> c3 \<or> c4 \<or> c5 \<or> c6)\<rparr>)"

record pending =
  pd_frame :: log_frame
  pd_continuations :: nat

definition pending_append :: "pending \<Rightarrow> string \<Rightarrow> pending" where
  "pending_append p line =
     (if pd_continuations p = MAX_CONTINUATION_LINES
      then p\<lparr>pd_frame := (pd_frame p)\<lparr>fr_truncated := True\<rparr>\<rparr>
      else let (cr, raw) = append_bounded (fr_raw (pd_frame p)) line MAX_LOG_TEXT_BYTES;
               (cm, message) = append_bounded (fr_message (pd_frame p)) line MAX_LOG_TEXT_BYTES;
               frame = (pd_frame p)\<lparr>fr_raw := raw, fr_message := message\<rparr>
           in if cr \<or> cm
              then \<lparr>pd_frame = frame\<lparr>fr_truncated := True\<rparr>,
                    pd_continuations = MAX_CONTINUATION_LINES\<rparr>
              else \<lparr>pd_frame = frame, pd_continuations = pd_continuations p + 1\<rparr>)"

section \<open>Escape sequences\<close>

definition ESC :: char where "ESC = char_of (27 :: nat)"

definition csi_final :: "char \<Rightarrow> bool" where
  "csi_final c \<longleftrightarrow> 64 \<le> (of_char c :: nat) \<and> (of_char c :: nat) \<le> 126"

text \<open>The loop of \<^verbatim>\<open>strip_ansi\<close> on the bytes that are left.\<close>

function strip_ansi_loop :: "string \<Rightarrow> string" where
  "strip_ansi_loop [] = []"
| "strip_ansi_loop (c # cs) =
     (if c \<noteq> ESC then c # strip_ansi_loop cs
      else if cs = [] \<or> hd cs \<noteq> CHR ''['' then strip_ansi_loop cs
      else strip_ansi_loop (drop 1 (dropWhile (\<lambda>b. \<not> csi_final b) (tl cs))))"
  by pat_completeness auto
termination
proof (relation "measure length")
  fix c :: char and cs :: string
  have "length (drop 1 (dropWhile (\<lambda>b. \<not> csi_final b) (tl cs))) \<le> length cs"
    using length_dropWhile_le [of "\<lambda>b. \<not> csi_final b" "tl cs"] by simp
  then show "(drop 1 (dropWhile (\<lambda>b. \<not> csi_final b) (tl cs)), c # cs) \<in> measure length"
    by simp
qed simp_all

definition strip_ansi :: "string \<Rightarrow> string" where
  "strip_ansi line = (if ESC \<notin> set line then line else strip_ansi_loop line)"

section \<open>Slices and tokens\<close>

text \<open>\<^verbatim>\<open>line.get(a..b)\<close>: nothing when an end is past the line or splits a character.\<close>

definition str_get :: "string \<Rightarrow> nat \<Rightarrow> nat \<Rightarrow> string option" where
  "str_get s a b =
     (if a \<le> b \<and> b \<le> length s \<and> is_char_boundary s a \<and> is_char_boundary s b
      then Some (take (b - a) (drop a s)) else None)"

function trim_start :: "string \<Rightarrow> string" where
  "trim_start s = (if whitespace_len s = 0 \<or> s = [] then s else trim_start (drop (whitespace_len s) s))"
  by pat_completeness auto
termination
  by (relation "measure length") (auto simp: diff_less)

declare trim_start.simps [simp del]

text \<open>\<^verbatim>\<open>find(char::is_whitespace)\<close>.\<close>

fun find_whitespace :: "string \<Rightarrow> nat option" where
  "find_whitespace [] = None"
| "find_whitespace (c # cs) =
     (if 0 < whitespace_len (c # cs) then Some 0 else map_option Suc (find_whitespace cs))"

text \<open>\<^verbatim>\<open>rfind(char::is_whitespace)\<close>.\<close>

fun rfind_whitespace :: "string \<Rightarrow> nat option" where
  "rfind_whitespace [] = None"
| "rfind_whitespace (c # cs) =
     (case rfind_whitespace cs of Some i \<Rightarrow> Some (Suc i)
      | None \<Rightarrow> if 0 < whitespace_len (c # cs) then Some 0 else None)"

definition take_token :: "string \<Rightarrow> (string \<times> string) option" where
  "take_token input =
     (let input = trim_start input
      in map_option (\<lambda>e. (take e input, trim_start (drop e input))) (find_whitespace input))"

definition parse_level :: "string \<Rightarrow> log_level option" where
  "parse_level level =
     (if level \<in> {''trace'', ''TRC'', ''TRACE''} then Some LTrace
      else if level \<in> {''debug'', ''DBG'', ''DEBUG''} then Some LDebug
      else if level \<in> {''info'', ''INF'', ''INFO''} then Some LInfo
      else if level \<in> {''warn'', ''warning'', ''WRN'', ''WARN''} then Some LWarning
      else if level \<in> {''error'', ''ERR'', ''ERROR''} then Some LError
      else if level \<in> {''fatal'', ''panic'', ''FTL'', ''PNC''} then Some LFatal
      else if level = ''???'' then Some LInfo
      else None)"

section \<open>Logfmt\<close>

definition is_ascii_whitespace :: "char \<Rightarrow> bool" where
  "is_ascii_whitespace c \<longleftrightarrow> (of_char c :: nat) \<in> {9, 10, 12, 13, 32}"

definition quote :: char where "quote = char_of (34 :: nat)"
definition backslash :: char where "backslash = char_of (92 :: nat)"

text \<open>\<^verbatim>\<open>String::from_utf8\<close> on bytes: well-formed UTF-8.\<close>

definition between :: "nat \<Rightarrow> nat \<Rightarrow> char \<Rightarrow> bool" where
  "between lo hi c \<longleftrightarrow> lo \<le> of_char c \<and> of_char c \<le> hi"

fun utf8_valid :: "string \<Rightarrow> bool" where
  "utf8_valid [] = True"
| "utf8_valid (a # s) =
     (if between 0 127 a then utf8_valid s
      else case s of [] \<Rightarrow> False
        | b # s \<Rightarrow>
            if between 194 223 a then is_continuation b \<and> utf8_valid s
            else case s of [] \<Rightarrow> False
              | c # s \<Rightarrow>
                  if between 224 239 a
                  then between (if between 224 224 a then 160 else 128)
                         (if between 237 237 a then 159 else 191) b \<and>
                       is_continuation c \<and> utf8_valid s
                  else case s of [] \<Rightarrow> False
                    | d # s \<Rightarrow>
                        between 240 244 a \<and>
                        between (if between 240 240 a then 144 else 128)
                          (if between 244 244 a then 143 else 191) b \<and>
                        is_continuation c \<and> is_continuation d \<and> utf8_valid s)"

text \<open>What an escaped byte adds to the value, which is kept reversed.\<close>

definition unescape :: "char \<Rightarrow> string \<Rightarrow> string" where
  "unescape e value =
     (if e = quote \<or> e = backslash then e # value
      else if e = CHR ''n'' then char_of (10 :: nat) # value
      else if e = CHR ''r'' then char_of (13 :: nat) # value
      else if e = CHR ''t'' then char_of (9 :: nat) # value
      else e # backslash # value)"

text \<open>The body of a quoted value: the bytes of the value and what follows the closing quote.\<close>

fun scan_quoted :: "string \<Rightarrow> string \<Rightarrow> (string \<times> string) option" where
  "scan_quoted value [] = None"
| "scan_quoted value (c # cs) =
     (if c = quote then Some (rev value, cs)
      else if c = backslash
      then (case cs of [] \<Rightarrow> None | e # cs' \<Rightarrow> scan_quoted (unescape e value) cs')
      else scan_quoted (c # value) cs)"

text \<open>One turn of the outer loop on a rest that starts a key: the field and the next rest. A
  slice is refused when it or what follows it starts inside a character.\<close>

definition slice_ok :: "string \<Rightarrow> string \<Rightarrow> bool" where
  "slice_ok sl rest \<longleftrightarrow>
     \<not> (sl \<noteq> [] \<and> is_continuation (hd sl)) \<and> \<not> (rest \<noteq> [] \<and> is_continuation (hd rest))"

definition scan_field :: "string \<Rightarrow> ((string \<times> string) \<times> string) option" where
  "scan_field s =
     (let key = takeWhile (\<lambda>c. c \<noteq> CHR ''='') s; rest = dropWhile (\<lambda>c. c \<noteq> CHR ''='') s
      in if list_ex is_ascii_whitespace key \<or> key = [] \<or> rest = [] \<or> \<not> slice_ok key rest then None
         else let rest = tl rest
              in if rest \<noteq> [] \<and> hd rest = quote
                 then (case scan_quoted [] (tl rest) of None \<Rightarrow> None
                       | Some (value, rest) \<Rightarrow>
                           if (rest \<noteq> [] \<and> \<not> is_ascii_whitespace (hd rest)) \<or> \<not> utf8_valid value
                           then None else Some ((key, value), rest))
                 else let value = takeWhile (\<lambda>c. \<not> is_ascii_whitespace c) rest;
                          rest' = dropWhile (\<lambda>c. \<not> is_ascii_whitespace c) rest
                      in if slice_ok value rest' then Some ((key, value), rest') else None)"

lemma scan_quoted_shorter: "scan_quoted v s = Some (a, b) \<Longrightarrow> length b < length s"
proof (induction v s arbitrary: a b rule: scan_quoted.induct)
  case (2 val c cs)
  consider "c = quote" | "c = backslash" "c \<noteq> quote" | "c \<noteq> quote" "c \<noteq> backslash" by blast
  then show ?case
  proof cases
    case 2
    then obtain e cs' where "cs = e # cs'" using "2.prems" by (cases cs) auto
    with 2 "2.IH"(1) "2.prems" show ?thesis by fastforce
  next
    case 3
    with "2.IH"(2) "2.prems" show ?thesis by fastforce
  qed (use "2.prems" in simp)
qed simp

lemma scan_field_shorter: "scan_field s = Some (f, r) \<Longrightarrow> length r < length s"
proof -
  assume f: "scan_field s = Some (f, r)"
  let ?rest = "dropWhile (\<lambda>c. c \<noteq> CHR ''='') s"
  have ne: "?rest \<noteq> []" and "length r \<le> length (tl ?rest)"
    using f scan_quoted_shorter [of "[]" "tl (tl ?rest)"]
      length_dropWhile_le [of "\<lambda>c. \<not> is_ascii_whitespace c" "tl ?rest"]
    by (fastforce simp: scan_field_def Let_def split: if_splits option.splits)+
  moreover have "length (tl ?rest) < length ?rest" using ne by (cases ?rest) auto
  ultimately show ?thesis using length_dropWhile_le [of "\<lambda>c. c \<noteq> CHR ''=''" s] by linarith
qed

function scan_logfmt :: "string \<Rightarrow> (string \<times> string) list option" where
  "scan_logfmt s =
     (let s' = dropWhile is_ascii_whitespace s
      in if s' = [] then Some []
         else case scan_field s' of None \<Rightarrow> None
           | Some (f, rest) \<Rightarrow> map_option (Cons f) (scan_logfmt rest))"
  by pat_completeness auto
termination
proof (relation "measure length")
  fix s s' :: string and p f rest
  assume "s' = dropWhile is_ascii_whitespace s" and "scan_field s' = Some p" and "(f, rest) = p"
  then have "length rest < length s'" using scan_field_shorter [of s' f rest] by simp
  also have "length s' \<le> length s"
    using \<open>s' = _\<close> by (simp add: length_dropWhile_le)
  finally show "(rest, s) \<in> measure length" by simp
qed simp

declare scan_logfmt.simps [simp del]

section \<open>Headers\<close>

text \<open>
  The calendar functions of \<^verbatim>\<open>chrono\<close> the parser calls. A date and a time of day are opaque
  numbers, an offset is that of \<^verbatim>\<open>FixedOffset\<close>, a duration is in nanoseconds.
\<close>

record chrono =
  ch_rfc3339_ms :: "string \<Rightarrow> int option"
  ch_from_ymd :: "int \<Rightarrow> nat \<Rightarrow> nat \<Rightarrow> int option"
  ch_from_hms_nano :: "nat \<Rightarrow> nat \<Rightarrow> nat \<Rightarrow> nat \<Rightarrow> int option"
  ch_parse_hms :: "string \<Rightarrow> int option"
  ch_succ :: "int \<Rightarrow> int option"
  ch_pred :: "int \<Rightarrow> int option"
  ch_time_diff :: "int \<Rightarrow> int \<Rightarrow> int"
  ch_local_ms :: "int \<Rightarrow> int \<Rightarrow> int \<Rightarrow> int option"

record observed =
  ob_ms :: int
  ob_date :: int
  ob_time :: int
  ob_offset :: int

record parsed_line =
  pl_timestamp :: "log_timestamp option"
  pl_level :: log_level
  pl_target :: "string option"
  pl_message :: string
  pl_fields :: "log_field list"

datatype header = NoHeader | Header parsed_line | HeaderPanic

definition header_of :: "parsed_line option \<Rightarrow> header" where
  "header_of p = (case p of None \<Rightarrow> NoHeader | Some l \<Rightarrow> Header l)"

fun mihomo_fields ::
  "(string \<times> string) list \<Rightarrow> string option \<Rightarrow> log_level option \<Rightarrow> string option \<Rightarrow> log_field list \<Rightarrow>
   string option \<times> log_level option \<times> string option \<times> log_field list" where
  "mihomo_fields [] raw_time level message fs = (raw_time, level, message, rev fs)"
| "mihomo_fields ((key, v) # kvs) raw_time level message fs =
     (if key = ''time'' then mihomo_fields kvs (Some v) level message fs
      else if key = ''level'' then mihomo_fields kvs raw_time (parse_level v) message fs
      else if key = ''msg'' then mihomo_fields kvs raw_time level (Some v) fs
      else mihomo_fields kvs raw_time level message (\<lparr>lf_key = key, lf_value = v\<rparr> # fs))"

definition parse_mihomo :: "chrono \<Rightarrow> string \<Rightarrow> parsed_line option" where
  "parse_mihomo ch line =
     Option.bind (scan_logfmt line) (\<lambda>kvs.
       case mihomo_fields kvs None None None [] of
         (Some raw_time, Some level, Some message, fs) \<Rightarrow>
           Some \<lparr>pl_timestamp = Some \<lparr>lt_raw = raw_time, lt_unix_ms = ch_rfc3339_ms ch raw_time,
               lt_inferred = False\<rparr>,
             pl_level = level, pl_target = None, pl_message = message, pl_fields = fs\<rparr>
       | _ \<Rightarrow> None)"

definition parse_meow :: "chrono \<Rightarrow> string \<Rightarrow> parsed_line option" where
  "parse_meow ch line =
     Option.bind (take_token line) (\<lambda>(raw_time, rest).
     Option.bind (take_token rest) (\<lambda>(level, rest).
     Option.bind (parse_level level) (\<lambda>level.
     Option.bind (split_once '': '' rest) (\<lambda>(target, message).
       if target = [] then None
       else Some \<lparr>pl_timestamp = Some \<lparr>lt_raw = raw_time, lt_unix_ms = ch_rfc3339_ms ch raw_time,
               lt_inferred = False\<rparr>,
             pl_level = level, pl_target = Some target, pl_message = message, pl_fields = []\<rparr>))))"

definition clash_rs_timestamp_end :: "string \<Rightarrow> nat option" where
  "clash_rs_timestamp_end line =
     (if list_all (\<lambda>(i, c). i < length line \<and> line ! i = c)
          [(2, CHR ''-''), (5, CHR ''-''), (8, CHR '' ''), (11, CHR '':''), (14, CHR '':''), (17, CHR '':'')] \<and>
         list_all (\<lambda>(a, b). list_all is_ascii_digit (take (b - a) (drop a line)))
          [(0, 2), (3, 5), (6, 8), (9, 11), (12, 14), (15, 17)]
      then let digits = length (takeWhile is_ascii_digit (drop 18 line))
           in if 1 \<le> digits \<and> digits \<le> 9 \<and> 18 + digits < length line \<and> line ! (18 + digits) = CHR '' ''
              then Some (18 + digits) else None
      else None)"

text \<open>\<^verbatim>\<open>str::parse::<u32>\<close> of a slice.\<close>

definition parse_u32 :: "string \<Rightarrow> nat option" where
  "parse_u32 s =
     (let ds = (case s of c # cs \<Rightarrow> if c = CHR ''+'' then cs else s | [] \<Rightarrow> [])
      in if ds \<noteq> [] \<and> list_all is_ascii_digit ds \<and> digits_value 0 ds < 2 ^ 32
         then Some (digits_value 0 ds) else None)"

definition clash_rs_unix_ms :: "chrono \<Rightarrow> string \<Rightarrow> int \<Rightarrow> int option" where
  "clash_rs_unix_ms ch raw offset =
     (let number = (\<lambda>a b. Option.bind (str_get raw a b) parse_u32)
      in Option.bind (str_get raw 18 (length raw)) (\<lambda>subsecond.
         Option.bind (parse_u32 subsecond) (\<lambda>sub.
         let nanos = sub * 10 ^ (9 - length subsecond)
         in Option.bind (number 0 2) (\<lambda>y. Option.bind (number 3 5) (\<lambda>mo.
            Option.bind (number 6 8) (\<lambda>d. Option.bind (ch_from_ymd ch (2000 + int y) mo d) (\<lambda>date.
            Option.bind (number 9 11) (\<lambda>h. Option.bind (number 12 14) (\<lambda>mi.
            Option.bind (number 15 17) (\<lambda>sec. Option.bind (ch_from_hms_nano ch h mi sec nanos) (\<lambda>time.
            ch_local_ms ch date time offset)))))))))))"

definition rfind_colon :: "string \<Rightarrow> nat option" where
  "rfind_colon s =
     map_option (\<lambda>(a, _). length a) (rsplit_once (CHR '':'') s)"

text \<open>One candidate separator: \<open>None\<close> goes on with the next one; \<open>Some None\<close> is the panic of the
  slice \<^verbatim>\<open>head[start..]\<close>.\<close>

definition clash_rs_candidate :: "string \<Rightarrow> nat \<Rightarrow> (string \<times> string) option option" where
  "clash_rs_candidate rest separator =
     (let head = take separator rest
      in case rfind_colon head of None \<Rightarrow> None
         | Some colon \<Rightarrow>
             let number = drop (colon + 1) head
             in if number = [] \<or> \<not> list_all is_ascii_digit number then None
                else let start = (case rfind_whitespace (take colon head) of
                           Some i \<Rightarrow> i + 1 | None \<Rightarrow> 0)
                     in if start = colon then None
                        else if \<not> is_char_boundary head start then Some None
                        else Some (Some (drop start head, drop (separator + 2) rest)))"

fun clash_rs_scan :: "string \<Rightarrow> nat list \<Rightarrow> (string \<times> string) option option" where
  "clash_rs_scan rest [] = None"
| "clash_rs_scan rest (i # is) =
     (case clash_rs_candidate rest i of Some r \<Rightarrow> Some r | None \<Rightarrow> clash_rs_scan rest is)"

definition match_indices :: "string \<Rightarrow> string \<Rightarrow> nat list" where
  "match_indices s p = filter (\<lambda>i. prefix p (drop i s)) [0..<length s]"

definition clash_rs_source :: "string \<Rightarrow> (string \<times> string) option option" where
  "clash_rs_source rest = clash_rs_scan rest (match_indices rest '': '')"

definition parse_clash_rs :: "chrono \<Rightarrow> string \<Rightarrow> observed \<Rightarrow> header" where
  "parse_clash_rs ch line observed_at =
     (case Option.bind (clash_rs_timestamp_end line) (\<lambda>e.
        Option.bind (str_get line 0 e) (\<lambda>raw_time.
        Option.bind (Option.bind (str_get line e (length line)) take_token) (\<lambda>(level, rest).
        map_option (\<lambda>level. (raw_time, level, rest)) (parse_level level)))) of
        None \<Rightarrow> NoHeader
      | Some (raw_time, level, rest) \<Rightarrow>
          (case clash_rs_source rest of
             None \<Rightarrow> NoHeader
           | Some None \<Rightarrow> HeaderPanic
           | Some (Some (target, message)) \<Rightarrow>
               Header \<lparr>pl_timestamp = Some \<lparr>lt_raw = raw_time,
                   lt_unix_ms = clash_rs_unix_ms ch raw_time (ob_offset observed_at),
                   lt_inferred = True\<rparr>,
                 pl_level = level, pl_target = Some target, pl_message = message, pl_fields = []\<rparr>))"

definition premium_target :: "string \<Rightarrow> string option \<times> string" where
  "premium_target body =
     (case Option.bind (strip_prefix ''['' body) (split_once ''] '') of
        Some (tag, message) \<Rightarrow>
          if tag \<noteq> [] \<and> CHR '' '' \<notin> set tag then (Some tag, message) else (None, body)
      | None \<Rightarrow> (None, body))"

definition half_day :: int where "half_day = 12 * 3600 * 1000000000"

text \<open>The result and the clock; a date that does not exist leaves the clock alone.\<close>

definition premium_unix_ms ::
  "chrono \<Rightarrow> int \<Rightarrow> observed \<Rightarrow> (int \<times> int) option \<Rightarrow> int option \<times> (int \<times> int) option" where
  "premium_unix_ms ch time observed_at clock =
     (let date = (case clock of
            Some (date, previous) \<Rightarrow>
              if half_day < ch_time_diff ch previous time then ch_succ ch date else Some date
          | None \<Rightarrow>
              if half_day < ch_time_diff ch time (ob_time observed_at)
              then ch_pred ch (ob_date observed_at) else Some (ob_date observed_at))
      in case date of None \<Rightarrow> (None, clock)
         | Some date \<Rightarrow> (ch_local_ms ch date time (ob_offset observed_at), Some (date, time)))"

definition parse_premium ::
  "chrono \<Rightarrow> string \<Rightarrow> observed \<Rightarrow> (int \<times> int) option \<Rightarrow> parsed_line option \<times> (int \<times> int) option" where
  "parse_premium ch line observed_at clock =
     (if \<not> (8 < length line \<and> line ! 8 = CHR '' '') \<or> \<not> (12 < length line \<and> line ! 12 = CHR '' '')
      then (None, clock)
      else case str_get line 0 8 of None \<Rightarrow> (None, clock)
        | Some raw_time \<Rightarrow>
            (case ch_parse_hms ch raw_time of None \<Rightarrow> (None, clock)
             | Some time \<Rightarrow>
                 (case Option.bind (str_get line 9 12) parse_level of None \<Rightarrow> (None, clock)
                  | Some level \<Rightarrow>
                      (case str_get line 13 (length line) of None \<Rightarrow> (None, clock)
                       | Some body \<Rightarrow>
                           let (target, message) = premium_target body;
                               (ms, clock') = premium_unix_ms ch time observed_at clock
                           in (Some \<lparr>pl_timestamp = Some \<lparr>lt_raw = raw_time, lt_unix_ms = ms,
                                   lt_inferred = True\<rparr>,
                                 pl_level = level, pl_target = target, pl_message = message,
                                 pl_fields = []\<rparr>, clock')))))"

section \<open>The parser\<close>

text \<open>The two-element array \<^verbatim>\<open>pending\<close> is a pair of fields, one per stream.\<close>

record log_parser =
  lp_kind :: core_kind
  lp_epoch :: u64
  lp_premium_clock :: "(int \<times> int) option"
  lp_pending_stdout :: "pending option"
  lp_pending_stderr :: "pending option"
  lp_newest_pending :: "log_stream option"

definition log_parser_new :: "core_kind \<Rightarrow> u64 \<Rightarrow> log_parser" where
  "log_parser_new kind epoch =
     \<lparr>lp_kind = kind, lp_epoch = epoch, lp_premium_clock = None, lp_pending_stdout = None,
      lp_pending_stderr = None, lp_newest_pending = None\<rparr>"

fun lp_pending :: "log_stream \<Rightarrow> log_parser \<Rightarrow> pending option" where
  "lp_pending Stdout p = lp_pending_stdout p"
| "lp_pending Stderr p = lp_pending_stderr p"

fun set_pending :: "log_stream \<Rightarrow> pending option \<Rightarrow> log_parser \<Rightarrow> log_parser" where
  "set_pending Stdout v p = p\<lparr>lp_pending_stdout := v\<rparr>"
| "set_pending Stderr v p = p\<lparr>lp_pending_stderr := v\<rparr>"

definition parse_header ::
  "chrono \<Rightarrow> log_parser \<Rightarrow> string \<Rightarrow> observed \<Rightarrow> header \<times> log_parser" where
  "parse_header ch p line observed_at =
     (case lp_kind p of
        Mihomo \<Rightarrow> (header_of (parse_mihomo ch line), p)
      | Meow \<Rightarrow> (header_of (parse_meow ch line), p)
      | ClashRust \<Rightarrow> (parse_clash_rs ch line observed_at, p)
      | ClashPremium \<Rightarrow>
          (case parse_premium ch line observed_at (lp_premium_clock p) of
             (l, clock) \<Rightarrow> (header_of l, p\<lparr>lp_premium_clock := clock\<rparr>)))"

definition emit ::
  "log_parser \<Rightarrow> log_stream \<Rightarrow> log_frame \<Rightarrow> bool \<Rightarrow> log_frame option list \<times> log_parser" where
  "emit p stream frame hold =
     (let flushed = map_option pd_frame (lp_pending stream p);
          p = set_pending stream None p
      in if hold
         then ([flushed, None],
               set_pending stream (Some \<lparr>pd_frame = frame, pd_continuations = 0\<rparr>)
                 (p\<lparr>lp_newest_pending := Some stream\<rparr>))
         else ([flushed, Some frame], p))"

definition plain_level :: "bool \<Rightarrow> bool \<Rightarrow> log_stream \<Rightarrow> log_level" where
  "plain_level error_root warning_root stream =
     (if error_root then LError else if warning_root then LWarning
      else case stream of Stdout \<Rightarrow> LInfo | Stderr \<Rightarrow> LWarning)"

text \<open>\<open>None\<close> when the parser panics.\<close>

definition push_at ::
  "chrono \<Rightarrow> log_parser \<Rightarrow> log_stream \<Rightarrow> string \<Rightarrow> observed \<Rightarrow>
   (log_frame option list \<times> log_parser) option" where
  "push_at ch p stream line observed_at =
     (let line = strip_ansi line
      in case parse_header ch p line observed_at of
           (HeaderPanic, _) \<Rightarrow> None
         | (Header parsed, p) \<Rightarrow>
             Some (emit p stream
               (bound_frame
                 \<lparr>fr_at = ob_ms observed_at, fr_epoch = lp_epoch p, fr_kind = lp_kind p,
                  fr_stream = stream, fr_level = pl_level parsed, fr_timestamp = pl_timestamp parsed,
                  fr_target = pl_target parsed, fr_message = pl_message parsed,
                  fr_fields = pl_fields parsed, fr_raw = line, fr_truncated = False\<rparr>)
               (LError \<le> pl_level parsed))
         | (NoHeader, p) \<Rightarrow>
             let error_root = prefix ''Error:'' line; warning_root = prefix ''warning:'' line
             in if \<not> error_root \<and> \<not> warning_root \<and> lp_pending stream p \<noteq> None
                then Some ([None, None], set_pending stream
                  (map_option (\<lambda>pending. pending_append pending line) (lp_pending stream p)) p)
                else Some (emit p stream
                  (bound_frame
                    \<lparr>fr_at = ob_ms observed_at, fr_epoch = lp_epoch p, fr_kind = lp_kind p,
                     fr_stream = stream, fr_level = plain_level error_root warning_root stream,
                     fr_timestamp = None, fr_target = None, fr_message = line, fr_fields = [],
                     fr_raw = line, fr_truncated = False\<rparr>)
                  (error_root \<and> stream = Stderr)))"

definition finish :: "log_parser \<Rightarrow> log_frame option list \<times> log_parser" where
  "finish p =
     (let out = map_option pd_frame (lp_pending_stdout p);
          err = map_option pd_frame (lp_pending_stderr p);
          p' = p\<lparr>lp_pending_stdout := None, lp_pending_stderr := None, lp_newest_pending := None\<rparr>
      in (if lp_newest_pending p = Some Stdout then [err, out] else [out, err], p'))"

definition flatten :: "'a option list \<Rightarrow> 'a list" where
  "flatten xs = List.map_filter id xs"

section \<open>Summaries\<close>

definition error_summary :: "log_frame list \<Rightarrow> string option" where
  "error_summary frames =
     (let levels = filter (\<lambda>l. LWarning \<le> l) (map fr_level frames)
      in if levels = [] then None
         else map_option fr_message
           (List.find (\<lambda>f. fr_level f = Max (set levels)) (rev frames)))"

definition format_tail :: "log_frame list \<Rightarrow> string" where
  "format_tail frames = str_join [NL] (map fr_raw frames)"

fun trim_end :: "string \<Rightarrow> string" where
  "trim_end [] = []"
| "trim_end (c # cs) = (if trim_start (c # cs) = [] then [] else c # trim_end cs)"

definition trim :: "string \<Rightarrow> string" where
  "trim s = trim_end (trim_start s)"

text \<open>\<^verbatim>\<open>str::lines\<close>.\<close>

fun lines_aux :: "string \<Rightarrow> string \<Rightarrow> string list" where
  "lines_aux acc [] = (if acc = [] then [] else [rev acc])"
| "lines_aux acc (c # cs) =
     (if c = NL
      then rev (if acc \<noteq> [] \<and> hd acc = char_of (13 :: nat) then tl acc else acc) # lines_aux [] cs
      else lines_aux (c # acc) cs)"

definition lines :: "string \<Rightarrow> string list" where
  "lines s = lines_aux [] s"

text \<open>Pushing a list of observed lines; the frames in the order they leave the parser.\<close>

fun push_all ::
  "chrono \<Rightarrow> log_parser \<Rightarrow> (log_stream \<times> string \<times> observed) list \<Rightarrow> log_frame list \<Rightarrow>
   (log_frame list \<times> log_parser) option" where
  "push_all ch p [] frames = Some (frames, p)"
| "push_all ch p ((stream, line, obs) # ls) frames =
     (case push_at ch p stream line obs of None \<Rightarrow> None
      | Some (out, p') \<Rightarrow> push_all ch p' ls (frames @ flatten out))"

definition verbatim_output :: "string \<Rightarrow> string \<Rightarrow> string" where
  "verbatim_output stdout stderr =
     (let output = str_join [NL] (filter (\<lambda>t. t \<noteq> []) [trim stdout, trim stderr])
      in if output = [] then ''core reported no output'' else output)"

definition summarize_output ::
  "chrono \<Rightarrow> (nat \<Rightarrow> observed) \<Rightarrow> core_kind \<Rightarrow> string \<Rightarrow> string \<Rightarrow> string option" where
  "summarize_output ch now kind stdout stderr =
     (let ls = map (Pair Stdout) (lines stdout) @ map (Pair Stderr) (lines stderr)
      in case push_all ch (log_parser_new kind 0)
             (map (\<lambda>((stream, line), i). (stream, line, now i)) (zip ls [0..<length ls])) [] of
           None \<Rightarrow> None
         | Some (frames, p) \<Rightarrow>
             Some (case error_summary (frames @ flatten (fst (finish p))) of
                     Some s \<Rightarrow> s | None \<Rightarrow> verbatim_output stdout stderr))"

end
