(* ===== verification/Monitor.thy ===== *)
theory Monitor
  imports Core_State Log
begin

text \<open>
  One running instance: the shared state of \<^verbatim>\<open>instance.rs\<close> (\<^verbatim>\<open>struct Shared\<close>), the probe driver of
  \<^verbatim>\<open>health/driver.rs\<close> and the monitor loop. The \<^verbatim>\<open>tokio::select!\<close> of the loop is a step function
  on events: one event per branch, a disabled branch leaves the state alone, and \<open>None\<close> for the
  monitor says that the loop has returned. What the code waits for (the supervisor of the
  external crate \<^verbatim>\<open>nyanpasu-utils\<close>, timers, probes) arrives as the events; clock readings come
  with them. Instants and durations are nanoseconds.
\<close>

section \<open>The shared state of an instance\<close>

definition LOG_TAIL_FRAMES :: nat where "LOG_TAIL_FRAMES = 32"

text \<open>
  \<open>sh_status\<close> is the value of the watch channel, \<open>sh_sent\<close> what went to the log subscribers,
  \<open>sh_supervisor\<close> whether the supervisor handle is still there, and the two tokens are
  whether they have been cancelled.
\<close>

record shared =
  sh_status :: instance_status
  sh_user_stop :: bool
  sh_probe_timeout :: bool
  sh_parser :: log_parser
  sh_log_tail :: "log_frame list"
  sh_sent :: "log_frame list"
  sh_cancelled :: bool
  sh_probe_cancelled :: bool
  sh_supervisor :: bool

definition shared_new :: "core_kind \<Rightarrow> u64 \<Rightarrow> int \<Rightarrow> shared" where
  "shared_new kind epoch now =
     \<lparr>sh_status = instance_status_initial now, sh_user_stop = False, sh_probe_timeout = False,
      sh_parser = log_parser_new kind epoch, sh_log_tail = [], sh_sent = [], sh_cancelled = False,
      sh_probe_cancelled = False, sh_supervisor = False\<rparr>"

definition shared_publish :: "instance_state \<Rightarrow> shared \<Rightarrow> shared" where
  "shared_publish state sh =
     (let status = (sh_status sh)\<lparr>ist_state := state\<rparr>
      in sh\<lparr>sh_status := (case state of
           IStopping \<Rightarrow> status\<lparr>ist_health := None\<rparr>
         | IStopped _ \<Rightarrow> status\<lparr>ist_health := None\<rparr>
         | _ \<Rightarrow> status)\<rparr>)"

definition shared_publish_status :: "instance_status \<Rightarrow> shared \<Rightarrow> shared" where
  "shared_publish_status status sh = sh\<lparr>sh_status := status\<rparr>"

definition publish_log_frame :: "log_frame \<Rightarrow> shared \<Rightarrow> shared" where
  "publish_log_frame frame sh =
     (let tail = (if length (sh_log_tail sh) = LOG_TAIL_FRAMES then tl (sh_log_tail sh)
                  else sh_log_tail sh)
      in sh\<lparr>sh_log_tail := tail @ [frame], sh_sent := sh_sent sh @ [frame]\<rparr>)"

definition publish_log_frames :: "log_frame option list \<Rightarrow> shared \<Rightarrow> shared" where
  "publish_log_frames frames sh = foldl (\<lambda>sh f. publish_log_frame f sh) sh (flatten frames)"

definition flush_log_record :: "shared \<Rightarrow> shared" where
  "flush_log_record sh =
     (case finish (sh_parser sh) of
        (frames, parser) \<Rightarrow> publish_log_frames frames (sh\<lparr>sh_parser := parser\<rparr>))"

definition diagnostic_frames :: "shared \<Rightarrow> log_frame list \<times> shared" where
  "diagnostic_frames sh = (let sh' = flush_log_record sh in (sh_log_tail sh', sh'))"

definition diagnostics :: "shared \<Rightarrow> string \<times> shared" where
  "diagnostics sh = apfst format_tail (diagnostic_frames sh)"

definition failure_summary :: "string \<Rightarrow> shared \<Rightarrow> string \<times> shared" where
  "failure_summary lifecycle sh =
     (case diagnostic_frames sh of
        (frames, sh') \<Rightarrow>
          ((case error_summary frames of Some s \<Rightarrow> s | None \<Rightarrow> lifecycle), sh'))"

text \<open>
  The callback of \<^verbatim>\<open>on_process_event\<close>. When the parser panics nothing has been changed yet, and
  the lock of the parser is released.
\<close>

datatype process_event =
    PStdout string
  | PStderr string
  | PTerminated
  | PError

definition on_process_event :: "chrono \<Rightarrow> observed \<Rightarrow> process_event \<Rightarrow> shared \<Rightarrow> shared" where
  "on_process_event ch obs e sh =
     (let line = (\<lambda>stream text.
            case push_at ch (sh_parser sh) stream text obs of
              None \<Rightarrow> sh
            | Some (frames, parser) \<Rightarrow> publish_log_frames frames (sh\<lparr>sh_parser := parser\<rparr>))
      in case e of
           PStdout text \<Rightarrow> line Stdout text
         | PStderr text \<Rightarrow> line Stderr text
         | PTerminated \<Rightarrow> flush_log_record sh
         | PError \<Rightarrow> sh)"

section \<open>The probe driver\<close>

record clock =
  ck_instant :: nat
  ck_ms :: int

record probe_observation =
  po_run_id :: u64
  po_pid :: u32
  po_phase :: probe_phase
  po_completed_at :: nat
  po_completed_at_ms :: int
  po_result :: probe_result

text \<open>A request carries a response channel, which is a number.\<close>

datatype driver_command = UseLiveness | DriverReconcile nat

datatype probe_slot = ReadinessProbe | LivenessProbe

record driver =
  dr_run_id :: u64
  dr_pid :: u32
  dr_policy :: health_policy
  dr_liveness :: bool
  dr_commands :: "driver_command list"
  dr_cancelled :: bool
  dr_periodic :: "(probe_slot \<times> probe_phase) option"
  dr_next_probe :: nat

definition driver_start :: "u64 \<Rightarrow> u32 \<Rightarrow> bool \<Rightarrow> health_policy \<Rightarrow> nat \<Rightarrow> driver" where
  "driver_start run_id pid liveness policy now =
     \<lparr>dr_run_id = run_id, dr_pid = pid, dr_policy = policy, dr_liveness = liveness,
      dr_commands = [], dr_cancelled = False,
      dr_periodic = Some (ReadinessProbe, Readiness), dr_next_probe = now\<rparr>"

definition use_liveness :: "driver \<Rightarrow> driver" where
  "use_liveness d = d\<lparr>dr_commands := dr_commands d @ [UseLiveness]\<rparr>"

definition driver_reconcile :: "nat \<Rightarrow> driver \<Rightarrow> driver" where
  "driver_reconcile response d = d\<lparr>dr_commands := dr_commands d @ [DriverReconcile response]\<rparr>"

definition driver_stop :: "driver \<Rightarrow> driver" where
  "driver_stop d = d\<lparr>dr_cancelled := True\<rparr>"

text \<open>How one attempt ended: cancelled, past its timeout, or with the answer of the probe.\<close>

datatype attempt = AttemptCancelled | AttemptTimedOut | AttemptResult probe_result

definition run_attempt :: "driver \<Rightarrow> probe_phase \<Rightarrow> attempt \<Rightarrow> clock \<Rightarrow> probe_observation option" where
  "run_attempt d phase a ck =
     (let observed = (\<lambda>result.
            Some \<lparr>po_run_id = dr_run_id d, po_pid = dr_pid d, po_phase = phase,
              po_completed_at = ck_instant ck, po_completed_at_ms = ck_ms ck, po_result = result\<rparr>)
      in case a of
           AttemptCancelled \<Rightarrow> None
         | AttemptTimedOut \<Rightarrow> observed (PUnhealthy (Some
             (''probe timed out after '' @ debug_duration (hp_timeout (dr_policy d)))))
         | AttemptResult result \<Rightarrow> observed result)"

text \<open>
  One turn of the driver's loop. \<open>probe\<close> runs the probe of a slot; the clock is read when the
  attempt is over. The result is the observation sent, if any, and the response given.
\<close>

definition driver_step ::
  "(probe_slot \<Rightarrow> attempt) \<Rightarrow> clock \<Rightarrow> driver \<Rightarrow>
   (probe_observation option \<times> (nat \<times> probe_result) option) \<times> driver" where
  "driver_step probe ck d =
     (if dr_cancelled d then ((None, None), d)
      else case dr_commands d of
        UseLiveness # cs \<Rightarrow>
          ((None, None), d\<lparr>dr_commands := cs,
             dr_periodic := (if dr_liveness d then Some (LivenessProbe, Liveness) else None),
             dr_next_probe := ck_instant ck + hp_interval (dr_policy d)\<rparr>)
      | DriverReconcile response # cs \<Rightarrow>
          let slot = (if dr_liveness d then LivenessProbe else ReadinessProbe);
              obs = run_attempt d Reconcile (probe slot) ck
          in ((obs, map_option (\<lambda>o'. (response, po_result o')) obs), d\<lparr>dr_commands := cs\<rparr>)
      | [] \<Rightarrow>
          (case dr_periodic d of
             Some (slot, phase) \<Rightarrow>
               if dr_next_probe d \<le> ck_instant ck
               then ((run_attempt d phase (probe slot) ck, None),
                     d\<lparr>dr_next_probe := ck_instant ck + hp_interval (dr_policy d)\<rparr>)
               else ((None, None), d)
           | None \<Rightarrow> ((None, None), d)))"

section \<open>The monitor loop\<close>

text \<open>The payload of the external crate: its exit code and its \<^verbatim>\<open>Debug\<close> text.\<close>

record terminated_payload =
  tp_code :: "int option"
  tp_debug :: string

record run_state =
  rs_run_id :: u64
  rs_pid :: u32
  rs_ack_attempted :: bool
  rs_ready :: bool
  rs_tracker :: health_tracker

record monitor =
  mn_options :: instance_options
  mn_liveness :: bool
  mn_initial_deadline :: nat
  mn_ever_ready :: bool
  mn_timeout_fired :: bool
  mn_probes_cancelled :: bool
  mn_next_run_id :: u64
  mn_current :: "run_state option"
  mn_driver :: "driver option"
  mn_respawn_deadline :: "nat option"
  mn_last_exit :: "terminated_payload option"

definition monitor_new :: "instance_options \<Rightarrow> bool \<Rightarrow> nat \<Rightarrow> monitor" where
  "monitor_new options liveness initial_deadline =
     \<lparr>mn_options = options, mn_liveness = liveness, mn_initial_deadline = initial_deadline,
      mn_ever_ready = False, mn_timeout_fired = False, mn_probes_cancelled = False,
      mn_next_run_id = 0, mn_current = None, mn_driver = None, mn_respawn_deadline = None,
      mn_last_exit = None\<rparr>"

text \<open>Stopping the driver ends its task; the handle is gone.\<close>

definition stop_probe_driver :: "monitor \<Rightarrow> monitor" where
  "stop_probe_driver m = m\<lparr>mn_driver := None\<rparr>"

definition reset_starting_health :: "int \<Rightarrow> health_status option \<Rightarrow> health_status" where
  "reset_starting_health now previous =
     \<lparr>hs_state = HStarting,
      hs_changed_at = (case previous of
          Some status \<Rightarrow> if hs_state status = HStarting then hs_changed_at status else now
        | None \<Rightarrow> now),
      hs_consecutive_failures = 0, hs_last_error = None, hs_last_success_at = None\<rparr>"

fun health_state_of :: "tracker_state \<Rightarrow> health_state" where
  "health_state_of TStarting = HStarting"
| "health_state_of THealthy = HHealthy"
| "health_state_of TUnhealthy = HUnhealthy"

definition observed_health ::
  "health_status option \<Rightarrow> tracker_update \<Rightarrow> probe_observation \<Rightarrow> health_status" where
  "observed_health previous update obs =
     (let state = health_state_of (tu_state update)
      in \<lparr>hs_state = state,
          hs_changed_at = (case previous of
              Some status \<Rightarrow> if hs_state status = state then hs_changed_at status
                else po_completed_at_ms obs
            | None \<Rightarrow> po_completed_at_ms obs),
          hs_consecutive_failures = tu_consecutive_failures update,
          hs_last_error = tu_last_error update,
          hs_last_success_at = (if is_healthy (po_result obs) then Some (po_completed_at_ms obs)
            else Option.bind previous hs_last_success_at)\<rparr>)"

definition observation_applies :: "probe_observation \<Rightarrow> run_state \<Rightarrow> bool" where
  "observation_applies obs run \<longleftrightarrow> po_run_id obs = rs_run_id run \<and> po_pid obs = rs_pid run"

text \<open>
  \<open>ack\<close> is what the supervisor answers to \<^verbatim>\<open>acknowledge_ready\<close>; without a supervisor the answer
  is no. The first result says whether the instance became ready.
\<close>

definition apply_probe_observation ::
  "probe_observation \<Rightarrow> bool \<Rightarrow> monitor \<times> shared \<Rightarrow> bool \<times> monitor \<times> shared" where
  "apply_probe_observation obs ack ms =
     (case ms of (m, sh) \<Rightarrow>
       case mn_current m of
         None \<Rightarrow> (False, m, sh)
       | Some run \<Rightarrow>
           if \<not> observation_applies obs run then (False, m, sh)
           else if (\<not> mn_ever_ready m \<and> mn_initial_deadline m < po_completed_at obs) \<or>
             (case mn_respawn_deadline m of Some d \<Rightarrow> d < po_completed_at obs | None \<Rightarrow> False)
           then (False, m, sh)
           else let (update, tracker) = observe (rs_tracker run) (po_completed_at obs) (po_result obs);
                    run = run\<lparr>rs_tracker := tracker\<rparr>;
                    health = Some (observed_health (ist_health (sh_status sh)) update obs)
                in if \<not> rs_ack_attempted run \<and> tu_state update = THealthy
                   then let run = run\<lparr>rs_ack_attempted := True\<rparr>;
                            acknowledged = (sh_supervisor sh \<and> ack)
                        in if acknowledged
                           then (True,
                             m\<lparr>mn_ever_ready := True, mn_respawn_deadline := None,
                               mn_current := Some (run\<lparr>rs_ready := True\<rparr>),
                               mn_driver := map_option use_liveness (mn_driver m)\<rparr>,
                             shared_publish_status
                               \<lparr>ist_state = IRunning (rs_pid run), ist_health = health\<rparr> sh)
                           else (False, m\<lparr>mn_current := Some run\<rparr>, sh)
                   else (False, m\<lparr>mn_current := Some run\<rparr>,
                     shared_publish_status
                       \<lparr>ist_state = ist_state (sh_status sh), ist_health = health\<rparr> sh))"

fun drain_probe_observations ::
  "(probe_observation \<times> bool) list \<Rightarrow> monitor \<times> shared \<Rightarrow> bool \<times> monitor \<times> shared" where
  "drain_probe_observations [] ms = (False, ms)"
| "drain_probe_observations ((obs, ack) # os) ms =
     (case apply_probe_observation obs ack ms of
        (became_ready, ms') \<Rightarrow>
          if became_ready then (True, ms') else drain_probe_observations os ms')"

fun debug_last_exit :: "terminated_payload option \<Rightarrow> string" where
  "debug_last_exit None = ''None''"
| "debug_last_exit (Some p) = ''Some('' @ tp_debug p @ '')''"

definition publish_terminal :: "terminated_payload option \<Rightarrow> shared \<Rightarrow> shared" where
  "publish_terminal last_exit sh =
     (let sh = flush_log_record sh;
          (reason, sh) =
            (if sh_user_stop sh then (User, sh)
             else if sh_probe_timeout sh
             then apfst (\<lambda>tail. StopError (''health probe timed out'' @ [NL] @ tail)) (diagnostics sh)
             else if (case last_exit of Some p \<Rightarrow> tp_code p = Some 0 | None \<Rightarrow> False)
             then (Finished, sh)
             else apfst (\<lambda>tail. StopError (''core exited unexpectedly ('' @
               debug_last_exit last_exit @ '')'' @ [NL] @ tail)) (diagnostics sh))
      in shared_publish_status \<lparr>ist_state = IStopped reason, ist_health = None\<rparr> sh)"

definition publish_gave_up :: "shared \<Rightarrow> shared" where
  "publish_gave_up sh =
     (case diagnostics sh of
        (tail, sh) \<Rightarrow> shared_publish_status
          \<lparr>ist_state = IStopped (StopError
             (''core kept crashing; restart budget exhausted'' @ [NL] @ tail)),
           ist_health = None\<rparr> sh)"

text \<open>
  One event per branch of the \<^verbatim>\<open>select!\<close>; \<open>MOther\<close> is any other supervisor event and \<open>MClosed\<close> the
  end of the supervisor's channel. A deadline comes with the observations that are waiting.
\<close>

datatype mon_event =
    MProbeCancelled
  | MStarted u32
  | MRestarting u32
  | MExited terminated_payload
  | MGaveUp
  | MStopped
  | MOther
  | MClosed
  | MInitialDeadline "(probe_observation \<times> bool) list"
  | MRespawnDeadline "(probe_observation \<times> bool) list"
  | MProbeRequest nat
  | MObservation probe_observation bool

definition monitor_started :: "clock \<Rightarrow> u32 \<Rightarrow> monitor \<times> shared \<Rightarrow> monitor \<times> shared" where
  "monitor_started ck pid ms =
     (case ms of (m, sh) \<Rightarrow>
       let run_id = saturating_add (mn_next_run_id m) 1;
           status = sh_status sh
       in (m\<lparr>mn_next_run_id := run_id,
             mn_current := Some \<lparr>rs_run_id = run_id, rs_pid = pid, rs_ack_attempted = False,
               rs_ready = False,
               rs_tracker = health_tracker_new (io_health (mn_options m)) (ck_instant ck)\<rparr>,
             mn_respawn_deadline := (if mn_ever_ready m
               then Some (ck_instant ck + io_startup_timeout (mn_options m)) else None),
             mn_driver := (if mn_probes_cancelled m then None
               else Some (driver_start run_id pid (mn_liveness m) (io_health (mn_options m))
                 (ck_instant ck)))\<rparr>,
           shared_publish_status
             \<lparr>ist_state = ist_state status,
              ist_health = Some (reset_starting_health (ck_ms ck) (ist_health status))\<rparr> sh))"

definition fire_timeout :: "monitor \<times> shared \<Rightarrow> monitor \<times> shared" where
  "fire_timeout ms =
     (case ms of (m, sh) \<Rightarrow>
       (stop_probe_driver (m\<lparr>mn_current := None, mn_respawn_deadline := None\<rparr>),
        sh\<lparr>sh_probe_timeout := True, sh_probe_cancelled := True, sh_cancelled := True\<rparr>))"

definition initial_deadline_step ::
  "clock \<Rightarrow> (probe_observation \<times> bool) list \<Rightarrow> monitor \<times> shared \<Rightarrow> monitor \<times> shared" where
  "initial_deadline_step ck obs ms =
     (if mn_ever_ready (fst ms) \<or> mn_timeout_fired (fst ms) \<or>
         ck_instant ck < mn_initial_deadline (fst ms) then ms
      else case drain_probe_observations obs ms of
        (became_ready, m, sh) \<Rightarrow>
          if \<not> became_ready \<and> \<not> mn_ever_ready m
          then fire_timeout (m\<lparr>mn_timeout_fired := True\<rparr>, sh) else (m, sh))"

definition respawn_deadline_step ::
  "clock \<Rightarrow> (probe_observation \<times> bool) list \<Rightarrow> monitor \<times> shared \<Rightarrow> monitor \<times> shared" where
  "respawn_deadline_step ck obs ms =
     (case mn_respawn_deadline (fst ms) of
        None \<Rightarrow> ms
      | Some deadline \<Rightarrow>
          if ck_instant ck < deadline then ms
          else case drain_probe_observations obs ms of
            (became_ready, m, sh) \<Rightarrow>
              if \<not> became_ready \<and> mn_respawn_deadline m \<noteq> None then fire_timeout (m, sh)
              else (m, sh))"

text \<open>The answer to a probe request: at once, or when the driver has run the probe.\<close>

datatype probe_reply = Replied probe_result | Forwarded

definition probe_request :: "nat \<Rightarrow> monitor \<Rightarrow> probe_reply \<times> monitor" where
  "probe_request response m =
     (if case mn_current m of Some run \<Rightarrow> rs_ready run | None \<Rightarrow> False
      then (case mn_driver m of
              Some d \<Rightarrow> (Forwarded, m\<lparr>mn_driver := Some (driver_reconcile response d)\<rparr>)
            | None \<Rightarrow> (Replied (PUnhealthy (Some ''instance probe driver is not running'')), m))
      else (Replied (PUnhealthy (Some ''instance is not running'')), m))"

definition monitor_step ::
  "clock \<Rightarrow> mon_event \<Rightarrow> monitor \<times> shared \<Rightarrow> monitor option \<times> shared" where
  "monitor_step ck e ms =
     (case ms of (m, sh) \<Rightarrow>
       case e of
         MProbeCancelled \<Rightarrow>
           if sh_probe_cancelled sh \<and> \<not> mn_probes_cancelled m
           then (Some (stop_probe_driver (m\<lparr>mn_probes_cancelled := True, mn_current := None,
                   mn_respawn_deadline := None\<rparr>)), sh)
           else (Some m, sh)
       | MStarted pid \<Rightarrow> apfst Some (monitor_started ck pid (m, sh))
       | MRestarting attempt \<Rightarrow>
           (Some (stop_probe_driver (m\<lparr>mn_current := None, mn_respawn_deadline := None\<rparr>)),
            shared_publish_status
              \<lparr>ist_state = IRestarting attempt,
               ist_health = Some (reset_starting_health (ck_ms ck) (ist_health (sh_status sh)))\<rparr> sh)
       | MExited payload \<Rightarrow>
           (Some (stop_probe_driver (m\<lparr>mn_current := None, mn_respawn_deadline := None,
              mn_last_exit := Some payload\<rparr>)), sh)
       | MGaveUp \<Rightarrow> (None, publish_gave_up sh)
       | MStopped \<Rightarrow> (None, publish_terminal (mn_last_exit m) sh)
       | MOther \<Rightarrow> (Some m, sh)
       | MClosed \<Rightarrow> (None, publish_terminal (mn_last_exit m) sh)
       | MInitialDeadline obs \<Rightarrow> apfst Some (initial_deadline_step ck obs (m, sh))
       | MRespawnDeadline obs \<Rightarrow> apfst Some (respawn_deadline_step ck obs (m, sh))
       | MProbeRequest response \<Rightarrow> (Some (snd (probe_request response m)), sh)
       | MObservation obs ack \<Rightarrow> apfst Some (snd (apply_probe_observation obs ack (m, sh))))"


text \<open>
  What happens to an instance: an event of its monitor, which counts only while the loop runs,
  or an output line of its process.
\<close>

datatype inst_event = EMon clock mon_event | EOut observed process_event

fun inst_step ::
  "chrono \<Rightarrow> monitor option \<times> shared \<Rightarrow> inst_event \<Rightarrow> monitor option \<times> shared" where
  "inst_step ch (mo, sh) (EOut obs e) = (mo, on_process_event ch obs e sh)"
| "inst_step ch (Some m, sh) (EMon ck e) = monitor_step ck e (m, sh)"
| "inst_step ch (None, sh) (EMon ck e) = (None, sh)"

end
