(* ===== verification/Yaml.thy ===== *)
theory Yaml
  imports Core_State "HOL-Library.AList" "HOL-Library.Char_ord" "HOL-Library.List_Lexorder"
begin

text \<open>
  The document values of the external crate \<^verbatim>\<open>serde_yaml_ng\<close> as the source uses them: its
  \<^verbatim>\<open>Value\<close>, the \<^verbatim>\<open>Mapping\<close> (an insertion-ordered map, so an association list with distinct
  keys) and the accessors, which look through tags. \<open>value_eq\<close> is Rust's \<^verbatim>\<open>==\<close> on values: mappings
  are equal when they have the same entries in any order, and a float is its 64 bits, compared as
  numbers except that NaN equals itself. \<open>value_eq_by\<close> leaves the comparison of numbers open; at
  \<open>(=)\<close> it says that two documents differ only in the order of mapping entries.
\<close>

section \<open>Definitions\<close>

datatype number = PosInt u64 | NegInt int | Float u64

datatype yaml =
    YNull
  | YBool bool
  | YNumber number
  | YString string
  | YSequence "yaml list"
  | YMapping "(yaml \<times> yaml) list"
  | YTagged string yaml

type_synonym mapping = "(yaml \<times> yaml) list"

definition float_is_nan :: "u64 \<Rightarrow> bool" where
  "float_is_nan b \<longleftrightarrow> 2047 * 2 ^ 52 < unat b mod 2 ^ 63"

definition float_is_zero :: "u64 \<Rightarrow> bool" where
  "float_is_zero b \<longleftrightarrow> unat b mod 2 ^ 63 = 0"

fun number_eq :: "number \<Rightarrow> number \<Rightarrow> bool" where
  "number_eq (PosInt a) (PosInt b) \<longleftrightarrow> a = b"
| "number_eq (NegInt a) (NegInt b) \<longleftrightarrow> a = b"
| "number_eq (Float a) (Float b) \<longleftrightarrow>
     a = b \<or> float_is_nan a \<and> float_is_nan b \<or> float_is_zero a \<and> float_is_zero b"
| "number_eq _ _ \<longleftrightarrow> False"

fun value_eq_by :: "(number \<Rightarrow> number \<Rightarrow> bool) \<Rightarrow> yaml \<Rightarrow> yaml \<Rightarrow> bool" where
  "value_eq_by e YNull w \<longleftrightarrow> w = YNull"
| "value_eq_by e (YBool a) w \<longleftrightarrow> w = YBool a"
| "value_eq_by e (YNumber a) w \<longleftrightarrow> (case w of YNumber b \<Rightarrow> e a b | _ \<Rightarrow> False)"
| "value_eq_by e (YString a) w \<longleftrightarrow> w = YString a"
| "value_eq_by e (YSequence xs) w \<longleftrightarrow>
     (case w of YSequence ys \<Rightarrow> list_all2 (value_eq_by e) xs ys | _ \<Rightarrow> False)"
| "value_eq_by e (YMapping m) w \<longleftrightarrow>
     (case w of YMapping n \<Rightarrow> length m = length n \<and>
        list_all (\<lambda>(k, v). list_ex (\<lambda>(k', v'). value_eq_by e k k' \<and> value_eq_by e v v') n) m
      | _ \<Rightarrow> False)"
| "value_eq_by e (YTagged t v) w \<longleftrightarrow>
     (case w of YTagged t' v' \<Rightarrow> t = t' \<and> value_eq_by e v v' | _ \<Rightarrow> False)"

definition value_eq :: "yaml \<Rightarrow> yaml \<Rightarrow> bool" where
  "value_eq = value_eq_by number_eq"

fun untag_ref :: "yaml \<Rightarrow> yaml" where
  "untag_ref (YTagged _ v) = untag_ref v"
| "untag_ref v = v"

definition as_str :: "yaml \<Rightarrow> string option" where
  "as_str v = (case untag_ref v of YString s \<Rightarrow> Some s | _ \<Rightarrow> None)"

definition as_bool :: "yaml \<Rightarrow> bool option" where
  "as_bool v = (case untag_ref v of YBool b \<Rightarrow> Some b | _ \<Rightarrow> None)"

definition as_mapping :: "yaml \<Rightarrow> mapping option" where
  "as_mapping v = (case untag_ref v of YMapping m \<Rightarrow> Some m | _ \<Rightarrow> None)"

definition is_null :: "yaml \<Rightarrow> bool" where
  "is_null v \<longleftrightarrow> untag_ref v = YNull"

definition as_i64 :: "yaml \<Rightarrow> int option" where
  "as_i64 v = (case untag_ref v of
       YNumber (PosInt n) \<Rightarrow> if unat n < 2 ^ 63 then Some (uint n) else None
     | YNumber (NegInt i) \<Rightarrow> Some i
     | _ \<Rightarrow> None)"

text \<open>Lookup, insertion (in place when the key is present) and removal (the last entry moves into
  the hole) with a string key.\<close>

definition mapping_get :: "mapping \<Rightarrow> string \<Rightarrow> yaml option" where
  "mapping_get m k = map_of m (YString k)"

definition mapping_insert :: "string \<Rightarrow> yaml \<Rightarrow> mapping \<Rightarrow> mapping" where
  "mapping_insert k v m = AList.update (YString k) v m"

fun mapping_remove :: "string \<Rightarrow> mapping \<Rightarrow> mapping" where
  "mapping_remove k [] = []"
| "mapping_remove k (e # m) =
     (if fst e = YString k then (if m = [] then [] else last m # butlast m)
      else e # mapping_remove k m)"

definition mapping_keys :: "mapping \<Rightarrow> string list" where
  "mapping_keys m = List.map_filter (as_str \<circ> fst) m"

section \<open>Well-formed and canonical values\<close>

text \<open>Every mapping has string keys, without duplicates, and no value is tagged.\<close>

fun is_ystring :: "yaml \<Rightarrow> bool" where
  "is_ystring (YString _) = True"
| "is_ystring _ = False"

fun plain :: "yaml \<Rightarrow> bool" where
  "plain (YSequence xs) \<longleftrightarrow> list_all plain xs"
| "plain (YMapping m) \<longleftrightarrow>
     distinct (map fst m) \<and> list_all (\<lambda>(k, v). is_ystring k \<and> plain v) m"
| "plain (YTagged _ _) \<longleftrightarrow> False"
| "plain _ \<longleftrightarrow> True"

section \<open>Lemmas\<close>

lemma is_ystring_iff: "is_ystring k \<longleftrightarrow> (\<exists>s. k = YString s)"
  by (cases k) auto

lemma number_eq_refl [simp]: "number_eq a a"
  by (cases a) auto

lemma number_eq_sym: "number_eq a b \<Longrightarrow> number_eq b a"
  by (induction a b rule: number_eq.induct) auto

lemma value_eq_by_refl [simp]: "(\<And>n. e n n) \<Longrightarrow> value_eq_by e v v"
proof (induction v)
  case (YSequence xs)
  then show ?case by (auto simp: list_all2_conv_all_nth)
next
  case (YMapping m)
  then show ?case by (fastforce simp: list_all_iff list_ex_iff)
qed simp_all

lemma value_eq_refl [simp]: "value_eq v v"
  by (simp add: value_eq_def)

lemma untag_plain [simp]: "plain v \<Longrightarrow> untag_ref v = v"
  by (cases v) auto

lemma accessor_simps [simp]:
  "as_mapping (YMapping m) = Some m" "as_str (YString s) = Some s" "as_bool (YBool b) = Some b"
  by (simp_all add: as_mapping_def as_str_def as_bool_def)

lemma mapping_get_None: "mapping_get m k = None \<longleftrightarrow> YString k \<notin> fst ` set m"
  by (simp add: mapping_get_def map_of_eq_None_iff)

lemma mapping_get_insert:
  "mapping_get (mapping_insert k v m) j = (if j = k then Some v else mapping_get m j)"
  by (auto simp: mapping_get_def mapping_insert_def update_conv)

lemma mapping_get_plain:
  "plain (YMapping m) \<Longrightarrow> mapping_get m k = Some v \<Longrightarrow> plain v"
  by (auto simp: mapping_get_def list_all_iff dest!: map_of_SomeD)

lemma plain_keys:
  assumes "plain (YMapping m)" and "(k, v) \<in> set m"
  obtains s where "k = YString s"
  using assms by (auto simp: list_all_iff is_ystring_iff)

lemma mapping_get_in:
  "plain (YMapping m) \<Longrightarrow> mapping_get m k = Some v \<longleftrightarrow> (YString k, v) \<in> set m"
  by (auto simp: mapping_get_def)

lemma set_mapping_keys:
  "plain (YMapping m) \<Longrightarrow> set (mapping_keys m) = {k. mapping_get m k \<noteq> None}"
proof -
  assume p: "plain (YMapping m)"
  then have "list_all (\<lambda>(k, v). \<exists>s. k = YString s) m"
    by (auto simp: list_all_iff is_ystring_iff)
  then have "k \<in> set (mapping_keys m) \<longleftrightarrow> (\<exists>v. (YString k, v) \<in> set m)" for k
  proof (induction m)
    case Nil
    then show ?case by (simp add: mapping_keys_def map_filter_simps)
  next
    case (Cons e m)
    then show ?case
      by (cases e) (auto simp: mapping_keys_def map_filter_simps as_str_def)
  qed
  then show ?thesis
    using p by (auto simp: mapping_get_in)
qed

lemma plain_insert: "plain (YMapping m) \<Longrightarrow> plain v \<Longrightarrow> plain (YMapping (mapping_insert k v m))"
proof -
  assume p: "plain (YMapping m)" and v: "plain v"
  have "distinct (map fst (AList.update (YString k) v m))"
    using p by (simp add: distinct_update)
  moreover have "set (AList.update (YString k) v m) \<subseteq> insert (YString k, v) (set m)"
    by (induction m) auto
  ultimately show ?thesis
    using p v by (fastforce simp: mapping_insert_def list_all_iff)
qed

lemma set_mapping_remove:
  "distinct (map fst m) \<Longrightarrow> set (mapping_remove k m) = {e \<in> set m. fst e \<noteq> YString k} \<and>
     distinct (map fst (mapping_remove k m))"
proof (induction m)
  case Nil
  then show ?case by simp
next
  case (Cons e m)
  show ?case
  proof (cases "fst e = YString k")
    case True
    show ?thesis
    proof (cases m rule: rev_cases)
      case Nil
      with True show ?thesis by simp
    next
      case (snoc a l)
      with True Cons.prems show ?thesis by (auto simp: image_iff)
    qed
  next
    case False
    with Cons show ?thesis by auto
  qed
qed

end
