(* ===== verification/Canonical.thy ===== *)
theory Canonical
  imports Yaml "HOL-Library.Multiset"
begin

text \<open>
  The schema-agnostic half of \<^verbatim>\<open>config/mod.rs\<close>: \<open>canonicalize\<close> and \<open>semantic_hash\<close>. A document is
  accepted exactly when it is \<open>strict\<close> (string keys, no tags); the result is canonical (keys sorted by
  their bytes, at every level), is equal to the input as a document, and depends only on the
  document up to the order of its mapping entries. The hash is FNV-1a on 64-bit words; each of
  its steps is a bijection of the accumulator, so documents that differ in one byte never
  collide.
\<close>

section \<open>Definitions\<close>

definition string_keys_error :: error where
  "string_keys_error = InvalidConfig ''all YAML mapping keys must be strings''"

definition tagged_error :: error where
  "tagged_error = InvalidConfig ''tagged YAML values are not supported in runtime configs''"

text \<open>The second loop of the mapping case: the sorted entries are inserted one after another.\<close>

definition collect_entries :: "(string \<times> yaml) list \<Rightarrow> mapping" where
  "collect_entries es = foldl (\<lambda>m (k, v). mapping_insert k v m) [] (sort_key fst es)"

fun canonicalize :: "yaml \<Rightarrow> error + yaml"
  and canonicalize_entries :: "mapping \<Rightarrow> error + (string \<times> yaml) list"
  and canonicalize_all :: "yaml list \<Rightarrow> error + yaml list" where
  "canonicalize (YMapping m) = map_sum id (YMapping \<circ> collect_entries) (canonicalize_entries m)"
| "canonicalize (YSequence xs) = map_sum id YSequence (canonicalize_all xs)"
| "canonicalize (YTagged t v) = Inl tagged_error"
| "canonicalize YNull = Inr YNull"
| "canonicalize (YBool b) = Inr (YBool b)"
| "canonicalize (YNumber n) = Inr (YNumber n)"
| "canonicalize (YString s) = Inr (YString s)"
| "canonicalize_entries [] = Inr []"
| "canonicalize_entries ((k, v) # m) =
     (case k of
        YString key \<Rightarrow>
          (case canonicalize v of Inl e \<Rightarrow> Inl e
           | Inr v' \<Rightarrow> map_sum id (\<lambda>es. (key, v') # es) (canonicalize_entries m))
      | _ \<Rightarrow> Inl string_keys_error)"
| "canonicalize_all [] = Inr []"
| "canonicalize_all (x # xs) =
     (case canonicalize x of Inl e \<Rightarrow> Inl e
      | Inr x' \<Rightarrow> map_sum id (\<lambda>ys. x' # ys) (canonicalize_all xs))"

definition fnv_step :: "u64 \<Rightarrow> char \<Rightarrow> u64" where
  "fnv_step h c = (Bit_Operations.xor h (word_of_nat (of_char c))) * 0x100000001b3"

definition hex_digit :: "nat \<Rightarrow> char" where
  "hex_digit n = (if n < 10 then char_of (48 + n) else char_of (87 + n))"

fun hex_digits :: "nat \<Rightarrow> nat \<Rightarrow> string" where
  "hex_digits 0 n = []"
| "hex_digits (Suc w) n = hex_digits w (n div 16) @ [hex_digit (n mod 16)]"

definition semantic_hash :: "string \<Rightarrow> string" where
  "semantic_hash bytes = hex_digits 16 (unat (foldl fnv_step 0xcbf29ce484222325 bytes))"

section \<open>What canonical means\<close>

text \<open>Documents without tags and with string keys only; the keys may still be in any order.\<close>

fun strict :: "yaml \<Rightarrow> bool" where
  "strict (YSequence xs) \<longleftrightarrow> list_all strict xs"
| "strict (YMapping m) \<longleftrightarrow>
     list_all (\<lambda>(k, v). is_ystring k \<and> strict v) m"
| "strict (YTagged _ _) \<longleftrightarrow> False"
| "strict _ \<longleftrightarrow> True"

fun key_text :: "yaml \<Rightarrow> string" where
  "key_text (YString s) = s"
| "key_text _ = []"

fun canonical :: "yaml \<Rightarrow> bool" where
  "canonical (YSequence xs) \<longleftrightarrow> list_all canonical xs"
| "canonical (YMapping m) \<longleftrightarrow>
     sorted_wrt (<) (map (key_text \<circ> fst) m) \<and>
     list_all (\<lambda>(k, v). is_ystring k \<and> canonical v) m"
| "canonical (YTagged _ _) \<longleftrightarrow> False"
| "canonical _ \<longleftrightarrow> True"

section \<open>Lemmas on canonicalization\<close>

abbreviation yentries :: "(string \<times> yaml) list \<Rightarrow> mapping" where
  "yentries \<equiv> map (\<lambda>(k, v). (YString k, v))"

lemma update_append_new:
  "k \<notin> fst ` set m \<Longrightarrow> AList.update k v m = m @ [(k, v)]"
  by (induction m) auto

lemma fold_insert_distinct:
  "distinct (map fst es) \<Longrightarrow> YString ` fst ` set es \<inter> fst ` set m = {} \<Longrightarrow>
     foldl (\<lambda>m (k, v). mapping_insert k v m) m es = m @ yentries es"
proof (induction es arbitrary: m)
  case Nil
  then show ?case by simp
next
  case (Cons e es)
  obtain k v where e: "e = (k, v)" by (cases e)
  have "mapping_insert k v m = m @ [(YString k, v)]"
    using Cons.prems e by (auto simp: mapping_insert_def update_append_new)
  moreover have "YString ` fst ` set es \<inter> fst ` set (m @ [(YString k, v)]) = {}"
    using Cons.prems e by (auto simp: image_iff)
  ultimately show ?case
    using Cons.IH [of "m @ [(YString k, v)]"] Cons.prems e by simp
qed

lemma distinct_sort_keys:
  "distinct (map fst es) \<Longrightarrow> distinct (map fst (sort_key fst es))"
  by (metis mset_eq_imp_distinct_iff mset_map mset_sort)

lemma collect_entries_distinct:
  "distinct (map fst es) \<Longrightarrow> collect_entries es = yentries (sort_key fst es)"
  by (simp add: collect_entries_def fold_insert_distinct distinct_sort_keys)

text \<open>The value \<open>canonicalize\<close> returns on a document it accepts.\<close>

fun canon :: "yaml \<Rightarrow> yaml" where
  "canon (YMapping m) = YMapping (collect_entries (map (\<lambda>(k, v). (key_text k, canon v)) m))"
| "canon (YSequence xs) = YSequence (map canon xs)"
| "canon v = v"

lemma canonicalize_canon:
  "strict v \<Longrightarrow> canonicalize v = Inr (canon v)"
  "strict (YMapping m) \<Longrightarrow>
     canonicalize_entries m = Inr (map (\<lambda>(k, v). (key_text k, canon v)) m)"
  "strict (YSequence xs) \<Longrightarrow> canonicalize_all xs = Inr (map canon xs)"
  by (induction v and m and xs rule: canonicalize_canonicalize_entries_canonicalize_all.induct)
    (auto split: yaml.splits)

lemma canonicalize_strict:
  "canonicalize v = Inr w \<Longrightarrow> strict v"
  "canonicalize_entries m = Inr es \<Longrightarrow> strict (YMapping m)"
  "canonicalize_all xs = Inr ys \<Longrightarrow> strict (YSequence xs)"
  by (induction v and m and xs arbitrary: w and es and ys
      rule: canonicalize_canonicalize_entries_canonicalize_all.induct)
    (auto split: yaml.splits sum.splits)

lemma canonicalize_invalid:
  "canonicalize v = Inl e \<Longrightarrow> \<exists>msg. e = InvalidConfig msg"
  "canonicalize_entries m = Inl e \<Longrightarrow> \<exists>msg. e = InvalidConfig msg"
  "canonicalize_all xs = Inl e \<Longrightarrow> \<exists>msg. e = InvalidConfig msg"
  by (induction v and m and xs rule: canonicalize_canonicalize_entries_canonicalize_all.induct)
    (auto simp: string_keys_error_def tagged_error_def split: yaml.splits sum.splits)

lemma canonicalize_Inr_iff: "canonicalize v = Inr w \<longleftrightarrow> strict v \<and> w = canon v"
  using canonicalize_canon(1) [of v] canonicalize_strict(1) [of v] by auto

lemma plain_strict: "plain v \<Longrightarrow> strict v"
  by (induction v rule: plain.induct) (auto simp: list_all_iff)

lemma keys_distinct:
  "plain (YMapping m) \<Longrightarrow> distinct (map fst (map (\<lambda>(k, v). (key_text k, g v)) m))"
proof -
  assume p: "plain (YMapping m)"
  have "map fst (map (\<lambda>(k, v). (key_text k, g v)) m) = map key_text (map fst m)"
    by auto
  moreover have "inj_on key_text (set (map fst m))"
  proof (rule inj_onI)
    fix j k assume "j \<in> set (map fst m)" and "k \<in> set (map fst m)" and "key_text j = key_text k"
    then show "j = k" by (auto elim!: plain_keys [OF p])
  qed
  ultimately show ?thesis
    using p by (simp only: distinct_map [of key_text]) simp
qed

lemma canon_mapping:
  "plain (YMapping m) \<Longrightarrow>
     canon (YMapping m) = YMapping (yentries (sort_key fst (map (\<lambda>(k, v). (key_text k, canon v)) m)))"
  using keys_distinct [of m canon] by (simp add: collect_entries_distinct)

lemma sorted_distinct_less: "distinct xs \<Longrightarrow> sorted xs \<Longrightarrow> sorted_wrt (<) (xs :: 'a::linorder list)"
  by (simp add: strict_sorted_iff)

lemma canonical_canon: "plain v \<Longrightarrow> canonical (canon v)"
proof (induction v)
  case (YMapping m)
  let ?es = "map (\<lambda>(k, v). (key_text k, canon v)) m"
  have c: "canonical (canon v)" if "(k, v) \<in> set m" for k v
    using YMapping that by (fastforce simp: list_all_iff)
  have "distinct (map fst (sort_key fst ?es))"
    using keys_distinct [OF YMapping.prems, of canon] by (rule distinct_sort_keys)
  then have "sorted_wrt (<) (map fst (sort_key fst ?es))"
    by (intro sorted_distinct_less sorted_sort_key)
  then show ?case
    using c unfolding canon_mapping [OF YMapping.prems]
    by (auto simp: list_all_iff comp_def case_prod_beta)
qed (auto simp: list_all_iff)

lemma canonical_plain: "canonical v \<Longrightarrow> plain v"
proof (induction v)
  case (YMapping m)
  have "distinct (map (key_text \<circ> fst) m)"
    using YMapping.prems by (simp add: strict_sorted_iff)
  then have "distinct (map fst m)"
    by (simp add: distinct_map inj_on_def)
  with YMapping show ?case by (fastforce simp: list_all_iff)
qed (auto simp: list_all_iff)

lemma canon_canonical: "canonical v \<Longrightarrow> canon v = v"
proof (induction v)
  case (YMapping m)
  let ?es = "map (\<lambda>(k, v). (key_text k, canon v)) m"
  have "sorted (map fst ?es)"
    using YMapping.prems by (simp add: strict_sorted_iff comp_def case_prod_beta)
  then have "sort_key fst ?es = ?es"
    by (rule sort_key_id_if_sorted)
  moreover have "yentries ?es = m"
    using YMapping by (fastforce simp: list_all_iff is_ystring_iff intro: map_idI)
  ultimately show ?case
    using canon_mapping [OF canonical_plain [OF YMapping.prems]] by simp
next
  case (YSequence xs)
  then show ?case by (auto simp: list_all_iff intro: map_idI)
qed auto

lemma sort_key_perm:
  assumes "set es = set fs" and "distinct (map fst es)" and "distinct (map fst fs)"
  shows "sort_key fst es = sort_key fst (fs :: ('a::linorder \<times> 'b) list)"
proof (rule sort_key_inj_key_eq)
  show "mset es = mset (sort_key fst fs)"
    using assms by (simp add: distinct_map set_eq_iff_mset_eq_distinct [symmetric])
  show "inj_on fst (set es)" and "sorted (map fst (sort_key fst fs))"
    using assms by (simp_all add: distinct_map)
qed

text \<open>Two mappings that agree up to order have the same entries.\<close>

lemma value_eq_entries:
  assumes p: "plain (YMapping m)" "plain (YMapping n)"
    and eq: "value_eq_by e (YMapping m) (YMapping n)"
  shows "fst ` set m = fst ` set n"
    and "(k, v) \<in> set m \<Longrightarrow> (k, w) \<in> set n \<Longrightarrow> value_eq_by e v w"
proof -
  have sub: "\<exists>w. (k, w) \<in> set n \<and> value_eq_by e v w" if mem: "(k, v) \<in> set m" for k v
  proof -
    obtain s where k: "k = YString s" using mem by (rule plain_keys [OF p(1)])
    from eq have "list_all (\<lambda>(k, v). list_ex (\<lambda>(k', v'). value_eq_by e k k' \<and> value_eq_by e v v') n) m"
      by simp
    then have "list_ex (\<lambda>(k', v'). value_eq_by e k k' \<and> value_eq_by e v v') n"
      using mem unfolding list_all_iff by blast
    then show ?thesis by (auto simp: list_ex_iff k)
  qed
  then have "fst ` set m \<subseteq> fst ` set n"
    by force
  moreover have "card (fst ` set m) = card (fst ` set n)"
    using p eq distinct_card [of "map fst m"] distinct_card [of "map fst n"] by simp
  ultimately show "fst ` set m = fst ` set n"
    by (simp add: card_subset_eq)
  show "(k, v) \<in> set m \<Longrightarrow> (k, w) \<in> set n \<Longrightarrow> value_eq_by e v w"
    using sub [of k v] p(2) by (auto dest: eq_key_imp_eq_value)
qed

lemma image_entries_subset:
  assumes "fst ` A \<subseteq> fst ` B" and "\<And>k a b. (k, a) \<in> A \<Longrightarrow> (k, b) \<in> B \<Longrightarrow> f (k, a) = f (k, b)"
  shows "f ` A \<subseteq> f ` B"
proof clarify
  fix k a assume "(k, a) \<in> A"
  moreover from this assms(1) obtain b where "(k, b) \<in> B" by force
  ultimately show "f (k, a) \<in> f ` B" using assms(2) [of k a b] by simp
qed

lemma canon_order_insensitive:
  "plain v \<Longrightarrow> plain w \<Longrightarrow> value_eq_by (=) v w \<Longrightarrow> canon v = canon w"
proof (induction v arbitrary: w)
  case (YSequence xs)
  then obtain ys where w: "w = YSequence ys" and all: "list_all2 (value_eq_by (=)) xs ys"
    by (auto split: yaml.splits)
  have "map canon xs = map canon ys"
    using YSequence w all by (auto simp: list_eq_iff_nth_eq list_all2_conv_all_nth list_all_length)
  with w show ?case by simp
next
  case (YMapping m)
  then obtain n where w: "w = YMapping n"
    by (auto split: yaml.splits)
  note p = YMapping.prems(1) YMapping.prems(2) [unfolded w]
  note ent = value_eq_entries [OF p YMapping.prems(3) [unfolded w]]
  let ?f = "\<lambda>(k, v). (key_text k, canon v)"
  have eq: "canon a = canon b" if "(k, a) \<in> set m" "(k, b) \<in> set n" for k a b
  proof (rule YMapping.IH(2) [OF that(1)])
    show "a \<in> Basic_BNFs.snds (k, a)" by simp
    show "plain a" "plain b" using that p by (auto simp: list_all_iff)
    show "value_eq_by (=) a b" by (rule ent(2) [OF that])
  qed
  have "?f ` set m = ?f ` set n"
  proof
    show "?f ` set m \<subseteq> ?f ` set n"
      by (rule image_entries_subset) (use ent(1) eq in auto)
    show "?f ` set n \<subseteq> ?f ` set m"
    proof (rule image_entries_subset)
      fix k a b assume "(k, a) \<in> set n" and "(k, b) \<in> set m"
      then show "?f (k, a) = ?f (k, b)" using eq [of k b a] by simp
    qed (simp add: ent(1))
  qed
  then have "set (map ?f m) = set (map ?f n)"
    by simp
  then have "sort_key fst (map ?f m) = sort_key fst (map ?f n)"
    by (rule sort_key_perm [OF _ keys_distinct [OF p(1)] keys_distinct [OF p(2)]])
  with w show ?case
    by (simp only: canon_mapping [OF p(1)] canon_mapping [OF p(2)])
qed (auto split: yaml.splits)

lemma canon_same_document: "plain v \<Longrightarrow> (\<And>n. e n n) \<Longrightarrow> value_eq_by e v (canon v)"
proof (induction v)
  case (YSequence xs)
  then show ?case by (auto simp: list_all2_conv_all_nth list_all_length)
next
  case (YMapping m)
  let ?n = "yentries (sort_key fst (map (\<lambda>(k, v). (key_text k, canon v)) m))"
  have "list_ex (\<lambda>(k', v'). value_eq_by e k k' \<and> value_eq_by e v v') ?n"
    if mem: "(k, v) \<in> set m" for k v
  proof -
    obtain s where k: "k = YString s" using mem by (rule plain_keys [OF YMapping.prems(1)])
    have "value_eq_by e v (canon v)"
      using YMapping.IH(2) [OF mem, of v] YMapping.prems mem by (auto simp: list_all_iff)
    moreover have "(k, canon v) \<in> set ?n"
      using mem k by force
    ultimately show ?thesis
      unfolding list_ex_iff using k by (intro bexI [of _ "(k, canon v)"]) simp_all
  qed
  then have "list_all (\<lambda>(k, v). list_ex (\<lambda>(k', v'). value_eq_by e k k' \<and> value_eq_by e v v') ?n) m"
    by (auto simp: list_all_iff)
  then show ?case
    unfolding canon_mapping [OF YMapping.prems(1)] by simp
qed auto

section \<open>Lemmas on the hash\<close>

lemma fnv_prime_inverse: "(0x100000001b3 :: u64) * 0xce965057aff6957b = 1"
  by simp

lemma fnv_step_inject: "fnv_step g c = fnv_step h c \<longleftrightarrow> g = h"
proof
  let ?x = "\<lambda>g. Bit_Operations.xor g (word_of_nat (of_char c) :: u64)"
  assume "fnv_step g c = fnv_step h c"
  then have "?x g * 0x100000001b3 * 0xce965057aff6957b = ?x h * 0x100000001b3 * 0xce965057aff6957b"
    by (simp only: fnv_step_def)
  then have "?x g = ?x h"
    by (simp only: mult.assoc fnv_prime_inverse mult_1_right)
  then have "?x (?x g) = ?x (?x h)" by simp
  then show "g = h" by (simp add: xor.assoc)
qed simp

lemma fnv_step_byte: "fnv_step h c = fnv_step h d \<longleftrightarrow> c = d"
proof
  let ?b = "\<lambda>c. word_of_nat (of_char c) :: u64"
  assume "fnv_step h c = fnv_step h d"
  then have "Bit_Operations.xor h (?b c) * 0x100000001b3 * 0xce965057aff6957b =
      Bit_Operations.xor h (?b d) * 0x100000001b3 * 0xce965057aff6957b"
    by (simp only: fnv_step_def)
  then have "Bit_Operations.xor h (?b c) = Bit_Operations.xor h (?b d)"
    by (simp only: mult.assoc fnv_prime_inverse mult_1_right)
  then have "Bit_Operations.xor h (Bit_Operations.xor h (?b c)) =
      Bit_Operations.xor h (Bit_Operations.xor h (?b d))" by simp
  then have "?b c = ?b d" by (simp add: xor.assoc [symmetric])
  then have "(of_char c :: nat) mod 2 ^ 64 = of_char d mod 2 ^ 64"
    by (simp add: of_nat_eq_iff word_of_nat_eq_iff take_bit_eq_mod)
  moreover have "(of_char c :: nat) < 256" "(of_char d :: nat) < 256"
    by simp_all
  ultimately have "(of_char c :: nat) = of_char d" by simp
  then show "c = d" by simp
qed simp

lemma fnv_fold_inject: "foldl fnv_step g xs = foldl fnv_step h xs \<longleftrightarrow> g = h"
  by (induction xs arbitrary: g h) (auto simp: fnv_step_inject)

lemma hex_digit_inject: "m < 16 \<Longrightarrow> n < 16 \<Longrightarrow> hex_digit m = hex_digit n \<longleftrightarrow> m = n"
  by (auto simp: hex_digit_def char_of_eq_iff take_bit_eq_mod split: if_splits)

lemma hex_digits_inject:
  "m < 16 ^ w \<Longrightarrow> n < 16 ^ w \<Longrightarrow> hex_digits w m = hex_digits w n \<longleftrightarrow> m = n"
proof (induction w arbitrary: m n)
  case 0
  then show ?case by simp
next
  case (Suc w)
  have "m div 16 < 16 ^ w" "n div 16 < 16 ^ w"
    using Suc.prems by (simp_all add: less_mult_imp_div_less mult.commute)
  then have "hex_digits (Suc w) m = hex_digits (Suc w) n \<longleftrightarrow> m div 16 = n div 16 \<and> m mod 16 = n mod 16"
    using Suc.IH by (simp add: hex_digit_inject)
  then show ?case by (metis div_mod_decomp)
qed

lemma length_hex_digits [simp]: "length (hex_digits w n) = w"
  by (induction w arbitrary: n) auto

section \<open>Properties\<close>

text \<open>
  C35. Canonicalization fails exactly on a document with a tagged value or a mapping key that is
  not a string, always with \<^verbatim>\<open>Error::InvalidConfig\<close>; and for the documents the YAML parser
  builds (mappings without duplicate keys) it returns the same document with the keys of every
  mapping in strictly ascending byte order, is idempotent, and gives one and the same result on
  documents that differ only in the order of their entries.
\<close>

theorem canonicalize_correct:
  "(strict v \<longleftrightarrow> (\<exists>w. canonicalize v = Inr w)) \<and>
   (\<forall>e. canonicalize v = Inl e \<longrightarrow> (\<exists>msg. e = InvalidConfig msg)) \<and>
   (plain v \<longrightarrow> (\<exists>w. canonicalize v = Inr w \<and> canonical w \<and> value_eq_by (=) v w \<and>
      canonicalize w = Inr w \<and>
      (\<forall>v'. plain v' \<longrightarrow> value_eq_by (=) v v' \<longrightarrow> canonicalize v' = Inr w)))"
proof (intro conjI impI allI)
  show "strict v \<longleftrightarrow> (\<exists>w. canonicalize v = Inr w)"
    by (simp add: canonicalize_Inr_iff)
  show "\<exists>msg. e = InvalidConfig msg" if "canonicalize v = Inl e" for e
    using that by (rule canonicalize_invalid(1))
  assume p: "plain v"
  have c: "canonical (canon v)"
    using p by (rule canonical_canon)
  have "canonicalize (canon v) = Inr (canon v)"
    using c canonical_plain plain_strict by (simp add: canonicalize_Inr_iff canon_canonical)
  moreover have "canonicalize v' = Inr (canon v)" if "plain v'" "value_eq_by (=) v v'" for v'
    using canon_order_insensitive [OF p that] that
    by (simp add: canonicalize_Inr_iff plain_strict)
  moreover have "canonicalize v = Inr (canon v)" and "value_eq_by (=) v (canon v)"
    using p by (simp_all add: canonicalize_Inr_iff plain_strict canon_same_document)
  ultimately show "\<exists>w. canonicalize v = Inr w \<and> canonical w \<and> value_eq_by (=) v w \<and>
      canonicalize w = Inr w \<and>
      (\<forall>v'. plain v' \<longrightarrow> value_eq_by (=) v v' \<longrightarrow> canonicalize v' = Inr w)"
    using c by blast
qed

definition sample_document :: yaml where
  "sample_document = YMapping [(YString ''mode'', YString ''rule''),
     (YString ''dns'', YMapping [(YString ''enable'', YBool True)])]"

definition sample_reordered :: yaml where
  "sample_reordered = YMapping [(YString ''dns'', YMapping [(YString ''enable'', YBool True)]),
     (YString ''mode'', YString ''rule'')]"

theorem canonicalize_correct_witness:
  "\<exists>w. canonicalize sample_document = Inr w \<and> canonical w \<and> canonicalize sample_reordered = Inr w"
proof -
  have p: "plain sample_document" "plain sample_reordered"
    by (simp_all add: sample_document_def sample_reordered_def)
  have "value_eq_by (=) sample_document sample_reordered"
    by (simp add: sample_document_def sample_reordered_def)
  then show ?thesis
    using canonicalize_correct [of sample_document] p by blast
qed

text \<open>
  The change identity of a configuration is 16 characters long, and two serialized
  documents that differ in exactly one byte never have the same one.
\<close>

theorem semantic_hash_one_byte:
  "length (semantic_hash bytes) = 16 \<and>
   (semantic_hash (xs @ c # ys) = semantic_hash (xs @ d # ys) \<longleftrightarrow> c = d)"
proof -
  have bound: "unat (h :: u64) < 16 ^ 16" for h
    using unat_bound [of h] by simp
  show ?thesis
    using bound by (simp add: semantic_hash_def hex_digits_inject fnv_fold_inject fnv_step_byte
        flip: word_unat_eq_iff)
qed

end
