(* ===== verification/Diff.thy ===== *)
theory Diff
  imports Canonical
begin

text \<open>
  \<^verbatim>\<open>config/diff.rs\<close>: the leaf-wise difference of two documents, the leaves of a document and
  the lookup of a path. The difference of canonical documents is empty exactly when the documents
  are equal; every entry names a path at which the documents differ, with the desired value there,
  and every path at which they differ as leaves is covered by an entry.
\<close>

section \<open>Definitions\<close>

record diff_entry =
  de_path :: "string list"
  de_new :: "yaml option"

text \<open>\<^verbatim>\<open>==\<close> on \<^verbatim>\<open>Option<&Value>\<close>.\<close>

fun option_eq :: "yaml option \<Rightarrow> yaml option \<Rightarrow> bool" where
  "option_eq None None = True"
| "option_eq (Some v) (Some w) = value_eq v w"
| "option_eq _ _ = False"

definition get_in :: "mapping option \<Rightarrow> string \<Rightarrow> yaml option" where
  "get_in m k = Option.bind m (\<lambda>m. mapping_get m k)"

definition keys_in :: "mapping option \<Rightarrow> string list" where
  "keys_in m = (case m of None \<Rightarrow> [] | Some m \<Rightarrow> mapping_keys m)"

text \<open>A \<^verbatim>\<open>BTreeSet\<close> of strings, in iteration order.\<close>

definition btree_set :: "string list \<Rightarrow> string list" where
  "btree_set xs = sort (remdups xs)"

definition weight :: "yaml option \<Rightarrow> nat" where
  "weight v = (case v of None \<Rightarrow> 0 | Some v \<Rightarrow> Suc (size v))"

lemma size_untag: "size (untag_ref v) \<le> size v"
  by (induction v rule: untag_ref.induct) auto

lemma size_mapping_get: "mapping_get m k = Some v \<Longrightarrow> size v < size (YMapping m)"
proof -
  assume "mapping_get m k = Some v"
  then have "(YString k, v) \<in> set m"
    by (auto simp: mapping_get_def dest: map_of_SomeD)
  then have "size_prod size size (YString k, v) \<le> size_list (size_prod size size) m"
    by (metis size_list_estimation' order_refl)
  then show ?thesis by simp
qed

lemma weight_get_in:
  "weight (get_in (Option.bind c as_mapping) k) \<le> weight c \<and>
   (Option.bind c as_mapping \<noteq> None \<longrightarrow> weight (get_in (Option.bind c as_mapping) k) < weight c)"
proof (cases c)
  case None
  then show ?thesis by (simp add: get_in_def weight_def)
next
  case (Some v)
  show ?thesis
  proof (cases "untag_ref v")
    case (YMapping m)
    with size_untag [of v] have "size (YMapping m) \<le> size v" by simp
    with Some YMapping show ?thesis
      using size_mapping_get [of m k]
      by (fastforce simp: get_in_def as_mapping_def weight_def split: option.splits)
  qed (use Some in \<open>simp_all add: get_in_def as_mapping_def weight_def\<close>)
qed

function diff_value :: "yaml option \<Rightarrow> yaml option \<Rightarrow> string list \<Rightarrow> diff_entry list" where
  "diff_value current desired path =
     (if option_eq current desired then []
      else let current_mapping = Option.bind current as_mapping;
               desired_mapping = Option.bind desired as_mapping;
               keys = btree_set (keys_in current_mapping @ keys_in desired_mapping)
           in if (current_mapping \<noteq> None \<or> desired_mapping \<noteq> None) \<and>
                 (current = None \<or> current_mapping \<noteq> None \<and> (desired = None \<or> desired_mapping \<noteq> None)) \<and>
                 keys \<noteq> []
              then concat (map (\<lambda>key. diff_value (get_in current_mapping key)
                     (get_in desired_mapping key) (path @ [key])) keys)
              else [\<lparr>de_path = path, de_new = desired\<rparr>])"
  by pat_completeness auto
termination
proof (relation "measure (\<lambda>(c, d, _). weight c + weight d)")
  show "wf (measure (\<lambda>(c :: yaml option, d :: yaml option, _ :: string list). weight c + weight d))"
    by simp
  fix c d :: "yaml option" and path :: "string list" and cm dm keys and key
  assume cm: "cm = Option.bind c as_mapping" and dm: "dm = Option.bind d as_mapping"
    and c: "(cm \<noteq> None \<or> dm \<noteq> None) \<and>
      (c = None \<or> cm \<noteq> None \<and> (d = None \<or> dm \<noteq> None)) \<and> keys \<noteq> []"
  have "weight (get_in cm key) + weight (get_in dm key) < weight c + weight d"
    using c weight_get_in [of c key] weight_get_in [of d key]
    unfolding cm [symmetric] dm [symmetric] by linarith
  then show "((get_in cm key, get_in dm key, path @ [key]), (c, d, path))
      \<in> measure (\<lambda>(c, d, _). weight c + weight d)"
    by simp
qed

declare diff_value.simps [simp del]

definition diff :: "mapping \<Rightarrow> mapping \<Rightarrow> diff_entry list" where
  "diff current desired = diff_value (Some (YMapping current)) (Some (YMapping desired)) []"

function collect_leaves :: "yaml \<Rightarrow> string list \<Rightarrow> (string list \<times> yaml) list" where
  "collect_leaves value path =
     (case as_mapping value of
        Some (e # m) \<Rightarrow> concat (map (\<lambda>(key, v). case as_str key of
              Some key \<Rightarrow> collect_leaves v (path @ [key]) | None \<Rightarrow> []) (e # m))
      | _ \<Rightarrow> [(path, value)])"
  by pat_completeness auto
termination
proof (relation "measure (\<lambda>(v, _). size v)")
  fix v :: yaml and path :: "string list" and e :: "yaml \<times> yaml" and em m x and k w and key
  assume "as_mapping v = Some em" and "em = e # m"
  then have m: "as_mapping v = Some (e # m)" by simp
  assume x: "x \<in> set (e # m)" and kw: "(k, w) = x"
  have "size_prod size size (k, w) \<le> size_list (size_prod size size) (e # m)"
    using x kw by (metis size_list_estimation' order_refl)
  moreover have "untag_ref v = YMapping (e # m)"
    using m by (auto simp: as_mapping_def split: yaml.splits)
  ultimately have "size w < size (untag_ref v)" by simp
  then show "((w, path @ [key]), v, path) \<in> measure (\<lambda>(v, _). size v)"
    using size_untag [of v] by simp
qed simp

declare collect_leaves.simps [simp del]

fun value_at :: "yaml \<Rightarrow> string list \<Rightarrow> yaml option" where
  "value_at v [] = Some v"
| "value_at v (k # ks) = Option.bind (get_in (as_mapping v) k) (\<lambda>v. value_at v ks)"

section \<open>Lemmas\<close>

lemma set_btree_set [simp]: "set (btree_set xs) = set xs"
  by (simp add: btree_set_def)

lemma btree_set_empty [simp]: "btree_set xs = [] \<longleftrightarrow> xs = []"
  by (metis set_btree_set set_empty)

abbreviation plain_opt :: "yaml option \<Rightarrow> bool" where
  "plain_opt v \<equiv> (\<forall>w. v = Some w \<longrightarrow> plain w)"

lemma as_mapping_plain:
  "plain v \<Longrightarrow> as_mapping v = Some m \<longleftrightarrow> v = YMapping m"
  by (cases v) (auto simp: as_mapping_def)

lemma plain_get_in:
  "plain_opt c \<Longrightarrow> plain_opt (get_in (Option.bind c as_mapping) k)"
  by (auto simp: get_in_def as_mapping_plain bind_eq_Some_conv intro: mapping_get_plain)

lemma mem_keys_in:
  "plain_opt c \<Longrightarrow>
     k \<in> set (keys_in (Option.bind c as_mapping)) \<longleftrightarrow> get_in (Option.bind c as_mapping) k \<noteq> None"
proof (cases "Option.bind c as_mapping")
  case None
  then show ?thesis by (simp add: keys_in_def get_in_def)
next
  case (Some m)
  assume "plain_opt c"
  with Some have "plain (YMapping m)"
    by (auto simp: bind_eq_Some_conv as_mapping_plain)
  with Some show ?thesis by (simp add: keys_in_def get_in_def set_mapping_keys)
qed

lemma option_eq_None [simp]: "option_eq None d \<longleftrightarrow> d = None" "option_eq c None \<longleftrightarrow> c = None"
  by (cases d; simp) (cases c; simp)

lemma option_eq_refl [simp]: "option_eq v v"
  by (cases v) auto

text \<open>Two mappings whose entries agree key by key are equal.\<close>

lemma mapping_eqI:
  assumes p: "plain (YMapping m)" "plain (YMapping n)"
    and eq: "\<And>k. option_eq (mapping_get m k) (mapping_get n k)"
  shows "value_eq (YMapping m) (YMapping n)"
proof -
  have dom: "mapping_get m k = None \<longleftrightarrow> mapping_get n k = None" for k
    using eq [of k] by (cases "mapping_get m k"; cases "mapping_get n k") auto
  have ys: "k \<in> fst ` set a \<longleftrightarrow> (\<exists>s. k = YString s \<and> mapping_get a s \<noteq> None)"
    if pa: "plain (YMapping a)" for a k
  proof
    assume "k \<in> fst ` set a"
    then obtain v where "(k, v) \<in> set a" by auto
    then obtain s where "k = YString s" by (rule plain_keys [OF pa])
    with \<open>k \<in> fst ` set a\<close> show "\<exists>s. k = YString s \<and> mapping_get a s \<noteq> None"
      by (auto simp: mapping_get_None)
  qed (auto simp: mapping_get_None)
  have "fst ` set m = fst ` set n"
    by (rule set_eqI) (simp only: ys [OF p(1)] ys [OF p(2)] dom)
  then have "length m = length n"
    using p distinct_card [of "map fst m"] distinct_card [of "map fst n"] by simp
  moreover have "list_ex (\<lambda>(k', v'). value_eq k k' \<and> value_eq v v') n" if mem: "(k, v) \<in> set m" for k v
  proof -
    obtain s where k: "k = YString s" using mem by (rule plain_keys [OF p(1)])
    with mem p(1) have "mapping_get m s = Some v" by (simp add: mapping_get_in)
    with eq [of s] obtain w where "mapping_get n s = Some w" and w: "value_eq v w"
      by (cases "mapping_get n s") auto
    then have "(k, w) \<in> set n" using p(2) k by (simp add: mapping_get_in)
    with w show ?thesis
      unfolding list_ex_iff by (intro bexI [of _ "(k, w)"]) simp_all
  qed
  ultimately show ?thesis
    by (auto simp: value_eq_def list_all_iff)
qed

lemma mapping_eqD:
  assumes p: "plain (YMapping m)" "plain (YMapping n)"
    and eq: "value_eq (YMapping m) (YMapping n)"
  shows "option_eq (mapping_get m k) (mapping_get n k)"
proof (cases "mapping_get m k")
  case None
  then have "YString k \<notin> fst ` set m"
    by (simp add: mapping_get_None)
  then have "mapping_get n k = None"
    using value_eq_entries(1) [OF p eq [unfolded value_eq_def]]
    by (simp add: mapping_get_None)
  with None show ?thesis by simp
next
  case (Some v)
  then have mem: "(YString k, v) \<in> set m" using p by (simp add: mapping_get_in)
  then have "YString k \<in> fst ` set n"
    using value_eq_entries(1) [OF p eq [unfolded value_eq_def]] by force
  then obtain w where w: "(YString k, w) \<in> set n" by auto
  have "value_eq v w"
    using value_eq_entries(2) [OF p eq [unfolded value_eq_def] mem w] by (simp add: value_eq_def)
  with Some w p show ?thesis by (simp flip: mapping_get_in)
qed

abbreviation at_path :: "yaml option \<Rightarrow> string list \<Rightarrow> yaml option" where
  "at_path v q \<equiv> Option.bind v (\<lambda>v. value_at v q)"

lemma get_in_None [simp]: "get_in None k = None"
  by (simp add: get_in_def)

lemma at_path_Cons: "at_path c (k # q) = at_path (get_in (Option.bind c as_mapping) k) q"
  by (cases c) auto

text \<open>The condition under which \<open>diff_value\<close> descends, with the keys it visits.\<close>

definition diff_keys :: "yaml option \<Rightarrow> yaml option \<Rightarrow> string set" where
  "diff_keys c d =
     set (keys_in (Option.bind c as_mapping)) \<union> set (keys_in (Option.bind d as_mapping))"

definition descends :: "yaml option \<Rightarrow> yaml option \<Rightarrow> bool" where
  "descends c d \<longleftrightarrow>
     (Option.bind c as_mapping \<noteq> None \<or> Option.bind d as_mapping \<noteq> None) \<and>
     (c = None \<or> Option.bind c as_mapping \<noteq> None \<and> (d = None \<or> Option.bind d as_mapping \<noteq> None)) \<and>
     diff_keys c d \<noteq> {}"

abbreviation child :: "yaml option \<Rightarrow> string \<Rightarrow> yaml option" where
  "child c k \<equiv> get_in (Option.bind c as_mapping) k"

lemma diff_value_eq: "option_eq c d \<Longrightarrow> diff_value c d p = []"
  by (subst diff_value.simps) simp

lemma diff_keys_empty:
  "diff_keys c d = {} \<longleftrightarrow>
     btree_set (keys_in (Option.bind c as_mapping) @ keys_in (Option.bind d as_mapping)) = []"
  by (simp add: diff_keys_def)

lemma diff_value_leaf:
  "\<not> option_eq c d \<Longrightarrow> \<not> descends c d \<Longrightarrow> diff_value c d p = [\<lparr>de_path = p, de_new = d\<rparr>]"
  unfolding descends_def diff_keys_empty
  by (subst diff_value.simps) (simp only: Let_def if_False)

lemma diff_value_rec:
  "\<not> option_eq c d \<Longrightarrow> descends c d \<Longrightarrow>
     set (diff_value c d p) =
       (\<Union>k \<in> diff_keys c d. set (diff_value (child c k) (child d k) (p @ [k])))"
  unfolding descends_def diff_keys_empty
  by (subst diff_value.simps) (simp only: Let_def if_False if_True set_concat set_map
      set_btree_set image_image set_append diff_keys_def simp_thms)

lemma mem_diff_keys:
  "plain_opt c \<Longrightarrow> plain_opt d \<Longrightarrow> k \<in> diff_keys c d \<longleftrightarrow> child c k \<noteq> None \<or> child d k \<noteq> None"
  by (simp only: diff_keys_def Un_iff mem_keys_in)

lemma weight_child:
  "descends c d \<Longrightarrow> weight (child c k) + weight (child d k) < weight c + weight d"
  using weight_get_in [of c k] weight_get_in [of d k] unfolding descends_def by linarith

text \<open>If the values differ, some visited key has values that differ.\<close>

lemma differing_key:
  assumes p: "plain_opt c" "plain_opt d" and ne: "\<not> option_eq c d" and desc: "descends c d"
  shows "\<exists>k \<in> diff_keys c d. \<not> option_eq (child c k) (child d k)"
proof (cases "c = None \<or> d = None")
  case True
  obtain k where k: "k \<in> diff_keys c d"
    using desc by (auto simp: descends_def)
  then have "child c k \<noteq> None \<or> child d k \<noteq> None"
    using mem_diff_keys [OF p] by blast
  with True k show ?thesis
    by (intro bexI [of _ k]) auto
next
  case False
  with desc have "Option.bind c as_mapping \<noteq> None" "Option.bind d as_mapping \<noteq> None"
    by (auto simp: descends_def)
  moreover have "\<exists>a. x = Some (YMapping a)" if "Option.bind x as_mapping \<noteq> None" "plain_opt x" for x
    using that by (auto simp: bind_eq_Some_conv as_mapping_plain)
  ultimately obtain a b where ab: "c = Some (YMapping a)" "d = Some (YMapping b)"
    using p by blast
  with p ne mapping_eqI [of a b] obtain k where k: "\<not> option_eq (child c k) (child d k)"
    by (auto simp: get_in_def)
  then have "k \<in> diff_keys c d"
    using mem_diff_keys [OF p] by auto
  with k show ?thesis by blast
qed

lemma diff_value_Nil:
  "plain_opt c \<Longrightarrow> plain_opt d \<Longrightarrow> diff_value c d p = [] \<longleftrightarrow> option_eq c d"
proof (induction "weight c + weight d" arbitrary: c d p rule: less_induct)
  case less
  show ?case
  proof (cases "option_eq c d")
    case True
    then show ?thesis by (simp add: diff_value_eq)
  next
    case ne: False
    show ?thesis
    proof (cases "descends c d")
      case False
      with ne show ?thesis by (simp add: diff_value_leaf)
    next
      case True
      obtain k where k: "k \<in> diff_keys c d" and nk: "\<not> option_eq (child c k) (child d k)"
        using differing_key [OF less.prems ne True] by blast
      have "diff_value (child c k) (child d k) (p @ [k]) \<noteq> []"
        using less.hyps [OF weight_child [OF True] plain_get_in plain_get_in, OF less.prems] nk
        by blast
      then have "set (diff_value c d p) \<noteq> {}"
        using diff_value_rec [OF ne True, of p] k by auto
      with ne show ?thesis by auto
    qed
  qed
qed

lemma diff_value_sound:
  "plain_opt c \<Longrightarrow> plain_opt d \<Longrightarrow> e \<in> set (diff_value c d p) \<Longrightarrow>
     \<exists>q. de_path e = p @ q \<and> de_new e = at_path d q \<and> \<not> option_eq (at_path c q) (at_path d q)"
proof (induction "weight c + weight d" arbitrary: c d p rule: less_induct)
  case less
  then have ne: "\<not> option_eq c d"
    by (auto simp: diff_value_eq)
  show ?case
  proof (cases "descends c d")
    case False
    with ne less.prems show ?thesis
      by (intro exI [of _ "[]"]) (cases c; cases d; auto simp: diff_value_leaf)
  next
    case True
    with less.prems diff_value_rec [OF ne True, of p] obtain k
      where "e \<in> set (diff_value (child c k) (child d k) (p @ [k]))" by auto
    from less.hyps [OF weight_child [OF True] plain_get_in plain_get_in this, OF less.prems(1,2)]
    obtain q where "de_path e = p @ k # q" "de_new e = at_path (child d k) q"
      "\<not> option_eq (at_path (child c k) q) (at_path (child d k) q)" by auto
    then show ?thesis
      by (intro exI [of _ "k # q"]) (simp add: at_path_Cons del: value_at.simps(2))
  qed
qed

lemma option_eq_child:
  assumes p: "plain_opt c" "plain_opt d" and eq: "option_eq c d"
  shows "option_eq (child c k) (child d k)"
proof (cases "c = None \<or> d = None")
  case True
  with eq show ?thesis by auto
next
  case False
  then obtain v w where vw: "c = Some v" "d = Some w" by auto
  show ?thesis
  proof (cases "as_mapping v")
    case None
    moreover from this have "as_mapping w = None"
      using vw p eq by (cases v; cases w) (auto simp: as_mapping_def value_eq_def)
    ultimately show ?thesis using vw by simp
  next
    case (Some m)
    with vw p have v: "v = YMapping m" by (simp add: as_mapping_plain)
    with vw eq obtain n where "w = YMapping n"
      by (cases w) (auto simp: value_eq_def)
    with vw v p eq show ?thesis
      using mapping_eqD [of m n k] by (simp add: get_in_def)
  qed
qed

lemma option_eq_at_path:
  "plain_opt c \<Longrightarrow> plain_opt d \<Longrightarrow> option_eq c d \<Longrightarrow> option_eq (at_path c q) (at_path d q)"
proof (induction q arbitrary: c d)
  case Nil
  then show ?case by (cases c; cases d) auto
next
  case (Cons k q)
  have "option_eq (at_path (child c k) q) (at_path (child d k) q)"
    by (rule Cons.IH [OF plain_get_in plain_get_in option_eq_child]) (use Cons.prems in auto)
  then show ?case by (simp only: at_path_Cons)
qed

lemma diff_value_complete:
  "plain_opt c \<Longrightarrow> plain_opt d \<Longrightarrow> \<not> option_eq (at_path c q) (at_path d q) \<Longrightarrow>
     \<exists>e \<in> set (diff_value c d p). prefix (de_path e) (p @ q) \<or> prefix (p @ q) (de_path e)"
proof (induction q arbitrary: c d p)
  case Nil
  then have "\<not> option_eq c d" by (cases c; cases d) auto
  then obtain e where e: "e \<in> set (diff_value c d p)"
    using diff_value_Nil [OF Nil.prems(1,2), of p] by (cases "diff_value c d p") auto
  from diff_value_sound [OF Nil.prems(1,2) e] e show ?case by (intro bexI [of _ e]) auto
next
  case (Cons k q)
  have ne: "\<not> option_eq c d"
    using option_eq_at_path [OF Cons.prems(1,2)] Cons.prems(3) by blast
  show ?case
  proof (cases "descends c d")
    case False
    with ne show ?thesis by (simp add: diff_value_leaf)
  next
    case True
    have n: "\<not> option_eq (at_path (child c k) q) (at_path (child d k) q)"
      using Cons.prems(3) unfolding at_path_Cons .
    then have "child c k \<noteq> None \<or> child d k \<noteq> None"
      by (metis Option.bind.bind_lzero option_eq_refl)
    then have "k \<in> diff_keys c d" using mem_diff_keys [OF Cons.prems(1,2)] by blast
    moreover from Cons.IH [OF plain_get_in plain_get_in n, OF Cons.prems(1,2)]
    obtain e where "e \<in> set (diff_value (child c k) (child d k) (p @ [k]))"
      "prefix (de_path e) ((p @ [k]) @ q) \<or> prefix ((p @ [k]) @ q) (de_path e)" by blast
    ultimately show ?thesis
      using diff_value_rec [OF ne True, of p] by (intro bexI [of _ e]) auto
  qed
qed

lemma canonical_opt:
  "canonical (YMapping c) \<Longrightarrow> plain_opt (Some (YMapping c))"
  by (simp only: option.inject) (blast dest: canonical_plain)

lemma diff_Nil:
  assumes "canonical (YMapping c)" and "canonical (YMapping d)"
  shows "diff c d = [] \<longleftrightarrow> value_eq (YMapping c) (YMapping d)"
  using diff_value_Nil [OF assms [THEN canonical_opt], of "[]"] by (simp add: diff_def)

lemma diff_sound:
  assumes "canonical (YMapping c)" and "canonical (YMapping d)" and "e \<in> set (diff c d)"
  shows "de_new e = value_at (YMapping d) (de_path e)"
    and "\<not> option_eq (value_at (YMapping c) (de_path e)) (de_new e)"
  using diff_value_sound [OF assms(1,2) [THEN canonical_opt] assms(3) [unfolded diff_def]] by auto

lemma diff_complete:
  assumes "canonical (YMapping c)" and "canonical (YMapping d)"
    and "\<not> option_eq (value_at (YMapping c) q) (value_at (YMapping d) q)"
  shows "\<exists>e \<in> set (diff c d). prefix (de_path e) q \<or> prefix q (de_path e)"
  using diff_value_complete [OF assms(1,2) [THEN canonical_opt], of q "[]"] assms(3)
  by (simp add: diff_def)

text \<open>Two mappings that differ have a key, so an entry always has a root.\<close>

lemma diff_path_root:
  assumes can: "canonical (YMapping c)" "canonical (YMapping d)" and e: "e \<in> set (diff c d)"
  shows "de_path e \<noteq> []"
proof -
  let ?c = "Some (YMapping c)" and ?d = "Some (YMapping d)"
  note p = can [THEN canonical_opt]
  have ne: "\<not> option_eq ?c ?d"
    using e by (auto simp: diff_def diff_value_eq)
  have "\<exists>k. \<not> option_eq (mapping_get c k) (mapping_get d k)"
    using mapping_eqI [of c d] ne p by auto
  then obtain k where "\<not> option_eq (child ?c k) (child ?d k)"
    by (auto simp: get_in_def)
  then have "k \<in> diff_keys ?c ?d"
    unfolding mem_diff_keys [OF p] by (metis option_eq_refl)
  then have "descends ?c ?d"
    by (auto simp: descends_def)
  from diff_value_rec [OF ne this, of "[]"] e obtain k
    where "e \<in> set (diff_value (child ?c k) (child ?d k) [k])"
    by (auto simp: diff_def)
  from diff_value_sound [OF plain_get_in plain_get_in this, OF p] show ?thesis by auto
qed

text \<open>
  C34. The difference of two canonical documents is exact: it is empty precisely when the
  documents are equal, every entry names a path at which they differ together with the desired
  value there (nothing, when the path is deleted), and wherever the documents differ some entry
  lies on that path, above it or below it.
\<close>

theorem diff_correct:
  assumes "canonical (YMapping c)" and "canonical (YMapping d)"
  shows "(diff c d = [] \<longleftrightarrow> value_eq (YMapping c) (YMapping d)) \<and>
    (\<forall>e \<in> set (diff c d). de_new e = value_at (YMapping d) (de_path e) \<and>
       \<not> option_eq (value_at (YMapping c) (de_path e)) (de_new e)) \<and>
    (\<forall>q. \<not> option_eq (value_at (YMapping c) q) (value_at (YMapping d) q) \<longrightarrow>
       (\<exists>e \<in> set (diff c d). prefix (de_path e) q \<or> prefix q (de_path e)))"
  using diff_Nil [OF assms] diff_sound [OF assms] diff_complete [OF assms] by blast

theorem diff_correct_witness:
  "canonical (YMapping [(YString ''mode'', YString ''rule'')]) \<and>
   canonical (YMapping [(YString ''mode'', YString ''global'')]) \<and>
   diff [(YString ''mode'', YString ''rule'')] [(YString ''mode'', YString ''global'')] \<noteq> []"
proof -
  have c: "canonical (YMapping [(YString ''mode'', YString ''rule'')])"
    "canonical (YMapping [(YString ''mode'', YString ''global'')])"
    by simp_all
  have "\<not> value_eq (YMapping [(YString ''mode'', YString ''rule'')])
      (YMapping [(YString ''mode'', YString ''global'')])"
    by (simp add: value_eq_def)
  then show ?thesis
    using diff_correct [OF c] c by simp
qed

end
