(* ===== verification/Clash.thy ===== *)
theory Clash
  imports Diff
begin

text \<open>
  \<^verbatim>\<open>config/clash.rs\<close>: the controller keys every supported core reads, their inspection and the
  rewrite that points a managed core at its own local endpoint, with \<open>str_value\<close> and the
  controller types of \<^verbatim>\<open>config/mod.rs\<close>. What \<^verbatim>\<open>cfg(windows)\<close> decides is the argument
  \<open>platform\<close>. After the rewrite the document names exactly one controller, the managed one,
  every other key is untouched, and inspection reads that endpoint back.
\<close>

section \<open>Definitions\<close>

datatype raw_controller = RawPipe string | RawUnix string | RawHttp string

record config_info =
  ci_controller :: "raw_controller option"
  ci_secret :: "string option"

definition EXTERNAL_CONTROLLER :: string where
  "EXTERNAL_CONTROLLER = ''external-controller''"

definition EXTERNAL_CONTROLLER_PIPE :: string where
  "EXTERNAL_CONTROLLER_PIPE = ''external-controller-pipe''"

definition EXTERNAL_CONTROLLER_UNIX :: string where
  "EXTERNAL_CONTROLLER_UNIX = ''external-controller-unix''"

definition SECRET :: string where
  "SECRET = ''secret''"

fun LOCAL_TRANSPORT_FEATURE :: "platform \<Rightarrow> feature" where
  "LOCAL_TRANSPORT_FEATURE Windows = NamedPipeIpc"
| "LOCAL_TRANSPORT_FEATURE Unix = UnixSocketIpc"

definition CONTROLLER_FIELDS :: "string list" where
  "CONTROLLER_FIELDS =
     [EXTERNAL_CONTROLLER, EXTERNAL_CONTROLLER_PIPE, EXTERNAL_CONTROLLER_UNIX, SECRET]"

lemmas field_defs = EXTERNAL_CONTROLLER_def EXTERNAL_CONTROLLER_PIPE_def
  EXTERNAL_CONTROLLER_UNIX_def SECRET_def

definition str_value :: "mapping \<Rightarrow> string \<Rightarrow> string option" where
  "str_value doc key =
     (case Option.bind (mapping_get doc key) as_str of
        Some v \<Rightarrow> if v = [] then None else Some v
      | None \<Rightarrow> None)"

fun local_controller :: "platform \<Rightarrow> mapping \<Rightarrow> raw_controller option" where
  "local_controller Windows doc = map_option RawPipe (str_value doc EXTERNAL_CONTROLLER_PIPE)"
| "local_controller Unix doc = map_option RawUnix (str_value doc EXTERNAL_CONTROLLER_UNIX)"

definition inspect :: "platform \<Rightarrow> mapping \<Rightarrow> config_info" where
  "inspect plat doc =
     \<lparr>ci_controller = (case local_controller plat doc of
        Some c \<Rightarrow> Some c
      | None \<Rightarrow> map_option RawHttp (str_value doc EXTERNAL_CONTROLLER)),
      ci_secret = str_value doc SECRET\<rparr>"

definition inspect_http :: "mapping \<Rightarrow> config_info" where
  "inspect_http doc =
     \<lparr>ci_controller = map_option RawHttp (str_value doc EXTERNAL_CONTROLLER),
      ci_secret = str_value doc SECRET\<rparr>"

fun local_field :: "platform \<Rightarrow> string" where
  "local_field Windows = EXTERNAL_CONTROLLER_PIPE"
| "local_field Unix = EXTERNAL_CONTROLLER_UNIX"

fun raw_local :: "platform \<Rightarrow> string \<Rightarrow> raw_controller" where
  "raw_local Windows = RawPipe"
| "raw_local Unix = RawUnix"

definition rewrite_managed_controller :: "platform \<Rightarrow> mapping \<Rightarrow> string \<Rightarrow> mapping" where
  "rewrite_managed_controller plat doc endpoint =
     mapping_insert (local_field plat) (YString endpoint)
       (fold mapping_remove
         [EXTERNAL_CONTROLLER, EXTERNAL_CONTROLLER_PIPE, EXTERNAL_CONTROLLER_UNIX] doc)"

section \<open>Lemmas\<close>

lemma plain_remove: "plain (YMapping m) \<Longrightarrow> plain (YMapping (mapping_remove k m))"
  using set_mapping_remove [of m k] by (auto simp: list_all_iff)

lemma mapping_get_remove:
  assumes "plain (YMapping m)"
  shows "mapping_get (mapping_remove k m) j = (if j = k then None else mapping_get m j)"
proof (cases "mapping_get (mapping_remove k m) j")
  case None
  then have "YString j \<notin> fst ` set (mapping_remove k m)"
    by (simp add: mapping_get_None)
  moreover have "fst ` set (mapping_remove k m) = fst ` set m - {YString k}"
  proof -
    have entries: "set (mapping_remove k m) = {e \<in> set m. fst e \<noteq> YString k}"
      using assms set_mapping_remove [of m k] by simp
    show ?thesis
      unfolding entries by auto
  qed
  ultimately have "j \<noteq> k \<Longrightarrow> mapping_get m j = None"
    by (simp add: mapping_get_None)
  with None show ?thesis by simp
next
  case (Some v)
  then have "(YString j, v) \<in> set (mapping_remove k m)"
    using plain_remove [OF assms] by (simp add: mapping_get_in)
  then have "(YString j, v) \<in> set m" and "j \<noteq> k"
    using assms set_mapping_remove [of m k] by auto
  with Some show ?thesis using mapping_get_in [OF assms, of j v] by simp
qed

lemma plain_rewrite:
  "plain (YMapping m) \<Longrightarrow> plain (YMapping (rewrite_managed_controller plat m endpoint))"
  by (simp add: rewrite_managed_controller_def plain_insert plain_remove del: plain.simps(2))

lemma mapping_get_rewrite:
  assumes "plain (YMapping m)"
  shows "mapping_get (rewrite_managed_controller plat m endpoint) k =
    (if k = local_field plat then Some (YString endpoint)
     else if k \<in> {EXTERNAL_CONTROLLER, EXTERNAL_CONTROLLER_PIPE, EXTERNAL_CONTROLLER_UNIX} then None
     else mapping_get m k)"
  using assms
  by (auto simp: rewrite_managed_controller_def mapping_get_insert mapping_get_remove plain_remove
      simp del: plain.simps(2))

text \<open>
  The managed rewrite isolates a core's control channel: afterwards the platform's local key
  holds the manager's endpoint, neither of the other two controller keys remains, every other key
  (the secret among them) keeps its value, and reading the controller back gives that endpoint and
  the secret of the source document.
\<close>

theorem rewrite_managed_controller_correct:
  assumes "plain (YMapping doc)" and "endpoint \<noteq> []"
  shows "(\<forall>k. mapping_get (rewrite_managed_controller plat doc endpoint) k =
      (if k = local_field plat then Some (YString endpoint)
       else if k \<in> {EXTERNAL_CONTROLLER, EXTERNAL_CONTROLLER_PIPE, EXTERNAL_CONTROLLER_UNIX} then None
       else mapping_get doc k)) \<and>
    inspect plat (rewrite_managed_controller plat doc endpoint) =
      \<lparr>ci_controller = Some (raw_local plat endpoint), ci_secret = str_value doc SECRET\<rparr>"
proof -
  let ?doc' = "rewrite_managed_controller plat doc endpoint"
  have get: "mapping_get ?doc' k =
      (if k = local_field plat then Some (YString endpoint)
       else if k \<in> {EXTERNAL_CONTROLLER, EXTERNAL_CONTROLLER_PIPE, EXTERNAL_CONTROLLER_UNIX} then None
       else mapping_get doc k)" for k
    by (rule mapping_get_rewrite [OF assms(1)])
  have "local_controller plat ?doc' = Some (raw_local plat endpoint)"
    using assms(2) by (cases plat) (simp_all add: str_value_def mapping_get_rewrite [OF assms(1)])
  moreover have "str_value ?doc' SECRET = str_value doc SECRET"
    by (cases plat) (simp_all add: str_value_def mapping_get_rewrite [OF assms(1)] field_defs)
  ultimately show ?thesis
    using get by (simp add: inspect_def)
qed

theorem rewrite_managed_controller_correct_witness:
  "ci_controller (inspect Unix (rewrite_managed_controller Unix
     [(YString ''external-controller'', YString ''127.0.0.1:9090''),
      (YString ''secret'', YString ''s'')] ''/r/core-7.sock'')) = Some (RawUnix ''/r/core-7.sock'')"
proof -
  have "plain (YMapping [(YString ''external-controller'', YString ''127.0.0.1:9090''),
      (YString ''secret'', YString ''s'')])"
    by simp
  then show ?thesis
    using rewrite_managed_controller_correct [of _ "''/r/core-7.sock''" Unix] by simp
qed

end
