(* ===== verification/Mihomo.thy ===== *)
theory Mihomo
  imports Clash
begin

text \<open>
  \<^verbatim>\<open>config/mihomo.rs\<close>: the field tables of the Mihomo core, the zeroing of its inbound surface
  for a bootstrap epoch, the deny-by-default classification of a configuration change, the
  patch with the projection that verifies it, and the test whether two epochs may overlap.
  \<^verbatim>\<open>ConfigPatch\<close> and \<^verbatim>\<open>RuntimeConfig\<close> go through serde's derived conversions; they are the
  values those conversions read and write, and the conversions are the parameter
  \<open>patch_codec\<close>.
\<close>

section \<open>Field tables\<close>

definition INBOUND_PORT_FIELDS :: "string list" where
  "INBOUND_PORT_FIELDS =
    [''port'', ''socks-port'', ''redir-port'', ''tproxy-port'', ''mixed-port'']"

definition PATCH_FIELDS :: "string list" where
  "PATCH_FIELDS =
    [''port'', ''socks-port'', ''redir-port'', ''tproxy-port'', ''mixed-port'', ''tun'',
     ''tuic-server'', ''ss-config'', ''vmess-config'', ''tcptun-config'', ''udptun-config'',
     ''allow-lan'', ''skip-auth-prefixes'', ''lan-allowed-ips'', ''lan-disallowed-ips'',
     ''bind-address'', ''mode'', ''log-level'', ''ipv6'', ''sniffing'', ''tcp-concurrent'',
     ''find-process-mode'', ''interface-name'']"

definition TUN_PATCH_FIELDS :: "string list" where
  "TUN_PATCH_FIELDS =
    [''enable'', ''device'', ''stack'', ''dns-hijack'', ''auto-route'', ''auto-detect-interface'',
     ''mtu'', ''gso'', ''gso-max-size'', ''inet6-address'', ''iproute2-table-index'',
     ''iproute2-rule-index'', ''auto-redirect'', ''auto-redirect-input-mark'',
     ''auto-redirect-output-mark'', ''auto-redirect-iproute2-fallback-rule-index'',
     ''loopback-address'', ''strict-route'', ''route-address'', ''route-address-set'',
     ''route-exclude-address'', ''route-exclude-address-set'', ''include-interface'',
     ''exclude-interface'', ''include-uid'', ''include-uid-range'', ''exclude-uid'',
     ''exclude-uid-range'', ''include-android-user'', ''include-package'', ''exclude-package'',
     ''include-mac-address'', ''exclude-mac-address'', ''endpoint-independent-nat'',
     ''udp-timeout'', ''icmp-timeout'', ''file-descriptor'', ''inet4-route-address'',
     ''inet6-route-address'', ''inet4-route-exclude-address'', ''inet6-route-exclude-address'',
     ''recvmsgx'', ''sendmsgx'']"

definition TUIC_SERVER_PATCH_FIELDS :: "string list" where
  "TUIC_SERVER_PATCH_FIELDS =
    [''enable'', ''listen'', ''token'', ''users'', ''certificate'', ''private-key'',
     ''congestion-controller'', ''max-idle-time'', ''authentication-timeout'', ''alpn'',
     ''max-udp-relay-packet-size'', ''cwnd'', ''bbr-profile'']"

definition RELOAD_FIELDS :: "string list" where
  "RELOAD_FIELDS =
    [''proxies'', ''proxy-groups'', ''proxy-providers'', ''rule-providers'', ''providers'',
     ''rules'', ''hosts'', ''dns'']"

section \<open>Zeroing the inbound surface\<close>

definition zero_listener :: "string \<Rightarrow> mapping \<Rightarrow> mapping" where
  "zero_listener key doc =
     (case Option.bind (mapping_get doc key) as_i64 of
        Some n \<Rightarrow> if n \<noteq> 0 then mapping_insert key (YNumber (PosInt 0)) doc else doc
      | None \<Rightarrow> doc)"

text \<open>\<^verbatim>\<open>get_mut\<close> and \<^verbatim>\<open>as_mapping_mut\<close>: the mapping below any tags is replaced in place.\<close>

fun update_mapping :: "(mapping \<Rightarrow> mapping) \<Rightarrow> yaml \<Rightarrow> yaml" where
  "update_mapping f (YMapping m) = YMapping (f m)"
| "update_mapping f (YTagged t v) = YTagged t (update_mapping f v)"
| "update_mapping f v = v"

definition disable_tun :: "mapping \<Rightarrow> mapping" where
  "disable_tun tun =
     (if Option.bind (mapping_get tun ''enable'') as_bool = Some True
      then mapping_insert ''enable'' (YBool False) tun else tun)"

definition zero_inbounds :: "mapping \<Rightarrow> mapping" where
  "zero_inbounds doc =
     (let doc = fold zero_listener INBOUND_PORT_FIELDS doc
      in case mapping_get doc ''tun'' of
           Some tun \<Rightarrow> mapping_insert ''tun'' (update_mapping disable_tun tun) doc
         | None \<Rightarrow> doc)"

section \<open>Classification of a change\<close>

type_synonym config_patch = yaml
type_synonym runtime_config = yaml

record patch_codec =
  pc_from_value :: "yaml \<Rightarrow> config_patch option"
  pc_to_value :: "config_patch \<Rightarrow> string + yaml"
  pc_runtime_to_value :: "runtime_config \<Rightarrow> string + yaml"

type_synonym runtime_projection = "(string list \<times> yaml) list"

datatype config_change =
    Noop
  | Patch config_patch runtime_projection
  | Reload
  | Switch

definition verify :: "patch_codec \<Rightarrow> runtime_projection \<Rightarrow> runtime_config \<Rightarrow> error + bool" where
  "verify pc expected actual =
     (case pc_runtime_to_value pc actual of
        Inl e \<Rightarrow> Inl (Yaml e)
      | Inr actual \<Rightarrow> Inr (list_all (\<lambda>(path, expected).
           case value_at actual path of Some actual \<Rightarrow> value_eq actual expected | None \<Rightarrow> False)
           expected))"

definition patch_nested_path_is_supported :: "string list \<Rightarrow> bool" where
  "patch_nested_path_is_supported path =
     (case path of
        [] \<Rightarrow> False
      | root # rest \<Rightarrow>
          if root = ''tun'' then (case rest of f # _ \<Rightarrow> f \<in> set TUN_PATCH_FIELDS | [] \<Rightarrow> False)
          else if root = ''tuic-server''
          then (case rest of f # _ \<Rightarrow> f \<in> set TUIC_SERVER_PATCH_FIELDS | [] \<Rightarrow> False)
          else rest = [])"

definition is_dns_listen :: "string list \<Rightarrow> bool" where
  "is_dns_listen path = (case path of a # b # _ \<Rightarrow> a = ''dns'' \<and> b = ''listen'' | _ \<Rightarrow> False)"

definition dns_listen :: "mapping \<Rightarrow> yaml option" where
  "dns_listen doc =
     Option.bind (Option.bind (mapping_get doc ''dns'') as_mapping) (\<lambda>dns. mapping_get dns ''listen'')"

fun filter_entries :: "string list \<Rightarrow> mapping \<Rightarrow> mapping \<Rightarrow> error + mapping" where
  "filter_entries allowed [] filtered = Inr filtered"
| "filter_entries allowed ((key, v) # m) filtered =
     (case as_str key of
        None \<Rightarrow> Inl (InvalidConfig ''config keys must be strings'')
      | Some text \<Rightarrow>
          filter_entries allowed m
            (if text \<in> set allowed then AList.update key v filtered else filtered))"

definition filter_mapping :: "yaml \<Rightarrow> string list \<Rightarrow> error + yaml" where
  "filter_mapping v allowed =
     (case as_mapping v of
        None \<Rightarrow> Inl (InvalidConfig ''patchable nested config must be a mapping'')
      | Some m \<Rightarrow> map_sum id YMapping (filter_entries allowed m []))"

text \<open>The loop over the changed roots: \<open>Inl\<close> leaves \<open>build_patch\<close> with that result.\<close>

fun patch_document ::
  "mapping \<Rightarrow> string list \<Rightarrow> mapping \<Rightarrow> (error + config_change) + mapping" where
  "patch_document desired [] doc = Inr doc"
| "patch_document desired (root # roots) doc =
     (case mapping_get desired root of
        None \<Rightarrow> Inl (Inr Switch)
      | Some v \<Rightarrow>
          (case (if root = ''tun'' then filter_mapping v TUN_PATCH_FIELDS
                 else if root = ''tuic-server'' then filter_mapping v TUIC_SERVER_PATCH_FIELDS
                 else Inr v) of
             Inl e \<Rightarrow> Inl (Inl e)
           | Inr v \<Rightarrow> patch_document desired roots (mapping_insert root v doc)))"

definition lacks_enable :: "mapping \<Rightarrow> string \<Rightarrow> bool" where
  "lacks_enable doc root \<longleftrightarrow>
     mapping_get doc root \<noteq> None \<and>
     Option.bind (Option.bind (Option.bind (mapping_get doc root) as_mapping)
       (\<lambda>m. mapping_get m ''enable'')) as_bool = None"

definition changed_roots :: "diff_entry list \<Rightarrow> string list" where
  "changed_roots changes =
     btree_set (concat (map (\<lambda>e. case de_path e of r # _ \<Rightarrow> [r] | [] \<Rightarrow> []) changes))"

definition build_patch ::
  "patch_codec \<Rightarrow> mapping \<Rightarrow> diff_entry list \<Rightarrow> error + config_change" where
  "build_patch pc desired changes =
     (case patch_document desired (changed_roots changes) [] of
        Inl r \<Rightarrow> r
      | Inr document \<Rightarrow>
          if lacks_enable document ''tun'' \<or> lacks_enable document ''tuic-server'' then Inr Switch
          else case pc_from_value pc (YMapping document) of
                 None \<Rightarrow> Inr Switch
               | Some patch \<Rightarrow>
                   (case pc_to_value pc patch of
                      Inl e \<Rightarrow> Inl (Yaml e)
                    | Inr serialized \<Rightarrow> Inr (Patch patch (collect_leaves serialized []))))"

definition patchable :: "diff_entry \<Rightarrow> bool" where
  "patchable e \<longleftrightarrow>
     de_new e \<noteq> None \<and>
     (case de_path e of root # _ \<Rightarrow>
        root \<in> set PATCH_FIELDS \<and> patch_nested_path_is_supported (de_path e) | [] \<Rightarrow> False)"

definition reloadable :: "diff_entry \<Rightarrow> bool" where
  "reloadable e \<longleftrightarrow>
     (case de_path e of root # rest \<Rightarrow>
        root \<in> set RELOAD_FIELDS \<and> \<not> is_dns_listen (de_path e) \<and> \<not> (root = ''dns'' \<and> rest = [])
      | [] \<Rightarrow> False)"

definition classify_documents ::
  "patch_codec \<Rightarrow> mapping \<Rightarrow> mapping \<Rightarrow> error + config_change" where
  "classify_documents pc current desired =
     (if \<not> option_eq (dns_listen current) (dns_listen desired) then Inr Switch
      else let changes = diff current desired
           in if changes = [] then Inr Noop
              else if list_all patchable changes then build_patch pc desired changes
              else if list_all reloadable changes then Inr Reload
              else Inr Switch)"

definition process_spec_changed :: "instance_spec \<Rightarrow> instance_spec \<Rightarrow> bool" where
  "process_spec_changed current desired \<longleftrightarrow>
     cs_kind (is_core current) \<noteq> cs_kind (is_core desired) \<or>
     cs_binary_path (is_core current) \<noteq> cs_binary_path (is_core desired) \<or>
     cs_version (is_core current) \<noteq> cs_version (is_core desired) \<or>
     cs_features (is_core current) \<noteq> cs_features (is_core desired) \<or>
     is_working_dir current \<noteq> is_working_dir desired \<or>
     debug_instance_options (is_options current) \<noteq> debug_instance_options (is_options desired)"

definition controller_entry :: "diff_entry \<Rightarrow> bool" where
  "controller_entry e \<longleftrightarrow>
     (case de_path e of root # _ \<Rightarrow> root \<in> set CONTROLLER_FIELDS | [] \<Rightarrow> False) \<or>
     is_dns_listen (de_path e)"

definition classify ::
  "patch_codec \<Rightarrow> mapping \<Rightarrow> mapping \<Rightarrow> instance_spec \<Rightarrow> mapping \<Rightarrow> mapping \<Rightarrow> instance_spec \<Rightarrow>
   error + config_change" where
  "classify pc current_source current_effective current_spec desired_source desired_effective
     desired_spec =
     (if process_spec_changed current_spec desired_spec then Inr Switch
      else let source_diff = diff current_source desired_source
           in if cs_kind (is_core desired_spec) \<noteq> Mihomo
              then Inr (if source_diff = [] \<and> diff current_effective desired_effective = []
                        then Noop else Switch)
              else if list_ex controller_entry source_diff then Inr Switch
              else classify_documents pc current_effective desired_effective)"

definition restoration_patch ::
  "patch_codec \<Rightarrow> mapping \<Rightarrow> mapping \<Rightarrow> error + (config_patch \<times> runtime_projection) option" where
  "restoration_patch pc bootstrap desired =
     (case classify_documents pc bootstrap desired of
        Inl e \<Rightarrow> Inl e
      | Inr Noop \<Rightarrow> Inr None
      | Inr (Patch patch projection) \<Rightarrow> Inr (Some (patch, projection))
      | Inr Reload \<Rightarrow> Inl (InvalidConfig
          ''graceful bootstrap cannot be restored losslessly with ConfigPatch'')
      | Inr Switch \<Rightarrow> Inl (InvalidConfig
          ''graceful bootstrap cannot be restored losslessly with ConfigPatch''))"

section \<open>May two epochs overlap?\<close>

datatype overlap_reason = DnsListen | InboundSurface

fun nonempty_collection :: "yaml \<Rightarrow> bool" where
  "nonempty_collection YNull = False"
| "nonempty_collection (YString s) = (s \<noteq> [])"
| "nonempty_collection (YSequence xs) = (xs \<noteq> [])"
| "nonempty_collection (YMapping m) = (m \<noteq> [])"
| "nonempty_collection _ = True"

definition port_not_integer :: "mapping \<Rightarrow> string \<Rightarrow> bool" where
  "port_not_integer doc key = (case mapping_get doc key of Some v \<Rightarrow> as_i64 v = None | None \<Rightarrow> False)"

definition tun_unreadable :: "mapping \<Rightarrow> bool" where
  "tun_unreadable doc =
     (case mapping_get doc ''tun'' of None \<Rightarrow> False
      | Some tun \<Rightarrow> (case as_mapping tun of None \<Rightarrow> True
          | Some tun \<Rightarrow> (case mapping_get tun ''enable'' of None \<Rightarrow> False
              | Some enable \<Rightarrow> as_bool enable = None)))"

definition tuic_active :: "mapping \<Rightarrow> bool" where
  "tuic_active doc =
     (case mapping_get doc ''tuic-server'' of None \<Rightarrow> False
      | Some tuic \<Rightarrow> (case as_mapping tuic of None \<Rightarrow> True
          | Some tuic \<Rightarrow> (case mapping_get tuic ''enable'' of
              Some enable \<Rightarrow> as_bool enable \<noteq> Some False
            | None \<Rightarrow> tuic \<noteq> [])))"

definition server_string_set :: "mapping \<Rightarrow> string \<Rightarrow> bool" where
  "server_string_set doc key =
     (case mapping_get doc key of Some v \<Rightarrow> as_str v \<noteq> Some [] | None \<Rightarrow> False)"

definition collection_set :: "mapping \<Rightarrow> string \<Rightarrow> bool" where
  "collection_set doc key =
     (case mapping_get doc key of Some v \<Rightarrow> nonempty_collection v | None \<Rightarrow> False)"

definition unknown_inbound :: "string \<Rightarrow> bool" where
  "unknown_inbound key \<longleftrightarrow>
     (suffix ''-port'' key \<or> str_contains key ''listener'' \<or> str_contains key ''inbound'' \<or>
      str_contains key ''tunnel'') \<and>
     key \<notin> set PATCH_FIELDS \<and> key \<notin> {''listeners'', ''tunnels''}"

text \<open>The checks after the one on \<^verbatim>\<open>dns.listen\<close>, in their order.\<close>

definition inbound_surface_open :: "mapping \<Rightarrow> bool" where
  "inbound_surface_open doc \<longleftrightarrow>
     list_ex (port_not_integer doc) INBOUND_PORT_FIELDS \<or>
     tun_unreadable doc \<or> tuic_active doc \<or>
     list_ex (server_string_set doc)
       [''ss-config'', ''vmess-config'', ''tcptun-config'', ''udptun-config''] \<or>
     list_ex (collection_set doc) [''listeners'', ''tunnels''] \<or>
     list_ex unknown_inbound (mapping_keys doc)"

definition overlap_block :: "mapping \<Rightarrow> overlap_reason option" where
  "overlap_block doc =
     (case dns_listen doc of
        Some listen \<Rightarrow>
          (case as_str listen of
             Some s \<Rightarrow> if s = [] then None else Some DnsListen
           | None \<Rightarrow> if is_null listen then None else Some InboundSurface)
      | None \<Rightarrow> if inbound_surface_open doc then Some InboundSurface else None)"

section \<open>Lemmas on the classification\<close>

lemma patchable_root: "patchable e \<Longrightarrow> \<exists>root rest. de_path e = root # rest \<and> root \<in> set PATCH_FIELDS"
  by (auto simp: patchable_def split: list.splits)

lemma reloadable_root: "reloadable e \<Longrightarrow> \<exists>root rest. de_path e = root # rest \<and> root \<in> set RELOAD_FIELDS"
  by (auto simp: reloadable_def split: list.splits)

text \<open>When every change lies below a root of a table, the documents agree on every other key.\<close>

lemma roots_bound_difference:
  assumes can: "canonical (YMapping c)" "canonical (YMapping d)"
    and roots: "\<forall>e \<in> set (diff c d). \<exists>root rest. de_path e = root # rest \<and> root \<in> R"
    and k: "k \<notin> R"
  shows "option_eq (mapping_get c k) (mapping_get d k)"
proof (rule ccontr)
  assume "\<not> ?thesis"
  then have "\<not> option_eq (value_at (YMapping c) [k]) (value_at (YMapping d) [k])"
    by (simp add: get_in_def)
  then obtain e where "e \<in> set (diff c d)" and "prefix (de_path e) [k] \<or> prefix [k] (de_path e)"
    using diff_complete [OF can] by blast
  with roots k show False
    by (fastforce simp: prefix_Cons)
qed

lemma patch_document_stop: "patch_document d roots doc = Inl (Inr r) \<Longrightarrow> r = Switch"
  by (induction d roots doc rule: patch_document.induct) (auto split: option.splits sum.splits)

lemma build_patch_result:
  assumes "build_patch pc d ch = Inr r"
  obtains "r = Switch"
  | document patch serialized where
      "patch_document d (changed_roots ch) [] = Inr document"
      "pc_from_value pc (YMapping document) = Some patch"
      "pc_to_value pc patch = Inr serialized"
      "r = Patch patch (collect_leaves serialized [])"
  using assms unfolding build_patch_def
  by (auto split: sum.splits if_splits option.splits dest: patch_document_stop)

lemma classify_documents_result:
  assumes "classify_documents pc c d = Inr r"
  obtains "r = Switch"
  | "r = Noop" "diff c d = []" "option_eq (dns_listen c) (dns_listen d)"
  | patch proj where "r = Patch patch proj" "list_all patchable (diff c d)"
      "build_patch pc d (diff c d) = Inr r" "option_eq (dns_listen c) (dns_listen d)"
  | "r = Reload" "list_all reloadable (diff c d)" "option_eq (dns_listen c) (dns_listen d)"
  using assms unfolding classify_documents_def Let_def
  by (auto split: if_splits elim: build_patch_result)

lemma controller_fields_unchanged:
  assumes can: "canonical (YMapping c)" "canonical (YMapping d)"
    and none: "\<not> list_ex controller_entry (diff c d)" and k: "k \<in> set CONTROLLER_FIELDS"
  shows "option_eq (mapping_get c k) (mapping_get d k)"
proof (rule roots_bound_difference [OF can])
  show "\<forall>e \<in> set (diff c d). \<exists>root rest. de_path e = root # rest \<and> root \<in> - set CONTROLLER_FIELDS"
    using none diff_path_root [OF can]
    by (fastforce simp: list_ex_iff controller_entry_def neq_Nil_conv split: list.splits)
qed (use k in simp)

lemma patch_keeps_keys:
  assumes can: "canonical (YMapping c)" "canonical (YMapping d)"
    and "list_all patchable (diff c d)" and k: "mapping_get d k = None"
  shows "mapping_get c k = None"
proof (rule ccontr)
  assume "\<not> ?thesis"
  with k have "\<not> option_eq (value_at (YMapping c) [k]) (value_at (YMapping d) [k])"
    by (simp add: get_in_def)
  then obtain e where e: "e \<in> set (diff c d)" and "prefix (de_path e) [k] \<or> prefix [k] (de_path e)"
    using diff_complete [OF can] by blast
  then obtain rest where "de_path e = k # rest"
    using diff_path_root [OF can e] by (cases "de_path e") auto
  then have "de_new e = None"
    using diff_sound(1) [OF can e] k by (simp add: get_in_def)
  with assms(3) e show False
    by (auto simp: list_all_iff patchable_def)
qed


definition sample_spec :: instance_spec where
  "sample_spec =
     \<lparr>is_core = \<lparr>cs_kind = Mihomo, cs_binary_path = ''/bin/m'', cs_version = None, cs_features = []\<rparr>,
      is_config_path = ''/c.yaml'', is_working_dir = ''/w'', is_pid_file = None,
      is_options = \<lparr>io_startup_timeout = 1, io_health = sample_policy, io_restart_policy = ''r'',
        io_backoff = ''b''\<rparr>\<rparr>"

definition sample_codec :: patch_codec where
  "sample_codec = \<lparr>pc_from_value = Some, pc_to_value = Inr, pc_runtime_to_value = Inr\<rparr>"


section \<open>The patch carries every change\<close>

lemma filter_entries_plain:
  "list_all (\<lambda>(k, v). is_ystring k) m \<Longrightarrow> distinct (map fst (acc @ m)) \<Longrightarrow>
     filter_entries allowed m acc = Inr (acc @ filter (\<lambda>(k, v). key_text k \<in> set allowed) m)"
proof (induction allowed m acc rule: filter_entries.induct)
  case (2 allowed key v m acc)
  from "2.prems" obtain s where s: "key = YString s"
    by (auto simp: is_ystring_iff)
  show ?case
  proof (cases "s \<in> set allowed")
    case True
    have "AList.update key v acc = acc @ [(key, v)]"
      using "2.prems" by (intro update_append_new) auto
    with True "2.IH" [of s] "2.prems" s show ?thesis by simp
  next
    case False
    with "2.IH" [of s] "2.prems" s show ?thesis by simp
  qed
qed simp

lemma filter_mapping_get:
  assumes "plain v" and "filter_mapping v allowed = Inr w" and f: "f \<in> set allowed"
  shows "value_at w (f # rest) = value_at v (f # rest)"
proof -
  obtain m where m: "v = YMapping m"
    using assms by (cases v) (auto simp: filter_mapping_def as_mapping_def)
  have keys: "list_all (\<lambda>(k, v). is_ystring k) m" and dist: "distinct (map fst m)"
    using assms(1) by (auto simp: m list_all_iff)
  let ?n = "filter (\<lambda>(k, v). key_text k \<in> set allowed) m"
  have w: "w = YMapping ?n"
    using assms(2) keys dist by (simp add: filter_mapping_def m filter_entries_plain)
  have "map_of ?n (YString f) = map_of m (YString f)"
    using f by (induction m) auto
  then show ?thesis
    by (simp add: w m get_in_def mapping_get_def)
qed

definition root_allowed :: "string \<Rightarrow> string list option" where
  "root_allowed root =
     (if root = ''tun'' then Some TUN_PATCH_FIELDS
      else if root = ''tuic-server'' then Some TUIC_SERVER_PATCH_FIELDS else None)"

definition restricted :: "string \<Rightarrow> yaml \<Rightarrow> error + yaml" where
  "restricted root v = (case root_allowed root of Some allowed \<Rightarrow> filter_mapping v allowed | None \<Rightarrow> Inr v)"

lemma patch_document_Cons:
  "patch_document desired (root # roots) doc =
     (case mapping_get desired root of
        None \<Rightarrow> Inl (Inr Switch)
      | Some v \<Rightarrow> (case restricted root v of
             Inl e \<Rightarrow> Inl (Inl e)
           | Inr v \<Rightarrow> patch_document desired roots (mapping_insert root v doc)))"
  by (simp add: restricted_def root_allowed_def split: option.split)

lemma set_changed_roots:
  "(\<And>e. e \<in> set ch \<Longrightarrow> de_path e \<noteq> []) \<Longrightarrow> set (changed_roots ch) = (\<lambda>e. hd (de_path e)) ` set ch"
  unfolding changed_roots_def set_btree_set
proof (induction ch)
  case (Cons e ch)
  then obtain root rest where "de_path e = root # rest"
    by (meson list.set_intros(1) neq_Nil_conv)
  with Cons show ?case by simp
qed simp

lemma patch_document_get:
  "patch_document desired roots doc = Inr doc' \<Longrightarrow>
     (k \<in> set roots \<longrightarrow> (\<exists>v w. mapping_get desired k = Some v \<and> restricted k v = Inr w \<and>
        mapping_get doc' k = Some w)) \<and>
     (k \<notin> set roots \<longrightarrow> mapping_get doc' k = mapping_get doc k)"
proof (induction roots arbitrary: doc)
  case Nil
  then show ?case by simp
next
  case (Cons root roots)
  then obtain v w where v: "mapping_get desired root = Some v" and w: "restricted root v = Inr w"
    and rec: "patch_document desired roots (mapping_insert root w doc) = Inr doc'"
    by (auto simp: patch_document_Cons simp del: patch_document.simps split: option.splits sum.splits)
  from Cons.IH [OF rec] v w show ?case
    by (cases "k \<in> set roots") (auto simp: mapping_get_insert)
qed



section \<open>A bootstrap epoch opens no inbound\<close>

text \<open>What a document must look like to open no inbound port, device or server.\<close>

definition tun_enabled :: "mapping \<Rightarrow> bool" where
  "tun_enabled doc \<longleftrightarrow>
     Option.bind (Option.bind (Option.bind (mapping_get doc ''tun'') as_mapping)
       (\<lambda>m. mapping_get m ''enable'')) as_bool = Some True"

definition inbound_closed :: "mapping \<Rightarrow> bool" where
  "inbound_closed doc \<longleftrightarrow>
     (\<forall>p \<in> set INBOUND_PORT_FIELDS.
        case mapping_get doc p of None \<Rightarrow> True | Some v \<Rightarrow> as_i64 v = Some 0) \<and>
     \<not> tun_enabled doc \<and> \<not> inbound_surface_open doc \<and> dns_listen doc = None"

definition zeroed_port :: "yaml option \<Rightarrow> yaml option" where
  "zeroed_port v = (case Option.bind v as_i64 of
     Some n \<Rightarrow> if n \<noteq> 0 then Some (YNumber (PosInt 0)) else v | None \<Rightarrow> v)"

lemma zero_listener_get:
  "mapping_get (zero_listener key doc) k =
     (if k = key then zeroed_port (mapping_get doc k) else mapping_get doc k)"
  by (auto simp: zero_listener_def zeroed_port_def mapping_get_insert split: option.split)

lemma as_i64_zero [simp]: "as_i64 (YNumber (PosInt 0)) = Some 0"
  by (simp add: as_i64_def)

lemma zeroed_port_idem [simp]: "zeroed_port (zeroed_port v) = zeroed_port v"
  by (auto simp: zeroed_port_def split: option.split)

lemma fold_zero_listener_get:
  "mapping_get (fold zero_listener keys doc) k =
     (if k \<in> set keys then zeroed_port (mapping_get doc k) else mapping_get doc k)"
  by (induction keys arbitrary: doc) (auto simp: zero_listener_get)

lemma zero_inbounds_get:
  "mapping_get (zero_inbounds doc) k =
     (if k = ''tun'' then map_option (update_mapping disable_tun) (mapping_get doc k)
      else if k \<in> set INBOUND_PORT_FIELDS then zeroed_port (mapping_get doc k)
      else mapping_get doc k)"
proof -
  have tun: "''tun'' \<notin> set INBOUND_PORT_FIELDS"
    by (simp add: INBOUND_PORT_FIELDS_def)
  show ?thesis
    using tun unfolding zero_inbounds_def Let_def
    by (cases "mapping_get (fold zero_listener INBOUND_PORT_FIELDS doc) ''tun''")
      (auto simp: mapping_get_insert fold_zero_listener_get)
qed

lemma keys_update_present:
  "mapping_get m k \<noteq> None \<Longrightarrow> map fst (mapping_insert k v m) = map fst m"
  unfolding mapping_insert_def mapping_get_def
  by (induction m) (auto split: if_splits)

lemma mapping_keys_map_fst: "map fst m = map fst n \<Longrightarrow> mapping_keys m = mapping_keys n"
proof -
  have "mapping_keys m = List.map_filter as_str (map fst m)" for m
    by (induction m) (simp_all add: mapping_keys_def map_filter_simps split: option.split)
  then show "map fst m = map fst n \<Longrightarrow> ?thesis" by simp
qed

lemma zero_listener_keys: "map fst (zero_listener key doc) = map fst doc"
  by (auto simp: zero_listener_def keys_update_present bind_eq_Some_conv split: option.split)

lemma zero_inbounds_keys: "mapping_keys (zero_inbounds doc) = mapping_keys doc"
proof (rule mapping_keys_map_fst)
  have "map fst (fold zero_listener ks doc) = map fst doc" for ks
    by (induction ks arbitrary: doc) (simp_all add: zero_listener_keys)
  then show "map fst (zero_inbounds doc) = map fst doc"
    by (auto simp: zero_inbounds_def Let_def keys_update_present split: option.split)
qed

lemma disable_tun_get:
  "Option.bind (mapping_get (disable_tun m) ''enable'') as_bool \<noteq> Some True"
  "mapping_get (disable_tun m) ''enable'' = None \<longleftrightarrow> mapping_get m ''enable'' = None"
  "k \<noteq> ''enable'' \<Longrightarrow> mapping_get (disable_tun m) k = mapping_get m k"
  by (auto simp: disable_tun_def mapping_get_insert bind_eq_Some_conv)

lemma disable_tun_readable:
  "(case mapping_get (disable_tun m) ''enable'' of None \<Rightarrow> False | Some v \<Rightarrow> as_bool v = None) \<longleftrightarrow>
   (case mapping_get m ''enable'' of None \<Rightarrow> False | Some v \<Rightarrow> as_bool v = None)"
  by (auto simp: disable_tun_def mapping_get_insert split: option.splits)

lemma untag_update_mapping:
  "untag_ref (update_mapping f v) =
     (case untag_ref v of YMapping m \<Rightarrow> YMapping (f m) | w \<Rightarrow> w)"
  by (induction f v rule: update_mapping.induct) auto

lemma as_mapping_update: "as_mapping (update_mapping f v) = map_option f (as_mapping v)"
  by (simp add: as_mapping_def untag_update_mapping split: yaml.split)

text \<open>
  C32. When a document passes the overlap test and does not mention \<^verbatim>\<open>dns.listen\<close>, the bootstrap
  document made from it opens no inbound: every numeric port is absent or zero, the TUN device is
  not enabled, no server, listener, tunnel or unknown inbound key is left, and no DNS listener
  exists. Nothing but the ports and \<^verbatim>\<open>tun.enable\<close> was changed.
\<close>

theorem bootstrap_closed:
  assumes "overlap_block doc = None" and dns: "dns_listen doc = None"
  shows "inbound_closed (zero_inbounds doc) \<and>
    (\<forall>k. k \<notin> set INBOUND_PORT_FIELDS \<longrightarrow> k \<noteq> ''tun'' \<longrightarrow>
       mapping_get (zero_inbounds doc) k = mapping_get doc k) \<and>
    (\<forall>tun tun' k. Option.bind (mapping_get doc ''tun'') as_mapping = Some tun \<longrightarrow>
       Option.bind (mapping_get (zero_inbounds doc) ''tun'') as_mapping = Some tun' \<longrightarrow>
       k \<noteq> ''enable'' \<longrightarrow> mapping_get tun' k = mapping_get tun k)"
proof -
  have closed: "\<not> inbound_surface_open doc"
    using assms by (auto simp: overlap_block_def split: if_splits)
  have other: "mapping_get (zero_inbounds doc) k = mapping_get doc k"
    if "k \<notin> set INBOUND_PORT_FIELDS" "k \<noteq> ''tun''" for k
    using that by (simp add: zero_inbounds_get)
  have ports: "case mapping_get (zero_inbounds doc) p of None \<Rightarrow> True | Some v \<Rightarrow> as_i64 v = Some 0"
    if "p \<in> set INBOUND_PORT_FIELDS" for p
  proof -
    have "p \<noteq> ''tun''" using that by (auto simp: INBOUND_PORT_FIELDS_def)
    moreover have "\<not> port_not_integer doc p"
      using closed that by (auto simp: inbound_surface_open_def list_ex_iff)
    ultimately show ?thesis
      using that by (auto simp: zero_inbounds_get zeroed_port_def port_not_integer_def
          split: option.splits)
  qed
  have tun: "mapping_get (zero_inbounds doc) ''tun'' =
      map_option (update_mapping disable_tun) (mapping_get doc ''tun'')"
    by (simp add: zero_inbounds_get)
  have "\<not> tun_enabled (zero_inbounds doc)"
    using disable_tun_get(1)
    by (auto simp: tun_enabled_def tun as_mapping_update bind_eq_Some_conv)
  moreover have "\<not> inbound_surface_open (zero_inbounds doc)"
  proof -
    have "\<not> port_not_integer (zero_inbounds doc) p" if "p \<in> set INBOUND_PORT_FIELDS" for p
      using ports [OF that] by (simp add: port_not_integer_def split: option.splits)
    moreover have "tun_unreadable (zero_inbounds doc) = tun_unreadable doc"
      using tun disable_tun_readable
      by (cases "mapping_get doc ''tun''"; cases "Option.bind (mapping_get doc ''tun'') as_mapping")
        (simp_all add: tun_unreadable_def as_mapping_update)
    moreover have "tuic_active (zero_inbounds doc) = tuic_active doc"
      using other [of "''tuic-server''"] by (simp add: tuic_active_def INBOUND_PORT_FIELDS_def)
    moreover have "server_string_set (zero_inbounds doc) k = server_string_set doc k"
      "collection_set (zero_inbounds doc) k = collection_set doc k"
      if "k \<notin> set INBOUND_PORT_FIELDS" "k \<noteq> ''tun''" for k
      using other [OF that] by (simp_all add: server_string_set_def collection_set_def)
    ultimately show ?thesis
      using closed
      by (simp add: inbound_surface_open_def zero_inbounds_keys list_ex_iff INBOUND_PORT_FIELDS_def)
  qed
  moreover have "dns_listen (zero_inbounds doc) = None"
    using dns other [of "''dns''"] by (simp add: dns_listen_def INBOUND_PORT_FIELDS_def)
  ultimately show ?thesis
    using ports other
    by (auto simp: inbound_closed_def tun as_mapping_update disable_tun_get(3) bind_eq_Some_conv)
qed

theorem bootstrap_closed_witness:
  "overlap_block [(YString ''port'', YNumber (PosInt 7890)),
     (YString ''tun'', YMapping [(YString ''enable'', YBool True)])] = None \<and>
   inbound_closed (zero_inbounds [(YString ''port'', YNumber (PosInt 7890)),
     (YString ''tun'', YMapping [(YString ''enable'', YBool True)])])"
proof -
  let ?doc = "[(YString ''port'', YNumber (PosInt 7890)),
     (YString ''tun'', YMapping [(YString ''enable'', YBool True)])]"
  have contains: "\<not> str_contains ''port'' p" "\<not> str_contains ''tun'' p" if "length p > 5" for p
    using that by (auto simp: str_contains_iff dest!: arg_cong [of _ _ length])
  have dns: "dns_listen ?doc = None"
    by (simp add: dns_listen_def mapping_get_def)
  moreover have block: "overlap_block ?doc = None"
    using contains
    by (simp add: overlap_block_def dns inbound_surface_open_def INBOUND_PORT_FIELDS_def
        port_not_integer_def mapping_get_def as_i64_def tun_unreadable_def tuic_active_def
        server_string_set_def collection_set_def mapping_keys_def map_filter_simps unknown_inbound_def
        suffix_def PATCH_FIELDS_def)
  ultimately show ?thesis
    using bootstrap_closed [OF block dns] by blast
qed

lemma overlap_block_stops_at_empty_dns_listen:
  "dns_listen doc = Some (YString []) \<or> dns_listen doc = Some YNull \<Longrightarrow> overlap_block doc = None"
  by (auto simp: overlap_block_def as_str_def is_null_def)


end
