(* ===== verification/Paths.thy ===== *)
theory Paths
  imports Core_State
begin

text \<open>
  The operations of \<^verbatim>\<open>std::path::Path\<close> the source uses (through the UTF-8 paths of the crate
  \<^verbatim>\<open>camino\<close>): \<open>join\<close> with a name the program makes up, and, for the Unix branch that admits a
  controller path, \<open>is_absolute\<close>, \<open>parent\<close>, \<open>file_name\<close> and the component-wise
  \<open>starts_with\<close>.
\<close>

fun separator :: "platform \<Rightarrow> char" where
  "separator Unix = CHR ''/''"
| "separator Windows = char_of (92 :: nat)"

definition is_separator :: "platform \<Rightarrow> char \<Rightarrow> bool" where
  "is_separator plat c \<longleftrightarrow> c = CHR ''/'' \<or> (plat = Windows \<and> c = char_of (92 :: nat))"

definition is_absolute :: "path \<Rightarrow> bool" where
  "is_absolute p \<longleftrightarrow> prefix ''/'' p"

text \<open>\<^verbatim>\<open>join\<close>; an absolute argument replaces the path (on Windows only relative names are joined).\<close>

definition path_join :: "platform \<Rightarrow> path \<Rightarrow> path \<Rightarrow> path" where
  "path_join plat base name =
     (if plat = Unix \<and> is_absolute name then name
      else if base = [] \<or> is_separator plat (last base) then base @ name
      else base @ [separator plat] @ name)"

text \<open>
  Trailing separators and \<^verbatim>\<open>.\<close> components do not count; on the reversed path. A Windows drive
  prefix is an ordinary first component: the parents the program takes are never drive roots.
\<close>

fun trim_rev :: "platform \<Rightarrow> string \<Rightarrow> string" where
  "trim_rev plat (a # b # cs) =
     (if is_separator plat a then trim_rev plat (b # cs)
      else if a = CHR ''.'' \<and> is_separator plat b then trim_rev plat (b # cs)
      else a # b # cs)"
| "trim_rev plat cs = cs"

definition path_parent :: "platform \<Rightarrow> path \<Rightarrow> path option" where
  "path_parent plat p =
     (let r = trim_rev plat (rev p)
      in if r = [] \<or> (length r = 1 \<and> is_separator plat (hd r)) then None
         else Some (rev (trim_rev plat (dropWhile (\<lambda>c. \<not> is_separator plat c) r))))"

definition path_file_name :: "platform \<Rightarrow> path \<Rightarrow> path option" where
  "path_file_name plat p =
     (let r = trim_rev plat (rev p); name = rev (takeWhile (\<lambda>c. \<not> is_separator plat c) r)
      in if name = [] \<or> name = ''.'' \<or> name = ''..'' then None else Some name)"

fun split_slash :: "string \<Rightarrow> string \<Rightarrow> string list" where
  "split_slash acc [] = [rev acc]"
| "split_slash acc (c # cs) =
     (if c = CHR ''/'' then rev acc # split_slash [] cs else split_slash (c # acc) cs)"

text \<open>The components: a root, then the names; \<^verbatim>\<open>.\<close> counts only at the start of a relative path.\<close>

definition components :: "path \<Rightarrow> string list" where
  "components p =
     (let cs = split_slash [] p; body = filter (\<lambda>c. c \<noteq> [] \<and> c \<noteq> ''.'') (tl cs)
      in if is_absolute p then ''/'' # body
         else (if hd cs = [] then [] else [hd cs]) @ body)"

definition path_starts_with :: "path \<Rightarrow> path \<Rightarrow> bool" where
  "path_starts_with p base = prefix (components base) (components p)"

lemma path_join_inject:
  "\<not> is_absolute m \<Longrightarrow> \<not> is_absolute n \<Longrightarrow> path_join plat base m = path_join plat base n \<longleftrightarrow> m = n"
  by (auto simp: path_join_def)

section \<open>Joining a name extends the components\<close>

lemma split_slash_append:
  "split_slash acc (a @ CHR ''/'' # b) = split_slash acc a @ split_slash [] b"
  by (induction acc a rule: split_slash.induct) auto

lemma split_slash_no_slash: "CHR ''/'' \<notin> set b \<Longrightarrow> split_slash acc b = [rev acc @ b]"
  by (induction b arbitrary: acc) auto

lemma split_slash_nonempty [simp]: "split_slash acc a \<noteq> []"
  by (induction acc a rule: split_slash.induct) auto

lemma is_absolute_append: "a \<noteq> [] \<Longrightarrow> is_absolute (a @ b) \<longleftrightarrow> is_absolute a"
  by (cases a) (auto simp: is_absolute_def)

lemma components_join:
  assumes "is_absolute p" and "CHR ''/'' \<notin> set n" and "n \<noteq> []" and "n \<noteq> ''.''"
  shows "components (path_join Unix p n) = components p @ [n]"
proof -
  from assms(1) have p: "p \<noteq> []" by (auto simp: is_absolute_def)
  have n: "\<not> is_absolute n" using assms(2,3) by (cases n) (auto simp: is_absolute_def)
  note abs = is_absolute_append [OF p]
  show ?thesis
  proof (cases "last p = CHR ''/''")
    case True
    with p obtain a where a: "p = a @ ''/''" by (metis append_butlast_last_id)
    have "path_join Unix p n = a @ CHR ''/'' # n"
      using True n by (simp add: path_join_def is_separator_def a)
    moreover have "split_slash [] p = split_slash [] a @ [[]]"
      by (simp add: a split_slash_append)
    ultimately show ?thesis
      using abs [of n] assms
      by (simp add: components_def a split_slash_append split_slash_no_slash)
  next
    case False
    have "path_join Unix p n = p @ CHR ''/'' # n"
      using False n p by (simp add: path_join_def is_separator_def)
    then show ?thesis
      using abs [of "CHR ''/'' # n"] assms
      by (simp add: components_def split_slash_append split_slash_no_slash)
  qed
qed

lemma file_name_no_slash:
  "path_file_name plat p = Some n \<Longrightarrow>
     CHR ''/'' \<notin> set n \<and> n \<noteq> [] \<and> n \<noteq> ''.'' \<and> n \<noteq> ''..''"
  by (auto simp: path_file_name_def Let_def is_separator_def split: if_splits dest: set_takeWhileD)

section \<open>The name and the parent of a joined path\<close>

text \<open>A name the program makes up: no separator, and neither \<^verbatim>\<open>.\<close> nor \<^verbatim>\<open>..\<close>.\<close>

definition plain_name :: "platform \<Rightarrow> string \<Rightarrow> bool" where
  "plain_name plat n \<longleftrightarrow> n \<noteq> [] \<and> n \<noteq> ''.'' \<and> n \<noteq> ''..'' \<and> list_all (\<lambda>c. \<not> is_separator plat c) n"

lemma plain_name_relative: "plain_name plat n \<Longrightarrow> \<not> is_absolute n"
  by (cases n) (auto simp: plain_name_def is_absolute_def is_separator_def)

lemma trim_rev_name:
  assumes "plain_name plat n" and "r = [] \<or> is_separator plat (hd r)"
  shows "trim_rev plat (rev n @ r) = rev n @ r"
proof -
  obtain a m where n: "n = m @ [a]" using assms(1) by (cases n rule: rev_cases) (auto simp: plain_name_def)
  show ?thesis
  proof (cases m rule: rev_cases)
    case Nil
    with assms n show ?thesis by (cases r) (auto simp: plain_name_def)
  next
    case (snoc m' b)
    with assms n show ?thesis by (auto simp: plain_name_def)
  qed
qed

lemma rev_path_join:
  assumes "plain_name plat n"
  obtains r where "rev (path_join plat d n) = rev n @ r" "r = [] \<or> is_separator plat (hd r)"
    "\<And>n'. plain_name plat n' \<Longrightarrow> rev (path_join plat d n') = rev n' @ r"
proof -
  define r where "r = (if d = [] \<or> is_separator plat (last d) then rev d else separator plat # rev d)"
  have "rev (path_join plat d n') = rev n' @ r" if "plain_name plat n'" for n'
    using plain_name_relative [OF that] by (simp add: path_join_def r_def)
  moreover have "is_separator plat (separator plat)" by (cases plat) (simp_all add: is_separator_def)
  then have "r = [] \<or> is_separator plat (hd r)" by (auto simp: r_def hd_rev)
  ultimately show ?thesis using that assms by blast
qed

lemma takeWhile_name:
  assumes "plain_name plat n" and "r = [] \<or> is_separator plat (hd r)"
  shows "takeWhile (\<lambda>c. \<not> is_separator plat c) (rev n @ r) = rev n"
    "dropWhile (\<lambda>c. \<not> is_separator plat c) (rev n @ r) = r"
proof -
  have "\<forall>c \<in> set (rev n). \<not> is_separator plat c" using assms(1) by (auto simp: plain_name_def list_all_iff)
  moreover have "takeWhile (\<lambda>c. \<not> is_separator plat c) r = []" "dropWhile (\<lambda>c. \<not> is_separator plat c) r = r"
    using assms(2) by (cases r; auto)+
  ultimately show "takeWhile (\<lambda>c. \<not> is_separator plat c) (rev n @ r) = rev n"
    "dropWhile (\<lambda>c. \<not> is_separator plat c) (rev n @ r) = r"
    using takeWhile_append2 [of "rev n" "\<lambda>c. \<not> is_separator plat c" r]
      dropWhile_append2 [of "rev n" "\<lambda>c. \<not> is_separator plat c" r] by auto
qed

lemma file_name_join [simp]:
  assumes "plain_name plat n"
  shows "path_file_name plat (path_join plat d n) = Some n"
proof -
  obtain r where r: "rev (path_join plat d n) = rev n @ r" "r = [] \<or> is_separator plat (hd r)"
    by (rule rev_path_join [OF assms, where d = d])
  show ?thesis
    using assms r takeWhile_name [OF assms r(2)] trim_rev_name [OF assms r(2)]
    by (simp add: path_file_name_def plain_name_def)
qed

lemma parent_join:
  assumes "plain_name plat n" and "plain_name plat m"
  shows "path_parent plat (path_join plat d n) = path_parent plat (path_join plat d m)"
    and "\<exists>q. path_parent plat (path_join plat d n) = Some q"
proof -
  obtain r where r: "r = [] \<or> is_separator plat (hd r)"
    "\<And>n. plain_name plat n \<Longrightarrow> rev (path_join plat d n) = rev n @ r"
    by (rule rev_path_join [OF assms(1), where d = d]) blast
  have "path_parent plat (path_join plat d k) = Some (rev (trim_rev plat r))"
    if "plain_name plat k" for k
    using that r(2) [OF that] takeWhile_name [OF that r(1)] trim_rev_name [OF that r(1)]
    by (cases k rule: rev_cases) (auto simp: path_parent_def plain_name_def Let_def)
  then show "path_parent plat (path_join plat d n) = path_parent plat (path_join plat d m)"
    "\<exists>q. path_parent plat (path_join plat d n) = Some q"
    using assms by simp_all
qed

end
