(* ===== verification/Config.thy ===== *)
theory Config
  imports Mihomo Paths
begin

text \<open>
  \<^verbatim>\<open>config/mod.rs\<close>: the snapshot of a source configuration and the effective configuration
  prepared from it for an epoch. The YAML parser and printer and the URL parser are the
  parameter \<open>codec\<close>; \<^verbatim>\<open>std::fs::canonicalize\<close> is a function argument.

  The lemmas show how a prepared document arises (so that every theorem about preparation reads
  it off), that the identity of a snapshot ignores the order of entries, and that the managed
  endpoint of an epoch is its own.
\<close>

section \<open>Definitions\<close>

record codec =
  cx_from_slice :: "string \<Rightarrow> string + yaml"
  cx_to_string :: "mapping \<Rightarrow> string + string"
  cx_url_parse :: "string \<Rightarrow> string + url"

text \<open>\<open>Inl\<close> the I/O error's text; \<open>None\<close> when the canonical path is not UTF-8.\<close>

type_synonym fs_canonicalize = "path \<Rightarrow> string + path option"

record config_snapshot =
  sn_source_path :: path
  sn_document :: mapping
  sn_source_hash :: string

record prepared_config =
  pr_bytes :: string
  pr_document :: mapping
  pr_controller :: resolved_controller
  pr_rewrote_controller :: bool
  pr_source_hash :: string
  pr_effective_hash :: string

definition serialize_mapping :: "codec \<Rightarrow> mapping \<Rightarrow> error + string" where
  "serialize_mapping cx document = map_sum Yaml id (cx_to_string cx document)"

definition snapshot_from_bytes :: "codec \<Rightarrow> path \<Rightarrow> string \<Rightarrow> error + config_snapshot" where
  "snapshot_from_bytes cx source_path raw =
     (case cx_from_slice cx raw of Inl e \<Rightarrow> Inl (Yaml e)
      | Inr v \<Rightarrow>
          (case canonicalize v of Inl e \<Rightarrow> Inl e
           | Inr (YMapping document) \<Rightarrow>
               map_sum id (\<lambda>canonical. \<lparr>sn_source_path = source_path, sn_document = document,
                   sn_source_hash = semantic_hash canonical\<rparr>) (serialize_mapping cx document)
           | Inr _ \<Rightarrow> Inl (InvalidConfig ''top-level YAML document must be a mapping'')))"

definition probe_address :: "string \<Rightarrow> string" where
  "probe_address address =
     (case rsplit_once (CHR '':'') address of
        Some (h, port) \<Rightarrow>
          if h \<in> {''0.0.0.0'', ''::'', ''[::]'', []} then ''127.0.0.1:'' @ port else address
      | None \<Rightarrow> address)"

definition resolve_controller :: "codec \<Rightarrow> config_info \<Rightarrow> error + resolved_controller" where
  "resolve_controller cx info =
     (case ci_controller info of
        None \<Rightarrow> Inl ControllerMissing
      | Some raw \<Rightarrow>
          map_sum id (\<lambda>host. \<lparr>rc_host = host, rc_secret = ci_secret info\<rparr>)
            (case raw of
               RawPipe p \<Rightarrow> Inr (NamedPipe p)
             | RawUnix p \<Rightarrow> Inr (UnixSocket p)
             | RawHttp address \<Rightarrow> host_http (cx_url_parse cx) (probe_address address)))"

definition EPOCH_PLACEHOLDER :: string where
  "EPOCH_PLACEHOLDER = ''{epoch}''"

definition validate_controller_template :: "string option \<Rightarrow> error + unit" where
  "validate_controller_template template =
     (case template of
        Some value \<Rightarrow> if str_contains value EPOCH_PLACEHOLDER then Inr ()
          else Inl (InvalidManagerOptions ''managed controller_template must contain `{epoch}`'')
      | None \<Rightarrow> Inr ())"

definition managed_unix_endpoint :: "fs_canonicalize \<Rightarrow> path \<Rightarrow> string \<Rightarrow> error + string" where
  "managed_unix_endpoint canon_fs runtime_dir endpoint =
     (let candidate = (if is_absolute endpoint then endpoint else path_join Unix runtime_dir endpoint)
      in case path_parent Unix candidate of
           None \<Rightarrow> Inl (InvalidManagerOptions ''managed Unix controller has no parent directory'')
         | Some parent \<Rightarrow>
             (case canon_fs parent of
                Inl e \<Rightarrow> Inl (InvalidManagerOptions (''managed Unix controller parent `'' @ parent @
                    ''` cannot be canonicalized: '' @ e))
              | Inr None \<Rightarrow> Inl (InvalidManagerOptions ''managed Unix controller path is not UTF-8'')
              | Inr (Some canonical_parent) \<Rightarrow>
                  if \<not> path_starts_with canonical_parent runtime_dir
                  then Inl (InvalidManagerOptions (''managed Unix controller `'' @ candidate @
                    ''` escapes runtime directory `'' @ runtime_dir @ ''`''))
                  else case path_file_name Unix candidate of
                         None \<Rightarrow> Inl (InvalidManagerOptions
                           ''managed Unix controller must name a socket file'')
                       | Some file_name \<Rightarrow> Inr (path_join Unix canonical_parent file_name)))"

definition managed_endpoint_path ::
  "platform \<Rightarrow> fs_canonicalize \<Rightarrow> path \<Rightarrow> string option \<Rightarrow> u64 \<Rightarrow> error + string" where
  "managed_endpoint_path plat canon_fs runtime_dir template epoch =
     (case validate_controller_template template of
        Inl e \<Rightarrow> Inl e
      | Inr _ \<Rightarrow>
          (case template of
             Some template \<Rightarrow>
               let endpoint = str_replace EPOCH_PLACEHOLDER (show_u64 epoch) template
               in (case plat of Windows \<Rightarrow> Inr endpoint
                   | Unix \<Rightarrow> managed_unix_endpoint canon_fs runtime_dir endpoint)
           | None \<Rightarrow>
               (case plat of
                  Windows \<Rightarrow> Inr (replicate 2 (separator Windows) @ ''.'' @ [separator Windows] @
                    ''pipe'' @ [separator Windows] @ ''nyanpasu'' @ [separator Windows] @
                    ''core-'' @ show_u64 epoch)
                | Unix \<Rightarrow> Inr (path_join Unix runtime_dir (''core-'' @ show_u64 epoch @ ''.sock'')))))"

text \<open>\<^verbatim>\<open>let Value::Mapping(document) = ... else { unreachable!() }\<close>.\<close>

fun mapping_of :: "yaml \<Rightarrow> mapping" where
  "mapping_of (YMapping m) = m"
| "mapping_of _ = []"

definition prepare ::
  "platform \<Rightarrow> codec \<Rightarrow> fs_canonicalize \<Rightarrow> config_snapshot \<Rightarrow> string option \<Rightarrow> path \<Rightarrow> u64 \<Rightarrow>
   runtime_feature set \<Rightarrow> bool \<Rightarrow> error + prepared_config" where
  "prepare plat cx canon_fs snap controller_template runtime_dir epoch runtime zero =
     (let document = (if zero then zero_inbounds (sn_document snap) else sn_document snap);
          rewrote_controller = (LocalIpc \<in> runtime)
      in case (if rewrote_controller
               then map_sum id (rewrite_managed_controller plat document)
                 (managed_endpoint_path plat canon_fs runtime_dir controller_template epoch)
               else Inr document) of
           Inl e \<Rightarrow> Inl e
         | Inr document \<Rightarrow>
             (case canonicalize (YMapping document) of
                Inl e \<Rightarrow> Inl e
              | Inr v \<Rightarrow>
                  let document = mapping_of v;
                      info = (if rewrote_controller then inspect plat document
                              else inspect_http document)
                  in (case resolve_controller cx info of
                        Inl e \<Rightarrow> Inl e
                      | Inr controller \<Rightarrow>
                          map_sum id (\<lambda>bytes.
                            \<lparr>pr_bytes = bytes, pr_document = document, pr_controller = controller,
                             pr_rewrote_controller = rewrote_controller,
                             pr_source_hash = sn_source_hash snap,
                             pr_effective_hash = semantic_hash bytes\<rparr>)
                            (serialize_mapping cx document))))"

definition prepare_full ::
  "platform \<Rightarrow> codec \<Rightarrow> fs_canonicalize \<Rightarrow> config_snapshot \<Rightarrow> string option \<Rightarrow> path \<Rightarrow> u64 \<Rightarrow>
   runtime_feature set \<Rightarrow> error + prepared_config" where
  "prepare_full plat cx canon_fs snap template runtime_dir epoch runtime =
     prepare plat cx canon_fs snap template runtime_dir epoch runtime False"

definition prepare_bootstrap ::
  "platform \<Rightarrow> codec \<Rightarrow> fs_canonicalize \<Rightarrow> config_snapshot \<Rightarrow> string option \<Rightarrow> path \<Rightarrow> u64 \<Rightarrow>
   runtime_feature set \<Rightarrow> error + prepared_config" where
  "prepare_bootstrap plat cx canon_fs snap template runtime_dir epoch runtime =
     prepare plat cx canon_fs snap template runtime_dir epoch runtime True"

section \<open>Lemmas on snapshots\<close>

text \<open>What the YAML parser promises of a mapping: no key occurs twice.\<close>

definition unique_keys :: "codec \<Rightarrow> bool" where
  "unique_keys cx \<longleftrightarrow> (\<forall>raw v. cx_from_slice cx raw = Inr v \<longrightarrow> strict v \<longrightarrow> plain v)"

lemma snapshot_result:
  assumes "snapshot_from_bytes cx path raw = Inr snap"
  obtains v bytes where "cx_from_slice cx raw = Inr v" "strict v"
    "canon v = YMapping (sn_document snap)" "cx_to_string cx (sn_document snap) = Inr bytes"
    "sn_source_hash snap = semantic_hash bytes" "sn_source_path snap = path"
  using assms
  by (auto simp: snapshot_from_bytes_def canonicalize_Inr_iff serialize_mapping_def
      split: sum.splits yaml.splits)

lemma snapshot_canonical:
  assumes "snapshot_from_bytes cx path raw = Inr snap" and "unique_keys cx"
  shows "canonical (YMapping (sn_document snap))"
  using assms(1)
proof (cases rule: snapshot_result)
  case (1 v bytes)
  then have "plain v" using assms(2) by (simp add: unique_keys_def)
  with 1(3) canonical_canon show ?thesis by metis
qed

text \<open>
  The identity of a source configuration depends on its content, not on its layout: two
  files that the parser reads as documents that differ only in the order of mapping entries give
  snapshots with the same document and the same source hash.
\<close>

theorem snapshot_hash_order_insensitive:
  assumes "unique_keys cx"
    and "snapshot_from_bytes cx path raw = Inr snap"
    and "snapshot_from_bytes cx path' raw' = Inr snap'"
    and "cx_from_slice cx raw = Inr v" and "cx_from_slice cx raw' = Inr v'"
    and "value_eq_by (=) v v'"
  shows "sn_document snap = sn_document snap' \<and> sn_source_hash snap = sn_source_hash snap'"
  using assms(2)
proof (cases rule: snapshot_result)
  case a: (1 w bytes)
  show ?thesis
    using assms(3)
  proof (cases rule: snapshot_result)
    case b: (1 w' bytes')
    have "plain v" "plain v'"
      using assms a b by (auto simp: unique_keys_def)
    then have "canon v = canon v'"
      using assms(6) by (rule canon_order_insensitive)
    with a b assms show ?thesis by auto
  qed
qed

definition sample_cx :: codec where
  "sample_cx =
     \<lparr>cx_from_slice = (\<lambda>raw. if raw = ''a'' then Inr sample_document else Inr sample_reordered),
      cx_to_string = (\<lambda>m. Inr ''bytes''),
      cx_url_parse = (\<lambda>s. Inr \<lparr>url_scheme = ''http'', url_authority = s, url_path = ''/'',
        url_query = None, url_fragment = None, url_cannot_be_a_base = False\<rparr>)\<rparr>"

lemma sample_documents_plain: "plain sample_document" "plain sample_reordered"
  by (simp_all add: sample_document_def sample_reordered_def)

theorem snapshot_hash_order_insensitive_witness:
  "\<exists>snap snap'. snapshot_from_bytes sample_cx ''p'' ''a'' = Inr snap \<and>
     snapshot_from_bytes sample_cx ''q'' ''b'' = Inr snap' \<and>
     sn_document snap = sn_document snap' \<and> sn_source_hash snap = sn_source_hash snap'"
proof -
  have keys: "unique_keys sample_cx"
    using sample_documents_plain by (auto simp: unique_keys_def sample_cx_def split: if_splits)
  have eq: "value_eq_by (=) sample_document sample_reordered"
    by (simp add: sample_document_def sample_reordered_def)
  have "\<exists>snap. snapshot_from_bytes sample_cx path raw = Inr snap" for path raw
    using sample_documents_plain [THEN plain_strict, THEN canonicalize_canon(1)]
    by (auto simp: snapshot_from_bytes_def sample_cx_def serialize_mapping_def sample_document_def
        sample_reordered_def simp del: canonicalize.simps(1))
  then obtain snap snap' where "snapshot_from_bytes sample_cx ''p'' ''a'' = Inr snap"
    "snapshot_from_bytes sample_cx ''q'' ''b'' = Inr snap'" by blast
  with snapshot_hash_order_insensitive [OF keys this, of sample_document sample_reordered] eq
  show ?thesis by (auto simp: sample_cx_def)
qed

section \<open>Lemmas on preparation\<close>

lemma canon_mapping_get:
  assumes "plain (YMapping m)"
  shows "mapping_get (mapping_of (canon (YMapping m))) k = map_option canon (mapping_get m k)"
proof -
  let ?es = "map (\<lambda>(k, v). (key_text k, canon v)) m"
  let ?n = "yentries (sort_key fst ?es)"
  have doc: "canon (YMapping m) = YMapping ?n"
    by (rule canon_mapping [OF assms])
  have pn: "plain (YMapping ?n)"
    using canonical_plain [OF canonical_canon [OF assms]] doc by simp
  have "(YString k, w) \<in> set ?n \<longleftrightarrow> (\<exists>v. (YString k, v) \<in> set m \<and> w = canon v)" for w
  proof -
    have key: "j = YString (key_text j)" if "(j, v) \<in> set m" for j v
      using that by (rule plain_keys [OF assms]) simp
    have "(YString k, w) \<in> set ?n \<longleftrightarrow> (\<exists>j v. (j, v) \<in> set m \<and> key_text j = k \<and> w = canon v)"
      by force
    also have "\<dots> \<longleftrightarrow> (\<exists>v. (YString k, v) \<in> set m \<and> w = canon v)"
      using key by force
    finally show ?thesis .
  qed
  then have "mapping_get ?n k = Some w \<longleftrightarrow> map_option canon (mapping_get m k) = Some w" for w
    using mapping_get_in [OF pn, of k w] mapping_get_in [OF assms, of k] by auto
  then show ?thesis
    unfolding doc by (metis mapping_of.simps(1) option.exhaust)
qed

lemma set_update_subset: "set (AList.update k v m) \<subseteq> insert (k, v) (set m)"
  by (induction m) auto

lemma canonical_insert_present:
  assumes "canonical (YMapping m)" and "mapping_get m k \<noteq> None" and "canonical v"
  shows "canonical (YMapping (mapping_insert k v m))"
proof -
  have "map (key_text \<circ> fst) (mapping_insert k v m) = map key_text (map fst (mapping_insert k v m))"
    by simp
  also have "\<dots> = map (key_text \<circ> fst) m"
    using keys_update_present [OF assms(2), of v] by simp
  finally have "sorted_wrt (<) (map (key_text \<circ> fst) (mapping_insert k v m))"
    using assms(1) by simp
  moreover have "set (mapping_insert k v m) \<subseteq> insert (YString k, v) (set m)"
    unfolding mapping_insert_def by (rule set_update_subset)
  ultimately show ?thesis
    using assms by (auto simp: list_all_iff)
qed

lemma canonical_get: "canonical (YMapping m) \<Longrightarrow> mapping_get m k = Some v \<Longrightarrow> canonical v"
  by (auto simp: mapping_get_def list_all_iff dest!: map_of_SomeD)

lemma canonical_zero_listener:
  "canonical (YMapping m) \<Longrightarrow> canonical (YMapping (zero_listener k m))"
  using canonical_insert_present [of m k "YNumber (PosInt 0)"]
  by (auto simp: zero_listener_def bind_eq_Some_conv simp del: canonical.simps(2) split: option.split)

lemma canonical_disable_tun:
  "canonical (YMapping m) \<Longrightarrow> canonical (YMapping (disable_tun m))"
  using canonical_insert_present [of m "''enable''" "YBool False"]
  by (auto simp: disable_tun_def bind_eq_Some_conv simp del: canonical.simps(2))

lemma canonical_zero_inbounds:
  assumes "canonical (YMapping m)"
  shows "canonical (YMapping (zero_inbounds m))"
proof -
  let ?n = "fold zero_listener INBOUND_PORT_FIELDS m"
  have "canonical (YMapping (fold zero_listener ks m))" for ks
    using assms by (induction ks arbitrary: m) (simp_all add: canonical_zero_listener del: canonical.simps(2))
  then have n: "canonical (YMapping ?n)" .
  show ?thesis
  proof (cases "mapping_get ?n ''tun''")
    case None
    with n show ?thesis by (simp add: zero_inbounds_def del: canonical.simps(2))
  next
    case (Some tun)
    have "canonical tun" by (rule canonical_get [OF n Some])
    then have "canonical (update_mapping disable_tun tun)"
      using canonical_disable_tun by (cases tun) auto
    with n Some canonical_insert_present [of ?n "''tun''"] show ?thesis
      by (simp add: zero_inbounds_def del: canonical.simps(2))
  qed
qed

definition base_document :: "bool \<Rightarrow> mapping \<Rightarrow> mapping" where
  "base_document zero doc = (if zero then zero_inbounds doc else doc)"

fun local_host :: "platform \<Rightarrow> string \<Rightarrow> host" where
  "local_host Windows = NamedPipe"
| "local_host Unix = UnixSocket"

lemma canonical_base:
  "canonical (YMapping doc) \<Longrightarrow> canonical (YMapping (base_document zero doc))"
  by (simp add: base_document_def canonical_zero_inbounds del: canonical.simps(2))

lemma canonical_document_get:
  assumes "canonical (YMapping b)" and m: "m = b \<or> m = rewrite_managed_controller plat b endpoint"
  shows "mapping_get (mapping_of (canon (YMapping m))) k = mapping_get m k"
    and "canonical (canon (YMapping m))"
proof -
  have p: "plain (YMapping b)" by (rule canonical_plain [OF assms(1)])
  with m have pm: "plain (YMapping m)" using plain_rewrite by blast
  then show "canonical (canon (YMapping m))" by (rule canonical_canon)
  have "canon v = v" if "mapping_get m k = Some v" for v
    using that m canonical_get [OF assms(1), of k v, THEN canon_canonical]
    by (auto simp: mapping_get_rewrite [OF p] split: if_splits)
  then show "mapping_get (mapping_of (canon (YMapping m))) k = mapping_get m k"
    unfolding canon_mapping_get [OF pm] by (cases "mapping_get m k") auto
qed

lemma canon_is_mapping: "canon (YMapping m) = YMapping (mapping_of (canon (YMapping m)))"
  by simp

text \<open>The two ways a preparation succeeds.\<close>

lemma prepare_result:
  assumes "prepare plat cx cf snap template dir epoch runtime zero = Inr p"
  obtains (managed) endpoint where "LocalIpc \<in> runtime"
      "managed_endpoint_path plat cf dir template epoch = Inr endpoint"
      "pr_document p = mapping_of (canon (YMapping (rewrite_managed_controller plat
         (base_document zero (sn_document snap)) endpoint)))"
      "resolve_controller cx (inspect plat (pr_document p)) = Inr (pr_controller p)"
      "pr_rewrote_controller p"
  | (plain) "LocalIpc \<notin> runtime"
      "pr_document p = mapping_of (canon (YMapping (base_document zero (sn_document snap))))"
      "resolve_controller cx (inspect_http (pr_document p)) = Inr (pr_controller p)"
      "\<not> pr_rewrote_controller p"
  using assms
  by (auto simp: prepare_def Let_def base_document_def canonicalize_Inr_iff
      simp del: canon.simps(1) canonicalize.simps(1)
      split: sum.splits if_splits)

lemma prepare_hash:
  assumes "prepare plat cx cf snap template dir epoch runtime zero = Inr p"
  shows "cx_to_string cx (pr_document p) = Inr (pr_bytes p)"
    and "pr_effective_hash p = semantic_hash (pr_bytes p)"
    and "pr_source_hash p = sn_source_hash snap"
  using assms
  by (auto simp: prepare_def Let_def serialize_mapping_def split: sum.splits if_splits)

lemma str_value_cong: "mapping_get m k = mapping_get n k \<Longrightarrow> str_value m k = str_value n k"
  by (simp add: str_value_def)

lemma base_document_get:
  "k \<in> set CONTROLLER_FIELDS \<Longrightarrow> mapping_get (base_document zero doc) k = mapping_get doc k"
  by (auto simp: base_document_def zero_inbounds_get CONTROLLER_FIELDS_def INBOUND_PORT_FIELDS_def
      field_defs)

text \<open>
  C31. The effective configuration of an epoch is canonical, is what was serialized and hashed,
  and carries the secret of the source. With local IPC its controller is the epoch's own endpoint,
  no other controller key is left, and every other key is that of the source (with the inbounds
  zeroed for a bootstrap); without local IPC the document is that of the source and the controller
  is the source's \<^verbatim>\<open>external-controller\<close>.
\<close>

theorem prepare_correct:
  assumes can: "canonical (YMapping (sn_document snap))"
    and prep: "prepare plat cx cf snap template dir epoch runtime zero = Inr p"
  shows "canonical (YMapping (pr_document p)) \<and>
    cx_to_string cx (pr_document p) = Inr (pr_bytes p) \<and>
    pr_effective_hash p = semantic_hash (pr_bytes p) \<and>
    rc_secret (pr_controller p) = str_value (sn_document snap) SECRET \<and>
    (LocalIpc \<in> runtime \<longrightarrow> (\<exists>endpoint.
       managed_endpoint_path plat cf dir template epoch = Inr endpoint \<and>
       rc_host (pr_controller p) = local_host plat endpoint \<and>
       (\<forall>k. mapping_get (pr_document p) k =
         (if k = local_field plat then Some (YString endpoint)
          else if k \<in> {EXTERNAL_CONTROLLER, EXTERNAL_CONTROLLER_PIPE, EXTERNAL_CONTROLLER_UNIX}
          then None else mapping_get (base_document zero (sn_document snap)) k)))) \<and>
    (LocalIpc \<notin> runtime \<longrightarrow>
       pr_document p = base_document zero (sn_document snap) \<and>
       (\<exists>address. str_value (sn_document snap) EXTERNAL_CONTROLLER = Some address \<and>
          host_http (cx_url_parse cx) (probe_address address) = Inr (rc_host (pr_controller p))))"
proof -
  let ?b = "base_document zero (sn_document snap)"
  note b = canonical_base [OF can, of zero]
  note pb = canonical_plain [OF b]
  note hash = prepare_hash [OF prep]
  have secret: "SECRET \<in> set CONTROLLER_FIELDS" and ext: "EXTERNAL_CONTROLLER \<in> set CONTROLLER_FIELDS"
    by (simp_all add: CONTROLLER_FIELDS_def)
  from prep show ?thesis
  proof (cases rule: prepare_result)
    case (managed endpoint)
    note doc = canonical_document_get [OF b disjI2, OF refl, of plat endpoint]
    have get: "mapping_get (pr_document p) k =
        (if k = local_field plat then Some (YString endpoint)
         else if k \<in> {EXTERNAL_CONTROLLER, EXTERNAL_CONTROLLER_PIPE, EXTERNAL_CONTROLLER_UNIX}
         then None else mapping_get ?b k)" for k
      using doc(1) [of k] mapping_get_rewrite [OF pb] managed(3) by simp
    have can_p: "canonical (YMapping (pr_document p))"
      using doc(2) unfolding managed(3) by (subst (asm) canon_is_mapping)
    have "str_value (pr_document p) SECRET = str_value (sn_document snap) SECRET"
      using get [of SECRET] base_document_get [OF secret, of zero "sn_document snap"]
      by (intro str_value_cong) (cases plat; simp add: field_defs)
    moreover have "rc_host (pr_controller p) = local_host plat endpoint"
      using managed(4) get
      by (cases plat) (auto simp: resolve_controller_def inspect_def str_value_def field_defs
          split: option.splits if_splits)
    moreover have "rc_secret (pr_controller p) = str_value (pr_document p) SECRET"
      using managed(4) by (auto simp: resolve_controller_def inspect_def split: option.splits)
    ultimately show ?thesis
      using managed can_p hash get by simp
  next
    case plain
    have "canon (YMapping ?b) = YMapping ?b"
      by (rule canon_canonical [OF b])
    then have doc: "pr_document p = ?b" using plain(2) by simp
    have vals: "str_value ?b SECRET = str_value (sn_document snap) SECRET"
      "str_value ?b EXTERNAL_CONTROLLER = str_value (sn_document snap) EXTERNAL_CONTROLLER"
      using base_document_get [OF secret] base_document_get [OF ext] by (auto intro: str_value_cong)
    with plain(3) doc vals have "rc_secret (pr_controller p) = str_value (sn_document snap) SECRET \<and>
       (\<exists>address. str_value (sn_document snap) EXTERNAL_CONTROLLER = Some address \<and>
          host_http (cx_url_parse cx) (probe_address address) = Inr (rc_host (pr_controller p)))"
      by (auto simp: resolve_controller_def inspect_http_def split: option.splits)
    then show ?thesis
      using plain(1) doc b hash by simp
  qed
qed

definition sample_snapshot :: config_snapshot where
  "sample_snapshot =
     \<lparr>sn_source_path = ''/c.yaml'', sn_document = [(YString ''secret'', YString ''s'')],
      sn_source_hash = ''h''\<rparr>"

theorem prepare_correct_witness:
  "\<exists>p. prepare Unix sample_cx (\<lambda>_. Inr None) sample_snapshot None ''/r'' 7 {LocalIpc} False = Inr p \<and>
     rc_host (pr_controller p) = UnixSocket ''/r/core-7.sock'' \<and>
     rc_secret (pr_controller p) = Some ''s''"
proof -
  let ?cf = "\<lambda>_ :: string. Inr None :: string + string option"
  have can: "canonical (YMapping (sn_document sample_snapshot))"
    by (simp add: sample_snapshot_def)
  have show7: "show_u64 7 = ''7''"
    by (simp add: show_u64_def dec.simps [of 7] digit_char_def char_of_eq_iff)
  have ep: "managed_endpoint_path Unix ?cf ''/r'' None 7 = Inr ''/r/core-7.sock''"
    by (simp add: managed_endpoint_path_def validate_controller_template_def path_join_def
        is_absolute_def is_separator_def show7)
  have "\<exists>p. prepare Unix sample_cx ?cf sample_snapshot None ''/r'' 7 {LocalIpc} False = Inr p"
    by (simp add: prepare_def ep sample_snapshot_def rewrite_managed_controller_def field_defs
        mapping_insert_def collect_entries_def inspect_def str_value_def mapping_get_def
        resolve_controller_def serialize_mapping_def sample_cx_def)
  then obtain p where
    p: "prepare Unix sample_cx ?cf sample_snapshot None ''/r'' 7 {LocalIpc} False = Inr p" by blast
  have "str_value (sn_document sample_snapshot) SECRET = Some ''s''"
    by (simp add: sample_snapshot_def str_value_def SECRET_def mapping_get_def)
  then show ?thesis
    using p prepare_correct [OF can p] ep by auto
qed

section \<open>The managed endpoint of an epoch\<close>

text \<open>The number of replacements in a template.\<close>

function occurrences :: "string \<Rightarrow> string \<Rightarrow> nat" where
  "occurrences p s =
     (case s of [] \<Rightarrow> 0
      | c # cs \<Rightarrow> if p \<noteq> [] \<and> prefix p s then Suc (occurrences p (drop (length p) s))
                 else occurrences p cs)"
  by pat_completeness auto
termination
  by (relation "measure (\<lambda>(p, s). length s)") (auto simp: prefix_def)

declare occurrences.simps [simp del]

lemma occurrences_Nil [simp]: "occurrences p [] = 0"
  by (subst occurrences.simps) simp

lemma occurrences_hit:
  "p \<noteq> [] \<and> prefix p s \<Longrightarrow> occurrences p s = Suc (occurrences p (drop (length p) s))"
  by (subst occurrences.simps) (cases s; simp)

lemma occurrences_skip:
  "\<not> (p \<noteq> [] \<and> prefix p (c # cs)) \<Longrightarrow> occurrences p (c # cs) = occurrences p cs"
  by (subst occurrences.simps) auto

lemma length_str_replace:
  "length (str_replace p r s) + occurrences p s * length p = length s + occurrences p s * length r"
proof (induction p r s rule: str_replace.induct)
  case (1 p r s)
  show ?case
  proof (cases s)
    case (Cons c cs)
    show ?thesis
    proof (cases "p \<noteq> [] \<and> prefix p s")
      case True
      then have "length p \<le> length s" by (auto dest: prefix_length_le)
      with "1.IH"(1) [OF Cons True] True show ?thesis
        by (simp add: str_replace_hit occurrences_hit algebra_simps)
    next
      case False
      with "1.IH"(2) [OF Cons False] Cons show ?thesis
        by (simp add: str_replace_skip occurrences_skip)
    qed
  qed simp
qed

lemma occurrences_pos: "p \<noteq> [] \<Longrightarrow> str_contains s p \<Longrightarrow> 0 < occurrences p s"
proof (induction p s rule: occurrences.induct)
  case (1 p s)
  show ?case
  proof (cases "prefix p s")
    case True
    with "1.prems" show ?thesis by (simp add: occurrences_hit)
  next
    case False
    obtain c cs where s: "s = c # cs" "str_contains cs p"
      using "1.prems"(2) False by (rule str_contains_skip)
    with "1.IH"(2) [OF s(1)] False "1.prems" show ?thesis
      by (simp add: occurrences_skip)
  qed
qed

lemma str_replace_same_length_inject:
  "length r = length r' \<Longrightarrow> 0 < occurrences p s \<Longrightarrow> str_replace p r s = str_replace p r' s \<Longrightarrow> r = r'"
proof (induction p r s rule: str_replace.induct)
  case (1 p r s)
  then obtain c cs where s: "s = c # cs"
    by (cases s) auto
  show ?case
  proof (cases "p \<noteq> [] \<and> prefix p s")
    case True
    with "1.prems" show ?thesis
      by (simp add: str_replace_hit)
  next
    case False
    then show ?thesis
      using "1.IH"(2) [OF s False] "1.prems" s
      by (simp add: str_replace_skip occurrences_skip)
  qed
qed

lemma template_inject:
  assumes t: "str_contains t EPOCH_PLACEHOLDER"
    and eq: "str_replace EPOCH_PLACEHOLDER (show_u64 d) t = str_replace EPOCH_PLACEHOLDER (show_u64 e) t"
  shows "d = e"
proof -
  let ?p = EPOCH_PLACEHOLDER
  have occ: "0 < occurrences ?p t"
    using t by (intro occurrences_pos) (simp_all add: EPOCH_PLACEHOLDER_def)
  have "occurrences ?p t * length (show_u64 d) = occurrences ?p t * length (show_u64 e)"
    using length_str_replace [of ?p "show_u64 d" t] length_str_replace [of ?p "show_u64 e" t]
    unfolding eq by linarith
  with occ have "length (show_u64 d) = length (show_u64 e)" by simp
  from str_replace_same_length_inject [OF this occ eq] show ?thesis by simp
qed

text \<open>
  The local control channel of an epoch is that epoch's own. On Windows, and on Unix without
  a template, two epochs of one manager never have the same endpoint; on Unix with a template,
  whatever the template and the file system, an accepted endpoint lies inside the runtime directory.
  A template without the placeholder is rejected on every platform.
\<close>

theorem managed_endpoint_isolated:
  "(plat = Windows \<or> template = None \<longrightarrow>
      managed_endpoint_path plat cf dir template d = Inr a \<longrightarrow>
      managed_endpoint_path plat cf dir template e = Inr b \<longrightarrow> (a = b \<longleftrightarrow> d = e)) \<and>
   (managed_endpoint_path Unix cf dir (Some t) e = Inr b \<longrightarrow>
      (\<forall>p q. cf p = Inr (Some q) \<longrightarrow> is_absolute q) \<longrightarrow> path_starts_with b dir) \<and>
   (\<not> str_contains t EPOCH_PLACEHOLDER \<longrightarrow>
      (\<exists>msg. managed_endpoint_path plat cf dir (Some t) e = Inl (InvalidManagerOptions msg)))"
proof (intro conjI impI)
  assume w: "plat = Windows \<or> template = None"
    and a: "managed_endpoint_path plat cf dir template d = Inr a"
    and b: "managed_endpoint_path plat cf dir template e = Inr b"
  show "a = b \<longleftrightarrow> d = e"
  proof (cases template)
    case None
    then show ?thesis
      using a b by (cases plat) (auto simp: managed_endpoint_path_def is_absolute_def
          validate_controller_template_def path_join_inject)
  next
    case (Some t)
    with w have "plat = Windows" by simp
    moreover have "str_contains t EPOCH_PLACEHOLDER"
      using a Some by (auto simp: managed_endpoint_path_def validate_controller_template_def
          split: if_splits)
    ultimately show ?thesis
      using a b Some template_inject [of t d e]
      by (auto simp: managed_endpoint_path_def validate_controller_template_def)
  qed
next
  assume ep: "managed_endpoint_path Unix cf dir (Some t) e = Inr b"
    and cf: "\<forall>p q. cf p = Inr (Some q) \<longrightarrow> is_absolute q"
  from ep obtain endpoint where "managed_unix_endpoint cf dir endpoint = Inr b"
    by (auto simp: managed_endpoint_path_def Let_def split: sum.splits)
  then obtain parent q c n where q: "cf parent = Inr (Some q)" and inside: "path_starts_with q dir"
    and n: "path_file_name Unix c = Some n" and b: "b = path_join Unix q n"
    by (auto simp: managed_unix_endpoint_def Let_def split: option.splits sum.splits if_splits)
  have "components b = components q @ [n]"
    using q cf file_name_no_slash [OF n] unfolding b by (intro components_join) auto
  with inside show "path_starts_with b dir"
    by (simp add: path_starts_with_def)
next
  assume "\<not> str_contains t EPOCH_PLACEHOLDER"
  then show "\<exists>msg. managed_endpoint_path plat cf dir (Some t) e = Inl (InvalidManagerOptions msg)"
    by (simp add: managed_endpoint_path_def validate_controller_template_def)
qed

theorem managed_endpoint_isolated_witness:
  "managed_endpoint_path Unix (\<lambda>_. Inr None) ''/r'' None 1 \<noteq>
   managed_endpoint_path Unix (\<lambda>_. Inr None) ''/r'' None 2"
proof -
  let ?ep = "\<lambda>e. path_join Unix ''/r'' (''core-'' @ show_u64 e @ ''.sock'')"
  have ep: "managed_endpoint_path Unix (\<lambda>_. Inr None) ''/r'' None e = Inr (?ep e)" for e
    by (simp add: managed_endpoint_path_def validate_controller_template_def)
  have "?ep 1 = ?ep 2 \<longleftrightarrow> (1 :: u64) = 2"
    using managed_endpoint_isolated [of Unix None "\<lambda>_. Inr None" "''/r''" 1 "?ep 1" 2 "?ep 2" "''x''"]
      ep by simp
  then show ?thesis
    by (simp add: ep)
qed

end
