(* ===== verification/Env.thy ===== *)
theory Env
  imports Monitor Config
begin

text \<open>
  The process the manager runs in. The record \<open>env\<close> holds what the program calls outside its
  own sources: the file system, the crate \<^verbatim>\<open>nyanpasu-utils\<close> (atomic file operations, commands,
  the supervisor and the reaper of orphaned processes), HTTP requests to the controller, the
  parsers and the clock. An effect is a function on an abstract world \<open>'w\<close>.

  The record \<open>sys\<close> is the state of the program: the world, the table of instances with their
  monitors, the tasks that forward an instance's status to the manager, the manager's status
  channel, epoch counter, version cache and control data. Every \<^verbatim>\<open>.await\<close> of the source is an
  \<open>ext\<close>: the effect happens, and then the events the world chose are delivered, so other tasks
  make progress between any two effects of an operation.
\<close>

section \<open>External answers\<close>

datatype fs_error = UnsafePath path | Contended path | FsIo string

fun from_atomic_fs :: "fs_error \<Rightarrow> error" where
  "from_atomic_fs (UnsafePath p) = UnsafeRuntimeArtifact p"
| "from_atomic_fs (Contended p) = RuntimeDirectoryOwned p"
| "from_atomic_fs (FsIo m) = Io m"

record file_meta =
  fm_symlink :: bool
  fm_reparse :: bool
  fm_dir :: bool
  fm_file :: bool
  fm_socket :: bool

datatype meta_answer = MetaFound file_meta | MetaNotFound string | MetaFailed string

record cmd_output =
  co_success :: bool
  co_code :: string
  co_stdout :: string
  co_stderr :: string

text \<open>A process error is its \<^verbatim>\<open>Display\<close> text; that of a timeout also carries the bound.\<close>

datatype cmd_answer = CmdTimeout duration string | CmdFailed string | CmdOutput cmd_output

datatype reap_outcome = AlreadyExited | Killed | NotFound

text \<open>The answer to a supervisor stop under a timeout.\<close>

datatype stop_answer = StopOk | StopAlreadyExited | StopFailed string | StopTimedOut

record command =
  cmd_program :: path
  cmd_args :: "string list"
  cmd_env :: "(string \<times> string) list"
  cmd_dir :: "path option"
  cmd_epoch_pid_file :: "(path \<times> u64 \<times> path) option"
  cmd_pid_file :: "path option"

text \<open>An entry of a directory: its name, unless that is not UTF-8.\<close>

type_synonym dir_entries = "string + (string + string option) list"

text \<open>
  The events the world delivers while the program waits: something happens to an instance, or
  the task that forwards the status of an instance is woken.
\<close>

datatype ievent = IInst nat inst_event | IForward nat int

record 'w env =
  ev_platform :: platform
  ev_codec :: codec
  ev_patch_codec :: patch_codec
  ev_semver :: semver
  ev_chrono :: chrono
  ev_canon :: fs_canonicalize
  ev_process_id :: string
  ev_now_ms :: "'w \<Rightarrow> int"
  ev_instant :: "'w \<Rightarrow> nat"
  ev_observed :: "'w \<Rightarrow> nat \<Rightarrow> observed"
  ev_events :: "'w \<Rightarrow> ievent list \<times> 'w"
  ev_wait :: "'w \<Rightarrow> ievent list list \<times> 'w"
  ev_expired :: "'w \<Rightarrow> bool"
  ev_read :: "path \<Rightarrow> 'w \<Rightarrow> (string + string) \<times> 'w"
  ev_metadata_ok :: "path \<Rightarrow> 'w \<Rightarrow> bool \<times> 'w"
  ev_modified :: "path \<Rightarrow> 'w \<Rightarrow> (string + nat) option \<times> 'w"
  ev_try_exists :: "path \<Rightarrow> 'w \<Rightarrow> (string + bool) \<times> 'w"
  ev_symlink_metadata :: "path \<Rightarrow> 'w \<Rightarrow> meta_answer \<times> 'w"
  ev_create_dir_all :: "path \<Rightarrow> 'w \<Rightarrow> (string + unit) \<times> 'w"
  ev_protect_dir :: "path \<Rightarrow> 'w \<Rightarrow> (fs_error + unit) \<times> 'w"
  ev_canonicalize :: "path \<Rightarrow> 'w \<Rightarrow> (string + path option) \<times> 'w"
  ev_lock :: "path \<Rightarrow> 'w \<Rightarrow> (fs_error + unit) \<times> 'w"
  ev_open_new :: "path \<Rightarrow> 'w \<Rightarrow> (string + unit) \<times> 'w"
  ev_set_permissions :: "path \<Rightarrow> 'w \<Rightarrow> (string + unit) \<times> 'w"
  ev_write_sync :: "path \<Rightarrow> string \<Rightarrow> 'w \<Rightarrow> (string + unit) \<times> 'w"
  ev_remove_file :: "path \<Rightarrow> 'w \<Rightarrow> (string + unit) \<times> 'w"
  ev_validate_absent :: "path \<Rightarrow> 'w \<Rightarrow> (fs_error + unit) \<times> 'w"
  ev_validate_existing :: "path \<Rightarrow> 'w \<Rightarrow> (fs_error + unit) \<times> 'w"
  ev_move_new :: "path \<Rightarrow> path \<Rightarrow> 'w \<Rightarrow> (fs_error + unit) \<times> 'w"
  ev_replace :: "path \<Rightarrow> path \<Rightarrow> 'w \<Rightarrow> (fs_error + unit) \<times> 'w"
  ev_remove_regular :: "path \<Rightarrow> 'w \<Rightarrow> (fs_error + unit) \<times> 'w"
  ev_sync_dir :: "path \<Rightarrow> 'w \<Rightarrow> (string + unit) \<times> 'w"
  ev_read_dir :: "path \<Rightarrow> 'w \<Rightarrow> dir_entries \<times> 'w"
  ev_run :: "command \<Rightarrow> duration \<Rightarrow> 'w \<Rightarrow> cmd_answer \<times> 'w"
  ev_reap :: "path \<Rightarrow> path \<Rightarrow> 'w \<Rightarrow> (string + reap_outcome) \<times> 'w"
  ev_spawn :: "nat \<Rightarrow> command \<Rightarrow> instance_options \<Rightarrow> 'w \<Rightarrow> (string + unit) \<times> 'w"
  ev_supervisor_stop :: "nat \<Rightarrow> duration \<Rightarrow> 'w \<Rightarrow> stop_answer \<times> 'w"
  ev_cancel :: "nat \<Rightarrow> 'w \<Rightarrow> unit \<times> 'w"
  ev_client :: "resolved_controller \<Rightarrow> duration \<Rightarrow> 'w \<Rightarrow> (string + unit) \<times> 'w"
  ev_patch_config :: "resolved_controller \<Rightarrow> config_patch \<Rightarrow> 'w \<Rightarrow> (string + unit) \<times> 'w"
  ev_configs :: "resolved_controller \<Rightarrow> 'w \<Rightarrow> (string + runtime_config) \<times> 'w"
  ev_update_config :: "resolved_controller \<Rightarrow> path \<Rightarrow> 'w \<Rightarrow> (string + unit) \<times> 'w"
  ev_probe :: "nat \<Rightarrow> 'w \<Rightarrow> probe_result option \<times> 'w"
  ev_sink_spawn :: "path \<Rightarrow> 'w \<Rightarrow> (error + unit) \<times> 'w"
  ev_sink_shutdown :: "'w \<Rightarrow> unit \<times> 'w"

section \<open>The state of the program\<close>

record inst =
  in_epoch :: u64
  in_spec :: instance_spec
  in_controller :: resolved_controller
  in_shared :: shared
  in_monitor :: "monitor option"
  in_handle :: bool

record active =
  ac_instance :: nat
  ac_source_spec :: instance_spec
  ac_revision :: config_revision
  ac_capabilities :: "feature set"
  ac_runtime_features :: "runtime_feature set"
  ac_source_document :: mapping
  ac_effective_document :: mapping

record quarantined_epoch =
  qe_epoch :: u64
  qe_reason :: string
  qe_death_proven :: bool

record ctrl =
  ct_current :: "active option"
  ct_last_spec :: "instance_spec option"
  ct_quarantine :: "quarantined_epoch list"

definition ctrl_default :: ctrl where
  "ctrl_default = \<lparr>ct_current = None, ct_last_spec = None, ct_quarantine = []\<rparr>"

record 'w sys =
  sy_world :: 'w
  sy_temp :: u64
  sy_next :: nat
  sy_inst :: "nat \<Rightarrow> inst option"
  sy_forwarders :: "(nat \<times> u64) list"
  sy_status :: core_status
  sy_epoch :: u64
  sy_cache :: "((path \<times> nat) \<times> string) list"
  sy_sink :: bool
  sy_ctrl :: ctrl

text \<open>The task of \<^verbatim>\<open>spawn_forwarder\<close>: it copies the status of its instance and ends with it.\<close>

definition forward :: "nat \<Rightarrow> int \<Rightarrow> 'w sys \<Rightarrow> 'w sys" where
  "forward i now s =
     (case (map_of (sy_forwarders s) i, sy_inst s i) of
        (Some epoch, Some inst) \<Rightarrow>
          let status = sh_status (in_shared inst);
              s = s\<lparr>sy_status := snd (apply_epoch_status now (sy_status s) epoch status)\<rparr>
          in if is_terminal (ist_state status)
             then s\<lparr>sy_forwarders := filter (\<lambda>(j, _). j \<noteq> i) (sy_forwarders s)\<rparr> else s
      | _ \<Rightarrow> s)"

definition deliver_inst :: "'w env \<Rightarrow> nat \<Rightarrow> inst_event \<Rightarrow> 'w sys \<Rightarrow> 'w sys" where
  "deliver_inst ev i e s =
     (case sy_inst s i of
        None \<Rightarrow> s
      | Some inst \<Rightarrow>
          (case inst_step (ev_chrono ev) (in_monitor inst, in_shared inst) e of
             (mo, sh) \<Rightarrow>
               s\<lparr>sy_inst := (sy_inst s)(i \<mapsto> inst\<lparr>in_monitor := mo, in_shared := sh\<rparr>)\<rparr>))"

fun deliver :: "'w env \<Rightarrow> 'w sys \<Rightarrow> ievent \<Rightarrow> 'w sys" where
  "deliver ev s (IInst i e) = deliver_inst ev i e s"
| "deliver ev s (IForward i now) = forward i now s"

definition interfere :: "'w env \<Rightarrow> 'w sys \<Rightarrow> 'w sys" where
  "interfere ev s =
     (case ev_events ev (sy_world s) of
        (es, w) \<Rightarrow> foldl (deliver ev) (s\<lparr>sy_world := w\<rparr>) es)"

definition ext :: "'w env \<Rightarrow> ('w \<Rightarrow> 'a \<times> 'w) \<Rightarrow> ('w sys, 'a) state" where
  "ext ev op = State (\<lambda>s. case op (sy_world s) of (a, w) \<Rightarrow> (a, interfere ev (s\<lparr>sy_world := w\<rparr>)))"

text \<open>Answers of the file system and of \<^verbatim>\<open>atomic_fs\<close> as results of the program.\<close>

definition ext_io :: "'w env \<Rightarrow> ('w \<Rightarrow> (string + 'a) \<times> 'w) \<Rightarrow> ('w sys, error + 'a) state" where
  "ext_io ev op = do { r \<leftarrow> ext ev op; ret (map_sum Io id r) }"

definition ext_fs :: "'w env \<Rightarrow> ('w \<Rightarrow> (fs_error + 'a) \<times> 'w) \<Rightarrow> ('w sys, error + 'a) state" where
  "ext_fs ev op = do { r \<leftarrow> ext ev op; ret (map_sum from_atomic_fs id r) }"

definition now_ms :: "'w env \<Rightarrow> ('w sys, int) state" where
  "now_ms ev = gets (\<lambda>s. ev_now_ms ev (sy_world s))"

text \<open>\<^verbatim>\<open>let _ = ...\<close>: the result does not matter.\<close>

definition ignore :: "('s, 'a) state \<Rightarrow> ('s, unit) state" where
  "ignore m = do { _ \<leftarrow> m; ret () }"

section \<open>Effects\<close>

lemma interfere_eq:
  "interfere ev s = foldl (deliver ev) (s\<lparr>sy_world := snd (ev_events ev (sy_world s))\<rparr>)
     (fst (ev_events ev (sy_world s)))"
  by (simp add: interfere_def split: prod.split)

lemma deliver_simps [simp]:
  "sy_world (deliver ev s e) = sy_world s" "sy_ctrl (deliver ev s e) = sy_ctrl s"
  "sy_epoch (deliver ev s e) = sy_epoch s" "sy_next (deliver ev s e) = sy_next s"
  "sy_temp (deliver ev s e) = sy_temp s" "sy_cache (deliver ev s e) = sy_cache s"
  by (cases e; auto simp: forward_def deliver_inst_def Let_def split: option.splits prod.splits)+

lemma foldl_deliver_world [simp]: "sy_world (foldl (deliver ev) s es) = sy_world s"
  by (induction es arbitrary: s) simp_all

lemma wp_ext:
  "wp (ext ev op) Q s =
     Q (fst (op (sy_world s))) (interfere ev (s\<lparr>sy_world := snd (op (sy_world s))\<rparr>))"
  by (simp add: wp_def ext_def split: prod.split)

end
