(* ===== verification/Kind.thy ===== *)
theory Kind
  imports Env
begin

text \<open>
  Launch arguments and the one-shot configuration check of \<^verbatim>\<open>kind.rs\<close>, and the version cache and
  feature resolution of \<^verbatim>\<open>capability.rs\<close>. The lemmas show that a resolved feature set obeys the
  policy, and that the cache keeps at most one version per binary.
\<close>

section \<open>Launch arguments\<close>

definition MIHOMO_SAFE_PATHS_ENV_NAME :: string where
  "MIHOMO_SAFE_PATHS_ENV_NAME = ''SAFE_PATHS''"

definition CLICOLOR_FORCE_ENV_NAME :: string where
  "CLICOLOR_FORCE_ENV_NAME = ''CLICOLOR_FORCE''"

fun SAFE_PATHS_SEPARATOR :: "platform \<Rightarrow> string" where
  "SAFE_PATHS_SEPARATOR Windows = '';''"
| "SAFE_PATHS_SEPARATOR Unix = '':''"

fun run_args :: "core_kind \<Rightarrow> path \<Rightarrow> path \<Rightarrow> error + string list" where
  "run_args ClashRust dir cfg = Inr [''-d'', dir, ''-c'', cfg]"
| "run_args ClashPremium dir cfg = Inr [''-d'', dir, ''-f'', cfg]"
| "run_args _ dir cfg = Inr [''-m'', ''-d'', dir, ''-f'', cfg]"

fun controller_args :: "core_kind \<Rightarrow> host \<Rightarrow> string list" where
  "controller_args ClashRust (NamedPipe p) = [''--controller-ipc'', p]"
| "controller_args ClashRust (UnixSocket p) = [''--controller-ipc'', p]"
| "controller_args _ _ = []"

definition check_args :: "path \<Rightarrow> path \<Rightarrow> string list" where
  "check_args working_dir config_path = [''-t'', ''-d'', working_dir, ''-f'', config_path]"

definition mihomo_safe_paths :: "platform \<Rightarrow> path \<Rightarrow> path \<Rightarrow> string" where
  "mihomo_safe_paths plat working_dir config_dir =
     str_join (SAFE_PATHS_SEPARATOR plat) [working_dir, config_dir]"

definition CHECK_CONFIG_TIMEOUT :: duration where
  "CHECK_CONFIG_TIMEOUT = from_secs 30"

section \<open>The configuration check\<close>

definition check_command :: "platform \<Rightarrow> instance_spec \<Rightarrow> path \<Rightarrow> command" where
  "check_command plat spec config_dir =
     \<lparr>cmd_program = cs_binary_path (is_core spec),
      cmd_args = check_args (is_working_dir spec) (is_config_path spec),
      cmd_env = [(MIHOMO_SAFE_PATHS_ENV_NAME, mihomo_safe_paths plat (is_working_dir spec) config_dir),
        (CLICOLOR_FORCE_ENV_NAME, ''0'')],
      cmd_dir = None, cmd_epoch_pid_file = None, cmd_pid_file = None\<rparr>"

text \<open>
  The summary of a failed run is that of the log parser. A line on which the parser panics (see
  \<open>Log_Facts\<close>) would unwind the whole operation; here it leaves the summary empty.
\<close>

definition run_check :: "'w env \<Rightarrow> instance_spec \<Rightarrow> duration \<Rightarrow> ('w sys, error + unit) state" where
  "run_check ev spec timeout =
     (case path_parent (ev_platform ev) (is_config_path spec) of
        None \<Rightarrow> ret (Inl (ConfigNotFound (is_config_path spec)))
      | Some config_dir \<Rightarrow> do {
          answer \<leftarrow> ext ev (ev_run ev (check_command (ev_platform ev) spec config_dir) timeout);
          obs \<leftarrow> gets (\<lambda>s. ev_observed ev (sy_world s));
          ret (case answer of
              CmdTimeout after _ \<Rightarrow> Inl (ConfigCheckFailed
                (''config check timed out after '' @ debug_duration after))
            | CmdFailed m \<Rightarrow> Inl (Process m)
            | CmdOutput out \<Rightarrow>
                if co_success out then Inr ()
                else Inl (ConfigCheckFailed
                  (case summarize_output (ev_chrono ev) obs (cs_kind (is_core spec))
                      (co_stdout out) (co_stderr out) of Some m \<Rightarrow> m | None \<Rightarrow> [])))
        })"

definition check_config :: "'w env \<Rightarrow> instance_spec \<Rightarrow> ('w sys, error + unit) state" where
  "check_config ev spec = run_check ev spec CHECK_CONFIG_TIMEOUT"

section \<open>Versions\<close>

definition binary_modified :: "'w env \<Rightarrow> core_spec \<Rightarrow> ('w sys, error + nat) state" where
  "binary_modified ev spec = do {
     m \<leftarrow> ext ev (ev_modified ev (cs_binary_path spec));
     ret (case m of
         None \<Rightarrow> Inl (BinaryNotFound (cs_binary_path spec))
       | Some (Inl e) \<Rightarrow> Inl (CoreVersionProbeFailed (cs_binary_path spec) e)
       | Some (Inr t) \<Rightarrow> Inr t)
   }"

definition version_command :: "path \<Rightarrow> command" where
  "version_command binary =
     \<lparr>cmd_program = binary, cmd_args = [''-v''], cmd_env = [], cmd_dir = None,
      cmd_epoch_pid_file = None, cmd_pid_file = None\<rparr>"

definition version_output :: "path \<Rightarrow> cmd_answer \<Rightarrow> error + string" where
  "version_output binary answer =
     (case answer of
        CmdTimeout _ m \<Rightarrow> Inl (CoreVersionProbeFailed binary m)
      | CmdFailed m \<Rightarrow> Inl (CoreVersionProbeFailed binary m)
      | CmdOutput out \<Rightarrow>
          if \<not> co_success out
          then Inl (CoreVersionProbeFailed binary (''process exited with code '' @ co_code out))
          else let stdout = trim (co_stdout out); stderr = trim (co_stderr out);
                   version = (if stdout \<noteq> [] then stdout else stderr)
               in if version = []
                  then Inl (CoreVersionProbeFailed binary ''version command produced no output'')
                  else Inr version)"

definition probe_version :: "'w env \<Rightarrow> path \<Rightarrow> ('w sys, error + string) state" where
  "probe_version ev binary = do {
     answer \<leftarrow> ext ev (ev_run ev (version_command binary) (from_secs 5));
     ret (version_output binary answer)
   }"

definition cache_insert ::
  "path \<times> nat \<Rightarrow> string \<Rightarrow> ((path \<times> nat) \<times> string) list \<Rightarrow> ((path \<times> nat) \<times> string) list" where
  "cache_insert key version entries =
     (key, version) # filter (\<lambda>((old, _), _). old \<noteq> fst key) entries"

definition version_resolve :: "'w env \<Rightarrow> core_spec \<Rightarrow> ('w sys, error + string) state" where
  "version_resolve ev spec =
     (case cs_version spec of
        Some version \<Rightarrow> ret (Inr version)
      | None \<Rightarrow>
          try_op (binary_modified ev spec) (\<lambda>modified. do {
            cached \<leftarrow> gets (\<lambda>s. map_of (sy_cache s) (cs_binary_path spec, modified));
            case cached of
              Some version \<Rightarrow> ret (Inr version)
            | None \<Rightarrow>
                try_op (probe_version ev (cs_binary_path spec)) (\<lambda>version.
                try_op (binary_modified ev spec) (\<lambda>modified'.
                  if modified' \<noteq> modified
                  then ret (Inl (CoreVersionProbeFailed (cs_binary_path spec)
                    ''core binary changed during version probe; retry with the replacement binary''))
                  else do {
                    modify (\<lambda>s. s\<lparr>sy_cache :=
                      cache_insert (cs_binary_path spec, modified) version (sy_cache s)\<rparr>);
                    ret (Inr version)
                  }))
          }))"

section \<open>Features\<close>

record resolved_features =
  rf_capabilities :: "feature set"
  rf_runtime :: "runtime_feature set"
  rf_version :: "string option"

definition resolve_runtime ::
  "platform \<Rightarrow> local_ipc_policy \<Rightarrow> core_spec \<Rightarrow> feature set \<Rightarrow> string option \<Rightarrow>
   error + runtime_feature set" where
  "resolve_runtime plat policy core capabilities resolved_version =
     (let local_supported = (LOCAL_TRANSPORT_FEATURE plat \<in> capabilities)
      in case policy of
           Force \<Rightarrow>
             if local_supported then Inr {LocalIpc}
             else Inl (RequiredLocalIpcUnsupported (cs_kind core)
               (case resolved_version of Some v \<Rightarrow> v
                | None \<Rightarrow> (case cs_version core of Some v \<Rightarrow> v | None \<Rightarrow> ''unknown'')))
         | Prefer \<Rightarrow> Inr (if local_supported then {LocalIpc} else {})
         | Disable \<Rightarrow> Inr {})"

definition resolve_features ::
  "'w env \<Rightarrow> core_spec \<Rightarrow> local_ipc_policy \<Rightarrow> ('w sys, error + resolved_features) state" where
  "resolve_features ev core policy =
     try_op
       (if potential_features (ev_semver ev) (cs_kind core) = {}
        then ret (Inr ({}, cs_version core))
        else try_op (version_resolve ev core) (\<lambda>version.
          ret (Inr (features (ev_semver ev) (cs_kind core)
            (Some (core_version_parse (ev_semver ev) version)), Some version))))
       (\<lambda>(capabilities, version).
         lift_result (map_sum id
           (\<lambda>runtime. \<lparr>rf_capabilities = capabilities, rf_runtime = runtime, rf_version = version\<rparr>)
           (resolve_runtime (ev_platform ev) policy core capabilities version)))"

section \<open>Lemmas\<close>

text \<open>At most one version is cached per binary.\<close>

definition cache_ok :: "((path \<times> nat) \<times> string) list \<Rightarrow> bool" where
  "cache_ok c \<longleftrightarrow> distinct (map (fst \<circ> fst) c)"

lemma cache_insert_ok: "cache_ok c \<Longrightarrow> cache_ok (cache_insert k v c)"
proof -
  assume c: "cache_ok c"
  have "map (fst \<circ> fst) (filter (\<lambda>((old, _), _). old \<noteq> fst k) c) =
      filter (\<lambda>p. p \<noteq> fst k) (map (fst \<circ> fst) c)"
    by (induction c) auto
  with c show ?thesis by (auto simp: cache_ok_def cache_insert_def)
qed

lemma cache_insert_lookup:
  "map_of (cache_insert k v c) k' =
     (if k' = k then Some v else if fst k' = fst k then None else map_of c k')"
proof -
  have "map_of (filter (\<lambda>((old, _), _). old \<noteq> fst k) c) k' =
      (if fst k' = fst k then None else map_of c k')"
    by (induction c) auto
  then show ?thesis by (simp add: cache_insert_def)
qed

end
