(* ===== verification/Runtime_Store.thy ===== *)
theory Runtime_Store
  imports Env
begin

text \<open>
  The runtime directory of \<^verbatim>\<open>config/runtime_store.rs\<close>: the configuration of an epoch is staged
  under a temporary name, then moved or swapped into its stable name, with backups beside it.
  Dropping a staged file that was not consumed removes it; that is \<open>drop_staged\<close>, written out
  where the source drops one. The platform decides the permission step.

  The lemmas show the names the store makes up are told apart: an artifact's epoch is read back
  from its name, and cleaning up an epoch touches only names of that epoch.
\<close>

section \<open>Names\<close>

definition runtime_name :: "u64 \<Rightarrow> string" where
  "runtime_name epoch = ''config-'' @ show_u64 epoch @ ''.yaml''"

definition pid_name :: "u64 \<Rightarrow> string" where
  "pid_name epoch = ''core-'' @ show_u64 epoch @ ''.pid''"

definition socket_name :: "u64 \<Rightarrow> string" where
  "socket_name epoch = ''core-'' @ show_u64 epoch @ ''.sock''"

definition temp_prefix :: "u64 \<Rightarrow> string" where
  "temp_prefix epoch = ''.config-'' @ show_u64 epoch @ ''.yaml.tmp-''"

definition backup_prefix :: "u64 \<Rightarrow> string" where
  "backup_prefix epoch = ''config-'' @ show_u64 epoch @ ''.yaml.backup-''"

definition pid_temp_prefix :: "u64 \<Rightarrow> string" where
  "pid_temp_prefix epoch = ''core-'' @ show_u64 epoch @ ''.pid.tmp-''"

definition runtime_path :: "'w env \<Rightarrow> path \<Rightarrow> u64 \<Rightarrow> path" where
  "runtime_path ev dir epoch = path_join (ev_platform ev) dir (runtime_name epoch)"

definition pid_path :: "'w env \<Rightarrow> path \<Rightarrow> u64 \<Rightarrow> path" where
  "pid_path ev dir epoch = path_join (ev_platform ev) dir (pid_name epoch)"

definition socket_path :: "'w env \<Rightarrow> path \<Rightarrow> u64 \<Rightarrow> path" where
  "socket_path ev dir epoch = path_join (ev_platform ev) dir (socket_name epoch)"

fun or_else :: "'a option \<Rightarrow> 'a option \<Rightarrow> 'a option" where
  "or_else (Some x) _ = Some x"
| "or_else None y = y"

definition artifact_epoch :: "string \<Rightarrow> u64 option" where
  "artifact_epoch name =
     Option.bind
       (or_else (Option.bind (strip_prefix ''core-'' name) (strip_suffix ''.pid''))
       (or_else (Option.bind (strip_prefix ''core-'' name) (strip_suffix ''.sock''))
       (or_else (Option.bind (strip_prefix ''config-'' name) (\<lambda>value.
          or_else (strip_suffix ''.yaml'' value)
            (map_option fst (split_once ''.yaml.backup-'' value))))
       (or_else (Option.bind (strip_prefix ''.config-'' name) (\<lambda>value.
          map_option fst (split_once ''.yaml.tmp-'' value)))
        (Option.bind (strip_prefix ''core-'' name) (\<lambda>value.
          map_option fst (split_once ''.pid.tmp-'' value)))))))
       parse_u64"

section \<open>Opening the directory\<close>

definition validate_directory_metadata :: "path \<Rightarrow> file_meta \<Rightarrow> error + unit" where
  "validate_directory_metadata p m =
     (if fm_symlink m \<or> \<not> fm_dir m \<or> fm_reparse m then Inl (UnsafeRuntimeArtifact p) else Inr ())"

text \<open>
  \<open>ev_protect_dir\<close> stands for the permission step: mode 0700 on Unix, hardening and verifying
  the access control list on Windows.
\<close>

definition store_new :: "'w env \<Rightarrow> path \<Rightarrow> ('w sys, error + path) state" where
  "store_new ev dir = do {
     meta \<leftarrow> ext ev (ev_symlink_metadata ev dir);
     try_op
       (case meta of
          MetaFound m \<Rightarrow> lift_result (validate_directory_metadata dir m)
        | MetaNotFound _ \<Rightarrow> ext_io ev (ev_create_dir_all ev dir)
        | MetaFailed e \<Rightarrow> ret (Inl (Io e)))
       (\<lambda>_. try_op (ext_fs ev (ev_protect_dir ev dir)) (\<lambda>_.
       try_op (ext_io ev (ev_canonicalize ev dir)) (\<lambda>canonical.
       case canonical of
         None \<Rightarrow> ret (Inl (InvalidManagerOptions ''runtime directory is not UTF-8''))
       | Some dir \<Rightarrow> do {
           meta \<leftarrow> ext ev (ev_symlink_metadata ev dir);
           ret (case meta of
               MetaFound m \<Rightarrow> map_sum id (\<lambda>_. dir) (validate_directory_metadata dir m)
             | MetaNotFound e \<Rightarrow> Inl (Io e)
             | MetaFailed e \<Rightarrow> Inl (Io e))
         })))
   }"

text \<open>The directory of the log archive (\<^verbatim>\<open>log_sink.rs\<close>), created and protected the same way.\<close>

definition LOG_DIR_NAME :: string where "LOG_DIR_NAME = ''logs''"

definition prepare_dir :: "'w env \<Rightarrow> path \<Rightarrow> ('w sys, error + path) state" where
  "prepare_dir ev parent = do {
     let dir = path_join (ev_platform ev) parent LOG_DIR_NAME;
     meta \<leftarrow> ext ev (ev_symlink_metadata ev dir);
     try_op
       (case meta of
          MetaFound m \<Rightarrow> lift_result (validate_directory_metadata dir m)
        | MetaNotFound _ \<Rightarrow> ext_io ev (ev_create_dir_all ev dir)
        | MetaFailed e \<Rightarrow> ret (Inl (Io e)))
       (\<lambda>_. try_op (ext_fs ev (ev_protect_dir ev dir)) (\<lambda>_. ret (Inr dir)))
   }"

definition acquire_ownership :: "'w env \<Rightarrow> path \<Rightarrow> ('w sys, error + unit) state" where
  "acquire_ownership ev dir =
     ext_fs ev (ev_lock ev (path_join (ev_platform ev) dir ''.manager.lock''))"

section \<open>Staging and committing\<close>

text \<open>A staged file is its path; dropping it unconsumed removes it without waiting.\<close>

type_synonym staged = path

definition drop_staged :: "'w env \<Rightarrow> staged \<Rightarrow> ('w sys, unit) state" where
  "drop_staged ev staged = ignore (ext ev (ev_remove_file ev staged))"

definition temp_name :: "'w env \<Rightarrow> u64 \<Rightarrow> u64 \<Rightarrow> string" where
  "temp_name ev epoch counter = temp_prefix epoch @ ev_process_id ev @ ''-'' @ show_u64 counter"

definition stage :: "'w env \<Rightarrow> path \<Rightarrow> u64 \<Rightarrow> string \<Rightarrow> ('w sys, error + staged) state" where
  "stage ev dir epoch contents = do {
     counter \<leftarrow> gets sy_temp;
     modify (\<lambda>s. s\<lparr>sy_temp := sy_temp s + 1\<rparr>);
     let p = path_join (ev_platform ev) dir (temp_name ev epoch counter);
     try_op (ext_fs ev (ev_validate_absent ev p)) (\<lambda>_.
     try_op (ext_io ev (ev_open_new ev p)) (\<lambda>_.
     try_op (case ev_platform ev of
               Unix \<Rightarrow> ext_io ev (ev_set_permissions ev p)
             | Windows \<Rightarrow> ret (Inr ())) (\<lambda>_. do {
       written \<leftarrow> ext_io ev (ev_write_sync ev p contents);
       case written of
         Inl e \<Rightarrow> do { ignore (ext ev (ev_remove_file ev p)); ret (Inl e) }
       | Inr _ \<Rightarrow> ret (Inr p)
     })))
   }"

definition validate_staged ::
  "'w env \<Rightarrow> path \<Rightarrow> staged \<Rightarrow> u64 \<Rightarrow> ('w sys, error + unit) state" where
  "validate_staged ev dir staged epoch =
     (if path_parent (ev_platform ev) staged \<noteq> Some dir \<or>
         (case path_file_name (ev_platform ev) staged of
            Some name \<Rightarrow> \<not> prefix (temp_prefix epoch) name | None \<Rightarrow> True)
      then ret (Inl (UnsafeRuntimeArtifact staged))
      else ext_fs ev (ev_validate_existing ev staged))"

text \<open>\<open>m\<close> with the staged file dropped when it fails.\<close>

definition or_drop ::
  "'w env \<Rightarrow> staged \<Rightarrow> ('w sys, error + 'a) state \<Rightarrow> ('w sys, error + 'a) state" where
  "or_drop ev staged m = do {
     r \<leftarrow> m;
     case r of
       Inl e \<Rightarrow> do { drop_staged ev staged; ret (Inl e) }
     | Inr x \<Rightarrow> ret (Inr x)
   }"

definition commit_new ::
  "'w env \<Rightarrow> path \<Rightarrow> staged \<Rightarrow> u64 \<Rightarrow> ('w sys, error + path) state" where
  "commit_new ev dir staged epoch =
     (let target = runtime_path ev dir epoch
      in try_op (or_drop ev staged (validate_staged ev dir staged epoch)) (\<lambda>_.
         try_op (or_drop ev staged (ext_fs ev (ev_validate_absent ev target))) (\<lambda>_.
         try_op (or_drop ev staged (ext_fs ev (ev_move_new ev staged target))) (\<lambda>_.
         try_op (ext_io ev (ev_sync_dir ev dir)) (\<lambda>_.
         ret (Inr target))))))"

datatype durability = Durable | Uncertain string

record runtime_commit =
  rco_path :: path
  rco_durability :: durability

definition durability_warning :: "runtime_commit \<Rightarrow> string option" where
  "durability_warning c = (case rco_durability c of Durable \<Rightarrow> None | Uncertain w \<Rightarrow> Some w)"

definition installed_commit :: "path \<Rightarrow> string + unit \<Rightarrow> runtime_commit" where
  "installed_commit p parent_sync =
     \<lparr>rco_path = p, rco_durability = (case parent_sync of
        Inr _ \<Rightarrow> Durable
      | Inl e \<Rightarrow> Uncertain (''runtime config was atomically installed, but parent-directory synchronization failed: '' @ e))\<rparr>"

definition commit_replace ::
  "'w env \<Rightarrow> path \<Rightarrow> staged \<Rightarrow> u64 \<Rightarrow> ('w sys, error + runtime_commit) state" where
  "commit_replace ev dir staged epoch =
     (let target = runtime_path ev dir epoch
      in try_op (or_drop ev staged (validate_staged ev dir staged epoch)) (\<lambda>_.
         try_op (or_drop ev staged (ext_fs ev (ev_validate_existing ev target))) (\<lambda>_.
         try_op (or_drop ev staged (ext_fs ev (ev_replace ev staged target))) (\<lambda>_. do {
           parent_sync \<leftarrow> ext ev (ev_sync_dir ev dir);
           ret (Inr (installed_commit target parent_sync))
         }))))"

definition store_replace ::
  "'w env \<Rightarrow> path \<Rightarrow> u64 \<Rightarrow> string \<Rightarrow> ('w sys, error + runtime_commit) state" where
  "store_replace ev dir epoch contents =
     try_op (stage ev dir epoch contents) (\<lambda>staged. commit_replace ev dir staged epoch)"

section \<open>Backups\<close>

record backup =
  bk_path :: path
  bk_epoch :: u64

definition backup_path :: "'w env \<Rightarrow> path \<Rightarrow> u64 \<Rightarrow> u64 \<Rightarrow> path" where
  "backup_path ev dir epoch generation =
     path_join (ev_platform ev) dir (backup_prefix epoch @ show_u64 generation)"

definition store_backup ::
  "'w env \<Rightarrow> path \<Rightarrow> u64 \<Rightarrow> u64 \<Rightarrow> ('w sys, error + backup) state" where
  "store_backup ev dir epoch generation =
     (let target = runtime_path ev dir epoch; dest = backup_path ev dir epoch generation
      in try_op (ext_fs ev (ev_validate_existing ev target)) (\<lambda>_.
         try_op (ext_io ev (ev_read ev target)) (\<lambda>contents.
         try_op (stage ev dir epoch contents) (\<lambda>staged.
         try_op (or_drop ev staged (ext_fs ev (ev_validate_absent ev dest))) (\<lambda>_.
         try_op (or_drop ev staged (ext_fs ev (ev_move_new ev staged dest))) (\<lambda>_.
         try_op (ext_io ev (ev_sync_dir ev dir)) (\<lambda>_.
         ret (Inr \<lparr>bk_path = dest, bk_epoch = epoch\<rparr>))))))))"

definition store_restore :: "'w env \<Rightarrow> path \<Rightarrow> backup \<Rightarrow> ('w sys, error + runtime_commit) state" where
  "store_restore ev dir b =
     try_op (ext_fs ev (ev_validate_existing ev (bk_path b))) (\<lambda>_.
     try_op (ext_io ev (ev_read ev (bk_path b))) (\<lambda>contents.
     store_replace ev dir (bk_epoch b) contents))"

definition remove_backup :: "'w env \<Rightarrow> backup \<Rightarrow> ('w sys, error + unit) state" where
  "remove_backup ev b = ext_fs ev (ev_remove_regular ev (bk_path b))"

section \<open>Cleaning up\<close>

definition remove_socket_artifact :: "'w env \<Rightarrow> path \<Rightarrow> ('w sys, error + unit) state" where
  "remove_socket_artifact ev p = do {
     meta \<leftarrow> ext ev (ev_symlink_metadata ev p);
     case meta of
       MetaFound m \<Rightarrow>
         if fm_symlink m \<or> fm_reparse m then ret (Inl (UnsafeRuntimeArtifact p))
         else if (case ev_platform ev of Unix \<Rightarrow> \<not> fm_socket m | Windows \<Rightarrow> \<not> fm_file m)
         then ret (Inl (UnsafeRuntimeArtifact p))
         else ext_io ev (ev_remove_file ev p)
     | MetaNotFound _ \<Rightarrow> ret (Inr ())
     | MetaFailed e \<Rightarrow> ret (Inl (Io e))
   }"

definition cleanup_match :: "u64 \<Rightarrow> string \<Rightarrow> bool" where
  "cleanup_match epoch name \<longleftrightarrow>
     prefix (backup_prefix epoch) name \<or> prefix (temp_prefix epoch) name \<or>
     prefix (pid_temp_prefix epoch) name"

fun cleanup_entries ::
  "'w env \<Rightarrow> path \<Rightarrow> u64 \<Rightarrow> (string + string option) list \<Rightarrow> ('w sys, error + unit) state" where
  "cleanup_entries ev dir epoch [] = ret (Inr ())"
| "cleanup_entries ev dir epoch (Inl e # es) = ret (Inl (Io e))"
| "cleanup_entries ev dir epoch (Inr None # es) = cleanup_entries ev dir epoch es"
| "cleanup_entries ev dir epoch (Inr (Some name) # es) =
     (if cleanup_match epoch name
      then try_op (ext_fs ev (ev_remove_regular ev (path_join (ev_platform ev) dir name)))
             (\<lambda>_. cleanup_entries ev dir epoch es)
      else cleanup_entries ev dir epoch es)"

definition cleanup_epoch :: "'w env \<Rightarrow> path \<Rightarrow> u64 \<Rightarrow> ('w sys, error + unit) state" where
  "cleanup_epoch ev dir epoch =
     try_op (ext_fs ev (ev_remove_regular ev (runtime_path ev dir epoch))) (\<lambda>_.
     try_op (ext_fs ev (ev_remove_regular ev (pid_path ev dir epoch))) (\<lambda>_.
     try_op (remove_socket_artifact ev (socket_path ev dir epoch)) (\<lambda>_.
     try_op (ext_io ev (ev_read_dir ev dir)) (\<lambda>entries.
     try_op (cleanup_entries ev dir epoch entries) (\<lambda>_.
     ext_io ev (ev_sync_dir ev dir))))))"

fun entry_epochs :: "(string + string option) list \<Rightarrow> error + u64 list" where
  "entry_epochs [] = Inr []"
| "entry_epochs (Inl e # es) = Inl (Io e)"
| "entry_epochs (Inr None # es) = entry_epochs es"
| "entry_epochs (Inr (Some name) # es) =
     map_sum id (\<lambda>epochs. case artifact_epoch name of Some e \<Rightarrow> e # epochs | None \<Rightarrow> epochs)
       (entry_epochs es)"

definition artifact_epochs :: "'w env \<Rightarrow> path \<Rightarrow> ('w sys, error + u64 list) state" where
  "artifact_epochs ev dir =
     try_op (ext_io ev (ev_read_dir ev dir)) (\<lambda>entries.
     lift_result (map_sum id (\<lambda>es. remdups_adj (sort es)) (entry_epochs entries)))"

end
