(* ===== verification/Instance.thy ===== *)
theory Instance
  imports Kind Runtime_Store
begin

text \<open>
  The operations of one epoch's instance in \<^verbatim>\<open>instance.rs\<close>: spawning it, waiting for readiness,
  probing, and stopping it with proof of death. An instance is a number into the table of the
  program state; its background work (\<open>Monitor\<close>) goes on between the effects of every operation.
\<close>

section \<open>Access to the table\<close>

definition inst_state :: "nat \<Rightarrow> 'w sys \<Rightarrow> instance_state" where
  "inst_state i s =
     (case sy_inst s i of Some inst \<Rightarrow> ist_state (sh_status (in_shared inst)) | None \<Rightarrow> IStarting)"

definition inst_health :: "nat \<Rightarrow> 'w sys \<Rightarrow> health_status option" where
  "inst_health i s =
     (case sy_inst s i of Some inst \<Rightarrow> ist_health (sh_status (in_shared inst)) | None \<Rightarrow> None)"

definition upd_inst :: "nat \<Rightarrow> (inst \<Rightarrow> inst) \<Rightarrow> 'w sys \<Rightarrow> 'w sys" where
  "upd_inst i f s =
     (case sy_inst s i of Some inst \<Rightarrow> s\<lparr>sy_inst := (sy_inst s)(i \<mapsto> f inst)\<rparr> | None \<Rightarrow> s)"

definition upd_shared :: "nat \<Rightarrow> (shared \<Rightarrow> shared) \<Rightarrow> 'w sys \<Rightarrow> 'w sys" where
  "upd_shared i f = upd_inst i (\<lambda>inst. inst\<lparr>in_shared := f (in_shared inst)\<rparr>)"

definition instance_pid :: "nat \<Rightarrow> 'w sys \<Rightarrow> u32 option" where
  "instance_pid i s = (case inst_state i s of IRunning pid \<Rightarrow> Some pid | _ \<Rightarrow> None)"

section \<open>Spawning\<close>

definition epoch_pid_path :: "platform \<Rightarrow> instance_spec \<Rightarrow> u64 \<Rightarrow> path option" where
  "epoch_pid_path plat spec epoch =
     (case is_pid_file spec of
        None \<Rightarrow> None
      | Some pid_file \<Rightarrow>
          if path_file_name plat pid_file = Some (pid_name epoch) \<and>
             path_file_name plat (is_config_path spec) = Some (runtime_name epoch) \<and>
             path_parent plat pid_file = path_parent plat (is_config_path spec)
          then Some pid_file else None)"

definition build_command :: "platform \<Rightarrow> instance_spec \<Rightarrow> u64 \<Rightarrow> resolved_controller \<Rightarrow> command" where
  "build_command plat spec epoch controller =
     (let kind = cs_kind (is_core spec);
          args = (case run_args kind (is_working_dir spec) (is_config_path spec) of
              Inr args \<Rightarrow> args | Inl _ \<Rightarrow> []) @ controller_args kind (rc_host controller);
          config_dir = (case path_parent plat (is_config_path spec) of
              Some d \<Rightarrow> d | None \<Rightarrow> is_config_path spec);
          tracked = epoch_pid_path plat spec epoch
      in \<lparr>cmd_program = cs_binary_path (is_core spec), cmd_args = args,
          cmd_env = [(MIHOMO_SAFE_PATHS_ENV_NAME,
              mihomo_safe_paths plat (is_working_dir spec) config_dir),
            (CLICOLOR_FORCE_ENV_NAME, ''0'')],
          cmd_dir = Some (is_working_dir spec),
          cmd_epoch_pid_file = map_option (\<lambda>p. (p, epoch, is_config_path spec)) tracked,
          cmd_pid_file = (if tracked = None then is_pid_file spec else None)\<rparr>)"

text \<open>The probes of the manager: whether a custom readiness or liveness probe is set.\<close>

record probe_plan =
  pp_readiness :: bool
  pp_liveness :: bool
  pp_liveness_with_readiness :: bool

definition plan_readiness :: "probe_plan \<Rightarrow> probe_plan" where
  "plan_readiness p = p\<lparr>pp_readiness := True\<rparr>"

definition plan_liveness :: "probe_plan \<Rightarrow> probe_plan" where
  "plan_liveness p = p\<lparr>pp_liveness := True, pp_liveness_with_readiness := False\<rparr>"

definition plan_liveness_with_readiness :: "probe_plan \<Rightarrow> probe_plan" where
  "plan_liveness_with_readiness p = p\<lparr>pp_liveness := False, pp_liveness_with_readiness := True\<rparr>"

definition install_inst ::
  "'w env \<Rightarrow> bool \<Rightarrow> instance_spec \<Rightarrow> u64 \<Rightarrow> resolved_controller \<Rightarrow> ('w sys, nat) state" where
  "install_inst ev liveness spec epoch controller = State (\<lambda>s.
     let i = sy_next s;
         deadline = ev_instant ev (sy_world s) + io_startup_timeout (is_options spec);
         inst = \<lparr>in_epoch = epoch, in_spec = spec, in_controller = controller,
           in_shared = (shared_new (cs_kind (is_core spec)) epoch (ev_now_ms ev (sy_world s)))
             \<lparr>sh_supervisor := True\<rparr>,
           in_monitor = Some (monitor_new (is_options spec) liveness deadline), in_handle = True\<rparr>
     in (i, s\<lparr>sy_next := i + 1, sy_inst := (sy_inst s)(i \<mapsto> inst)\<rparr>))"

text \<open>
  The supervisor's events are queued until the monitor task starts, so the monitor is installed
  together with the instance; when the supervisor cannot be spawned both are gone again.
\<close>

definition spawn_process ::
  "'w env \<Rightarrow> bool \<Rightarrow> instance_spec \<Rightarrow> u64 \<Rightarrow> resolved_controller \<Rightarrow> ('w sys, error + nat) state" where
  "spawn_process ev liveness spec epoch controller = do {
     i \<leftarrow> install_inst ev liveness spec epoch controller;
     r \<leftarrow> ext ev (ev_spawn ev i (build_command (ev_platform ev) spec epoch controller)
            (is_options spec));
     case r of
       Inl msg \<Rightarrow> do {
         modify (upd_inst i (\<lambda>inst. inst\<lparr>in_monitor := None, in_handle := False,
           in_shared := (in_shared inst)\<lparr>sh_supervisor := False\<rparr>\<rparr>));
         ret (Inl (Process msg))
       }
     | Inr _ \<Rightarrow> ret (Inr i)
   }"

definition spawn_configured ::
  "'w env \<Rightarrow> probe_plan \<Rightarrow> instance_spec \<Rightarrow> u64 \<Rightarrow> resolved_controller \<Rightarrow>
   ('w sys, error + nat) state" where
  "spawn_configured ev plan spec epoch controller = do {
     config_ok \<leftarrow> ext ev (ev_metadata_ok ev (is_config_path spec));
     if \<not> config_ok then ret (Inl (ConfigNotFound (is_config_path spec))) else do {
     binary_ok \<leftarrow> ext ev (ev_metadata_ok ev (cs_binary_path (is_core spec)));
     if \<not> binary_ok then ret (Inl (BinaryNotFound (cs_binary_path (is_core spec)))) else
     try_op (lift_result
         (run_args (cs_kind (is_core spec)) (is_working_dir spec) (is_config_path spec))) (\<lambda>_.
     try_op (if pp_readiness plan then ret (Inr ())
             else do { r \<leftarrow> ext ev (ev_client ev controller (from_secs 1)); ret (map_sum Api id r) })
       (\<lambda>_. spawn_process ev (pp_liveness_with_readiness plan \<or> pp_liveness plan) spec epoch
         controller))
   } }"

section \<open>Readiness and probing\<close>

fun debug_stop_reason :: "stop_reason \<Rightarrow> string" where
  "debug_stop_reason Finished = ''Finished''"
| "debug_stop_reason User = ''User''"
| "debug_stop_reason (StopError m) = m"

definition shared_read :: "nat \<Rightarrow> (shared \<Rightarrow> string \<times> shared) \<Rightarrow> ('w sys, string) state" where
  "shared_read i f = State (\<lambda>s.
     case sy_inst s i of
       Some inst \<Rightarrow> (fst (f (in_shared inst)), upd_shared i (\<lambda>sh. snd (f sh)) s)
     | None \<Rightarrow> ([], s))"

definition stopped_before_ready :: "nat \<Rightarrow> stop_reason \<Rightarrow> ('w sys, error) state" where
  "stopped_before_ready i reason = do {
     let lifecycle = (case reason of
         StopError m \<Rightarrow> m | other \<Rightarrow> ''stopped before ready: '' @ debug_stop_reason other);
     tail \<leftarrow> shared_read i (failure_summary lifecycle);
     timeout \<leftarrow> gets (\<lambda>s. case sy_inst s i of
         Some inst \<Rightarrow> sh_probe_timeout (in_shared inst) | None \<Rightarrow> False);
     ret (if timeout then StartupTimeout tail else StartupFailed tail)
   }"

text \<open>
  The loop of \<^verbatim>\<open>wait_ready\<close>, on the batches of events between two looks at the status channel.
  When the world has no more batches the channel is closed.
\<close>

fun wait_loop :: "'w env \<Rightarrow> nat \<Rightarrow> ievent list list \<Rightarrow> ('w sys, error + unit) state" where
  "wait_loop ev i batches = do {
     state \<leftarrow> gets (inst_state i);
     case state of
       IRunning _ \<Rightarrow> ret (Inr ())
     | IStopped reason \<Rightarrow> do { e \<leftarrow> stopped_before_ready i reason; ret (Inl e) }
     | _ \<Rightarrow>
         (case batches of
            [] \<Rightarrow> do { tail \<leftarrow> shared_read i diagnostics; ret (Inl (StartupFailed tail)) }
          | b # bs \<Rightarrow> do { modify (\<lambda>s. foldl (deliver ev) s b); wait_loop ev i bs })
   }"

declare wait_loop.simps [simp del]

definition wait_ready :: "'w env \<Rightarrow> nat \<Rightarrow> ('w sys, error + unit) state" where
  "wait_ready ev i = do {
     batches \<leftarrow> State (\<lambda>s. case ev_wait ev (sy_world s) of (bs, w) \<Rightarrow> (bs, s\<lparr>sy_world := w\<rparr>));
     wait_loop ev i batches
   }"

text \<open>A reconciliation probe; a request forwarded to the driver is answered by the world.\<close>

definition probe_now :: "'w env \<Rightarrow> nat \<Rightarrow> probe_phase \<Rightarrow> ('w sys, probe_result) state" where
  "probe_now ev i phase =
     (if phase \<noteq> Reconcile
      then ret (PUnhealthy (Some ''only reconciliation probes can be requested directly''))
      else do {
        monitor \<leftarrow> gets (\<lambda>s. Option.bind (sy_inst s i) in_monitor);
        case monitor of
          None \<Rightarrow> ret (PUnhealthy (Some ''instance probe monitor is not running''))
        | Some m \<Rightarrow>
            (case probe_request i m of
               (reply, m') \<Rightarrow> do {
                 modify (upd_inst i (\<lambda>inst. inst\<lparr>in_monitor := Some m'\<rparr>));
                 case reply of
                   Replied r \<Rightarrow> ret r
                 | Forwarded \<Rightarrow> do {
                     answer \<leftarrow> ext ev (ev_probe ev i);
                     ret (case answer of
                         Some r \<Rightarrow> r
                       | None \<Rightarrow> PUnhealthy (Some ''instance probe driver stopped''))
                   }
               })
      })"

section \<open>Stopping\<close>

text \<open>Dropping an instance cancels its probes and its supervision.\<close>

definition drop_instance :: "'w env \<Rightarrow> nat \<Rightarrow> ('w sys, unit) state" where
  "drop_instance ev i = do {
     modify (upd_shared i (\<lambda>sh. sh\<lparr>sh_probe_cancelled := True, sh_cancelled := True\<rparr>));
     ext ev (ev_cancel ev i)
   }"

definition reap_epoch_record_if_present ::
  "'w env \<Rightarrow> instance_spec \<Rightarrow> u64 \<Rightarrow> ('w sys, error + unit) state" where
  "reap_epoch_record_if_present ev spec epoch =
     (case epoch_pid_path (ev_platform ev) spec epoch of
        None \<Rightarrow> ret (Inr ())
      | Some pid_file \<Rightarrow>
          try_op (ext_io ev (ev_try_exists ev pid_file)) (\<lambda>exists.
            if \<not> exists then ret (Inr ())
            else case path_parent (ev_platform ev) (is_config_path spec) of
              None \<Rightarrow> ret (Inl (StopUnconfirmed ''runtime config has no parent directory''))
            | Some runtime_dir \<Rightarrow> do {
                r \<leftarrow> ext ev (ev_reap ev pid_file runtime_dir);
                ret (map_sum Process (\<lambda>_. ()) r)
              }))"

definition verify_identity ::
  "'w env \<Rightarrow> string \<Rightarrow> instance_spec \<Rightarrow> u64 \<Rightarrow> ('w sys, error + unit) state" where
  "verify_identity ev context spec epoch = do {
     r \<leftarrow> reap_epoch_record_if_present ev spec epoch;
     ret (map_sum (\<lambda>e. StopUnconfirmed (context @ '' instance identity verification failed: '' @
       to_string e)) id r)
   }"

definition stop_supervisor :: "'w env \<Rightarrow> nat \<Rightarrow> duration \<Rightarrow> ('w sys, string + unit) state" where
  "stop_supervisor ev i timeout = do {
     supervisor \<leftarrow> gets (\<lambda>s. case sy_inst s i of
         Some inst \<Rightarrow> sh_supervisor (in_shared inst) | None \<Rightarrow> False);
     modify (upd_shared i (\<lambda>sh. sh\<lparr>sh_supervisor := False\<rparr>));
     if \<not> supervisor then ret (Inr ()) else do {
       answer \<leftarrow> ext ev (ev_supervisor_stop ev i timeout);
       ret (case answer of
           StopOk \<Rightarrow> Inr ()
         | StopAlreadyExited \<Rightarrow> Inr ()
         | StopFailed m \<Rightarrow> Inl (''supervisor stop failed: '' @ m)
         | StopTimedOut \<Rightarrow> Inl (''supervisor stop exceeded '' @ debug_duration timeout))
     }
   }"

text \<open>Joining the monitor task under a timeout; one that still runs is aborted.\<close>

definition join_monitor :: "'w env \<Rightarrow> nat \<Rightarrow> ('w sys, bool) state" where
  "join_monitor ev i = do {
     handle \<leftarrow> gets (\<lambda>s. case sy_inst s i of Some inst \<Rightarrow> in_handle inst | None \<Rightarrow> False);
     if \<not> handle then ret False else do {
       ext ev (\<lambda>w. ((), w));
       running \<leftarrow> gets (\<lambda>s. Option.bind (sy_inst s i) in_monitor \<noteq> None);
       modify (upd_inst i (\<lambda>inst. inst\<lparr>in_monitor := None, in_handle := False\<rparr>));
       ret (\<not> running)
     }
   }"

definition reap_uncertain ::
  "'w env \<Rightarrow> nat \<Rightarrow> instance_spec \<Rightarrow> u64 \<Rightarrow> bool \<Rightarrow> string \<Rightarrow> ('w sys, error + unit) state" where
  "reap_uncertain ev i spec epoch terminal stop_error =
     (case epoch_pid_path (ev_platform ev) spec epoch of
        None \<Rightarrow> ret (Inl (StopUnconfirmed stop_error))
      | Some pid_file \<Rightarrow>
          (case path_parent (ev_platform ev) (is_config_path spec) of
             None \<Rightarrow> ret (Inl (StopUnconfirmed ''runtime config has no parent directory''))
           | Some runtime_dir \<Rightarrow> do {
               r \<leftarrow> ext ev (ev_reap ev pid_file runtime_dir);
               case r of
                 Inl e \<Rightarrow> ret (Inl (StopUnconfirmed
                   (stop_error @ ''; epoch identity reaper failed: '' @ e)))
               | Inr reaped \<Rightarrow>
                   if reaped \<noteq> NotFound \<or> terminal
                   then do {
                     (if terminal then ret ()
                      else modify (upd_shared i (shared_publish (IStopped User))));
                     ret (Inr ())
                   }
                   else ret (Inl (StopUnconfirmed stop_error))
             }))"

definition stop_running ::
  "'w env \<Rightarrow> nat \<Rightarrow> instance_spec \<Rightarrow> u64 \<Rightarrow> duration \<Rightarrow> ('w sys, error + unit) state" where
  "stop_running ev i spec epoch timeout = do {
     modify (upd_shared i (\<lambda>sh. shared_publish IStopping
       (sh\<lparr>sh_user_stop := True, sh_probe_cancelled := True\<rparr>)));
     stop_result \<leftarrow> stop_supervisor ev i timeout;
     monitor_confirmed \<leftarrow> join_monitor ev i;
     terminal \<leftarrow> gets (\<lambda>s. is_terminal (inst_state i s));
     case stop_result of
       Inr _ \<Rightarrow>
         if monitor_confirmed \<or> terminal then verify_identity ev ''stopped'' spec epoch
         else reap_uncertain ev i spec epoch terminal ''instance monitor did not confirm termination''
     | Inl stop_error \<Rightarrow> reap_uncertain ev i spec epoch terminal stop_error
   }"

definition stop_and_confirm_dead ::
  "'w env \<Rightarrow> nat \<Rightarrow> duration \<Rightarrow> ('w sys, error + unit) state" where
  "stop_and_confirm_dead ev i timeout = do {
     entry \<leftarrow> gets (\<lambda>s. sy_inst s i);
     r \<leftarrow> (case entry of
         None \<Rightarrow> ret (Inr ())
       | Some inst \<Rightarrow>
           if is_terminal (ist_state (sh_status (in_shared inst)))
           then verify_identity ev ''terminal'' (in_spec inst) (in_epoch inst)
           else stop_running ev i (in_spec inst) (in_epoch inst) timeout);
     drop_instance ev i;
     ret r
   }"

end
