(* ===== verification/Manager.thy ===== *)
theory Manager
  imports Instance
begin

text \<open>
  The core manager of \<^verbatim>\<open>manager/mod.rs\<close>, \<^verbatim>\<open>publish.rs\<close>, \<^verbatim>\<open>quarantine.rs\<close>, \<^verbatim>\<open>switching.rs\<close> and
  \<^verbatim>\<open>apply.rs\<close>. The record \<open>manager\<close> is what is fixed when a manager is built; the data behind the
  control lock is \<open>sy_ctrl\<close>. A public operation holds the lock from its first to its last line,
  so it is one computation; the tasks of the instances run between its effects.
\<close>

record 'w manager =
  mg_env :: "'w env"
  mg_options :: manager_options
  mg_plan :: probe_plan
  mg_dir :: path

datatype degrade_reason =
  NotRunning | UnsupportedKind | DegradeDnsListen | InboundConflict | PatchFailed | HttpController

datatype switch_outcome =
    Graceful
  | Hard degrade_reason
  | SwitchDurabilityUncertain switch_outcome string

datatype apply_outcome =
    ApplyNoop config_revision
  | Patched config_revision
  | Reloaded config_revision
  | Restarted config_revision
  | Switched config_revision
  | RolledBack config_revision string
  | ApplyDurabilityUncertain apply_outcome string

record prepared_launch =
  pl_source_spec :: instance_spec
  pl_effective_spec :: instance_spec
  pl_controller :: resolved_controller
  pl_revision :: config_revision
  pl_capabilities :: "feature set"
  pl_runtime_features :: "runtime_feature set"
  pl_source_document :: mapping
  pl_effective_document :: mapping

record prepared_graceful =
  pg_launch :: prepared_launch
  pg_full_staged :: staged
  pg_restoration :: "(config_patch \<times> runtime_projection) option"

section \<open>Publication and control data\<close>

definition publish ::
  "'w manager \<Rightarrow> core_state \<Rightarrow> spec_summary option \<Rightarrow> host option \<Rightarrow> config_revision option \<Rightarrow>
   ('w sys, unit) state" where
  "publish m state spec controller revision = do {
     now \<leftarrow> now_ms (mg_env m);
     modify (\<lambda>s. s\<lparr>sy_status := publish_status now state spec controller revision (sy_status s)\<rparr>)
   }"

definition publish_instance ::
  "'w manager \<Rightarrow> nat \<Rightarrow> core_state \<Rightarrow> instance_spec \<Rightarrow> config_revision \<Rightarrow> feature set \<Rightarrow>
   runtime_feature set \<Rightarrow> ('w sys, unit) state" where
  "publish_instance m i state source_spec revision caps rfs = do {
     now \<leftarrow> now_ms (mg_env m);
     modify (\<lambda>s. case sy_inst s i of
         None \<Rightarrow> s
       | Some inst \<Rightarrow> s\<lparr>sy_status := publish_instance_status now (inst_health i s)
           (rc_host (in_controller inst)) state source_spec revision caps rfs (sy_status s)\<rparr>)
   }"

definition publish_active :: "'w manager \<Rightarrow> active \<Rightarrow> core_state \<Rightarrow> ('w sys, unit) state" where
  "publish_active m a state =
     publish_instance m (ac_instance a) state (ac_source_spec a) (ac_revision a)
       (ac_capabilities a) (ac_runtime_features a)"

definition publish_terminal_error :: "'w manager \<Rightarrow> error \<Rightarrow> ('w sys, unit) state" where
  "publish_terminal_error m e =
     publish m (CStopped (Some (StopError (to_string e)))) None None None"

definition inst_epoch :: "nat \<Rightarrow> 'w sys \<Rightarrow> u64" where
  "inst_epoch i s = (case sy_inst s i of Some inst \<Rightarrow> in_epoch inst | None \<Rightarrow> 0)"

definition republish_retained :: "'w manager \<Rightarrow> ('w sys, unit) state" where
  "republish_retained m = do {
     current \<leftarrow> gets (ct_current \<circ> sy_ctrl);
     case current of
       None \<Rightarrow> ret ()
     | Some a \<Rightarrow> do {
         state \<leftarrow> gets (\<lambda>s. instance_core_state (inst_epoch (ac_instance a) s)
             (inst_state (ac_instance a) s));
         publish_active m a state
       }
   }"

definition set_current :: "active option \<Rightarrow> ('w sys, unit) state" where
  "set_current a = modify (\<lambda>s. s\<lparr>sy_ctrl := (sy_ctrl s)\<lparr>ct_current := a\<rparr>\<rparr>)"

definition set_last_spec :: "instance_spec \<Rightarrow> ('w sys, unit) state" where
  "set_last_spec spec = modify (\<lambda>s. s\<lparr>sy_ctrl := (sy_ctrl s)\<lparr>ct_last_spec := Some spec\<rparr>\<rparr>)"

definition spawn_forwarder :: "nat \<Rightarrow> u64 \<Rightarrow> ('w sys, unit) state" where
  "spawn_forwarder i epoch = modify (\<lambda>s. s\<lparr>sy_forwarders := (i, epoch) # sy_forwarders s\<rparr>)"

definition abort_and_await :: "'w manager \<Rightarrow> nat \<Rightarrow> ('w sys, unit) state" where
  "abort_and_await m i = do {
     modify (\<lambda>s. s\<lparr>sy_forwarders := filter (\<lambda>(j, _). j \<noteq> i) (sy_forwarders s)\<rparr>);
     ext (mg_env m) (\<lambda>w. ((), w))
   }"

section \<open>Quarantine\<close>

definition quarantine_error :: "ctrl \<Rightarrow> error option" where
  "quarantine_error c =
     (case ct_quarantine c of
        [] \<Rightarrow> None
      | first # rest \<Rightarrow>
          Some (ManagerQuarantined (qe_epoch first)
            (if rest = [] then qe_reason first
             else qe_reason first @ ''; additional uncertain epochs: '' @
               str_join '', '' (map (show_u64 \<circ> qe_epoch) (ct_quarantine c)))))"

fun record_entry :: "u64 \<Rightarrow> string \<Rightarrow> quarantined_epoch list \<Rightarrow> quarantined_epoch list" where
  "record_entry epoch reason [] = [\<lparr>qe_epoch = epoch, qe_reason = reason, qe_death_proven = False\<rparr>]"
| "record_entry epoch reason (q # qs) =
     (if qe_epoch q = epoch then q\<lparr>qe_reason := reason\<rparr> # qs else q # record_entry epoch reason qs)"

definition record_quarantine :: "u64 \<Rightarrow> string \<Rightarrow> ('w sys, unit) state" where
  "record_quarantine epoch reason = modify (\<lambda>s. s\<lparr>sy_ctrl := (sy_ctrl s)
     \<lparr>ct_quarantine := record_entry epoch reason (ct_quarantine (sy_ctrl s))\<rparr>\<rparr>)"

definition latch_quarantine :: "'w manager \<Rightarrow> u64 \<Rightarrow> error \<Rightarrow> ('w sys, error) state" where
  "latch_quarantine m epoch e = do {
     record_quarantine epoch (to_string e);
     c \<leftarrow> gets sy_ctrl;
     (case quarantine_error c of
        Some q \<Rightarrow> publish_terminal_error m q
      | None \<Rightarrow> ret ());
     ret e
   }"

definition reject_quarantine :: "('w sys, error + unit) state" where
  "reject_quarantine =
     gets (\<lambda>s. case quarantine_error (sy_ctrl s) of Some e \<Rightarrow> Inl e | None \<Rightarrow> Inr ())"

fun prove_death :: "u64 \<Rightarrow> quarantined_epoch list \<Rightarrow> quarantined_epoch list" where
  "prove_death epoch [] = []"
| "prove_death epoch (q # qs) =
     (if qe_epoch q = epoch then q\<lparr>qe_death_proven := True\<rparr> # qs else q # prove_death epoch qs)"

definition set_quarantine ::
  "(quarantined_epoch list \<Rightarrow> quarantined_epoch list) \<Rightarrow> ('w sys, unit) state" where
  "set_quarantine f = modify (\<lambda>s. s\<lparr>sy_ctrl := (sy_ctrl s)
     \<lparr>ct_quarantine := f (ct_quarantine (sy_ctrl s))\<rparr>\<rparr>)"

definition failure_line :: "quarantined_epoch \<Rightarrow> string \<Rightarrow> string" where
  "failure_line q text =
     ''epoch '' @ show_u64 (qe_epoch q) @ '': '' @ qe_reason q @ ''; '' @ text"

text \<open>The reaping half of one turn: \<open>None\<close> when the process is proven dead.\<close>

definition recover_reap :: "'w manager \<Rightarrow> quarantined_epoch \<Rightarrow> ('w sys, string option) state" where
  "recover_reap m q =
     (if qe_death_proven q then ret None
      else do {
        r \<leftarrow> ext (mg_env m) (ev_reap (mg_env m) (pid_path (mg_env m) (mg_dir m) (qe_epoch q)) (mg_dir m));
        case r of
          Inr NotFound \<Rightarrow>
            ret (Some (failure_line q ''authoritative epoch pid record is unavailable''))
        | Inr _ \<Rightarrow> do { set_quarantine (prove_death (qe_epoch q)); ret None }
        | Inl e \<Rightarrow> ret (Some (failure_line q (''recovery failed: '' @ e)))
      })"

definition recover_entry :: "'w manager \<Rightarrow> quarantined_epoch \<Rightarrow> ('w sys, string option) state" where
  "recover_entry m q = do {
     failure \<leftarrow> recover_reap m q;
     case failure of
       Some f \<Rightarrow> ret (Some f)
     | None \<Rightarrow> do {
         r \<leftarrow> cleanup_epoch (mg_env m) (mg_dir m) (qe_epoch q);
         case r of
           Inr _ \<Rightarrow> do {
             set_quarantine (filter (\<lambda>q'. qe_epoch q' \<noteq> qe_epoch q));
             ret None
           }
         | Inl e \<Rightarrow> ret (Some (failure_line q (''artifact cleanup failed: '' @ to_string e)))
       }
   }"

fun recover_entries ::
  "'w manager \<Rightarrow> quarantined_epoch list \<Rightarrow> string list \<Rightarrow> ('w sys, string list) state" where
  "recover_entries m [] failures = ret failures"
| "recover_entries m (q # qs) failures = do {
     f \<leftarrow> recover_entry m q;
     recover_entries m qs (case f of Some x \<Rightarrow> failures @ [x] | None \<Rightarrow> failures)
   }"

definition recover_quarantine :: "'w manager \<Rightarrow> ('w sys, error + unit) state" where
  "recover_quarantine m = do {
     quarantined \<leftarrow> gets (ct_quarantine \<circ> sy_ctrl);
     if quarantined = [] then ret (Inr ())
     else do {
       failures \<leftarrow> recover_entries m quarantined [];
       if failures \<noteq> [] then do {
         left \<leftarrow> gets (ct_quarantine \<circ> sy_ctrl);
         ret (Inl (ManagerQuarantined (case left of q # _ \<Rightarrow> qe_epoch q | [] \<Rightarrow> 0)
           (str_join '' | '' failures)))
       }
       else do {
         publish m (CStopped None) None None None;
         ret (Inr ())
       }
     }
   }"

fun sweep_epochs :: "'w env \<Rightarrow> path \<Rightarrow> u64 list \<Rightarrow> ('w sys, error + unit) state" where
  "sweep_epochs ev dir [] = ret (Inr ())"
| "sweep_epochs ev dir (e # es) =
     try_op (ext_io ev (ev_try_exists ev (pid_path ev dir e))) (\<lambda>exists.
     try_op (if exists
             then do { r \<leftarrow> ext ev (ev_reap ev (pid_path ev dir e) dir); ret (map_sum Process (\<lambda>_. ()) r) }
             else ret (Inr ())) (\<lambda>_.
     try_op (cleanup_epoch ev dir e) (\<lambda>_. sweep_epochs ev dir es)))"

definition sweep_orphans :: "'w env \<Rightarrow> path \<Rightarrow> ('w sys, error + u64) state" where
  "sweep_orphans ev dir =
     try_op (artifact_epochs ev dir) (\<lambda>epochs.
     try_op (sweep_epochs ev dir epochs) (\<lambda>_.
     ret (Inr (foldl max 0 epochs))))"


section \<open>Preparing a launch\<close>

definition load_snapshot :: "'w env \<Rightarrow> path \<Rightarrow> ('w sys, error + config_snapshot) state" where
  "load_snapshot ev source_path =
     try_op (ext_io ev (ev_read ev source_path)) (\<lambda>raw.
     lift_result (snapshot_from_bytes (ev_codec ev) source_path raw))"

definition next_epoch :: "('w sys, u64) state" where
  "next_epoch = State (\<lambda>s. (sy_epoch s + 1, s\<lparr>sy_epoch := sy_epoch s + 1\<rparr>))"

definition validate_launchable :: "'w manager \<Rightarrow> instance_spec \<Rightarrow> ('w sys, error + unit) state" where
  "validate_launchable m spec = do {
     ok \<leftarrow> ext (mg_env m) (ev_metadata_ok (mg_env m) (cs_binary_path (is_core spec)));
     ret (if \<not> ok then Inl (BinaryNotFound (cs_binary_path (is_core spec)))
          else map_sum id (\<lambda>_. ())
            (run_args (cs_kind (is_core spec)) (is_working_dir spec) (is_config_path spec)))
   }"

definition manager_features :: "'w manager \<Rightarrow> core_spec \<Rightarrow> ('w sys, error + resolved_features) state" where
  "manager_features m core = resolve_features (mg_env m) core (mo_local_ipc_policy (mg_options m))"

definition manager_prepare_full ::
  "'w manager \<Rightarrow> config_snapshot \<Rightarrow> u64 \<Rightarrow> runtime_feature set \<Rightarrow> error + prepared_config" where
  "manager_prepare_full m snapshot epoch runtime =
     prepare_full (ev_platform (mg_env m)) (ev_codec (mg_env m)) (ev_canon (mg_env m)) snapshot
       (mo_controller_template (mg_options m)) (mg_dir m) epoch runtime"

definition effective_spec_of :: "'w manager \<Rightarrow> instance_spec \<Rightarrow> u64 \<Rightarrow> path \<Rightarrow> instance_spec" where
  "effective_spec_of m spec epoch runtime =
     spec\<lparr>is_config_path := runtime, is_pid_file := Some (pid_path (mg_env m) (mg_dir m) epoch)\<rparr>"

definition launch_of ::
  "'w manager \<Rightarrow> instance_spec \<Rightarrow> config_snapshot \<Rightarrow> resolved_features \<Rightarrow> prepared_config \<Rightarrow>
   u64 \<Rightarrow> u64 \<Rightarrow> path \<Rightarrow> prepared_launch" where
  "launch_of m spec snapshot resolved prepared epoch generation runtime =
     \<lparr>pl_source_spec = spec, pl_effective_spec = effective_spec_of m spec epoch runtime,
      pl_controller = pr_controller prepared,
      pl_revision = \<lparr>rev_epoch = epoch, rev_generation = generation,
        rev_source_hash = pr_source_hash prepared, rev_effective_hash = pr_effective_hash prepared,
        rev_runtime_path = runtime\<rparr>,
      pl_capabilities = rf_capabilities resolved, pl_runtime_features = rf_runtime resolved,
      pl_source_document = sn_document snapshot, pl_effective_document = pr_document prepared\<rparr>"

text \<open>Staging the effective configuration and checking it with the core.\<close>

definition stage_checked ::
  "'w manager \<Rightarrow> instance_spec \<Rightarrow> u64 \<Rightarrow> string \<Rightarrow> ('w sys, error + staged) state" where
  "stage_checked m spec epoch bytes =
     try_op (stage (mg_env m) (mg_dir m) epoch bytes) (\<lambda>staged.
     try_op (or_drop (mg_env m) staged (check_config (mg_env m) (spec\<lparr>is_config_path := staged\<rparr>))) (\<lambda>_.
     ret (Inr staged)))"

definition prepare_launch_with_features ::
  "'w manager \<Rightarrow> instance_spec \<Rightarrow> u64 \<Rightarrow> config_snapshot \<Rightarrow> resolved_features \<Rightarrow>
   ('w sys, error + prepared_launch) state" where
  "prepare_launch_with_features m spec epoch snapshot resolved =
     try_op (lift_result (manager_prepare_full m snapshot epoch (rf_runtime resolved))) (\<lambda>prepared.
     try_op (stage_checked m spec epoch (pr_bytes prepared)) (\<lambda>staged.
     try_op (commit_new (mg_env m) (mg_dir m) staged epoch) (\<lambda>runtime.
     ret (Inr (launch_of m spec snapshot resolved prepared epoch 1 runtime)))))"

definition prepare_launch ::
  "'w manager \<Rightarrow> instance_spec \<Rightarrow> u64 \<Rightarrow> config_snapshot \<Rightarrow> ('w sys, error + prepared_launch) state" where
  "prepare_launch m spec epoch snapshot =
     try_op (validate_launchable m spec) (\<lambda>_.
     try_op (manager_features m (is_core spec)) (\<lambda>resolved.
     prepare_launch_with_features m spec epoch snapshot resolved))"

definition manager_spawn ::
  "'w manager \<Rightarrow> instance_spec \<Rightarrow> u64 \<Rightarrow> resolved_controller \<Rightarrow> ('w sys, error + nat) state" where
  "manager_spawn m spec epoch controller =
     spawn_configured (mg_env m) (mg_plan m) spec epoch controller"

definition stop_instance :: "'w manager \<Rightarrow> nat \<Rightarrow> ('w sys, error + unit) state" where
  "stop_instance m i = stop_and_confirm_dead (mg_env m) i (mo_stop_timeout (mg_options m))"

definition manager_cleanup :: "'w manager \<Rightarrow> u64 \<Rightarrow> ('w sys, error + unit) state" where
  "manager_cleanup m epoch = cleanup_epoch (mg_env m) (mg_dir m) epoch"

definition active_of :: "nat \<Rightarrow> prepared_launch \<Rightarrow> active" where
  "active_of i p =
     \<lparr>ac_instance = i, ac_source_spec = pl_source_spec p, ac_revision = pl_revision p,
      ac_capabilities = pl_capabilities p, ac_runtime_features = pl_runtime_features p,
      ac_source_document = pl_source_document p, ac_effective_document = pl_effective_document p\<rparr>"

definition launch_summary :: "prepared_launch \<Rightarrow> spec_summary" where
  "launch_summary p = spec_summary_of (pl_source_spec p) (pl_capabilities p) (pl_runtime_features p)"

definition publish_launch :: "'w manager \<Rightarrow> core_state \<Rightarrow> prepared_launch \<Rightarrow> ('w sys, unit) state" where
  "publish_launch m state p =
     publish m state (Some (launch_summary p)) (Some (rc_host (pl_controller p)))
       (Some (pl_revision p))"

definition publish_of_active :: "'w manager \<Rightarrow> core_state \<Rightarrow> active \<Rightarrow> ('w sys, unit) state" where
  "publish_of_active m state a = do {
     host \<leftarrow> gets (\<lambda>s. map_option (rc_host \<circ> in_controller) (sy_inst s (ac_instance a)));
     publish m state
       (Some (spec_summary_of (ac_source_spec a) (ac_capabilities a) (ac_runtime_features a)))
       host (Some (ac_revision a))
   }"

text \<open>\<^verbatim>\<open>instance.pid().unwrap_or_default()\<close>.\<close>

definition current_pid :: "nat \<Rightarrow> 'w sys \<Rightarrow> u32" where
  "current_pid i s = (case instance_pid i s of Some pid \<Rightarrow> pid | None \<Rightarrow> 0)"

section \<open>Start\<close>

definition start_prepared :: "'w manager \<Rightarrow> prepared_launch \<Rightarrow> ('w sys, error + unit) state" where
  "start_prepared m p = do {
     let epoch = rev_epoch (pl_revision p);
     publish_launch m (CStarting epoch) p;
     spawned \<leftarrow> manager_spawn m (pl_effective_spec p) epoch (pl_controller p);
     case spawned of
       Inl e \<Rightarrow> do {
         ignore (manager_cleanup m epoch);
         publish_terminal_error m e;
         ret (Inl e)
       }
     | Inr i \<Rightarrow> do {
         ready \<leftarrow> wait_ready (mg_env m) i;
         case ready of
           Inl readiness_error \<Rightarrow> do {
             stopped \<leftarrow> stop_instance m i;
             case stopped of
               Inr _ \<Rightarrow> do {
                 ignore (manager_cleanup m epoch);
                 publish_terminal_error m readiness_error;
                 ret (Inl readiness_error)
               }
             | Inl stop_error \<Rightarrow> do {
                 e \<leftarrow> latch_quarantine m epoch (StopUnconfirmed (to_string readiness_error @
                   ''; failed to stop rejected initial instance: '' @ to_string stop_error));
                 ret (Inl e)
               }
           }
         | Inr _ \<Rightarrow> do {
             pid \<leftarrow> gets (current_pid i);
             publish_instance m i (CRunning epoch pid) (pl_source_spec p) (pl_revision p)
               (pl_capabilities p) (pl_runtime_features p);
             spawn_forwarder i epoch;
             set_last_spec (pl_source_spec p);
             set_current (Some (active_of i p));
             ret (Inr ())
           }
       }
   }"

definition start_locked :: "'w manager \<Rightarrow> instance_spec \<Rightarrow> ('w sys, error + unit) state" where
  "start_locked m spec = do {
     epoch \<leftarrow> next_epoch;
     loaded \<leftarrow> load_snapshot (mg_env m) (is_config_path spec);
     case loaded of
       Inl e \<Rightarrow> do { publish_terminal_error m e; ret (Inl e) }
     | Inr snapshot \<Rightarrow> do {
         prepared \<leftarrow> prepare_launch m spec epoch snapshot;
         case prepared of
           Inl e \<Rightarrow> do {
             ignore (manager_cleanup m epoch);
             publish_terminal_error m e;
             ret (Inl e)
           }
         | Inr p \<Rightarrow> start_prepared m p
       }
   }"

text \<open>Whether the current instance has not reached a terminal state.\<close>

definition is_running :: "'w sys \<Rightarrow> bool" where
  "is_running s =
     (case ct_current (sy_ctrl s) of
        None \<Rightarrow> False
      | Some a \<Rightarrow> \<not> is_terminal (inst_state (ac_instance a) s))"

text \<open>A failed stop: an uncertain one quarantines the epoch, any other one runs \<open>other\<close>.\<close>

definition stop_failed ::
  "'w manager \<Rightarrow> u64 \<Rightarrow> error \<Rightarrow> ('w sys, error) state \<Rightarrow> ('w sys, error + 'a) state" where
  "stop_failed m epoch e other = do {
     e' \<leftarrow> (if is_stop_unconfirmed e then latch_quarantine m epoch e else other);
     ret (Inl e')
   }"

text \<open>What \<^verbatim>\<open>start\<close> and \<^verbatim>\<open>switch\<close> do with an instance that has already ended.\<close>

definition clear_stale :: "'w manager \<Rightarrow> ('w sys, error + unit) state" where
  "clear_stale m = do {
     current \<leftarrow> gets (ct_current \<circ> sy_ctrl);
     case current of
       None \<Rightarrow> ret (Inr ())
     | Some stale \<Rightarrow> do {
         set_current None;
         abort_and_await m (ac_instance stale);
         epoch \<leftarrow> gets (inst_epoch (ac_instance stale));
         stopped \<leftarrow> stop_instance m (ac_instance stale);
         case stopped of
           Inl e \<Rightarrow> stop_failed m epoch e (ret e)
         | Inr _ \<Rightarrow> manager_cleanup m epoch
       }
   }"

definition start :: "'w manager \<Rightarrow> instance_spec \<Rightarrow> ('w sys, error + unit) state" where
  "start m spec =
     try_op reject_quarantine (\<lambda>_. do {
       running \<leftarrow> gets is_running;
       if running then ret (Inl AlreadyRunning)
       else try_op (clear_stale m) (\<lambda>_. start_locked m spec)
     })"

section \<open>Stop and shutdown\<close>

text \<open>
  The common end of \<^verbatim>\<open>stop\<close> and \<^verbatim>\<open>shutdown\<close> for an instance that still runs.
\<close>

definition stop_active :: "'w manager \<Rightarrow> active \<Rightarrow> ('w sys, error + unit) state" where
  "stop_active m a = do {
     epoch \<leftarrow> gets (inst_epoch (ac_instance a));
     publish_of_active m (CStopping epoch) a;
     stopped \<leftarrow> stop_instance m (ac_instance a);
     case stopped of
       Inl e \<Rightarrow> stop_failed m epoch e (do { publish_terminal_error m e; ret e })
     | Inr _ \<Rightarrow> do {
         cleaned \<leftarrow> manager_cleanup m epoch;
         case cleaned of
           Inl e \<Rightarrow> do { publish_terminal_error m e; ret (Inl e) }
         | Inr _ \<Rightarrow> do {
             publish m (CStopped (Some User)) None None None;
             ret (Inr ())
           }
       }
   }"

definition stop :: "'w manager \<Rightarrow> ('w sys, error + unit) state" where
  "stop m = do {
     current \<leftarrow> gets (ct_current \<circ> sy_ctrl);
     case current of
       None \<Rightarrow> ret (Inl NotStarted)
     | Some a \<Rightarrow> do {
         set_current None;
         captured \<leftarrow> gets (inst_state (ac_instance a));
         abort_and_await m (ac_instance a);
         if is_terminal captured then do {
           epoch \<leftarrow> gets (inst_epoch (ac_instance a));
           publish_of_active m (instance_core_state epoch captured) a;
           stopped \<leftarrow> stop_instance m (ac_instance a);
           case stopped of
             Inl e \<Rightarrow> stop_failed m epoch e (ret e)
           | Inr _ \<Rightarrow> do {
               cleaned \<leftarrow> manager_cleanup m epoch;
               case cleaned of
                 Inl e \<Rightarrow> do { publish_terminal_error m e; ret (Inl e) }
               | Inr _ \<Rightarrow> ret (Inl NotStarted)
             }
         }
         else stop_active m a
       }
   }"

definition shutdown :: "'w manager \<Rightarrow> ('w sys, error + unit) state" where
  "shutdown m = do {
     current \<leftarrow> gets (ct_current \<circ> sy_ctrl);
     result \<leftarrow> (case current of
         None \<Rightarrow> ret (Inr ())
       | Some a \<Rightarrow> do {
           set_current None;
           abort_and_await m (ac_instance a);
           stop_active m a
         });
     sink \<leftarrow> gets sy_sink;
     modify (\<lambda>s. s\<lparr>sy_sink := False\<rparr>);
     (if sink then ext (mg_env m) (ev_sink_shutdown (mg_env m)) else ret ());
     ret result
   }"

section \<open>Construction\<close>

fun first_zero :: "(string \<times> duration) list \<Rightarrow> error + unit" where
  "first_zero [] = Inr ()"
| "first_zero ((name, t) # ts) =
     (if t = 0 then Inl (InvalidManagerOptions (name @ '' must be greater than zero''))
      else first_zero ts)"

definition validate_options :: "'w env \<Rightarrow> manager_options \<Rightarrow> path \<Rightarrow> error + unit" where
  "validate_options ev options dir =
     (case managed_endpoint_path (ev_platform ev) (ev_canon ev) dir
             (mo_controller_template options) 0 of
        Inl e \<Rightarrow> Inl e
      | Inr _ \<Rightarrow>
          (case first_zero [(''control_timeout'', mo_control_timeout options),
                 (''reconcile_timeout'', mo_reconcile_timeout options),
                 (''stop_timeout'', mo_stop_timeout options)] of
             Inl e \<Rightarrow> Inl e
           | Inr _ \<Rightarrow>
               if mo_log_max_bytes options = 0
               then Inl (InvalidManagerOptions ''log_max_bytes must be greater than zero'')
               else if mo_log_max_files options = 0
               then Inl (InvalidManagerOptions ''log_max_files must be greater than zero'')
               else Inr ()))"

text \<open>The state of the program is initialised by the construction.\<close>

definition build_configured ::
  "'w env \<Rightarrow> manager_options \<Rightarrow> probe_plan \<Rightarrow> ('w sys, error + 'w manager) state" where
  "build_configured ev options plan =
     (case mo_runtime_dir options of
        None \<Rightarrow> ret (Inl (InvalidManagerOptions ''runtime_dir is required''))
      | Some runtime_dir \<Rightarrow>
          try_op (store_new ev runtime_dir) (\<lambda>dir.
          try_op (acquire_ownership ev dir) (\<lambda>_.
          try_op (lift_result (validate_options ev options dir)) (\<lambda>_.
          try_op (sweep_orphans ev dir) (\<lambda>max_epoch.
          try_op (if mo_log_sink_enabled options
                  then try_op (prepare_dir ev dir) (\<lambda>log_dir.
                    try_op (ext ev (ev_sink_spawn ev log_dir)) (\<lambda>_. ret (Inr (Some log_dir))))
                  else ret (Inr None)) (\<lambda>log_dir. do {
            now \<leftarrow> now_ms ev;
            modify (\<lambda>s. s\<lparr>sy_status := core_status_initial now, sy_epoch := max_epoch,
              sy_cache := [], sy_sink := (log_dir \<noteq> None), sy_ctrl := ctrl_default,
              sy_forwarders := []\<rparr>);
            ret (Inr \<lparr>mg_env = ev, mg_options = options, mg_plan = plan, mg_dir = dir\<rparr>)
          }))))))"

end
