(* ===== verification/Wire.thy ===== *)
theory Wire
  imports Manager
begin

text \<open>
  The wire vocabulary of the service (\<^verbatim>\<open>nyanpasu_ipc/src/api\<close>): the response envelope and its
  failure kinds, the status snapshot with its lossy and its faithful state, the result of applying
  a configuration and the events of the socket. A path of the operating system that is not UTF-8
  is kept as its displayed text.
\<close>

section \<open>Paths and core types\<close>

datatype os_path = OsUtf8 path | OsOther string

fun from_path_buf :: "os_path \<Rightarrow> string + path" where
  "from_path_buf (OsUtf8 p) = Inr p"
| "from_path_buf (OsOther shown) = Inl shown"

fun os_join :: "platform \<Rightarrow> os_path \<Rightarrow> string \<Rightarrow> os_path" where
  "os_join plat (OsUtf8 p) name = OsUtf8 (path_join plat p name)"
| "os_join plat (OsOther shown) name = OsOther (path_join plat shown name)"

text \<open>The core types of the wire; the manager's kinds have no alpha variants.\<close>

datatype core_type =
    ClashMihomo
  | ClashMihomoAlpha
  | ClashClashRust
  | ClashClashRustAlpha
  | ClashClashPremium
  | ClashMeow
  | SingBox

section \<open>The envelope\<close>

datatype response_code = CodeOk | CodeOtherError

fun code_msg :: "response_code \<Rightarrow> string" where
  "code_msg CodeOk = ''ok''"
| "code_msg CodeOtherError = ''other error''"

record 'a response =
  re_code :: response_code
  re_msg :: string
  re_data :: "'a option"
  re_ts :: int
  re_error_kind :: "string option"

definition other_error :: "int \<Rightarrow> string \<Rightarrow> 'a response" where
  "other_error ts msg =
     \<lparr>re_code = CodeOtherError, re_msg = msg, re_data = None, re_ts = ts, re_error_kind = None\<rparr>"

definition other_error_with_kind :: "int \<Rightarrow> string \<Rightarrow> string option \<Rightarrow> 'a response" where
  "other_error_with_kind ts msg kind =
     \<lparr>re_code = CodeOtherError, re_msg = msg, re_data = None, re_ts = ts, re_error_kind = kind\<rparr>"

definition success :: "int \<Rightarrow> 'a \<Rightarrow> 'a response" where
  "success ts data =
     \<lparr>re_code = CodeOk, re_msg = code_msg CodeOk, re_data = Some data, re_ts = ts, re_error_kind = None\<rparr>"

text \<open>\<^verbatim>\<open>R::ok\<close>: the client's check of an envelope.\<close>

definition response_ok :: "'a response \<Rightarrow> 'a response option" where
  "response_ok r = (if re_code r = CodeOk then Some r else None)"

definition NOT_STARTED :: string where "NOT_STARTED = ''not_started''"
definition ALREADY_RUNNING :: string where "ALREADY_RUNNING = ''already_running''"
definition REVISION_CONFLICT :: string where "REVISION_CONFLICT = ''revision_conflict''"
definition QUARANTINED :: string where "QUARANTINED = ''quarantined''"
definition CONFIG_CHECK_FAILED :: string where "CONFIG_CHECK_FAILED = ''config_check_failed''"
definition CONFIG_NOT_FOUND :: string where "CONFIG_NOT_FOUND = ''config_not_found''"
definition BINARY_NOT_FOUND :: string where "BINARY_NOT_FOUND = ''binary_not_found''"
definition INVALID_CONFIG :: string where "INVALID_CONFIG = ''invalid_config''"
definition CONTROLLER_MISSING :: string where "CONTROLLER_MISSING = ''controller_missing''"
definition APPLY_FAILED :: string where "APPLY_FAILED = ''apply_failed''"
definition APPLY_ROLLBACK_FAILED :: string where "APPLY_ROLLBACK_FAILED = ''apply_rollback_failed''"
definition STOP_UNCONFIRMED :: string where "STOP_UNCONFIRMED = ''stop_unconfirmed''"

lemmas kind_defs = NOT_STARTED_def ALREADY_RUNNING_def REVISION_CONFLICT_def QUARANTINED_def
  CONFIG_CHECK_FAILED_def CONFIG_NOT_FOUND_def BINARY_NOT_FOUND_def INVALID_CONFIG_def
  CONTROLLER_MISSING_def APPLY_FAILED_def APPLY_ROLLBACK_FAILED_def STOP_UNCONFIRMED_def

section \<open>The status snapshot\<close>

datatype wire_state = WireRunning | WireStopped "string option"

datatype controller_info = NamedPipeInfo path | UnixSocketInfo path | HttpInfo string

datatype wire_health_state = WireStarting | WireHealthy | WireUnhealthy

record health_info =
  hi_state :: wire_health_state
  hi_changed_at :: int
  hi_consecutive_failures :: u32
  hi_last_error :: "string option"
  hi_last_success_at :: "int option"

record revision_info =
  ri_epoch :: u64
  ri_generation :: u64
  ri_source_hash :: string
  ri_effective_hash :: string

record revision_id_info =
  rii_epoch :: u64
  rii_generation :: u64
  rii_effective_hash :: string

definition revision_info_id :: "revision_info \<Rightarrow> revision_id_info" where
  "revision_info_id r =
     \<lparr>rii_epoch = ri_epoch r, rii_generation = ri_generation r, rii_effective_hash = ri_effective_hash r\<rparr>"

datatype state_detail =
    DetailStopped "string option"
  | DetailStarting u64
  | DetailRunning u64 u32
  | DetailRestarting u64 u32
  | DetailSwitching "u64 option" u64
  | DetailStopping u64

record core_infos =
  cf_type :: "core_type option"
  cf_state :: wire_state
  cf_state_changed_at :: int
  cf_config_path :: "path option"
  cf_controller :: "controller_info option"
  cf_health :: "health_info option"
  cf_revision :: "revision_info option"
  cf_detail :: "state_detail option"

section \<open>Applying and events\<close>

datatype apply_outcome_kind = KNoop | KPatched | KReloaded | KRestarted | KSwitched | KRolledBack

record apply_data =
  ad_outcome :: apply_outcome_kind
  ad_revision :: revision_info
  ad_warning :: "string option"
  ad_failed_apply :: "string option"

datatype ws_event = CoreStateChanged wire_state | CoreStatusChanged core_infos | CoreLog log_frame

end
