(* ===== verification/Switching.thy ===== *)
theory Switching
  imports Manager
begin

text \<open>
  Restarting and switching the core, \<^verbatim>\<open>manager/switching.rs\<close>: the hard switch stops the old
  epoch before the new one starts; the graceful one brings up a bootstrap instance whose
  inbounds are closed beside the old one, stops the old one, installs the full configuration
  and restores the inbounds, and replaces the process when that cannot be confirmed.
\<close>

definition graceful_degrade_reason ::
  "bool \<Rightarrow> core_kind \<Rightarrow> overlap_reason option \<Rightarrow> degrade_reason option" where
  "graceful_degrade_reason local_ipc kind block =
     (if \<not> local_ipc then Some HttpController
      else if kind \<noteq> Mihomo then Some UnsupportedKind
      else case block of
        Some DnsListen \<Rightarrow> Some DegradeDnsListen
      | Some InboundSurface \<Rightarrow> Some InboundConflict
      | None \<Rightarrow> None)"

definition with_switch_durability_warning :: "switch_outcome \<Rightarrow> string option \<Rightarrow> switch_outcome" where
  "with_switch_durability_warning outcome warning =
     (case warning of Some w \<Rightarrow> SwitchDurabilityUncertain outcome w | None \<Rightarrow> outcome)"

definition with_switch_durability_result ::
  "error + switch_outcome \<Rightarrow> string option \<Rightarrow> error + switch_outcome" where
  "with_switch_durability_result result warning =
     (case (result, warning) of
        (Inr outcome, warning) \<Rightarrow> Inr (with_switch_durability_warning outcome warning)
      | (Inl e, Some w) \<Rightarrow> Inl (DurabilityUncertain e w)
      | (Inl e, None) \<Rightarrow> Inl e)"

definition manager_prepare_bootstrap ::
  "'w manager \<Rightarrow> config_snapshot \<Rightarrow> u64 \<Rightarrow> runtime_feature set \<Rightarrow> error + prepared_config" where
  "manager_prepare_bootstrap m snapshot epoch runtime =
     prepare_bootstrap (ev_platform (mg_env m)) (ev_codec (mg_env m)) (ev_canon (mg_env m)) snapshot
       (mo_controller_template (mg_options m)) (mg_dir m) epoch runtime"

definition prepare_graceful ::
  "'w manager \<Rightarrow> instance_spec \<Rightarrow> u64 \<Rightarrow> config_snapshot \<Rightarrow> resolved_features \<Rightarrow>
   ('w sys, error + prepared_graceful) state" where
  "prepare_graceful m spec epoch snapshot resolved =
     try_op (lift_result (manager_prepare_full m snapshot epoch (rf_runtime resolved))) (\<lambda>full.
     try_op (lift_result (manager_prepare_bootstrap m snapshot epoch (rf_runtime resolved))) (\<lambda>bootstrap.
     if rc_host (pr_controller full) \<noteq> rc_host (pr_controller bootstrap) \<or>
        rc_secret (pr_controller full) \<noteq> rc_secret (pr_controller bootstrap)
     then ret (Inl (InvalidConfig ''full and bootstrap configs resolved different controllers''))
     else
     try_op (lift_result (restoration_patch (ev_patch_codec (mg_env m)) (pr_document bootstrap)
         (pr_document full))) (\<lambda>restoration.
     try_op (stage_checked m spec epoch (pr_bytes full)) (\<lambda>full_staged.
     try_op (or_drop (mg_env m) full_staged (stage_checked m spec epoch (pr_bytes bootstrap)))
       (\<lambda>bootstrap_staged.
     try_op (or_drop (mg_env m) full_staged
         (commit_new (mg_env m) (mg_dir m) bootstrap_staged epoch)) (\<lambda>runtime.
     ret (Inr \<lparr>pg_launch = launch_of m spec snapshot resolved full epoch 1 runtime,
       pg_full_staged = full_staged, pg_restoration = restoration\<rparr>)))))))"

definition spawn_replacement ::
  "'w manager \<Rightarrow> instance_spec \<Rightarrow> u64 \<Rightarrow> resolved_controller \<Rightarrow> ('w sys, error + nat) state" where
  "spawn_replacement m spec epoch controller =
     try_op (manager_spawn m spec epoch controller) (\<lambda>i. do {
       ready \<leftarrow> wait_ready (mg_env m) i;
       case ready of
         Inr _ \<Rightarrow> ret (Inr i)
       | Inl e \<Rightarrow> do {
           stopped \<leftarrow> stop_instance m i;
           ret (case stopped of
               Inr _ \<Rightarrow> Inl e
             | Inl stop_error \<Rightarrow> Inl (StopUnconfirmed (to_string e @
                 ''; failed to stop rejected replacement: '' @ to_string stop_error)))
         }
     })"

definition install_switched :: "'w manager \<Rightarrow> nat \<Rightarrow> prepared_launch \<Rightarrow> ('w sys, unit) state" where
  "install_switched m i p = do {
     let epoch = rev_epoch (pl_revision p);
     pid \<leftarrow> gets (current_pid i);
     publish_instance m i (CRunning epoch pid) (pl_source_spec p) (pl_revision p)
       (pl_capabilities p) (pl_runtime_features p);
     spawn_forwarder i epoch;
     set_last_spec (pl_source_spec p);
     set_current (Some (active_of i p))
   }"

section \<open>Requests under a deadline\<close>

text \<open>
  A step of a future that runs under \<^verbatim>\<open>tokio::time::timeout\<close>: when the deadline has passed the
  rest is dropped and the answer is no.
\<close>

definition timed ::
  "'w env \<Rightarrow> ('w sys, 'a) state \<Rightarrow> ('a \<Rightarrow> ('w sys, bool) state) \<Rightarrow> ('w sys, bool) state" where
  "timed ev op f = do {
     a \<leftarrow> op;
     expired \<leftarrow> gets (\<lambda>s. ev_expired ev (sy_world s));
     if expired then ret False else f a
   }"

definition inst_controller :: "nat \<Rightarrow> 'w sys \<Rightarrow> resolved_controller option" where
  "inst_controller i s = map_option in_controller (sy_inst s i)"

definition reconcile_probe :: "'w manager \<Rightarrow> nat \<Rightarrow> ('w sys, bool) state" where
  "reconcile_probe m i = timed (mg_env m) (probe_now (mg_env m) i Reconcile) (\<lambda>r. ret (is_healthy r))"

definition patch_and_verify ::
  "'w manager \<Rightarrow> nat \<Rightarrow> config_patch \<Rightarrow> runtime_projection \<Rightarrow> ('w sys, bool) state" where
  "patch_and_verify m i patch projection = do {
     controller \<leftarrow> gets (inst_controller i);
     case controller of
       None \<Rightarrow> ret False
     | Some controller \<Rightarrow> do {
         client \<leftarrow> ext (mg_env m) (ev_client (mg_env m) controller (mo_control_timeout (mg_options m)));
         case client of
           Inl _ \<Rightarrow> ret False
         | Inr _ \<Rightarrow>
             timed (mg_env m) (ext (mg_env m) (ev_patch_config (mg_env m) controller patch)) (\<lambda>_.
             timed (mg_env m) (ext (mg_env m) (ev_configs (mg_env m) controller)) (\<lambda>configs.
             case configs of
               Inl _ \<Rightarrow> ret False
             | Inr runtime \<Rightarrow>
                 if verify (ev_patch_codec (mg_env m)) projection runtime = Inr True
                 then reconcile_probe m i else ret False))
       }
   }"

section \<open>The switches\<close>

text \<open>The callers have checked that an instance is current; without one there is nothing to take.\<close>

definition hard_switch ::
  "'w manager \<Rightarrow> instance_spec \<Rightarrow> config_snapshot \<Rightarrow> resolved_features \<Rightarrow>
   ('w sys, error + unit) state" where
  "hard_switch m spec snapshot resolved = do {
     epoch \<leftarrow> next_epoch;
     prepared \<leftarrow> prepare_launch_with_features m spec epoch snapshot resolved;
     case prepared of
       Inl e \<Rightarrow> do {
         ignore (manager_cleanup m epoch);
         republish_retained m;
         ret (Inl e)
       }
     | Inr p \<Rightarrow> do {
         current \<leftarrow> gets (ct_current \<circ> sy_ctrl);
         case current of
           None \<Rightarrow> ret (Inl NotStarted)
         | Some old \<Rightarrow> do {
             old_epoch \<leftarrow> gets (inst_epoch (ac_instance old));
             publish_launch m (CSwitching (Some old_epoch) epoch) p;
             set_current None;
             abort_and_await m (ac_instance old);
             stopped \<leftarrow> stop_instance m (ac_instance old);
             case stopped of
               Inl e \<Rightarrow> do {
                 ignore (manager_cleanup m epoch);
                 stop_failed m old_epoch e (do { publish_terminal_error m e; ret e })
               }
             | Inr _ \<Rightarrow> do {
                 cleaned \<leftarrow> manager_cleanup m old_epoch;
                 case cleaned of
                   Inl e \<Rightarrow> do { publish_terminal_error m e; ret (Inl e) }
                 | Inr _ \<Rightarrow> start_prepared m p
               }
           }
       }
   }"

text \<open>
  The bootstrap instance of a graceful switch: \<open>Inr\<close> when it is ready; otherwise the full
  configuration is dropped and the old epoch stays.
\<close>

definition graceful_bootstrap ::
  "'w manager \<Rightarrow> u64 \<Rightarrow> prepared_graceful \<Rightarrow> ('w sys, error + nat) state" where
  "graceful_bootstrap m epoch g = do {
     spawned \<leftarrow> manager_spawn m (pl_effective_spec (pg_launch g)) epoch (pl_controller (pg_launch g));
     case spawned of
       Inl e \<Rightarrow> do {
         drop_staged (mg_env m) (pg_full_staged g);
         ignore (manager_cleanup m epoch);
         republish_retained m;
         ret (Inl e)
       }
     | Inr i \<Rightarrow> do {
         ready \<leftarrow> wait_ready (mg_env m) i;
         case ready of
           Inr _ \<Rightarrow> ret (Inr i)
         | Inl e \<Rightarrow> do {
             drop_staged (mg_env m) (pg_full_staged g);
             stopped \<leftarrow> stop_instance m i;
             case stopped of
               Inr _ \<Rightarrow> do {
                 ignore (manager_cleanup m epoch);
                 republish_retained m;
                 ret (Inl e)
               }
             | Inl stop_error \<Rightarrow> do {
                 e' \<leftarrow> latch_quarantine m epoch (StopUnconfirmed (to_string e @
                   ''; failed to stop rejected graceful bootstrap: '' @ to_string stop_error));
                 ret (Inl e')
               }
           }
       }
   }"

text \<open>The old epoch could not be stopped: the bootstrap instance is stopped as well.\<close>

definition graceful_old_stuck ::
  "'w manager \<Rightarrow> u64 \<Rightarrow> u64 \<Rightarrow> nat \<Rightarrow> staged \<Rightarrow> error \<Rightarrow> ('w sys, error + 'a) state" where
  "graceful_old_stuck m old_epoch epoch i full_staged e = do {
     drop_staged (mg_env m) full_staged;
     new_stop \<leftarrow> stop_instance m i;
     case new_stop of
       Inr _ \<Rightarrow> do {
         ignore (manager_cleanup m epoch);
         stop_failed m old_epoch e (do { publish_terminal_error m e; ret e })
       }
     | Inl new_error \<Rightarrow> do {
         (if is_stop_unconfirmed e then record_quarantine old_epoch (to_string e) else ret ());
         e' \<leftarrow> latch_quarantine m epoch (StopUnconfirmed (''old epoch stop failed: '' @
           to_string e @ ''; new bootstrap stop also failed: '' @ to_string new_error));
         ret (Inl e')
       }
   }"

text \<open>The full configuration could not be installed: the bootstrap instance is stopped.\<close>

definition graceful_commit_failed ::
  "'w manager \<Rightarrow> u64 \<Rightarrow> nat \<Rightarrow> error \<Rightarrow> ('w sys, error + 'a) state" where
  "graceful_commit_failed m epoch i e = do {
     new_stop \<leftarrow> stop_instance m i;
     (case new_stop of Inr _ \<Rightarrow> ignore (manager_cleanup m epoch) | Inl _ \<Rightarrow> ret ());
     let e = (case new_stop of
         Inr _ \<Rightarrow> e
       | Inl new_error \<Rightarrow> StopUnconfirmed (''full runtime commit failed: '' @ to_string e @
           ''; bootstrap stop also failed: '' @ to_string new_error));
     stop_failed m epoch e (do { publish_terminal_error m e; ret e })
   }"

text \<open>The inbounds could not be confirmed: the process is replaced inside its epoch.\<close>

definition graceful_replace ::
  "'w manager \<Rightarrow> u64 \<Rightarrow> u64 \<Rightarrow> nat \<Rightarrow> prepared_launch \<Rightarrow> ('w sys, error + switch_outcome) state" where
  "graceful_replace m old_epoch epoch i p = do {
     stopped \<leftarrow> stop_instance m i;
     case stopped of
       Inl e \<Rightarrow> stop_failed m epoch e (do { publish_terminal_error m e; ret e })
     | Inr _ \<Rightarrow> do {
         replaced \<leftarrow> spawn_replacement m (pl_effective_spec p) epoch (pl_controller p);
         case replaced of
           Inl e \<Rightarrow>
             stop_failed m epoch e (do {
               ignore (manager_cleanup m epoch);
               publish_terminal_error m e;
               ret e
             })
         | Inr replacement \<Rightarrow> do {
             install_switched m replacement p;
             cleaned \<leftarrow> manager_cleanup m old_epoch;
             ret (map_sum id (\<lambda>_. Hard PatchFailed) cleaned)
           }
       }
   }"

definition graceful_switch ::
  "'w manager \<Rightarrow> instance_spec \<Rightarrow> config_snapshot \<Rightarrow> resolved_features \<Rightarrow>
   ('w sys, error + switch_outcome) state" where
  "graceful_switch m spec snapshot resolved = do {
     current \<leftarrow> gets (ct_current \<circ> sy_ctrl);
     case current of
       None \<Rightarrow> ret (Inl NotStarted)
     | Some old \<Rightarrow> do {
         old_epoch \<leftarrow> gets (inst_epoch (ac_instance old));
         epoch \<leftarrow> next_epoch;
         prepared \<leftarrow> prepare_graceful m spec epoch snapshot resolved;
         case prepared of
           Inl e \<Rightarrow> do {
             ignore (manager_cleanup m epoch);
             republish_retained m;
             ret (Inl e)
           }
         | Inr g \<Rightarrow> do {
             publish_launch m (CSwitching (Some old_epoch) epoch) (pg_launch g);
             try_op (graceful_bootstrap m epoch g) (\<lambda>i. do {
               set_current None;
               abort_and_await m (ac_instance old);
               stopped \<leftarrow> stop_instance m (ac_instance old);
               case stopped of
                 Inl e \<Rightarrow> graceful_old_stuck m old_epoch epoch i (pg_full_staged g) e
               | Inr _ \<Rightarrow> do {
                   committed \<leftarrow> commit_replace (mg_env m) (mg_dir m) (pg_full_staged g) epoch;
                   case committed of
                     Inl e \<Rightarrow> graceful_commit_failed m epoch i e
                   | Inr commit \<Rightarrow> do {
                       let warning = durability_warning commit;
                       reconciled \<leftarrow> (case pg_restoration g of
                           Some (patch, projection) \<Rightarrow> patch_and_verify m i patch projection
                         | None \<Rightarrow> reconcile_probe m i);
                       result \<leftarrow> (if reconciled then do {
                           install_switched m i (pg_launch g);
                           cleaned \<leftarrow> manager_cleanup m old_epoch;
                           ret (map_sum id (\<lambda>_. Graceful) cleaned)
                         }
                         else graceful_replace m old_epoch epoch i (pg_launch g));
                       ret (with_switch_durability_result result warning)
                     }
                 }
             })
           }
       }
   }"

definition switch_locked :: "'w manager \<Rightarrow> instance_spec \<Rightarrow> ('w sys, error + switch_outcome) state" where
  "switch_locked m spec = do {
     running \<leftarrow> gets is_running;
     if \<not> running
     then try_op (clear_stale m) (\<lambda>_.
          try_op (start_locked m spec) (\<lambda>_. ret (Inr (Hard NotRunning))))
     else
       try_op (load_snapshot (mg_env m) (is_config_path spec)) (\<lambda>snapshot.
       try_op (validate_launchable m spec) (\<lambda>_.
       try_op (manager_features m (is_core spec)) (\<lambda>resolved.
       case graceful_degrade_reason (LocalIpc \<in> rf_runtime resolved) (cs_kind (is_core spec))
              (overlap_block (sn_document snapshot)) of
         Some reason \<Rightarrow>
           try_op (hard_switch m spec snapshot resolved) (\<lambda>_. ret (Inr (Hard reason)))
       | None \<Rightarrow> graceful_switch m spec snapshot resolved)))
   }"

definition switch :: "'w manager \<Rightarrow> instance_spec \<Rightarrow> ('w sys, error + switch_outcome) state" where
  "switch m spec = try_op reject_quarantine (\<lambda>_. switch_locked m spec)"

definition restart :: "'w manager \<Rightarrow> ('w sys, error + switch_outcome) state" where
  "restart m =
     try_op reject_quarantine (\<lambda>_. do {
       last \<leftarrow> gets (ct_last_spec \<circ> sy_ctrl);
       case last of
         None \<Rightarrow> ret (Inl NotStarted)
       | Some spec \<Rightarrow> switch_locked m spec
     })"

end
