(* ===== verification/Apply.thy ===== *)
theory Apply
  imports Switching
begin

text \<open>
  Applying a configuration to the running core, \<^verbatim>\<open>manager/apply.rs\<close>: the change is classified,
  patched or reloaded in place under a deadline, and otherwise the process is replaced, with
  the previous configuration or epoch as compensation when the new one does not come up.
\<close>

record prepared_apply =
  pa_launch :: prepared_launch
  pa_staged :: staged

definition with_durability_warning :: "apply_outcome \<Rightarrow> string option \<Rightarrow> apply_outcome" where
  "with_durability_warning outcome warning =
     (case warning of Some w \<Rightarrow> ApplyDurabilityUncertain outcome w | None \<Rightarrow> outcome)"

definition with_durability_result ::
  "error + apply_outcome \<Rightarrow> string option \<Rightarrow> error + apply_outcome" where
  "with_durability_result result warning =
     (case (result, warning) of
        (Inr outcome, warning) \<Rightarrow> Inr (with_durability_warning outcome warning)
      | (Inl e, Some w) \<Rightarrow> Inl (DurabilityUncertain e w)
      | (Inl e, None) \<Rightarrow> Inl e)"

definition prepare_apply ::
  "'w manager \<Rightarrow> active \<Rightarrow> instance_spec \<Rightarrow> config_snapshot \<Rightarrow>
   ('w sys, error + prepared_apply) state" where
  "prepare_apply m a input snapshot =
     try_op (validate_launchable m input) (\<lambda>_.
     try_op (manager_features m (is_core input)) (\<lambda>resolved.
     let epoch = rev_epoch (ac_revision a)
     in try_op (lift_result (manager_prepare_full m snapshot epoch (rf_runtime resolved))) (\<lambda>prepared.
        try_op (stage_checked m input epoch (pr_bytes prepared)) (\<lambda>staged.
        ret (Inr \<lparr>pa_launch = launch_of m input snapshot resolved prepared epoch
            (rev_generation (ac_revision a) + 1) (rev_runtime_path (ac_revision a)),
          pa_staged = staged\<rparr>)))))"

definition reconcile_in_place ::
  "'w manager \<Rightarrow> active \<Rightarrow> config_change \<Rightarrow> prepared_launch \<Rightarrow> ('w sys, bool) state" where
  "reconcile_in_place m a change desired =
     (case change of
        Patch patch projection \<Rightarrow> patch_and_verify m (ac_instance a) patch projection
      | Switch \<Rightarrow> ret False
      | Noop \<Rightarrow> ret True
      | Reload \<Rightarrow> do {
          controller \<leftarrow> gets (inst_controller (ac_instance a));
          case controller of
            None \<Rightarrow> ret False
          | Some controller \<Rightarrow> do {
              client \<leftarrow> ext (mg_env m)
                (ev_client (mg_env m) controller (mo_control_timeout (mg_options m)));
              case client of
                Inl _ \<Rightarrow> ret False
              | Inr _ \<Rightarrow>
                  timed (mg_env m) (ext (mg_env m) (ev_update_config (mg_env m) controller
                      (rev_runtime_path (pl_revision desired)))) (\<lambda>r.
                    case r of
                      Inl _ \<Rightarrow> ret False
                    | Inr _ \<Rightarrow> reconcile_probe m (ac_instance a))
            }
        })"

text \<open>Installing an instance as the current one.\<close>

definition install_active :: "'w manager \<Rightarrow> nat \<Rightarrow> active \<Rightarrow> ('w sys, unit) state" where
  "install_active m i a = do {
     pid \<leftarrow> gets (current_pid i);
     spawn_forwarder i (rev_epoch (ac_revision a));
     set_last_spec (ac_source_spec a);
     set_current (Some a);
     publish_active m a (CRunning (rev_epoch (ac_revision a)) pid)
   }"

definition publish_restarting :: "'w manager \<Rightarrow> active \<Rightarrow> resolved_controller \<Rightarrow> ('w sys, unit) state" where
  "publish_restarting m old controller =
     publish m (CRestarting (rev_epoch (ac_revision old)) 0)
       (Some (spec_summary_of (ac_source_spec old) (ac_capabilities old) (ac_runtime_features old)))
       (Some (rc_host controller)) (Some (ac_revision old))"

text \<open>
  Bringing the old process back: \<open>old\<close> is the active record it had, \<open>spec\<close> and \<open>controller\<close>
  those of its instance, \<open>after\<close> what is done once it runs, \<open>what\<close> names the failed step.
\<close>

definition roll_back ::
  "'w manager \<Rightarrow> active \<Rightarrow> instance_spec \<Rightarrow> resolved_controller \<Rightarrow> string \<Rightarrow> string \<Rightarrow>
   ('w sys, unit) state \<Rightarrow> ('w sys, error + apply_outcome) state" where
  "roll_back m old spec controller what apply_text after = do {
     replaced \<leftarrow> spawn_replacement m spec (rev_epoch (ac_revision old)) controller;
     case replaced of
       Inr i \<Rightarrow> do {
         install_active m i (old\<lparr>ac_instance := i\<rparr>);
         after;
         ret (Inr (RolledBack (ac_revision old) apply_text))
       }
     | Inl rollback_error \<Rightarrow>
         if is_stop_unconfirmed rollback_error then do {
           e \<leftarrow> latch_quarantine m (rev_epoch (ac_revision old)) (StopUnconfirmed
             (''desired '' @ what @ '' failed ('' @ apply_text @ ''); rollback replacement '' @
              to_string rollback_error));
           ret (Inl e)
         }
         else do {
           let e = ApplyRollbackFailed apply_text (to_string rollback_error);
           publish_terminal_error m e;
           ret (Inl e)
         }
   }"

text \<open>The epoch of \<open>old\<close> could not be stopped for the step \<open>what\<close>.\<close>

definition apply_stop_failed ::
  "'w manager \<Rightarrow> active \<Rightarrow> string \<Rightarrow> error \<Rightarrow> ('w sys, error + 'a) state" where
  "apply_stop_failed m old what e =
     stop_failed m (rev_epoch (ac_revision old)) e (do {
       let e' = ApplyFailed (''failed to stop current epoch for '' @ what @ '': '' @ to_string e);
       publish_terminal_error m e';
       ret e'
     })"

definition restart_failed ::
  "'w manager \<Rightarrow> active \<Rightarrow> instance_spec \<Rightarrow> resolved_controller \<Rightarrow> backup \<Rightarrow> error \<Rightarrow>
   ('w sys, error + apply_outcome) state" where
  "restart_failed m old spec controller b apply_error = do {
     restored \<leftarrow> store_restore (mg_env m) (mg_dir m) b;
     case restored of
       Inl restore_error \<Rightarrow> do {
         let e = ApplyRollbackFailed (to_string apply_error)
           (''runtime restore failed: '' @ to_string restore_error);
         publish_terminal_error m e;
         ret (Inl e)
       }
     | Inr restore \<Rightarrow> do {
         publish_restarting m old controller;
         result \<leftarrow> roll_back m old spec controller ''apply'' (to_string apply_error)
           (ignore (remove_backup (mg_env m) b));
         ret (with_durability_result result (durability_warning restore))
       }
   }"

definition restart_with_compensation ::
  "'w manager \<Rightarrow> prepared_launch \<Rightarrow> backup \<Rightarrow> ('w sys, error + apply_outcome) state" where
  "restart_with_compensation m desired b = do {
     current \<leftarrow> gets (ct_current \<circ> sy_ctrl);
     entry \<leftarrow> gets (\<lambda>s. Option.bind current (\<lambda>old. sy_inst s (ac_instance old)));
     case (current, entry) of
       (Some old, Some inst) \<Rightarrow> do {
         set_current None;
         abort_and_await m (ac_instance old);
         stopped \<leftarrow> stop_instance m (ac_instance old);
         case stopped of
           Inl e \<Rightarrow> apply_stop_failed m old ''reconcile'' e
         | Inr _ \<Rightarrow> do {
             publish_launch m (CRestarting (rev_epoch (pl_revision desired)) 0) desired;
             replaced \<leftarrow> spawn_replacement m (pl_effective_spec desired)
               (rev_epoch (pl_revision desired)) (pl_controller desired);
             case replaced of
               Inr i \<Rightarrow> do {
                 install_active m i (active_of i desired);
                 ignore (remove_backup (mg_env m) b);
                 ret (Inr (Restarted (pl_revision desired)))
               }
             | Inl e \<Rightarrow>
                 if is_stop_unconfirmed e then do {
                   e' \<leftarrow> latch_quarantine m (rev_epoch (pl_revision desired)) e;
                   ret (Inl e')
                 }
                 else restart_failed m old (in_spec inst) (in_controller inst) b e
           }
       }
     | _ \<Rightarrow> ret (Inl NotStarted)
   }"

definition switch_failed ::
  "'w manager \<Rightarrow> active \<Rightarrow> instance_spec \<Rightarrow> resolved_controller \<Rightarrow> u64 \<Rightarrow> error \<Rightarrow>
   ('w sys, error + apply_outcome) state" where
  "switch_failed m old spec controller epoch apply_error = do {
     ignore (manager_cleanup m epoch);
     publish_restarting m old controller;
     roll_back m old spec controller ''switch'' (to_string apply_error) (ret ())
   }"

definition switch_with_compensation ::
  "'w manager \<Rightarrow> instance_spec \<Rightarrow> config_snapshot \<Rightarrow> ('w sys, error + apply_outcome) state" where
  "switch_with_compensation m input snapshot = do {
     epoch \<leftarrow> next_epoch;
     try_op (prepare_launch m input epoch snapshot) (\<lambda>desired. do {
       current \<leftarrow> gets (ct_current \<circ> sy_ctrl);
       entry \<leftarrow> gets (\<lambda>s. Option.bind current (\<lambda>old. sy_inst s (ac_instance old)));
       case (current, entry) of
         (Some old, Some inst) \<Rightarrow> do {
           set_current None;
           abort_and_await m (ac_instance old);
           stopped \<leftarrow> stop_instance m (ac_instance old);
           case stopped of
             Inl e \<Rightarrow> do {
               ignore (manager_cleanup m epoch);
               apply_stop_failed m old ''switch'' e
             }
           | Inr _ \<Rightarrow> do {
               publish_launch m (CSwitching (Some (rev_epoch (ac_revision old)))
                 (rev_epoch (pl_revision desired))) desired;
               replaced \<leftarrow> spawn_replacement m (pl_effective_spec desired)
                 (rev_epoch (pl_revision desired)) (pl_controller desired);
               case replaced of
                 Inr i \<Rightarrow> do {
                   install_active m i (active_of i desired);
                   ignore (manager_cleanup m (rev_epoch (ac_revision old)));
                   ret (Inr (Switched (pl_revision desired)))
                 }
               | Inl e \<Rightarrow>
                   if is_stop_unconfirmed e then do {
                     e' \<leftarrow> latch_quarantine m (rev_epoch (pl_revision desired)) e;
                     ret (Inl e')
                   }
                   else switch_failed m old (in_spec inst) (in_controller inst) epoch e
             }
         }
       | _ \<Rightarrow> ret (Inl NotStarted)
     })
   }"

text \<open>A change that was reconciled in place becomes the current revision.\<close>

definition accept_in_place ::
  "'w manager \<Rightarrow> active \<Rightarrow> config_change \<Rightarrow> prepared_launch \<Rightarrow> backup \<Rightarrow> string option \<Rightarrow>
   ('w sys, error + apply_outcome) state" where
  "accept_in_place m a change desired b warning = do {
     let a' = active_of (ac_instance a) desired;
     let outcome = (case change of
         Patch _ _ \<Rightarrow> Patched (pl_revision desired) | _ \<Rightarrow> Reloaded (pl_revision desired));
     set_current (Some a');
     pid \<leftarrow> gets (current_pid (ac_instance a));
     publish_active m a' (CRunning (rev_epoch (pl_revision desired)) pid);
     set_last_spec (pl_source_spec desired);
     ignore (remove_backup (mg_env m) b);
     ret (Inr (with_durability_warning outcome warning))
   }"

definition apply_committed ::
  "'w manager \<Rightarrow> active \<Rightarrow> config_change \<Rightarrow> prepared_launch \<Rightarrow> backup \<Rightarrow> runtime_commit \<Rightarrow>
   ('w sys, error + apply_outcome) state" where
  "apply_committed m a change desired b commit = do {
     let warning = durability_warning commit;
     reconciled \<leftarrow> reconcile_in_place m a change desired;
     if reconciled then accept_in_place m a change desired b warning
     else do {
       result \<leftarrow> restart_with_compensation m desired b;
       ret (with_durability_result result warning)
     }
   }"

definition apply_in_place ::
  "'w manager \<Rightarrow> active \<Rightarrow> config_change \<Rightarrow> prepared_apply \<Rightarrow>
   ('w sys, error + apply_outcome) state" where
  "apply_in_place m a change prepared =
     (let desired = pa_launch prepared
      in try_op (or_drop (mg_env m) (pa_staged prepared)
            (store_backup (mg_env m) (mg_dir m) (rev_epoch (ac_revision a))
              (rev_generation (pl_revision desired)))) (\<lambda>b. do {
          committed \<leftarrow> commit_replace (mg_env m) (mg_dir m) (pa_staged prepared)
            (rev_epoch (pl_revision desired));
          case committed of
            Inl e \<Rightarrow> do { ignore (remove_backup (mg_env m) b); ret (Inl e) }
          | Inr commit \<Rightarrow> apply_committed m a change desired b commit
        }))"

definition apply_config ::
  "'w manager \<Rightarrow> instance_spec \<Rightarrow> revision_id option \<Rightarrow> ('w sys, error + apply_outcome) state" where
  "apply_config m input expected_revision =
     try_op reject_quarantine (\<lambda>_. do {
       running \<leftarrow> gets is_running;
       current \<leftarrow> gets (ct_current \<circ> sy_ctrl);
       case current of
         None \<Rightarrow> ret (Inl NotStarted)
       | Some a \<Rightarrow>
           if \<not> running then ret (Inl NotStarted)
           else let actual = revision_id_of (ac_revision a)
           in if expected_revision \<noteq> None \<and> expected_revision \<noteq> Some actual
           then ret (Inl (RevisionConflict (case expected_revision of Some r \<Rightarrow> r | None \<Rightarrow> actual)
             (Some actual)))
           else
             try_op (load_snapshot (mg_env m) (is_config_path input)) (\<lambda>snapshot.
             try_op (prepare_apply m a input snapshot) (\<lambda>prepared.
             try_op (or_drop (mg_env m) (pa_staged prepared) (lift_result
                 (classify (ev_patch_codec (mg_env m)) (ac_source_document a)
                   (ac_effective_document a) (ac_source_spec a)
                   (pl_source_document (pa_launch prepared))
                   (pl_effective_document (pa_launch prepared))
                   (pl_source_spec (pa_launch prepared))))) (\<lambda>change.
             case change of
               Noop \<Rightarrow> do {
                 drop_staged (mg_env m) (pa_staged prepared);
                 ret (Inr (ApplyNoop (ac_revision a)))
               }
             | Switch \<Rightarrow> do {
                 drop_staged (mg_env m) (pa_staged prepared);
                 switch_with_compensation m input snapshot
               }
             | _ \<Rightarrow> apply_in_place m a change prepared)))
     })"

section \<open>The public interface\<close>

datatype mgr_op =
    OpStart instance_spec
  | OpStop
  | OpRestart
  | OpSwitch instance_spec
  | OpApply instance_spec "revision_id option"
  | OpRecover
  | OpShutdown
  | OpIdle

text \<open>Running an operation for its effect; the result is dropped. While idle, other tasks run.\<close>

fun run_op :: "'w manager \<Rightarrow> mgr_op \<Rightarrow> ('w sys, unit) state" where
  "run_op m (OpStart spec) = ignore (start m spec)"
| "run_op m OpStop = ignore (stop m)"
| "run_op m OpRestart = ignore (restart m)"
| "run_op m (OpSwitch spec) = ignore (switch m spec)"
| "run_op m (OpApply spec expected) = ignore (apply_config m spec expected)"
| "run_op m OpRecover = ignore (recover_quarantine m)"
| "run_op m OpShutdown = ignore (shutdown m)"
| "run_op m OpIdle = ext (mg_env m) (\<lambda>w. ((), w))"

end
