(* ===== verification/Service.thy ===== *)
theory Service
  imports Wire Apply
begin

text \<open>
  The service's adapter over the manager (\<^verbatim>\<open>server/manager_bridge.rs\<close>) and the routes that answer
  with it (\<^verbatim>\<open>server/routing/core\<close>, \<^verbatim>\<open>server/routing/status.rs\<close>). The record \<open>service\<close> is the state
  of the adapter: the manager's state, the requested core type it echoes, the closing latch and the
  free slots for configuration checks. The control mutex makes the operations exclude each other,
  so each is one function; only \<^verbatim>\<open>check\<close> releases it early and is split at that point. What the
  adapter calls outside the sources is in \<open>service_env\<close>.
\<close>

section \<open>State and environment\<close>

definition MAX_CONCURRENT_CHECKS :: nat where "MAX_CONCURRENT_CHECKS = 2"

definition MSG_CORE_ALREADY_RUNNING :: string where
  "MSG_CORE_ALREADY_RUNNING = ''core is already running''"

definition MSG_CORE_ALREADY_STOPPED :: string where
  "MSG_CORE_ALREADY_STOPPED = ''core is already stopped''"

definition MSG_CORE_NOT_STARTED :: string where
  "MSG_CORE_NOT_STARTED = ''core have not been started yet''"

definition MSG_SHUTTING_DOWN :: string where
  "MSG_SHUTTING_DOWN = ''service is shutting down''"

record runtime_infos =
  rt_service_data_dir :: os_path
  rt_service_config_dir :: os_path
  rt_config_dir :: os_path
  rt_data_dir :: os_path
  rt_app_dir :: os_path

record op_error =
  oe_kind :: "string option"
  oe_message :: string

text \<open>An I/O error of the system: whether its kind is \<^verbatim>\<open>NotFound\<close>, and its text.\<close>

record io_failure =
  if_not_found :: bool
  if_text :: string

record 'w service_env =
  se_manager :: "'w manager"
  se_executable_name :: "core_type \<Rightarrow> string"
  se_exists :: "os_path \<Rightarrow> 'w \<Rightarrow> bool"
  se_canonicalize_utf8 :: "path \<Rightarrow> 'w \<Rightarrow> (string + path) \<times> 'w"
  se_canonicalize :: "os_path \<Rightarrow> 'w \<Rightarrow> (io_failure + os_path) \<times> 'w"
  se_simplified :: "path \<Rightarrow> path"
  se_metadata :: "path \<Rightarrow> 'w \<Rightarrow> (string + unit) \<times> 'w"
  se_without_credentials :: "url \<Rightarrow> string"
  se_restart_policy :: string
  se_backoff :: string

record 'w service =
  sv_sys :: "'w sys"
  sv_requested :: "core_type option"
  sv_closing :: bool
  sv_slots :: nat

definition on_sys :: "('w sys, 'a) state \<Rightarrow> ('w service, 'a) state" where
  "on_sys m = State (\<lambda>s. case run_state m (sv_sys s) of (a, t) \<Rightarrow> (a, s\<lparr>sv_sys := t\<rparr>))"

section \<open>Errors\<close>

definition op_plain :: "string \<Rightarrow> op_error" where
  "op_plain message = \<lparr>oe_kind = None, oe_message = message\<rparr>"

definition op_with_kind :: "string \<Rightarrow> string \<Rightarrow> op_error" where
  "op_with_kind kind message = \<lparr>oe_kind = Some kind, oe_message = message\<rparr>"

definition into_envelope :: "int \<Rightarrow> op_error \<Rightarrow> 'a response" where
  "into_envelope ts e = other_error_with_kind ts (oe_message e) (oe_kind e)"

fun map_error_kind :: "error \<Rightarrow> string option" where
  "map_error_kind NotStarted = Some NOT_STARTED"
| "map_error_kind AlreadyRunning = Some ALREADY_RUNNING"
| "map_error_kind (RevisionConflict _ _) = Some REVISION_CONFLICT"
| "map_error_kind (ManagerQuarantined _ _) = Some QUARANTINED"
| "map_error_kind (ConfigCheckFailed _) = Some CONFIG_CHECK_FAILED"
| "map_error_kind (ConfigNotFound _) = Some CONFIG_NOT_FOUND"
| "map_error_kind (BinaryNotFound _) = Some BINARY_NOT_FOUND"
| "map_error_kind (InvalidConfig _) = Some INVALID_CONFIG"
| "map_error_kind (Yaml _) = Some INVALID_CONFIG"
| "map_error_kind ControllerMissing = Some CONTROLLER_MISSING"
| "map_error_kind (ApplyFailed _) = Some APPLY_FAILED"
| "map_error_kind (ApplyRollbackFailed _ _) = Some APPLY_ROLLBACK_FAILED"
| "map_error_kind (StopUnconfirmed _) = Some STOP_UNCONFIRMED"
| "map_error_kind (DurabilityUncertain source _) = map_error_kind source"
| "map_error_kind _ = None"

definition op_error_of :: "error \<Rightarrow> op_error" where
  "op_error_of e =
     \<lparr>oe_kind = map_error_kind e,
      oe_message = (if e = NotStarted then MSG_CORE_NOT_STARTED else to_string e)\<rparr>"

section \<open>Projections onto the wire\<close>

fun core_kind_of :: "core_type \<Rightarrow> string + core_kind" where
  "core_kind_of ClashMihomo = Inr Mihomo"
| "core_kind_of ClashMihomoAlpha = Inr Mihomo"
| "core_kind_of ClashClashRust = Inr ClashRust"
| "core_kind_of ClashClashRustAlpha = Inr ClashRust"
| "core_kind_of ClashClashPremium = Inr ClashPremium"
| "core_kind_of ClashMeow = Inr Meow"
| "core_kind_of SingBox = Inl ''sing-box is not a supported core''"

fun map_core_state :: "core_state \<Rightarrow> wire_state" where
  "map_core_state (CRunning _ _) = WireRunning"
| "map_core_state (CSwitching _ _) = WireRunning"
| "map_core_state (CStopping _) = WireRunning"
| "map_core_state (CStarting _) = WireStopped None"
| "map_core_state (CRestarting _ _) = WireStopped None"
| "map_core_state (CStopped reason) = WireStopped (map_option stop_reason_display reason)"

fun map_controller :: "(url \<Rightarrow> string) \<Rightarrow> host \<Rightarrow> controller_info" where
  "map_controller without_credentials (NamedPipe p) = NamedPipeInfo p"
| "map_controller without_credentials (UnixSocket p) = UnixSocketInfo p"
| "map_controller without_credentials (Http url) = HttpInfo (without_credentials url)"

fun map_health_state :: "health_state \<Rightarrow> wire_health_state" where
  "map_health_state HStarting = WireStarting"
| "map_health_state HHealthy = WireHealthy"
| "map_health_state HUnhealthy = WireUnhealthy"

definition map_health :: "health_status \<Rightarrow> health_info" where
  "map_health h =
     \<lparr>hi_state = map_health_state (hs_state h), hi_changed_at = hs_changed_at h,
      hi_consecutive_failures = hs_consecutive_failures h, hi_last_error = hs_last_error h,
      hi_last_success_at = hs_last_success_at h\<rparr>"

definition map_revision :: "config_revision \<Rightarrow> revision_info" where
  "map_revision r =
     \<lparr>ri_epoch = rev_epoch r, ri_generation = rev_generation r,
      ri_source_hash = rev_source_hash r, ri_effective_hash = rev_effective_hash r\<rparr>"

definition map_revision_id :: "revision_id_info \<Rightarrow> revision_id" where
  "map_revision_id i =
     \<lparr>rid_epoch = rii_epoch i, rid_generation = rii_generation i,
      rid_effective_hash = rii_effective_hash i\<rparr>"

text \<open>The loop that unwraps the durability warnings.\<close>

fun unwrap_warnings :: "string list \<Rightarrow> apply_outcome \<Rightarrow> string list \<times> apply_outcome" where
  "unwrap_warnings warnings (ApplyDurabilityUncertain outcome warning) =
     unwrap_warnings (warnings @ [warning]) outcome"
| "unwrap_warnings warnings outcome = (warnings, outcome)"

fun join_warnings :: "string list \<Rightarrow> string" where
  "join_warnings [] = []"
| "join_warnings [w] = w"
| "join_warnings (w # ws) = w @ ''; '' @ join_warnings ws"

text \<open>The last branch is the \<^verbatim>\<open>unreachable!\<close> of the source.\<close>

fun outcome_parts :: "apply_outcome \<Rightarrow> (apply_outcome_kind \<times> config_revision \<times> string option) option" where
  "outcome_parts (ApplyNoop r) = Some (KNoop, r, None)"
| "outcome_parts (Patched r) = Some (KPatched, r, None)"
| "outcome_parts (Reloaded r) = Some (KReloaded, r, None)"
| "outcome_parts (Restarted r) = Some (KRestarted, r, None)"
| "outcome_parts (Switched r) = Some (KSwitched, r, None)"
| "outcome_parts (RolledBack r failed) = Some (KRolledBack, r, Some failed)"
| "outcome_parts (ApplyDurabilityUncertain _ _) = None"

definition map_apply_outcome :: "apply_outcome \<Rightarrow> apply_data option" where
  "map_apply_outcome outcome =
     (case unwrap_warnings [] outcome of
        (warnings, current) \<Rightarrow>
          map_option (\<lambda>(kind, revision, failed).
            \<lparr>ad_outcome = kind, ad_revision = map_revision revision,
             ad_warning = (if warnings = [] then None else Some (join_warnings warnings)),
             ad_failed_apply = failed\<rparr>) (outcome_parts current))"

fun map_state_detail :: "core_state \<Rightarrow> state_detail" where
  "map_state_detail (CStopped reason) = DetailStopped (map_option stop_reason_display reason)"
| "map_state_detail (CStarting e) = DetailStarting e"
| "map_state_detail (CRunning e pid) = DetailRunning e pid"
| "map_state_detail (CRestarting e attempt) = DetailRestarting e attempt"
| "map_state_detail (CSwitching from to) = DetailSwitching from to"
| "map_state_detail (CStopping e) = DetailStopping e"

fun same_ipc_state :: "wire_state \<Rightarrow> wire_state \<Rightarrow> bool" where
  "same_ipc_state WireRunning WireRunning = True"
| "same_ipc_state (WireStopped a) (WireStopped b) = (a = b)"
| "same_ipc_state _ _ = False"

definition project_core_infos ::
  "(url \<Rightarrow> string) \<Rightarrow> core_status \<Rightarrow> core_type option \<Rightarrow> core_infos" where
  "project_core_infos without_credentials status requested =
     \<lparr>cf_type = requested, cf_state = map_core_state (st_state status),
      cf_state_changed_at = st_changed_at status,
      cf_config_path = map_option ss_config_path (st_spec status),
      cf_controller = map_option (map_controller without_credentials) (st_controller status),
      cf_health = map_option map_health (st_health status),
      cf_revision = map_option map_revision (st_revision status),
      cf_detail = Some (map_state_detail (st_state status))\<rparr>"

section \<open>The request as an instance specification\<close>

text \<open>Data directory, then sidecar directory.\<close>

definition find_binary_path ::
  "'w service_env \<Rightarrow> runtime_infos \<Rightarrow> core_type \<Rightarrow> 'w \<Rightarrow> string + os_path" where
  "find_binary_path se infos core_type w =
     (let plat = ev_platform (mg_env (se_manager se)); name = se_executable_name se core_type;
          data = os_join plat (rt_data_dir infos) name; app = os_join plat (rt_app_dir infos) name
      in if se_exists se data w then Inr data
         else if se_exists se app w then Inr app
         else Inl (name @ '' not found''))"

definition default_instance_options :: "'w service_env \<Rightarrow> instance_options" where
  "default_instance_options se =
     \<lparr>io_startup_timeout = from_secs 30, io_health = default_health_policy,
      io_restart_policy = se_restart_policy se, io_backoff = se_backoff se\<rparr>"

definition instance_spec_of ::
  "'w service_env \<Rightarrow> runtime_infos \<Rightarrow> core_type \<Rightarrow> path \<Rightarrow> 'w \<Rightarrow> op_error + instance_spec" where
  "instance_spec_of se infos core_type config_path w =
     (case from_path_buf (rt_data_dir infos) of
        Inl shown \<Rightarrow> Inl (op_plain (''nyanpasu data dir is not UTF-8: '' @ shown))
      | Inr working_dir \<Rightarrow>
          (case find_binary_path se infos core_type w of
             Inl e \<Rightarrow> Inl (op_with_kind BINARY_NOT_FOUND e)
           | Inr found \<Rightarrow>
               (case from_path_buf found of
                  Inl shown \<Rightarrow> Inl (op_plain (''core binary path is not UTF-8: '' @ shown))
                | Inr binary_path \<Rightarrow>
                    (case core_kind_of core_type of
                       Inl e \<Rightarrow> Inl (op_plain e)
                     | Inr kind \<Rightarrow> Inr
                         \<lparr>is_core = \<lparr>cs_kind = kind, cs_binary_path = binary_path, cs_version = None,
                            cs_features = []\<rparr>,
                          is_config_path = config_path, is_working_dir = working_dir,
                          is_pid_file = None, is_options = default_instance_options se\<rparr>))))"

definition canonical_config_path ::
  "'w service_env \<Rightarrow> os_path \<Rightarrow> ('w sys, op_error + path) state" where
  "canonical_config_path se config_file = do {
     r \<leftarrow> ext (mg_env (se_manager se)) (se_canonicalize se config_file);
     ret (case r of
         Inl e \<Rightarrow>
           (let shown = (case config_file of OsUtf8 p \<Rightarrow> p | OsOther d \<Rightarrow> d);
                message = ''failed to resolve config path '' @ shown @ '': '' @ if_text e
            in Inl (if if_not_found e then op_with_kind CONFIG_NOT_FOUND message else op_plain message))
       | Inr (OsUtf8 p) \<Rightarrow> Inr (se_simplified se p)
       | Inr (OsOther d) \<Rightarrow> Inl (op_plain (''config path is not UTF-8: '' @ d)))
   }"

section \<open>The operations\<close>

text \<open>\<open>sv_requested\<close> is a watch channel; sending always notifies its readers.\<close>

definition publish_requested_core :: "core_type option \<Rightarrow> ('w service, unit) state" where
  "publish_requested_core committed = modify (\<lambda>s.
     case committed of Some core_type \<Rightarrow> s\<lparr>sv_requested := Some core_type\<rparr> | None \<Rightarrow> s)"

definition unless_closing :: "'e \<Rightarrow> ('w service, 'e + 'a) state \<Rightarrow> ('w service, 'e + 'a) state" where
  "unless_closing e m = do { closing \<leftarrow> gets sv_closing; if closing then ret (Inl e) else m }"

definition service_new ::
  "'w env \<Rightarrow> probe_plan \<Rightarrow> path \<Rightarrow> local_ipc_policy \<Rightarrow> 'w sys \<Rightarrow> (string + 'w manager) \<times> 'w service" where
  "service_new ev plan runtime_dir policy s =
     (case run_state (build_configured ev (default_manager_options\<lparr>mo_runtime_dir := Some runtime_dir,
         mo_local_ipc_policy := policy\<rparr>) plan) s of
        (r, s') \<Rightarrow> (map_sum to_string id r,
          \<lparr>sv_sys = s', sv_requested = None, sv_closing = False, sv_slots = MAX_CONCURRENT_CHECKS\<rparr>))"

definition service_shutdown :: "'w service_env \<Rightarrow> ('w service, unit) state" where
  "service_shutdown se = do {
     closing \<leftarrow> gets sv_closing;
     if closing then ret ()
     else do {
       modify (\<lambda>s. s\<lparr>sv_closing := True\<rparr>);
       ignore (on_sys (shutdown (se_manager se)))
     }
   }"

definition service_start ::
  "'w service_env \<Rightarrow> runtime_infos \<Rightarrow> core_type \<Rightarrow> path \<Rightarrow> ('w service, string + unit) state" where
  "service_start se infos core_type config_path =
     unless_closing MSG_SHUTTING_DOWN
       (try_op (on_sys (ext (mg_env (se_manager se)) (se_canonicalize_utf8 se config_path))) (\<lambda>canonical.
        let config_path = se_simplified se canonical in
        try_op (on_sys (ext (mg_env (se_manager se)) (se_metadata se config_path))) (\<lambda>_. do {
          state \<leftarrow> gets (st_state \<circ> sy_status \<circ> sv_sys);
          if \<not> (case state of CStopped _ \<Rightarrow> True | _ \<Rightarrow> False) then ret (Inl MSG_CORE_ALREADY_RUNNING)
          else do {
            w \<leftarrow> gets (sy_world \<circ> sv_sys);
            case instance_spec_of se infos core_type config_path w of
              Inl e \<Rightarrow> ret (Inl (oe_message e))
            | Inr spec \<Rightarrow> do {
                r \<leftarrow> on_sys (start (se_manager se) spec);
                case r of
                  Inl e \<Rightarrow> ret (Inl (to_string e))
                | Inr _ \<Rightarrow> do { publish_requested_core (Some core_type); ret (Inr ()) }
              }
          }
        })))"

definition service_stop :: "'w service_env \<Rightarrow> ('w service, string + unit) state" where
  "service_stop se =
     unless_closing MSG_SHUTTING_DOWN (do {
       r \<leftarrow> on_sys (stop (se_manager se));
       ret (case r of
           Inr _ \<Rightarrow> Inr ()
         | Inl e \<Rightarrow> Inl (if e = NotStarted then MSG_CORE_ALREADY_STOPPED else to_string e))
     })"

definition service_restart :: "'w service_env \<Rightarrow> ('w service, string + unit) state" where
  "service_restart se =
     unless_closing MSG_SHUTTING_DOWN (do {
       r \<leftarrow> on_sys (restart (se_manager se));
       ret (case r of
           Inr _ \<Rightarrow> Inr ()
         | Inl e \<Rightarrow> Inl (if e = NotStarted then MSG_CORE_NOT_STARTED else to_string e))
     })"

text \<open>The result is \<open>None\<close> if the unreachable branch of the projection is reached.\<close>

definition service_apply ::
  "'w service_env \<Rightarrow> runtime_infos \<Rightarrow> core_type \<Rightarrow> os_path \<Rightarrow> revision_id_info option \<Rightarrow>
   ('w service, op_error + apply_data option) state" where
  "service_apply se infos core_type config_file expected =
     unless_closing (op_plain MSG_SHUTTING_DOWN)
       (try_op (on_sys (canonical_config_path se config_file)) (\<lambda>config_path. do {
          w \<leftarrow> gets (sy_world \<circ> sv_sys);
          try_op (lift_result (instance_spec_of se infos core_type config_path w)) (\<lambda>spec. do {
            r \<leftarrow> on_sys (apply_config (se_manager se) spec (map_option map_revision_id expected));
            case r of
              Inl e \<Rightarrow> ret (Inl (op_error_of e))
            | Inr outcome \<Rightarrow>
                (case map_apply_outcome outcome of
                   None \<Rightarrow> ret (Inr None)
                 | Some data \<Rightarrow> do {
                     publish_requested_core
                       (if ad_outcome data \<noteq> KRolledBack then Some core_type else None);
                     ret (Inr (Some data))
                   })
          })
        }))"

text \<open>
  A check holds a slot while it runs, and the control mutex only until it is admitted; the slot is
  released on every path.
\<close>

definition check_admit :: "('w service, op_error + unit) state" where
  "check_admit =
     unless_closing (op_plain MSG_SHUTTING_DOWN) (do {
       slots \<leftarrow> gets sv_slots;
       if slots = 0
       then ret (Inl (op_plain (''at most '' @ dec MAX_CONCURRENT_CHECKS @
         '' config checks may run at once; retry'')))
       else do { modify (\<lambda>s. s\<lparr>sv_slots := slots - 1\<rparr>); ret (Inr ()) }
     })"

definition check_release :: "('w service, unit) state" where
  "check_release = modify (\<lambda>s. s\<lparr>sv_slots := sv_slots s + 1\<rparr>)"

definition check_body ::
  "'w service_env \<Rightarrow> runtime_infos \<Rightarrow> core_type \<Rightarrow> os_path \<Rightarrow> ('w sys, op_error + unit) state" where
  "check_body se infos core_type config_file =
     try_op (canonical_config_path se config_file) (\<lambda>config_path. do {
       w \<leftarrow> gets sy_world;
       try_op (lift_result (instance_spec_of se infos core_type config_path w)) (\<lambda>spec. do {
         r \<leftarrow> check_config (mg_env (se_manager se)) spec;
         ret (map_sum op_error_of id r)
       })
     })"

definition service_check ::
  "'w service_env \<Rightarrow> runtime_infos \<Rightarrow> core_type \<Rightarrow> os_path \<Rightarrow> ('w service, op_error + unit) state" where
  "service_check se infos core_type config_file =
     try_op check_admit (\<lambda>_. do {
       r \<leftarrow> on_sys (check_body se infos core_type config_file);
       check_release;
       ret r
     })"

definition service_recover :: "'w service_env \<Rightarrow> ('w service, op_error + unit) state" where
  "service_recover se =
     unless_closing (op_plain MSG_SHUTTING_DOWN) (do {
       r \<leftarrow> on_sys (recover_quarantine (se_manager se));
       ret (map_sum op_error_of id r)
     })"

definition service_status :: "'w service_env \<Rightarrow> 'w service \<Rightarrow> core_infos" where
  "service_status se s =
     project_core_infos (se_without_credentials se) (sy_status (sv_sys s)) (sv_requested s)"

section \<open>The status bridge\<close>

text \<open>
  What wakes the bridge task: the manager's status changed, or the requested type did. Both
  carry the values the task reads then.
\<close>

datatype wake = StatesChanged core_status "core_type option" | RequestedChanged core_status "core_type option"

definition bridge_suppressed :: "wire_state \<Rightarrow> core_state \<Rightarrow> bool" where
  "bridge_suppressed previous raw \<longleftrightarrow>
     (case raw of CStopping _ \<Rightarrow> True | CSwitching _ _ \<Rightarrow> True | _ \<Rightarrow> False) \<and>
     (case previous of WireStopped _ \<Rightarrow> True | _ \<Rightarrow> False)"

fun bridge_step :: "(url \<Rightarrow> string) \<Rightarrow> wire_state \<Rightarrow> wake \<Rightarrow> ws_event list \<times> wire_state" where
  "bridge_step wc previous (StatesChanged raw requested) =
     (let infos = CoreStatusChanged (project_core_infos wc raw requested);
          new = map_core_state (st_state raw)
      in if bridge_suppressed previous (st_state raw) \<or> same_ipc_state previous new
         then ([infos], previous)
         else ([infos, CoreStateChanged new], new))"
| "bridge_step wc previous (RequestedChanged raw requested) =
     ([CoreStatusChanged (project_core_infos wc raw requested)], previous)"

fun status_bridge :: "(url \<Rightarrow> string) \<Rightarrow> wire_state \<Rightarrow> wake list \<Rightarrow> ws_event list" where
  "status_bridge wc previous [] = []"
| "status_bridge wc previous (w # ws) =
     (case bridge_step wc previous w of (events, previous') \<Rightarrow> events @ status_bridge wc previous' ws)"

definition core_log_dir :: "'w service_env \<Rightarrow> os_path option" where
  "core_log_dir se =
     (let m = se_manager se in
      if mo_log_sink_enabled (mg_options m)
      then Some (OsUtf8 (path_join (ev_platform (mg_env m)) (mg_dir m) LOG_DIR_NAME)) else None)"

end
