(* ===== verification/Ipc.thy ===== *)
theory Ipc
  imports Service
begin

text \<open>
  The request/response half of the IPC: the contract of the operations
  (\<^verbatim>\<open>nyanpasu_ipc/src/api/contract.rs\<close>), the handlers the service mounts on it
  (\<^verbatim>\<open>server/routing\<close>, \<^verbatim>\<open>server/routing/middleware.rs\<close>) and the client that calls them
  (\<^verbatim>\<open>nyanpasu_ipc/src/client\<close>). The HTTP router, the HTTP transport and the JSON codec are external
  crates and parameters of the model.
\<close>

section \<open>The contract\<close>

datatype http_method = GET | POST | OtherMethod string

datatype ipc_op =
    IpcStatus
  | IpcCoreStart
  | IpcCoreStop
  | IpcCoreRestart
  | IpcCoreApply
  | IpcCoreCheck
  | IpcCoreRecover
  | IpcLogsRetrieve
  | IpcLogsInspect
  | IpcNetworkSetDns

fun op_method :: "ipc_op \<Rightarrow> http_method" where
  "op_method IpcStatus = GET"
| "op_method IpcCoreStart = POST"
| "op_method IpcCoreStop = POST"
| "op_method IpcCoreRestart = POST"
| "op_method IpcCoreApply = POST"
| "op_method IpcCoreCheck = POST"
| "op_method IpcCoreRecover = POST"
| "op_method IpcLogsRetrieve = GET"
| "op_method IpcLogsInspect = GET"
| "op_method IpcNetworkSetDns = POST"

fun op_path :: "ipc_op \<Rightarrow> string" where
  "op_path IpcStatus = ''/status''"
| "op_path IpcCoreStart = ''/core/start''"
| "op_path IpcCoreStop = ''/core/stop''"
| "op_path IpcCoreRestart = ''/core/restart''"
| "op_path IpcCoreApply = ''/core/apply''"
| "op_path IpcCoreCheck = ''/core/check''"
| "op_path IpcCoreRecover = ''/core/recover''"
| "op_path IpcLogsRetrieve = ''/logs/retrieve''"
| "op_path IpcLogsInspect = ''/logs/inspect''"
| "op_path IpcNetworkSetDns = ''/network/set_dns''"

text \<open>The request bodies, and the payloads of the envelope.\<close>

datatype req_body =
    StartReq core_type os_path
  | ApplyReq core_type os_path "revision_id_info option"
  | CheckReq core_type os_path
  | SetDnsReq "string list option"

record log_paths =
  lp_service_dir :: os_path
  lp_core_dir :: "os_path option"

record status_body =
  sb_version :: string
  sb_core_infos :: core_infos
  sb_service_data_dir :: os_path
  sb_service_config_dir :: os_path
  sb_config_dir :: os_path
  sb_data_dir :: os_path
  sb_logs :: "log_paths option"

datatype payload =
    PUnit
  | PStatus status_body
  | PApply apply_data
  | PLogs "string list"

section \<open>The service's side\<close>

datatype status_code =
    OK200
  | NotFound404
  | MethodNotAllowed405
  | InternalServerError500
  | NotImplemented501
  | OtherStatus nat

record 'w app =
  ap_service :: "'w service"
  ap_logger :: "string list"

record 'w ipc_env =
  ie_service :: "'w service_env"
  ie_infos :: runtime_infos
  ie_version :: string
  ie_service_logs_dir :: os_path
  ie_now :: "'w \<Rightarrow> int"
  ie_set_dns :: "(string \<Rightarrow> string list option \<Rightarrow> 'w \<Rightarrow> (string + unit) \<times> 'w) option"
  ie_hardware_port :: "'w \<Rightarrow> (string + string) \<times> 'w"

type_synonym reply = "status_code \<times> payload response"

definition on_service :: "('w service, 'a) state \<Rightarrow> ('w app, 'a) state" where
  "on_service m = State (\<lambda>s. case run_state m (ap_service s) of (a, t) \<Rightarrow> (a, s\<lparr>ap_service := t\<rparr>))"

definition current_ts :: "'w ipc_env \<Rightarrow> ('w app, int) state" where
  "current_ts ie = gets (\<lambda>s. ie_now ie (sy_world (sv_sys (ap_service s))))"

definition error_envelope :: "int \<Rightarrow> status_code \<Rightarrow> string \<Rightarrow> reply" where
  "error_envelope ts status msg = (status, other_error ts msg)"

definition not_found :: "int \<Rightarrow> reply" where
  "not_found ts = error_envelope ts NotFound404 ''not found''"

definition method_not_allowed :: "int \<Rightarrow> reply" where
  "method_not_allowed ts = error_envelope ts MethodNotAllowed405 ''method not allowed''"

text \<open>The answer to a handler that panicked.\<close>

definition response_for_panic :: "int \<Rightarrow> reply" where
  "response_for_panic ts = error_envelope ts InternalServerError500 ''internal server error''"

definition answer :: "int \<Rightarrow> string + payload \<Rightarrow> reply" where
  "answer ts r = (case r of
     Inr data \<Rightarrow> (OK200, success ts data)
   | Inl e \<Rightarrow> (InternalServerError500, other_error ts e))"

definition answer_op :: "int \<Rightarrow> op_error + payload \<Rightarrow> reply" where
  "answer_op ts r = (case r of
     Inr data \<Rightarrow> (OK200, success ts data)
   | Inl e \<Rightarrow> (InternalServerError500, into_envelope ts e))"

abbreviation unit_payload :: "'e + unit \<Rightarrow> 'e + payload" where
  "unit_payload \<equiv> map_sum id (\<lambda>_. PUnit)"

definition route_start :: "'w ipc_env \<Rightarrow> core_type \<Rightarrow> os_path \<Rightarrow> ('w app, reply) state" where
  "route_start ie ct config_file =
     (case config_file of
        OsOther _ \<Rightarrow> do { ts \<leftarrow> current_ts ie; ret (response_for_panic ts) }
      | OsUtf8 p \<Rightarrow> do {
          r \<leftarrow> on_service (service_start (ie_service ie) (ie_infos ie) ct p);
          ts \<leftarrow> current_ts ie;
          ret (answer ts (unit_payload r))
        })"

definition route_stop :: "'w ipc_env \<Rightarrow> ('w app, reply) state" where
  "route_stop ie = do {
     r \<leftarrow> on_service (service_stop (ie_service ie));
     ts \<leftarrow> current_ts ie;
     ret (answer ts (unit_payload r))
   }"

definition route_restart :: "'w ipc_env \<Rightarrow> ('w app, reply) state" where
  "route_restart ie = do {
     r \<leftarrow> on_service (service_restart (ie_service ie));
     ts \<leftarrow> current_ts ie;
     ret (answer ts (unit_payload r))
   }"

definition route_apply ::
  "'w ipc_env \<Rightarrow> core_type \<Rightarrow> os_path \<Rightarrow> revision_id_info option \<Rightarrow> ('w app, reply) state" where
  "route_apply ie ct config_file expected = do {
     r \<leftarrow> on_service (service_apply (ie_service ie) (ie_infos ie) ct config_file expected);
     ts \<leftarrow> current_ts ie;
     ret (case r of
         Inl e \<Rightarrow> answer_op ts (Inl e)
       | Inr (Some data) \<Rightarrow> answer_op ts (Inr (PApply data))
       | Inr None \<Rightarrow> response_for_panic ts)
   }"

definition route_check :: "'w ipc_env \<Rightarrow> core_type \<Rightarrow> os_path \<Rightarrow> ('w app, reply) state" where
  "route_check ie ct config_file = do {
     r \<leftarrow> on_service (service_check (ie_service ie) (ie_infos ie) ct config_file);
     ts \<leftarrow> current_ts ie;
     ret (answer_op ts (unit_payload r))
   }"

definition route_recover :: "'w ipc_env \<Rightarrow> ('w app, reply) state" where
  "route_recover ie = do {
     r \<leftarrow> on_service (service_recover (ie_service ie));
     ts \<leftarrow> current_ts ie;
     ret (answer_op ts (unit_payload r))
   }"

definition status_body_of :: "'w ipc_env \<Rightarrow> 'w app \<Rightarrow> status_body" where
  "status_body_of ie s =
     \<lparr>sb_version = ie_version ie, sb_core_infos = service_status (ie_service ie) (ap_service s),
      sb_service_data_dir = rt_service_data_dir (ie_infos ie),
      sb_service_config_dir = rt_service_config_dir (ie_infos ie),
      sb_config_dir = rt_config_dir (ie_infos ie), sb_data_dir = rt_data_dir (ie_infos ie),
      sb_logs = Some \<lparr>lp_service_dir = ie_service_logs_dir ie,
        lp_core_dir = core_log_dir (ie_service ie)\<rparr>\<rparr>"

definition route_status :: "'w ipc_env \<Rightarrow> ('w app, reply) state" where
  "route_status ie = do {
     body \<leftarrow> gets (status_body_of ie);
     ts \<leftarrow> current_ts ie;
     ret (OK200, success ts (PStatus body))
   }"

text \<open>The in-memory tail of the service's log: retrieving empties it, inspecting does not.\<close>

definition route_retrieve_logs :: "'w ipc_env \<Rightarrow> ('w app, reply) state" where
  "route_retrieve_logs ie = do {
     logs \<leftarrow> gets ap_logger;
     modify (\<lambda>s. s\<lparr>ap_logger := []\<rparr>);
     ts \<leftarrow> current_ts ie;
     ret (OK200, success ts (PLogs logs))
   }"

definition route_inspect_logs :: "'w ipc_env \<Rightarrow> ('w app, reply) state" where
  "route_inspect_logs ie = do {
     logs \<leftarrow> gets ap_logger;
     ts \<leftarrow> current_ts ie;
     ret (OK200, success ts (PLogs logs))
   }"

text \<open>Setting the DNS servers exists on macOS only, where it is a library's call.\<close>

definition on_ext :: "'w ipc_env \<Rightarrow> ('w \<Rightarrow> 'a \<times> 'w) \<Rightarrow> ('w app, 'a) state" where
  "on_ext ie op = on_service (on_sys (ext (mg_env (se_manager (ie_service ie))) op))"

definition route_set_dns :: "'w ipc_env \<Rightarrow> string list option \<Rightarrow> ('w app, reply) state" where
  "route_set_dns ie servers =
     (case ie_set_dns ie of
        None \<Rightarrow> do { ts \<leftarrow> current_ts ie; ret (error_envelope ts NotImplemented501 ''Not implemented'') }
      | Some set_dns \<Rightarrow> do {
          r \<leftarrow> try_op (on_ext ie (ie_hardware_port ie)) (\<lambda>port. on_ext ie (set_dns port servers));
          ts \<leftarrow> current_ts ie;
          ret (answer ts (unit_payload r))
        })"

text \<open>
  The handler mounted for an operation. The body was decoded by the framework as the type the
  handler declares; a body of another type is refused before the handler runs (\<open>None\<close>).
\<close>

fun handler :: "'w ipc_env \<Rightarrow> ipc_op \<Rightarrow> req_body option \<Rightarrow> ('w app, reply) state option" where
  "handler ie IpcStatus _ = Some (route_status ie)"
| "handler ie IpcCoreStart (Some (StartReq ct p)) = Some (route_start ie ct p)"
| "handler ie IpcCoreStop _ = Some (route_stop ie)"
| "handler ie IpcCoreRestart _ = Some (route_restart ie)"
| "handler ie IpcCoreApply (Some (ApplyReq ct p e)) = Some (route_apply ie ct p e)"
| "handler ie IpcCoreCheck (Some (CheckReq ct p)) = Some (route_check ie ct p)"
| "handler ie IpcCoreRecover _ = Some (route_recover ie)"
| "handler ie IpcLogsRetrieve _ = Some (route_retrieve_logs ie)"
| "handler ie IpcLogsInspect _ = Some (route_inspect_logs ie)"
| "handler ie IpcNetworkSetDns (Some (SetDnsReq servers)) = Some (route_set_dns ie servers)"
| "handler ie _ _ = None"

definition registered :: "ipc_op list" where
  "registered =
     [IpcStatus, IpcCoreStart, IpcCoreStop, IpcCoreRestart, IpcCoreApply, IpcCoreCheck, IpcCoreRecover,
      IpcLogsRetrieve, IpcLogsInspect, IpcNetworkSetDns]"

section \<open>The codec and the router\<close>

text \<open>
  What the sources use of the JSON codec and the router. A body is decoded as the type of the
  operation it belongs to; the router finds the operation mounted at a method and a path, and
  answers a body it cannot decode itself. The bytes on the wire are of type \<open>'b\<close>; \<open>jc_text\<close> is their
  lossy text, if there are any.
\<close>

datatype route = RouteTo ipc_op | RouteNotFound | RouteMethodNotAllowed

record 'b codec_env =
  jc_request :: "req_body \<Rightarrow> 'b"
  jc_parse_request :: "ipc_op \<Rightarrow> 'b \<Rightarrow> req_body option"
  jc_response :: "payload response \<Rightarrow> 'b"
  jc_parse_response :: "ipc_op \<Rightarrow> 'b \<Rightarrow> string + payload response"
  jc_parse_error :: "'b \<Rightarrow> payload response option"
  jc_text :: "'b \<Rightarrow> string option"
  rt_route :: "http_method \<Rightarrow> string \<Rightarrow> (http_method \<times> string \<times> ipc_op) list \<Rightarrow> route"
  rt_reject :: "status_code \<times> 'b"

definition mounted :: "(http_method \<times> string \<times> ipc_op) list" where
  "mounted = map (\<lambda>op. (op_method op, op_path op, op)) registered"

definition serve ::
  "'w ipc_env \<Rightarrow> 'b codec_env \<Rightarrow> http_method \<Rightarrow> string \<Rightarrow> 'b option \<Rightarrow> ('w app, status_code \<times> 'b) state" where
  "serve ie jc method path body =
     (case rt_route jc method path mounted of
        RouteNotFound \<Rightarrow> do { ts \<leftarrow> current_ts ie; ret (map_prod id (jc_response jc) (not_found ts)) }
      | RouteMethodNotAllowed \<Rightarrow>
          do { ts \<leftarrow> current_ts ie; ret (map_prod id (jc_response jc) (method_not_allowed ts)) }
      | RouteTo op \<Rightarrow>
          (case handler ie op (Option.bind body (jc_parse_request jc op)) of
             None \<Rightarrow> ret (rt_reject jc)
           | Some h \<Rightarrow> do { r \<leftarrow> h; ret (map_prod id (jc_response jc) r) }))"

section \<open>The client\<close>

datatype client_error =
    ClientRequest string string
  | ClientHttpStatus string status_code "string option"
  | ClientDecode string string
  | ClientServer string response_code string "string option"
  | ClientEmptyData string

fun is_success :: "status_code \<Rightarrow> bool" where
  "is_success OK200 = True"
| "is_success (OtherStatus n) = (200 \<le> n \<and> n < 300)"
| "is_success _ = False"

definition client_send :: "'b codec_env \<Rightarrow> string \<Rightarrow> status_code \<times> 'b \<Rightarrow> client_error + 'b" where
  "client_send jc operation response =
     (case response of (status, bytes) \<Rightarrow>
        if is_success status then Inr bytes
        else case jc_parse_error jc bytes of
          Some envelope \<Rightarrow>
            if re_code envelope \<noteq> CodeOk
            then Inl (ClientServer operation (re_code envelope) (re_msg envelope) (re_error_kind envelope))
            else Inl (ClientHttpStatus operation status (jc_text jc bytes))
        | None \<Rightarrow> Inl (ClientHttpStatus operation status (jc_text jc bytes)))"

definition client_decode :: "'b codec_env \<Rightarrow> ipc_op \<Rightarrow> 'b \<Rightarrow> client_error + payload response" where
  "client_decode jc op bytes =
     (case jc_parse_response jc op bytes of
        Inl source \<Rightarrow> Inl (ClientDecode (op_path op) source)
      | Inr envelope \<Rightarrow>
          if re_code envelope \<noteq> CodeOk
          then Inl (ClientServer (op_path op) (re_code envelope) (re_msg envelope) (re_error_kind envelope))
          else Inr envelope)"

text \<open>A call whose request and response the transport delivers.\<close>

definition client_call ::
  "'w ipc_env \<Rightarrow> 'b codec_env \<Rightarrow> ipc_op \<Rightarrow> req_body option \<Rightarrow>
   ('w app, client_error + payload response) state" where
  "client_call ie jc op body = do {
     response \<leftarrow> serve ie jc (op_method op) (op_path op) (map_option (jc_request jc) body);
     ret (case client_send jc (op_path op) response of
         Inl e \<Rightarrow> Inl e
       | Inr bytes \<Rightarrow> client_decode jc op bytes)
   }"

definition call_unit ::
  "'w ipc_env \<Rightarrow> 'b codec_env \<Rightarrow> ipc_op \<Rightarrow> req_body option \<Rightarrow> ('w app, client_error + unit) state" where
  "call_unit ie jc op body = do { r \<leftarrow> client_call ie jc op body; ret (map_sum id (\<lambda>_. ()) r) }"

definition call_data ::
  "'w ipc_env \<Rightarrow> 'b codec_env \<Rightarrow> ipc_op \<Rightarrow> req_body option \<Rightarrow> ('w app, client_error + payload) state" where
  "call_data ie jc op body = do {
     r \<leftarrow> client_call ie jc op body;
     ret (case r of
         Inl e \<Rightarrow> Inl e
       | Inr envelope \<Rightarrow> (case re_data envelope of Some d \<Rightarrow> Inr d | None \<Rightarrow> Inl (ClientEmptyData (op_path op))))
   }"

definition client_status where "client_status ie jc = call_data ie jc IpcStatus None"
definition start_core where "start_core ie jc ct p = call_unit ie jc IpcCoreStart (Some (StartReq ct p))"
definition stop_core where "stop_core ie jc = call_unit ie jc IpcCoreStop None"
definition restart_core where "restart_core ie jc = call_unit ie jc IpcCoreRestart None"
definition client_apply_config where
  "client_apply_config ie jc ct p e = call_data ie jc IpcCoreApply (Some (ApplyReq ct p e))"
definition client_check_config where
  "client_check_config ie jc ct p = call_unit ie jc IpcCoreCheck (Some (CheckReq ct p))"
definition recover_core where "recover_core ie jc = call_unit ie jc IpcCoreRecover None"
definition inspect_logs where "inspect_logs ie jc = call_data ie jc IpcLogsInspect None"
definition retrieve_logs where "retrieve_logs ie jc = call_data ie jc IpcLogsRetrieve None"
definition set_dns where "set_dns ie jc servers = call_unit ie jc IpcNetworkSetDns (Some (SetDnsReq servers))"

end
