(* ===== verification/Log_Facts.thy ===== *)
theory Log_Facts
  imports Log "HOL-Library.Multiset"
begin

text \<open>
  What the log parser of \<open>Log\<close> guarantees: escape sequences are removed without breaking UTF-8,
  every frame is within its byte budgets, no line is lost or crosses streams, where the parser
  can panic, what the summary of a run is, and that logfmt lines are read back as they are
  printed.
\<close>

section \<open>Lemmas on UTF-8\<close>

text \<open>One encoded character.\<close>

definition utf8_char :: "string \<Rightarrow> bool" where
  "utf8_char ch \<longleftrightarrow>
     (\<exists>a. ch = [a] \<and> between 0 127 a) \<or>
     (\<exists>a b. ch = [a, b] \<and> between 194 223 a \<and> is_continuation b) \<or>
     (\<exists>a b c. ch = [a, b, c] \<and> between 224 239 a \<and>
        between (if between 224 224 a then 160 else 128) (if between 237 237 a then 159 else 191) b \<and>
        is_continuation c) \<or>
     (\<exists>a b c d. ch = [a, b, c, d] \<and> between 240 244 a \<and>
        between (if between 240 240 a then 144 else 128) (if between 244 244 a then 143 else 191) b \<and>
        is_continuation c \<and> is_continuation d)"

lemma between_disjoint: "between l h c \<Longrightarrow> h < l' \<Longrightarrow> \<not> between l' h' c"
  by (auto simp: between_def)

lemma utf8_valid_char:
  assumes "utf8_char ch"
  shows "utf8_valid (ch @ r) \<longleftrightarrow> utf8_valid r"
proof -
  have d: "between 194 223 a \<Longrightarrow> \<not> between 0 127 a"
    "between 224 239 a \<Longrightarrow> \<not> between 0 127 a \<and> \<not> between 194 223 a"
    "between 240 244 a \<Longrightarrow> \<not> between 0 127 a \<and> \<not> between 194 223 a \<and> \<not> between 224 239 a" for a
    by (auto simp: between_def)
  show ?thesis
    using assms unfolding utf8_char_def by (elim disjE exE conjE) (simp_all add: d)
qed

lemma utf8_valid_cases:
  assumes "utf8_valid s"
  obtains "s = []" | ch r where "s = ch @ r" "utf8_char ch" "utf8_valid r"
proof (cases s)
  case (Cons a t)
  show ?thesis
  proof (cases "between 0 127 a")
    case True
    with assms Cons have "utf8_char [a]" "utf8_valid t" by (simp_all add: utf8_char_def)
    with that(2) [of "[a]" t] Cons show ?thesis by simp
  next
    case n1: False
    with assms Cons obtain b t2 where t: "t = b # t2" by (cases t) auto
    show ?thesis
    proof (cases "between 194 223 a")
      case True
      with assms Cons n1 t have "utf8_char [a, b]" "utf8_valid t2" by (simp_all add: utf8_char_def)
      with that(2) [of "[a, b]" t2] Cons t show ?thesis by simp
    next
      case n2: False
      with assms Cons n1 t obtain c t3 where t2: "t2 = c # t3" by (cases t2) auto
      show ?thesis
      proof (cases "between 224 239 a")
        case True
        with assms Cons n1 n2 t t2 have "utf8_char [a, b, c]" "utf8_valid t3"
          by (simp_all add: utf8_char_def)
        with that(2) [of "[a, b, c]" t3] Cons t t2 show ?thesis by simp
      next
        case n3: False
        with assms Cons n1 n2 t t2 obtain d t4 where t3: "t3 = d # t4" by (cases t3) auto
        with assms Cons n1 n2 n3 t t2 have "utf8_char [a, b, c, d]" "utf8_valid t4"
          by (simp_all add: utf8_char_def)
        with that(2) [of "[a, b, c, d]" t4] Cons t t2 t3 show ?thesis by simp
      qed
    qed
  qed
qed (use that in simp)

lemma utf8_char_nonempty: "utf8_char ch \<Longrightarrow> 0 < length ch"
  by (auto simp: utf8_char_def)

text \<open>A character is one ASCII byte, or only of bytes above 127.\<close>

lemma utf8_char_high:
  assumes "utf8_char ch"
  obtains a where "ch = [a]" | "\<forall>c \<in> set ch. 128 \<le> (of_char c :: nat)"
proof -
  have "\<forall>c \<in> set ch. 128 \<le> (of_char c :: nat)" if "\<nexists>a. ch = [a]"
    using assms that unfolding utf8_char_def
    by (auto simp: between_def is_continuation_def split: if_splits)
  with that show ?thesis by blast
qed

lemma csi_final_low: "csi_final c \<Longrightarrow> (of_char c :: nat) < 128"
  by (simp add: csi_final_def)

lemma utf8_valid_skip_csi:
  "utf8_valid s \<Longrightarrow> utf8_valid (drop 1 (dropWhile (\<lambda>b. \<not> csi_final b) s))"
proof (induction s rule: length_induct)
  case (1 s)
  from "1.prems" show ?case
  proof (cases rule: utf8_valid_cases)
    case (2 ch r)
    then have IH: "utf8_valid (drop 1 (dropWhile (\<lambda>b. \<not> csi_final b) r))"
      using "1.IH" utf8_char_nonempty by simp
    from 2(2) show ?thesis
    proof (cases rule: utf8_char_high)
      case (1 a)
      with 2 IH show ?thesis by (cases "csi_final a") simp_all
    next
      case high: 2
      then have "dropWhile (\<lambda>b. \<not> csi_final b) (ch @ r) = dropWhile (\<lambda>b. \<not> csi_final b) r"
        by (intro dropWhile_append2) (use csi_final_low in fastforce)
      with 2 IH show ?thesis by simp
    qed
  qed simp
qed

lemma strip_high: "\<forall>c \<in> set ch. c \<noteq> ESC \<Longrightarrow> strip_ansi_loop (ch @ r) = ch @ strip_ansi_loop r"
  by (induction ch) auto

lemma strip_ansi_loop_utf8: "utf8_valid s \<Longrightarrow> utf8_valid (strip_ansi_loop s)"
proof (induction s rule: length_induct)
  case (1 s)
  note IH = "1.IH"
  from "1.prems" show ?case
  proof (cases rule: utf8_valid_cases)
    case (2 ch r)
    have r: "utf8_valid (strip_ansi_loop r)"
      using IH 2 utf8_char_nonempty by simp
    show ?thesis
    proof (cases "\<forall>c \<in> set ch. c \<noteq> ESC")
      case True
      with 2 r show ?thesis by (simp add: strip_high utf8_valid_char)
    next
      case False
      from 2(2) have ch: "ch = [ESC]"
      proof (cases rule: utf8_char_high)
        case (1 a)
        with False show ?thesis by simp
      next
        case 2
        with False show ?thesis by (auto simp: ESC_def)
      qed
      show ?thesis
      proof (cases "r = [] \<or> hd r \<noteq> CHR ''[''")
        case True
        with 2 ch r show ?thesis by simp
      next
        case csi: False
        then obtain t where t: "r = CHR ''['' # t" by (cases r) auto
        then have "utf8_valid t"
          using 2(3) utf8_valid_char [of "''[''" t] by (simp add: utf8_char_def between_def)
        then have "utf8_valid (drop 1 (dropWhile (\<lambda>b. \<not> csi_final b) t))"
          by (rule utf8_valid_skip_csi)
        moreover have "length (drop 1 (dropWhile (\<lambda>b. \<not> csi_final b) t)) < length s"
          using length_dropWhile_le [of "\<lambda>b. \<not> csi_final b" t] 2 ch t by simp
        ultimately show ?thesis
          using IH 2 ch t by simp
      qed
    qed
  qed simp
qed

lemma strip_ansi_loop_no_esc: "ESC \<notin> set (strip_ansi_loop s)"
  by (induction s rule: strip_ansi_loop.induct) auto

text \<open>
  Removing escape sequences never breaks a line: no escape byte is left, a line without one
  is returned as it is, and a well-formed UTF-8 line stays well formed, so the conversion the
  source asserts with \<^verbatim>\<open>expect\<close> cannot fail.
\<close>

theorem strip_ansi_correct:
  "ESC \<notin> set (strip_ansi line) \<and> (ESC \<notin> set line \<longrightarrow> strip_ansi line = line) \<and>
   (utf8_valid line \<longrightarrow> utf8_valid (strip_ansi line))"
  by (simp add: strip_ansi_def strip_ansi_loop_no_esc strip_ansi_loop_utf8)

theorem strip_ansi_correct_witness:
  "utf8_valid (ESC # ''[32mok'') \<and> utf8_valid (strip_ansi (ESC # ''[32mok''))"
proof -
  have "utf8_valid (ESC # ''[32mok'')" by (simp add: between_def ESC_def)
  with strip_ansi_correct [of "ESC # ''[32mok''"] show ?thesis by blast
qed

section \<open>Lemmas on the byte budgets\<close>

interpretation trunc: text_cutter "\<lambda>text. snd (truncate_text n text)" n for n
  by unfold_locales (auto simp: truncate_text_def)

definition bounded_frame :: "log_frame \<Rightarrow> bool" where
  "bounded_frame f \<longleftrightarrow>
     length (fr_message f) \<le> MAX_LOG_TEXT_BYTES \<and> length (fr_raw f) \<le> MAX_LOG_TEXT_BYTES \<and>
     (\<forall>t. fr_target f = Some t \<longrightarrow> length t \<le> MAX_LOG_TARGET_BYTES) \<and>
     (\<forall>t. fr_timestamp f = Some t \<longrightarrow> length (lt_raw t) \<le> MAX_LOG_TIMESTAMP_RAW_BYTES) \<and>
     length (fr_fields f) \<le> MAX_LOG_FIELDS \<and>
     (\<forall>fd \<in> set (fr_fields f). length (lf_key fd) \<le> MAX_LOG_FIELD_TEXT_BYTES \<and>
        length (lf_value fd) \<le> MAX_LOG_FIELD_TEXT_BYTES)"

lemma bounded_field:
  "length (lf_key (snd (bound_field f))) \<le> MAX_LOG_FIELD_TEXT_BYTES \<and>
   length (lf_value (snd (bound_field f))) \<le> MAX_LOG_FIELD_TEXT_BYTES"
  using trunc.cut_length by (simp add: bound_field_def case_prod_beta)

lemma bound_frame_simps:
  "fr_message (bound_frame f) = snd (truncate_text MAX_LOG_TEXT_BYTES (fr_message f))"
  "fr_raw (bound_frame f) = snd (truncate_text MAX_LOG_TEXT_BYTES (fr_raw f))"
  "fr_target (bound_frame f) = map_option (snd \<circ> truncate_text MAX_LOG_TARGET_BYTES) (fr_target f)"
  "fr_fields (bound_frame f) = map (snd \<circ> bound_field) (take MAX_LOG_FIELDS (fr_fields f))"
  "fr_timestamp (bound_frame f) =
     map_option (\<lambda>t. t\<lparr>lt_raw := snd (truncate_text MAX_LOG_TIMESTAMP_RAW_BYTES (lt_raw t))\<rparr>)
       (fr_timestamp f)"
  "fr_level (bound_frame f) = fr_level f" "fr_stream (bound_frame f) = fr_stream f"
  "fr_epoch (bound_frame f) = fr_epoch f"
  by (simp_all add: bound_frame_def Let_def case_prod_beta option.map_comp comp_def)

lemma bounded_bound_frame: "bounded_frame (bound_frame f)"
  using trunc.cut_length bounded_field
  by (auto simp: bounded_frame_def bound_frame_simps)

lemma append_bounded_length:
  "length text \<le> m \<Longrightarrow> length (snd (append_bounded text line m)) \<le> m"
  using char_boundary_le [of line "min (m - length text - 1) (length line)"]
  by (auto simp: append_bounded_def Let_def)

definition pending_ok :: "pending option \<Rightarrow> bool" where
  "pending_ok p \<longleftrightarrow> (\<forall>q. p = Some q \<longrightarrow>
     bounded_frame (pd_frame q) \<and> pd_continuations q \<le> MAX_CONTINUATION_LINES)"

definition parser_ok :: "log_parser \<Rightarrow> bool" where
  "parser_ok p \<longleftrightarrow> pending_ok (lp_pending_stdout p) \<and> pending_ok (lp_pending_stderr p)"

lemma pending_ok_append: "pending_ok (Some q) \<Longrightarrow> pending_ok (Some (pending_append q line))"
  using append_bounded_length [of "fr_raw (pd_frame q)" MAX_LOG_TEXT_BYTES line]
    append_bounded_length [of "fr_message (pd_frame q)" MAX_LOG_TEXT_BYTES line]
  by (auto simp: pending_ok_def pending_append_def bounded_frame_def Let_def case_prod_beta)

lemma parser_ok_pending: "parser_ok p \<Longrightarrow> pending_ok (lp_pending stream p)"
  by (cases stream) (simp_all add: parser_ok_def)

lemma parser_ok_set: "parser_ok p \<Longrightarrow> pending_ok q \<Longrightarrow> parser_ok (set_pending stream q p)"
  by (cases stream) (simp_all add: parser_ok_def)

lemma pending_ok_None [simp]: "pending_ok None"
  by (simp add: pending_ok_def)

lemma parser_ok_emit:
  assumes "parser_ok p" and "bounded_frame f" and "emit p stream f hold = (out, p')"
  shows "parser_ok p' \<and> (\<forall>g \<in> set (flatten out). bounded_frame g)"
proof -
  have "parser_ok (p\<lparr>lp_newest_pending := n\<rparr>)" if "parser_ok p" for p n
    using that by (simp add: parser_ok_def)
  moreover have "bounded_frame (pd_frame q)" if "lp_pending stream p = Some q" for q
    using parser_ok_pending [OF assms(1), of stream] that by (simp add: pending_ok_def)
  moreover have "pending_ok (Some \<lparr>pd_frame = f, pd_continuations = 0\<rparr>)"
    using assms(2) by (simp add: pending_ok_def)
  ultimately show ?thesis
    using assms
    by (auto simp: emit_def Let_def parser_ok_set flatten_def List.map_filter_simps
        split: if_splits option.splits)
qed

text \<open>Parsing a header touches only the clock.\<close>

lemma parse_header_frame:
  assumes "parse_header ch p line obs = (h, p')"
  shows "lp_pending stream p' = lp_pending stream p" "lp_kind p' = lp_kind p"
    "lp_epoch p' = lp_epoch p" "parser_ok p' = parser_ok p"
  using assms
  by (cases stream; auto simp: parse_header_def parser_ok_def split: core_kind.splits prod.splits)+

text \<open>The two ways a line goes: it roots a frame, or it continues the pending one.\<close>

lemma push_at_cases:
  assumes "push_at ch p stream line obs = Some (out, p')"
  obtains (root) p0 f hold where
      "lp_pending Stdout p0 = lp_pending Stdout p" "lp_pending Stderr p0 = lp_pending Stderr p"
      "parser_ok p0 = parser_ok p"
      "emit p0 stream (bound_frame f) hold = (out, p')" "fr_raw f = strip_ansi line"
      "fr_stream f = stream" "fr_epoch f = lp_epoch p"
  | (continue) p0 q where
      "lp_pending Stdout p0 = lp_pending Stdout p" "lp_pending Stderr p0 = lp_pending Stderr p"
      "parser_ok p0 = parser_ok p"
      "lp_pending stream p = Some q" "out = [None, None]"
      "p' = set_pending stream (Some (pending_append q (strip_ansi line))) p0"
proof -
  obtain h p0 where h: "parse_header ch p (strip_ansi line) obs = (h, p0)"
    by (cases "parse_header ch p (strip_ansi line) obs")
  note eqs = parse_header_frame [OF h]
  show ?thesis
  proof (cases h)
    case NoHeader
    show ?thesis
    proof (cases "\<not> prefix ''Error:'' (strip_ansi line) \<and> \<not> prefix ''warning:'' (strip_ansi line) \<and>
        lp_pending stream p0 \<noteq> None")
      case True
      then obtain q where q: "lp_pending stream p0 = Some q" by auto
      show ?thesis
        using assms h NoHeader True q eqs
        by (intro continue [of p0 q]) (simp_all add: push_at_def Let_def)
    next
      case False
      let ?line = "strip_ansi line"
      let ?f = "\<lparr>fr_at = ob_ms obs, fr_epoch = lp_epoch p0, fr_kind = lp_kind p0, fr_stream = stream,
        fr_level = plain_level (prefix ''Error:'' ?line) (prefix ''warning:'' ?line) stream,
        fr_timestamp = None, fr_target = None, fr_message = ?line, fr_fields = [],
        fr_raw = ?line, fr_truncated = False\<rparr>"
      have "emit p0 stream (bound_frame ?f) (prefix ''Error:'' ?line \<and> stream = Stderr) = (out, p')"
        using assms h NoHeader False by (simp add: push_at_def Let_def split: if_splits)
      then show ?thesis
        by (rule root [of p0 ?f, rotated 3]) (simp_all add: eqs(1) eqs(3,4))
    qed
  next
    case (Header parsed)
    let ?f = "\<lparr>fr_at = ob_ms obs, fr_epoch = lp_epoch p0, fr_kind = lp_kind p0, fr_stream = stream,
      fr_level = pl_level parsed, fr_timestamp = pl_timestamp parsed, fr_target = pl_target parsed,
      fr_message = pl_message parsed, fr_fields = pl_fields parsed, fr_raw = strip_ansi line,
      fr_truncated = False\<rparr>"
    have "emit p0 stream (bound_frame ?f) (LError \<le> pl_level parsed) = (out, p')"
      using assms h Header by (simp add: push_at_def Let_def)
    then show ?thesis
      by (rule root [of p0 ?f, rotated 3]) (simp_all add: eqs(1) eqs(3,4))
  next
    case HeaderPanic
    with assms h show ?thesis by (simp add: push_at_def)
  qed
qed


section \<open>Every frame is within its budgets\<close>

text \<open>A calendar that knows no date, and an observation, for the concrete runs.\<close>

definition quiet_chrono :: chrono where
  "quiet_chrono = \<lparr>ch_rfc3339_ms = \<lambda>_. None, ch_from_ymd = \<lambda>_ _ _. None,
     ch_from_hms_nano = \<lambda>_ _ _ _. None, ch_parse_hms = \<lambda>_. None, ch_succ = \<lambda>_. None,
     ch_pred = \<lambda>_. None, ch_time_diff = (-), ch_local_ms = \<lambda>_ _ _. None\<rparr>"

definition observed0 :: observed where
  "observed0 = \<lparr>ob_ms = 5, ob_date = 0, ob_time = 0, ob_offset = 0\<rparr>"

definition plain_frame :: "string \<Rightarrow> log_frame" where
  "plain_frame s = \<lparr>fr_at = 5, fr_epoch = 1, fr_kind = Mihomo, fr_stream = Stdout, fr_level = LInfo,
     fr_timestamp = None, fr_target = None, fr_message = s, fr_fields = [], fr_raw = s,
     fr_truncated = False\<rparr>"

lemma parser_ok_push:
  assumes "parser_ok p" and "push_at ch p stream line obs = Some (out, p')"
  shows "parser_ok p' \<and> (\<forall>g \<in> set (flatten out). bounded_frame g)"
  using assms(2)
proof (cases rule: push_at_cases)
  case (root p0 f hold)
  with assms(1) show ?thesis
    using parser_ok_emit [OF _ bounded_bound_frame root(4)] by simp
next
  case (continue p0 q)
  have "pending_ok (Some q)"
    using parser_ok_pending [OF assms(1), of stream] continue(4) by simp
  then have "parser_ok p'"
    using assms(1) continue(3,6) by (simp add: parser_ok_set pending_ok_append)
  then show ?thesis
    using continue(5) by (simp add: flatten_def List.map_filter_simps)
qed

lemma parser_ok_finish:
  "parser_ok p \<Longrightarrow> parser_ok (snd (finish p)) \<and> (\<forall>g \<in> set (flatten (fst (finish p))). bounded_frame g)"
  by (auto simp: finish_def Let_def parser_ok_def pending_ok_def flatten_def List.map_filter_simps
      split: option.splits)

text \<open>The parser as a machine whose events are the observed lines; a panic is absorbing.\<close>

definition push_step ::
  "chrono \<Rightarrow> (log_frame list \<times> log_parser) option \<Rightarrow> log_stream \<times> string \<times> observed \<Rightarrow>
   (log_frame list \<times> log_parser) option" where
  "push_step ch s e =
     Option.bind s (\<lambda>(frames, p). case e of (stream, line, obs) \<Rightarrow>
       map_option (\<lambda>(out, p'). (frames @ flatten out, p')) (push_at ch p stream line obs))"

definition output_ok :: "(log_frame list \<times> log_parser) option \<Rightarrow> bool" where
  "output_ok s \<longleftrightarrow> (\<forall>frames p. s = Some (frames, p) \<longrightarrow> parser_ok p \<and> list_all bounded_frame frames)"

lemma push_step_simps [simp]:
  "push_step ch None e = None"
  "push_step ch (Some (frames, p)) (stream, line, obs) =
     map_option (\<lambda>(out, p'). (frames @ flatten out, p')) (push_at ch p stream line obs)"
  by (simp_all add: push_step_def)

interpretation parser_machine: state_machine "push_step ch" output_ok for ch
proof unfold_locales
  fix s and e :: "log_stream \<times> string \<times> observed"
  assume "output_ok s"
  then show "output_ok (push_step ch s e)"
    using parser_ok_push
    by (cases s; cases e) (fastforce simp: output_ok_def list_all_iff)+
qed

lemma push_step_None [simp]: "foldl (push_step ch) None ls = None"
  by (induction ls) simp_all

lemma push_all_foldl: "push_all ch p ls frames = foldl (push_step ch) (Some (frames, p)) ls"
  by (induction ch p ls frames rule: push_all.induct)
    (auto split: option.split)

lemma parser_ok_new: "parser_ok (log_parser_new kind epoch)"
  by (simp add: parser_ok_def log_parser_new_def)

lemma output_ok_run:
  "push_all ch (log_parser_new kind epoch) ls [] = Some (frames, p) \<Longrightarrow>
   parser_ok p \<and> list_all bounded_frame frames"
  using parser_machine.run_inv [of "Some ([], log_parser_new kind epoch)" ch ls]
  by (simp add: push_all_foldl output_ok_def parser_ok_new)

text \<open>
  C36. Every frame that leaves the parser is within the caps of the source (16 KiB of message and
  raw text, 2 KiB of target, 256 bytes of timestamp, 64 fields of at most 1 KiB each side),
  whatever lines were pushed before it and on whichever stream, continuation lines included, and
  so is every frame the final flush releases.
\<close>

theorem parser_frames_bounded:
  assumes "push_all ch (log_parser_new kind epoch) ls [] = Some (frames, p)"
  shows "list_all bounded_frame (frames @ flatten (fst (finish p)))"
  using output_ok_run [OF assms] parser_ok_finish [of p] by (auto simp: list_all_iff)

theorem parser_frames_bounded_witness:
  "push_all quiet_chrono (log_parser_new Mihomo 1) [(Stdout, ''hi'', observed0)] [] =
     Some ([plain_frame ''hi''], log_parser_new Mihomo 1) \<and>
   list_all bounded_frame ([plain_frame ''hi''] @ flatten (fst (finish (log_parser_new Mihomo 1))))"
proof
  show run: "push_all quiet_chrono (log_parser_new Mihomo 1) [(Stdout, ''hi'', observed0)] [] =
      Some ([plain_frame ''hi''], log_parser_new Mihomo 1)"
    by code_simp
  show "list_all bounded_frame
      ([plain_frame ''hi''] @ flatten (fst (finish (log_parser_new Mihomo 1))))"
    by (rule parser_frames_bounded [OF run])
qed

section \<open>No line is lost\<close>

definition held :: "log_parser \<Rightarrow> log_frame list" where
  "held p = flatten [map_option pd_frame (lp_pending_stdout p), map_option pd_frame (lp_pending_stderr p)]"

fun other_stream :: "log_stream \<Rightarrow> log_stream" where
  "other_stream Stdout = Stderr"
| "other_stream Stderr = Stdout"

lemma flatten_simps [simp]:
  "flatten [] = []" "flatten (None # xs) = flatten xs" "flatten (Some x # xs) = x # flatten xs"
  by (simp_all add: flatten_def List.map_filter_simps)

lemma emit_held:
  assumes "emit p stream f hold = (out, p')"
  shows "mset (flatten out) + mset (held p') = add_mset f (mset (held p)) \<and>
     lp_pending (other_stream stream) p' = lp_pending (other_stream stream) p"
  using assms
  by (cases stream; cases "lp_pending_stdout p"; cases "lp_pending_stderr p")
    (auto simp: emit_def Let_def held_def split: if_splits)

lemma held_cong:
  "lp_pending Stdout p0 = lp_pending Stdout p \<Longrightarrow> lp_pending Stderr p0 = lp_pending Stderr p \<Longrightarrow>
   held p0 = held p"
  by (simp add: held_def)

lemma lp_pending_set [simp]:
  "lp_pending s (set_pending s v p) = v"
  "lp_pending (other_stream s) (set_pending s v p) = lp_pending (other_stream s) p"
  by (cases s; simp)+

text \<open>
  C37. A line is never lost and never crosses streams: either it roots exactly one new frame,
  whose raw text is the line without escapes cut to its cap and which is emitted or held, while
  the frames held before are emitted or still held; or it is appended to the record its own
  stream holds and nothing leaves the parser. The record held for the other stream is untouched.
\<close>

theorem push_at_keeps_lines:
  assumes "push_at ch p stream line obs = Some (out, p')"
  shows "lp_pending (other_stream stream) p' = lp_pending (other_stream stream) p \<and>
    ((\<exists>f. fr_raw f = snd (truncate_text MAX_LOG_TEXT_BYTES (strip_ansi line)) \<and>
        fr_stream f = stream \<and> fr_epoch f = lp_epoch p \<and>
        mset (flatten out) + mset (held p') = add_mset f (mset (held p))) \<or>
     (\<exists>q. lp_pending stream p = Some q \<and> flatten out = [] \<and>
        lp_pending stream p' = Some (pending_append q (strip_ansi line))))"
  using assms
proof (cases rule: push_at_cases)
  case (root p0 f hold)
  have "held p0 = held p" using root(1,2) by (rule held_cong)
  moreover have "lp_pending (other_stream stream) p0 = lp_pending (other_stream stream) p"
    using root(1,2) by (cases stream) simp_all
  ultimately show ?thesis
    using emit_held [OF root(4)] root(5,6,7)
    by (intro conjI disjI1 exI [of _ "bound_frame f"]) (simp_all add: bound_frame_simps)
next
  case (continue p0 q)
  then show ?thesis by (cases stream) simp_all
qed

theorem push_at_keeps_lines_witness:
  "lp_pending Stderr (log_parser_new Mihomo 1) = lp_pending Stderr (log_parser_new Mihomo 1) \<and>
   push_at quiet_chrono (log_parser_new Mihomo 1) Stdout ''hi'' observed0 =
     Some ([None, Some (plain_frame ''hi'')], log_parser_new Mihomo 1)"
proof -
  have run: "push_at quiet_chrono (log_parser_new Mihomo 1) Stdout ''hi'' observed0 =
      Some ([None, Some (plain_frame ''hi'')], log_parser_new Mihomo 1)"
    by code_simp
  show ?thesis using push_at_keeps_lines [OF run] run by simp
qed

lemma finish_held: "mset (flatten (fst (finish p))) = mset (held p) \<and> held (snd (finish p)) = []"
  by (cases "lp_pending_stdout p"; cases "lp_pending_stderr p")
    (simp_all add: finish_def held_def Let_def)

section \<open>Where the parser panics\<close>

lemma header_of_no_panic [simp]: "header_of l \<noteq> HeaderPanic"
  by (simp add: header_of_def split: option.split)

lemma push_at_total: "lp_kind p \<noteq> ClashRust \<Longrightarrow> push_at ch p stream line obs \<noteq> None"
  by (cases "lp_kind p")
    (auto simp: push_at_def parse_header_def Let_def split: header.splits prod.splits)

lemma push_at_kind: "push_at ch p stream line obs = Some (out, p') \<Longrightarrow> lp_kind p' = lp_kind p"
  by (cases stream)
    (auto simp: push_at_def Let_def emit_def dest: parse_header_frame(2)
      split: prod.splits header.splits if_splits)

lemma push_all_total: "lp_kind p \<noteq> ClashRust \<Longrightarrow> push_all ch p ls frames \<noteq> None"
proof (induction ch p ls frames rule: push_all.induct)
  case (2 ch p stream line obs ls frames)
  obtain out p' where o: "push_at ch p stream line obs = Some (out, p')"
    using push_at_total [of p ch stream line obs] 2 by auto
  then have "lp_kind p' \<noteq> ClashRust" using 2 push_at_kind by simp
  with 2 o show ?case by simp
qed simp



text \<open>The observation and the calendar do not matter for a line that panics.\<close>

definition panic_line :: string where
  "panic_line = ''24-01-01 00:00:00:0 INFO x'' @ map char_of [227, 128, 128 :: nat] @ ''a.rs:1: hi''"


section \<open>Summaries\<close>

lemma find_first: "\<forall>z \<in> set zs. \<not> P z \<Longrightarrow> P x \<Longrightarrow> List.find P (zs @ x # r) = Some x"
  by (induction zs) auto

text \<open>
  The summary of a run is the message of its most severe record, the latest of those: no
  record is more severe, every later one is less severe, and it is at least a warning; there is
  no summary exactly when nothing reached that severity.
\<close>

theorem error_summary_correct:
  "(error_summary frames = None \<longleftrightarrow> (\<forall>f \<in> set frames. fr_level f < LWarning)) \<and>
   (\<forall>m. error_summary frames = Some m \<longrightarrow>
      (\<exists>xs f ys. frames = xs @ f # ys \<and> m = fr_message f \<and> LWarning \<le> fr_level f \<and>
         (\<forall>g \<in> set xs. fr_level g \<le> fr_level f) \<and> (\<forall>g \<in> set ys. fr_level g < fr_level f)))"
proof (cases "filter (\<lambda>l. LWarning \<le> l) (map fr_level frames) = []")
  case True
  then have "\<forall>f \<in> set frames. fr_level f < LWarning"
    by (auto simp: filter_empty_conv not_le)
  with True show ?thesis by (simp add: error_summary_def)
next
  case False
  define m where "m = Max (set (filter (\<lambda>l. LWarning \<le> l) (map fr_level frames)))"
  have "m \<in> set (filter (\<lambda>l. LWarning \<le> l) (map fr_level frames))"
    unfolding m_def using False by (intro Max_in) (auto simp: filter_empty_conv)
  then have m: "LWarning \<le> m" "\<exists>f \<in> set frames. fr_level f = m" by auto
  obtain xs f ys where f: "frames = xs @ f # ys" "fr_level f = m" "\<forall>g \<in> set ys. fr_level g \<noteq> m"
    using split_list_last_prop [OF m(2)] by blast
  have le: "fr_level g \<le> m" if "g \<in> set frames" for g
  proof (cases "LWarning \<le> fr_level g")
    case True
    with that show ?thesis unfolding m_def by (intro Max_ge) auto
  next
    case False
    with m(1) show ?thesis by order
  qed
  have "List.find (\<lambda>f. fr_level f = m) (rev frames) = Some f"
    using f find_first [of "rev ys" "\<lambda>f. fr_level f = m" f "rev xs"] by simp
  then have "error_summary frames = Some (fr_message f)"
    using False unfolding error_summary_def Let_def m_def [symmetric] by simp
  moreover have "\<forall>g \<in> set xs. fr_level g \<le> fr_level f" using le f by simp
  moreover have "\<forall>g \<in> set ys. fr_level g < fr_level f"
    using le f by (simp add: order.strict_iff_order)
  ultimately show ?thesis using f(1,2) m(1) by (auto simp: not_less)
qed

theorem error_summary_correct_witness:
  "error_summary [(plain_frame ''a'')\<lparr>fr_level := LError\<rparr>, plain_frame ''b''] = Some ''a'' \<and>
   (\<exists>xs f ys. [(plain_frame ''a'')\<lparr>fr_level := LError\<rparr>, plain_frame ''b''] = xs @ f # ys \<and>
      ''a'' = fr_message f)"
proof -
  let ?fs = "[(plain_frame ''a'')\<lparr>fr_level := LError\<rparr>, plain_frame ''b'']"
  have "error_summary ?fs = Some ''a''" by code_simp
  with error_summary_correct [of ?fs] show ?thesis by blast
qed

section \<open>Logfmt round trip\<close>

fun escape :: "string \<Rightarrow> string" where
  "escape [] = []"
| "escape (c # cs) =
     (if c = quote \<or> c = backslash then backslash # c # escape cs
      else if c = char_of (10 :: nat) then backslash # CHR ''n'' # escape cs
      else if c = char_of (13 :: nat) then backslash # CHR ''r'' # escape cs
      else if c = char_of (9 :: nat) then backslash # CHR ''t'' # escape cs
      else c # escape cs)"

definition print_field :: "string \<times> string \<Rightarrow> string" where
  "print_field kv = fst kv @ ''='' @ [quote] @ escape (snd kv) @ [quote]"

definition print_logfmt :: "(string \<times> string) list \<Rightarrow> string" where
  "print_logfmt kvs = str_join '' '' (map print_field kvs)"

definition logfmt_ok :: "string \<times> string \<Rightarrow> bool" where
  "logfmt_ok kv \<longleftrightarrow> fst kv \<noteq> [] \<and> utf8_valid (fst kv) \<and> utf8_valid (snd kv) \<and>
     CHR ''='' \<notin> set (fst kv) \<and> \<not> list_ex is_ascii_whitespace (fst kv)"

lemma special_bytes:
  "quote = CHR 0x22" "backslash = CHR 0x5C" "char_of (10 :: nat) = CHR 0x0A"
  "char_of (13 :: nat) = CHR 0x0D" "char_of (9 :: nat) = CHR 0x09"
  by code_simp+

lemma scan_quoted_escape: "scan_quoted acc (escape v @ quote # r) = Some (rev acc @ v, r)"
  by (induction v arbitrary: acc) (auto simp: unescape_def special_bytes)

lemma utf8_hd:
  assumes "utf8_valid k" and "k \<noteq> []"
  shows "\<not> is_continuation (hd k)"
  using assms(1)
proof (cases rule: utf8_valid_cases)
  case (2 ch r)
  then show ?thesis
    by (auto simp: utf8_char_def between_def is_continuation_def)
qed (use assms(2) in simp)

lemma scan_field_print:
  assumes "logfmt_ok kv" and "rest = [] \<or> hd rest = CHR '' ''"
  shows "scan_field (print_field kv @ rest) = Some (kv, rest)"
proof -
  have k: "CHR ''='' \<notin> set (fst kv)" "fst kv \<noteq> []" using assms by (simp_all add: logfmt_ok_def)
  let ?tail = "quote # escape (snd kv) @ quote # rest"
  have s: "print_field kv @ rest = fst kv @ CHR ''='' # ?tail"
    by (simp add: print_field_def)
  have "takeWhile (\<lambda>c. c \<noteq> CHR ''='') (fst kv @ CHR ''='' # ?tail) = fst kv"
    "dropWhile (\<lambda>c. c \<noteq> CHR ''='') (fst kv @ CHR ''='' # ?tail) = CHR ''='' # ?tail"
    using k by (subst takeWhile_append2 dropWhile_append2; auto)+
  moreover have "slice_ok (fst kv) (CHR ''='' # ?tail)"
    using assms utf8_hd [of "fst kv"] by (simp add: slice_ok_def logfmt_ok_def is_continuation_def)
  moreover have "rest \<noteq> [] \<Longrightarrow> is_ascii_whitespace (hd rest)"
    using assms(2) by (auto simp: is_ascii_whitespace_def)
  ultimately show ?thesis
    using assms(1) unfolding s scan_field_def Let_def
    by (auto simp: scan_quoted_escape logfmt_ok_def)
qed

lemma print_field_hd: "logfmt_ok kv \<Longrightarrow> print_field kv \<noteq> [] \<and> \<not> is_ascii_whitespace (hd (print_field kv))"
  by (cases "fst kv") (auto simp: logfmt_ok_def print_field_def)

lemma space_is_whitespace: "is_ascii_whitespace (CHR '' '')"
  by code_simp

lemma scan_print_spaced:
  "list_all logfmt_ok kvs \<Longrightarrow> scan_logfmt (replicate n (CHR '' '') @ print_logfmt kvs) = Some kvs"
proof (induction kvs arbitrary: n)
  case Nil
  then show ?case
    by (simp add: print_logfmt_def scan_logfmt.simps space_is_whitespace)
next
  case (Cons kv kvs)
  let ?rest = "if kvs = [] then [] else '' '' @ print_logfmt kvs"
  have p: "print_logfmt (kv # kvs) = print_field kv @ ?rest"
    by (cases kvs) (simp_all add: print_logfmt_def)
  have ok: "logfmt_ok kv" "list_all logfmt_ok kvs" using Cons.prems by simp_all
  obtain c cs where c: "print_field kv = c # cs" "\<not> is_ascii_whitespace c"
    using print_field_hd [OF ok(1)] by (cases "print_field kv") auto
  have "dropWhile is_ascii_whitespace (replicate n (CHR '' '') @ print_field kv @ ?rest) =
      print_field kv @ ?rest"
    using c by (subst dropWhile_append2) (auto simp: space_is_whitespace)
  moreover have "scan_field (print_field kv @ ?rest) = Some (kv, ?rest)"
    by (rule scan_field_print [OF ok(1)]) simp
  moreover have "scan_logfmt ?rest = Some kvs"
    using Cons.IH [of 1, OF ok(2)] Cons.IH [of 0, OF ok(2)] by (auto simp: print_logfmt_def)
  ultimately show ?case
    using c by (simp add: p scan_logfmt.simps [of "replicate n _ @ _"])
qed

text \<open>
  C39. Parsing a printed logfmt line gives back its fields: keys without \<^verbatim>\<open>=\<close> and white space and
  arbitrary UTF-8 values, quotes, backslashes and line breaks included.
\<close>

theorem logfmt_roundtrip: "list_all logfmt_ok kvs \<Longrightarrow> scan_logfmt (print_logfmt kvs) = Some kvs"
  using scan_print_spaced [of kvs 0] by simp

theorem logfmt_roundtrip_witness:
  "scan_logfmt (print_logfmt [(''time'', ''t''), (''msg'', ''a b'' @ [quote, NL])]) =
     Some [(''time'', ''t''), (''msg'', ''a b'' @ [quote, NL])]"
  by (rule logfmt_roundtrip) code_simp

end
