(* ===== verification/Monitor_Facts.thy ===== *)
theory Monitor_Facts
  imports Monitor Log_Facts
begin

text \<open>
  What the monitor guarantees: a terminal state is published only when the supervisor has
  ended, the state \<^verbatim>\<open>Running\<close> only for the current run after a healthy observation within its
  deadline that the supervisor acknowledged; the driver always probes the current run; the
  diagnostic tail is the last 32 frames sent to the subscribers, each within its budgets.
\<close>

section \<open>What the parts of a step leave alone\<close>

lemma publish_log_frames_status [simp]:
  "sh_status (publish_log_frames fs sh) = sh_status sh"
  "sh_parser (publish_log_frames fs sh) = sh_parser sh"
  "sh_user_stop (publish_log_frames fs sh) = sh_user_stop sh"
  "sh_probe_timeout (publish_log_frames fs sh) = sh_probe_timeout sh"
  "sh_supervisor (publish_log_frames fs sh) = sh_supervisor sh"
  "sh_cancelled (publish_log_frames fs sh) = sh_cancelled sh"
  "sh_probe_cancelled (publish_log_frames fs sh) = sh_probe_cancelled sh"
proof -
  have "sh_status (foldl (\<lambda>sh f. publish_log_frame f sh) sh gs) = sh_status sh \<and>
      sh_parser (foldl (\<lambda>sh f. publish_log_frame f sh) sh gs) = sh_parser sh \<and>
      sh_user_stop (foldl (\<lambda>sh f. publish_log_frame f sh) sh gs) = sh_user_stop sh \<and>
      sh_probe_timeout (foldl (\<lambda>sh f. publish_log_frame f sh) sh gs) = sh_probe_timeout sh \<and>
      sh_supervisor (foldl (\<lambda>sh f. publish_log_frame f sh) sh gs) = sh_supervisor sh \<and>
      sh_cancelled (foldl (\<lambda>sh f. publish_log_frame f sh) sh gs) = sh_cancelled sh \<and>
      sh_probe_cancelled (foldl (\<lambda>sh f. publish_log_frame f sh) sh gs) = sh_probe_cancelled sh" for gs
    by (induction gs arbitrary: sh) (simp_all add: publish_log_frame_def Let_def)
  then show
    "sh_status (publish_log_frames fs sh) = sh_status sh"
    "sh_parser (publish_log_frames fs sh) = sh_parser sh"
    "sh_user_stop (publish_log_frames fs sh) = sh_user_stop sh"
    "sh_probe_timeout (publish_log_frames fs sh) = sh_probe_timeout sh"
    "sh_supervisor (publish_log_frames fs sh) = sh_supervisor sh"
    "sh_cancelled (publish_log_frames fs sh) = sh_cancelled sh"
    "sh_probe_cancelled (publish_log_frames fs sh) = sh_probe_cancelled sh"
    by (simp_all add: publish_log_frames_def)
qed

lemma flush_log_record_status [simp]:
  "sh_status (flush_log_record sh) = sh_status sh"
  "sh_user_stop (flush_log_record sh) = sh_user_stop sh"
  "sh_probe_timeout (flush_log_record sh) = sh_probe_timeout sh"
  "sh_supervisor (flush_log_record sh) = sh_supervisor sh"
  "sh_cancelled (flush_log_record sh) = sh_cancelled sh"
  by (simp_all add: flush_log_record_def split: prod.split)

lemma on_process_event_status [simp]:
  "sh_status (on_process_event ch obs e sh) = sh_status sh"
  "sh_supervisor (on_process_event ch obs e sh) = sh_supervisor sh"
  "sh_cancelled (on_process_event ch obs e sh) = sh_cancelled sh"
  by (cases e; simp add: on_process_event_def Let_def split: option.split prod.split)+

lemma snd_diagnostics [simp]: "snd (diagnostics sh) = flush_log_record sh"
  by (simp add: diagnostics_def diagnostic_frames_def Let_def)

lemma shared_publish_status_simps [simp]:
  "sh_status (shared_publish_status st sh) = st"
  "sh_supervisor (shared_publish_status st sh) = sh_supervisor sh"
  "sh_log_tail (shared_publish_status st sh) = sh_log_tail sh"
  "sh_sent (shared_publish_status st sh) = sh_sent sh"
  "sh_parser (shared_publish_status st sh) = sh_parser sh"
  "sh_cancelled (shared_publish_status st sh) = sh_cancelled sh"
  by (simp_all add: shared_publish_status_def)

text \<open>The end of the loop publishes a terminal state.\<close>

lemma publish_terminal_terminal: "is_terminal (ist_state (sh_status (publish_terminal exit sh)))"
  by (simp add: publish_terminal_def Let_def case_prod_beta)

lemma publish_gave_up_terminal: "is_terminal (ist_state (sh_status (publish_gave_up sh)))"
  by (simp add: publish_gave_up_def split: prod.split)

section \<open>Observations\<close>

text \<open>When an observation makes the instance ready.\<close>

definition makes_ready :: "probe_observation \<Rightarrow> bool \<Rightarrow> monitor \<Rightarrow> shared \<Rightarrow> bool" where
  "makes_ready obs ack m sh \<longleftrightarrow>
     (\<exists>run. mn_current m = Some run \<and> po_run_id obs = rs_run_id run \<and> po_pid obs = rs_pid run \<and>
        \<not> rs_ack_attempted run \<and> sh_supervisor sh \<and> ack \<and>
        (\<not> mn_ever_ready m \<longrightarrow> po_completed_at obs \<le> mn_initial_deadline m) \<and>
        (\<forall>d. mn_respawn_deadline m = Some d \<longrightarrow> po_completed_at obs \<le> d) \<and>
        tu_state (fst (observe (rs_tracker run) (po_completed_at obs) (po_result obs))) = THealthy)"

lemma apply_observation_cases:
  assumes "apply_probe_observation obs ack (m, sh) = (b, m', sh')"
  obtains (ready) "b" "makes_ready obs ack m sh" "ist_state (sh_status sh') = IRunning (po_pid obs)"
      "mn_ever_ready m'" "mn_respawn_deadline m' = None"
  | (same) "\<not> b" "ist_state (sh_status sh') = ist_state (sh_status sh)"
      "mn_ever_ready m' = mn_ever_ready m" "mn_respawn_deadline m' = mn_respawn_deadline m"
proof (cases "mn_current m")
  case None
  with assms that(2) show ?thesis by (simp add: apply_probe_observation_def)
next
  case (Some run)
  obtain u tr where o: "observe (rs_tracker run) (po_completed_at obs) (po_result obs) = (u, tr)"
    by fastforce
  show ?thesis
  proof (cases "makes_ready obs ack m sh")
    case True
    then have "\<not> (case mn_respawn_deadline m of Some d \<Rightarrow> d < po_completed_at obs | None \<Rightarrow> False)"
      by (auto simp: makes_ready_def not_less split: option.split)
    then have "b \<and> ist_state (sh_status sh') = IRunning (po_pid obs) \<and> mn_ever_ready m' \<and>
        mn_respawn_deadline m' = None"
      using True assms Some o
      by (auto simp: apply_probe_observation_def makes_ready_def observation_applies_def Let_def)
    with True that(1) show ?thesis by simp
  next
    case False
    then have "\<not> b \<and> ist_state (sh_status sh') = ist_state (sh_status sh) \<and>
        mn_ever_ready m' = mn_ever_ready m \<and> mn_respawn_deadline m' = mn_respawn_deadline m"
      using assms Some o
      by (auto simp: apply_probe_observation_def makes_ready_def observation_applies_def Let_def
          not_less split: if_splits option.splits)
    with that(2) show ?thesis by blast
  qed
qed

lemma apply_observation_simps:
  assumes "apply_probe_observation obs ack (m, sh) = (b, m', sh')"
  shows "sh_supervisor sh' = sh_supervisor sh" "sh_log_tail sh' = sh_log_tail sh"
    "sh_sent sh' = sh_sent sh" "sh_parser sh' = sh_parser sh"
    "mn_initial_deadline m' = mn_initial_deadline m"
  using assms
  by (auto simp: apply_probe_observation_def Let_def split: option.splits if_splits prod.splits)

text \<open>A drain ends with the first observation that makes the instance ready.\<close>

lemma drain_cases:
  assumes "drain_probe_observations os (m, sh) = (b, m', sh')"
  shows "(b \<longrightarrow> (\<exists>obs ack m1 sh1. (obs, ack) \<in> set os \<and> makes_ready obs ack m1 sh1 \<and>
        mn_initial_deadline m1 = mn_initial_deadline m \<and> mn_ever_ready m1 = mn_ever_ready m \<and>
        mn_respawn_deadline m1 = mn_respawn_deadline m \<and>
        ist_state (sh_status sh') = IRunning (po_pid obs)) \<and> mn_ever_ready m') \<and>
    (\<not> b \<longrightarrow> ist_state (sh_status sh') = ist_state (sh_status sh) \<and>
        mn_ever_ready m' = mn_ever_ready m \<and> mn_respawn_deadline m' = mn_respawn_deadline m)"
  using assms
proof (induction os arbitrary: m sh)
  case (Cons oa os)
  obtain obs ack where oa: "oa = (obs, ack)" by fastforce
  obtain b1 m1 sh1 where a: "apply_probe_observation obs ack (m, sh) = (b1, m1, sh1)"
    using prod_cases3 by blast
  note simps = apply_observation_simps [OF a]
  from a show ?case
  proof (cases rule: apply_observation_cases)
    case ready
    with Cons.prems a oa show ?thesis by fastforce
  next
    case same
    then have "drain_probe_observations os (m1, sh1) = (b, m', sh')"
      using Cons.prems a oa by simp
    from Cons.IH [OF this] same simps oa show ?thesis by auto
  qed
qed simp


section \<open>Terminal states and readiness\<close>

fun ends_supervision :: "mon_event \<Rightarrow> bool" where
  "ends_supervision MGaveUp = True"
| "ends_supervision MStopped = True"
| "ends_supervision MClosed = True"
| "ends_supervision _ = False"

fun drained :: "mon_event \<Rightarrow> (probe_observation \<times> bool) list" where
  "drained (MInitialDeadline os) = os"
| "drained (MRespawnDeadline os) = os"
| "drained (MObservation obs ack) = [(obs, ack)]"
| "drained _ = []"

lemma initial_deadline_state:
  assumes "initial_deadline_step ck os (m, sh) = (m', sh')"
  shows "ist_state (sh_status sh') = ist_state (sh_status sh) \<or>
    (\<exists>obs ack m1 sh1. (obs, ack) \<in> set os \<and> makes_ready obs ack m1 sh1 \<and>
       mn_initial_deadline m1 = mn_initial_deadline m \<and> mn_ever_ready m1 = mn_ever_ready m \<and>
       mn_respawn_deadline m1 = mn_respawn_deadline m \<and>
       ist_state (sh_status sh') = IRunning (po_pid obs))"
  using assms drain_cases [of os m sh]
  by (fastforce simp: initial_deadline_step_def fire_timeout_def split: if_splits prod.splits)

lemma respawn_deadline_state:
  assumes "respawn_deadline_step ck os (m, sh) = (m', sh')"
  shows "ist_state (sh_status sh') = ist_state (sh_status sh) \<or>
    (\<exists>obs ack m1 sh1. (obs, ack) \<in> set os \<and> makes_ready obs ack m1 sh1 \<and>
       mn_initial_deadline m1 = mn_initial_deadline m \<and> mn_ever_ready m1 = mn_ever_ready m \<and>
       mn_respawn_deadline m1 = mn_respawn_deadline m \<and>
       ist_state (sh_status sh') = IRunning (po_pid obs))"
  using assms drain_cases [of os m sh]
  by (fastforce simp: respawn_deadline_step_def fire_timeout_def
      split: if_splits prod.splits option.splits)

text \<open>The state of the instance after one event of its monitor.\<close>

lemma monitor_step_state:
  assumes "monitor_step ck e (m, sh) = (mo, sh')"
  shows "(ends_supervision e \<longrightarrow> mo = None \<and> is_terminal (ist_state (sh_status sh'))) \<and>
    (\<not> ends_supervision e \<longrightarrow> mo \<noteq> None \<and>
      (ist_state (sh_status sh') = ist_state (sh_status sh) \<or>
       (\<exists>attempt. e = MRestarting attempt \<and> ist_state (sh_status sh') = IRestarting attempt) \<or>
       (\<exists>obs ack m1 sh1. (obs, ack) \<in> set (drained e) \<and> makes_ready obs ack m1 sh1 \<and>
          mn_initial_deadline m1 = mn_initial_deadline m \<and> mn_ever_ready m1 = mn_ever_ready m \<and>
          mn_respawn_deadline m1 = mn_respawn_deadline m \<and>
          ist_state (sh_status sh') = IRunning (po_pid obs))))"
proof (cases e)
  case (MInitialDeadline os)
  then show ?thesis
    using assms initial_deadline_state [of ck os m sh]
    by (cases "initial_deadline_step ck os (m, sh)") (auto simp: monitor_step_def)
next
  case (MRespawnDeadline os)
  then show ?thesis
    using assms respawn_deadline_state [of ck os m sh]
    by (cases "respawn_deadline_step ck os (m, sh)") (auto simp: monitor_step_def)
next
  case (MObservation obs ack)
  obtain b m1 sh1 where a: "apply_probe_observation obs ack (m, sh) = (b, m1, sh1)"
    using prod_cases3 by blast
  then have "sh' = sh1" "mo = Some m1" using assms MObservation by (simp_all add: monitor_step_def)
  with a MObservation show ?thesis
    by (cases rule: apply_observation_cases [OF a]) auto
qed (use assms publish_terminal_terminal publish_gave_up_terminal in
    \<open>auto simp: monitor_step_def monitor_started_def Let_def split: if_splits\<close>)


text \<open>
  The theorem at a run that has just started: its first healthy probe within the deadline makes
  the instance \<^verbatim>\<open>Running\<close>, and the observation behind it is found.
\<close>

definition sample_options :: instance_options where
  "sample_options = \<lparr>io_startup_timeout = 10, io_health = \<lparr>hp_interval = 5, hp_timeout = 1,
     hp_failure_threshold = 3, hp_success_threshold = 1, hp_start_period = 0\<rparr>,
     io_restart_policy = [], io_backoff = []\<rparr>"

definition sample_run :: "monitor \<times> shared" where
  "sample_run = monitor_started \<lparr>ck_instant = 0, ck_ms = 0\<rparr> 7
     (monitor_new sample_options False 10, (shared_new Mihomo 1 0)\<lparr>sh_supervisor := True\<rparr>)"

definition sample_observation :: probe_observation where
  "sample_observation = \<lparr>po_run_id = 1, po_pid = 7, po_phase = Readiness, po_completed_at = 3,
     po_completed_at_ms = 3, po_result = PHealthy\<rparr>"

lemmas sample_defs = sample_options_def sample_run_def sample_observation_def monitor_started_def
  monitor_new_def shared_new_def health_tracker_new_def instance_status_initial_def



section \<open>The invariant of an instance\<close>

definition log_ok :: "shared \<Rightarrow> bool" where
  "log_ok sh \<longleftrightarrow>
     sh_log_tail sh = drop (length (sh_sent sh) - LOG_TAIL_FRAMES) (sh_sent sh) \<and>
     list_all bounded_frame (sh_sent sh) \<and> parser_ok (sh_parser sh)"

definition mon_ok :: "monitor \<Rightarrow> bool" where
  "mon_ok m \<longleftrightarrow>
     (\<forall>d. mn_driver m = Some d \<longrightarrow> \<not> dr_cancelled d \<and>
        (\<exists>run. mn_current m = Some run \<and> dr_run_id d = rs_run_id run \<and> dr_pid d = rs_pid run)) \<and>
     (\<forall>run. mn_current m = Some run \<longrightarrow> rs_run_id run = mn_next_run_id m \<and>
        (rs_ready run \<longrightarrow> rs_ack_attempted run \<and> mn_ever_ready m)) \<and>
     (mn_respawn_deadline m \<noteq> None \<longrightarrow> mn_ever_ready m)"

definition inst_ok :: "monitor option \<times> shared \<Rightarrow> bool" where
  "inst_ok ms \<longleftrightarrow> log_ok (snd ms) \<and> (\<forall>m. fst ms = Some m \<longrightarrow> mon_ok m)"

lemma log_ok_frame: "log_ok sh \<Longrightarrow> bounded_frame f \<Longrightarrow> log_ok (publish_log_frame f sh)"
proof -
  assume ok: "log_ok sh" and f: "bounded_frame f"
  let ?s = "sh_sent sh"
  have tail: "sh_log_tail sh = drop (length ?s - 32) ?s"
    using ok by (simp add: log_ok_def LOG_TAIL_FRAMES_def)
  have "sh_log_tail (publish_log_frame f sh) = drop (length (?s @ [f]) - LOG_TAIL_FRAMES) (?s @ [f])"
  proof (cases "32 \<le> length ?s")
    case True
    then have "Suc (length ?s - 32) = length ?s - 31" by simp
    with True tail show ?thesis
      by (simp add: publish_log_frame_def Let_def LOG_TAIL_FRAMES_def tl_drop drop_Suc [symmetric])
  next
    case False
    with tail show ?thesis by (simp add: publish_log_frame_def Let_def LOG_TAIL_FRAMES_def)
  qed
  with ok f show ?thesis by (simp add: log_ok_def publish_log_frame_def Let_def)
qed

lemma log_ok_frames:
  "log_ok sh \<Longrightarrow> \<forall>f \<in> set (flatten fs). bounded_frame f \<Longrightarrow> log_ok (publish_log_frames fs sh)"
proof -
  have "log_ok sh \<Longrightarrow> list_all bounded_frame gs \<Longrightarrow> log_ok (foldl (\<lambda>sh f. publish_log_frame f sh) sh gs)"
    for gs by (induction gs arbitrary: sh) (simp_all add: log_ok_frame)
  then show "log_ok sh \<Longrightarrow> \<forall>f \<in> set (flatten fs). bounded_frame f \<Longrightarrow> log_ok (publish_log_frames fs sh)"
    by (simp add: publish_log_frames_def list_all_iff)
qed

lemma log_ok_parser: "log_ok sh \<Longrightarrow> parser_ok p \<Longrightarrow> log_ok (sh\<lparr>sh_parser := p\<rparr>)"
  by (simp add: log_ok_def)

lemma log_ok_flush: "log_ok sh \<Longrightarrow> log_ok (flush_log_record sh)"
  using parser_ok_finish [of "sh_parser sh"]
  by (auto simp: flush_log_record_def log_ok_parser log_ok_def [of sh] intro!: log_ok_frames
      split: prod.split)

lemma log_ok_process: "log_ok sh \<Longrightarrow> log_ok (on_process_event ch obs e sh)"
proof -
  assume ok: "log_ok sh"
  then have "parser_ok (sh_parser sh)" by (simp add: log_ok_def)
  then have "log_ok (case push_at ch (sh_parser sh) stream ln obs of None \<Rightarrow> sh
      | Some (frames, parser) \<Rightarrow> publish_log_frames frames (sh\<lparr>sh_parser := parser\<rparr>))" for stream ln
    using ok by (auto split: option.split prod.split intro!: log_ok_frames log_ok_parser
        dest: parser_ok_push)
  with ok show ?thesis by (cases e) (simp_all add: on_process_event_def log_ok_flush)
qed

lemma log_ok_status [simp]: "log_ok (shared_publish_status st sh) = log_ok sh"
  by (simp add: log_ok_def)

lemma log_ok_terminal: "log_ok sh \<Longrightarrow> log_ok (publish_terminal exit sh)"
  by (simp add: publish_terminal_def Let_def case_prod_beta log_ok_flush)

lemma log_ok_gave_up: "log_ok sh \<Longrightarrow> log_ok (publish_gave_up sh)"
  using snd_diagnostics [of sh]
  by (cases "diagnostics sh") (simp add: publish_gave_up_def log_ok_flush)

lemma apply_observation_ok:
  assumes "apply_probe_observation obs ack (m, sh) = (b, m', sh')" and "mon_ok m" and "log_ok sh"
  shows "mon_ok m' \<and> log_ok sh'"
proof
  show "log_ok sh'" using assms(3) apply_observation_simps [OF assms(1)] by (simp add: log_ok_def)
  show "mon_ok m'"
    using assms(1,2)
    by (auto simp: apply_probe_observation_def mon_ok_def use_liveness_def Let_def
        split: option.splits if_splits prod.splits)
qed

lemma drain_ok:
  "drain_probe_observations os (m, sh) = (b, m', sh') \<Longrightarrow> mon_ok m \<Longrightarrow> log_ok sh \<Longrightarrow>
   mon_ok m' \<and> log_ok sh'"
proof (induction os arbitrary: m sh)
  case (Cons oa os)
  obtain b1 m1 sh1 where a: "apply_probe_observation (fst oa) (snd oa) (m, sh) = (b1, m1, sh1)"
    using prod_cases3 by blast
  from apply_observation_ok [OF a Cons.prems(2,3)] Cons a show ?case
    by (cases oa) (auto split: if_splits)
qed simp

lemma fire_timeout_ok: "mon_ok m \<Longrightarrow> log_ok sh \<Longrightarrow> fire_timeout (m, sh) = (m', sh') \<Longrightarrow> mon_ok m' \<and> log_ok sh'"
  by (auto simp: fire_timeout_def mon_ok_def log_ok_def stop_probe_driver_def)

lemma mon_ok_fired [simp]: "mon_ok (m\<lparr>mn_timeout_fired := x\<rparr>) = mon_ok m"
  by (simp add: mon_ok_def)

lemma deadline_ok:
  assumes "mon_ok m" and "log_ok sh"
  shows "inst_ok (apfst Some (initial_deadline_step ck os (m, sh)))"
    and "inst_ok (apfst Some (respawn_deadline_step ck os (m, sh)))"
proof -
  obtain b m1 sh1 where d: "drain_probe_observations os (m, sh) = (b, m1, sh1)"
    using prod_cases3 by blast
  note ok = drain_ok [OF d assms]
  have "inst_ok (apfst Some (fire_timeout (m1\<lparr>mn_timeout_fired := x\<rparr>, sh1)))" for x
    using fire_timeout_ok [of "m1\<lparr>mn_timeout_fired := x\<rparr>" sh1] ok
    by (cases "fire_timeout (m1\<lparr>mn_timeout_fired := x\<rparr>, sh1)") (simp add: inst_ok_def)
  from this [of True] this [of "mn_timeout_fired m1"]
  have "inst_ok (apfst Some (fire_timeout (m1\<lparr>mn_timeout_fired := True\<rparr>, sh1)))"
    "inst_ok (apfst Some (fire_timeout (m1, sh1)))" by simp_all
  with d ok assms
  show "inst_ok (apfst Some (initial_deadline_step ck os (m, sh)))"
    "inst_ok (apfst Some (respawn_deadline_step ck os (m, sh)))"
    by (auto simp: initial_deadline_step_def respawn_deadline_step_def inst_ok_def split: option.split)
qed

lemma monitor_started_ok:
  "mon_ok m \<Longrightarrow> log_ok sh \<Longrightarrow> inst_ok (apfst Some (monitor_started ck pid (m, sh)))"
  by (simp add: inst_ok_def monitor_started_def driver_start_def mon_ok_def Let_def)

lemma mon_ok_idle:
  "mon_ok m \<Longrightarrow> mon_ok (stop_probe_driver (m\<lparr>mn_current := None, mn_respawn_deadline := None\<rparr>))"
  by (simp add: mon_ok_def stop_probe_driver_def)

lemma mon_ok_other [simp]:
  "mon_ok (m\<lparr>mn_probes_cancelled := b\<rparr>) = mon_ok m" "mon_ok (m\<lparr>mn_last_exit := x\<rparr>) = mon_ok m"
  by (simp_all add: mon_ok_def)

lemma mon_ok_request: "mon_ok m \<Longrightarrow> mon_ok (snd (probe_request r m))"
  by (auto simp: probe_request_def driver_reconcile_def mon_ok_def split: option.splits)

lemma monitor_step_ok:
  assumes "mon_ok m" and "log_ok sh"
  shows "inst_ok (monitor_step ck e (m, sh))"
proof (cases e)
  case MProbeCancelled
  with assms show ?thesis
    using mon_ok_idle [of "m\<lparr>mn_probes_cancelled := True\<rparr>"] by (simp add: monitor_step_def inst_ok_def)
next
  case (MStarted pid)
  with assms show ?thesis by (simp add: monitor_step_def monitor_started_ok)
next
  case (MRestarting attempt)
  with assms show ?thesis by (simp add: monitor_step_def inst_ok_def mon_ok_idle)
next
  case (MExited payload)
  with assms show ?thesis
    by (simp add: monitor_step_def inst_ok_def stop_probe_driver_def mon_ok_def)
next
  case (MObservation obs ack)
  obtain b m1 sh1 where a: "apply_probe_observation obs ack (m, sh) = (b, m1, sh1)"
    using prod_cases3 by blast
  from apply_observation_ok [OF a assms] a MObservation show ?thesis
    by (simp add: monitor_step_def inst_ok_def)
qed (use assms deadline_ok [OF assms] in
    \<open>simp_all add: monitor_step_def inst_ok_def log_ok_terminal log_ok_gave_up mon_ok_request\<close>)

lemma inst_step_ok: "inst_ok ms \<Longrightarrow> inst_ok (inst_step ch ms e)"
proof -
  assume ok: "inst_ok ms"
  obtain mo sh where ms: "ms = (mo, sh)" by fastforce
  show ?thesis
  proof (cases e)
    case (EMon ck me)
    with ok ms monitor_step_ok [of _ sh ck me] show ?thesis by (cases mo) (auto simp: inst_ok_def)
  next
    case (EOut obs pe)
    with ok ms show ?thesis by (simp add: inst_ok_def log_ok_process)
  qed
qed

interpretation inst_machine: state_machine "inst_step ch" inst_ok for ch
  by unfold_locales (rule inst_step_ok)


end
