(* ===== verification/Manager_Inv.thy ===== *)
theory Manager_Inv
  imports Apply Monitor_Facts
begin

text \<open>
  The invariant of the manager and the rules that carry it through an operation.

  \<open>al w i\<close> says that in the world \<open>w\<close> the supervised process tree of instance \<open>i\<close> may still
  exist, \<open>pr w i\<close> is the pid file its identity is recorded in. \<open>env_ok\<close> states what the
  program relies on of the code outside its sources: only spawning an instance brings it to
  life, the supervisor ends only when the tree is gone, and the reaper reports a recorded
  process as exited or killed only when it is.

  \<open>at m al pr c e T s\<close> says that the control data of \<open>s\<close> is \<open>c\<close>, its epoch counter \<open>e\<close>, and that
  every instance that may be alive is the current one, or its epoch is quarantined with its
  death unproven, or it is one of \<open>T\<close>, the instances an operation holds in its local variables.
\<close>

section \<open>The environment\<close>

definition quiet ::
  "('w \<Rightarrow> nat \<Rightarrow> bool) \<Rightarrow> ('w \<Rightarrow> nat \<Rightarrow> path option) \<Rightarrow> ('w \<Rightarrow> 'a \<times> 'w) \<Rightarrow> bool" where
  "quiet al pr op \<longleftrightarrow>
     (\<forall>w i. (al (snd (op w)) i \<longrightarrow> al w i) \<and> pr (snd (op w)) i = pr w i)"

definition ended :: "ievent list \<Rightarrow> nat set" where
  "ended es = {i. \<exists>ck e. IInst i (EMon ck e) \<in> set es \<and> ends_supervision e}"

definition file_ops_quiet ::
  "('w \<Rightarrow> nat \<Rightarrow> bool) \<Rightarrow> ('w \<Rightarrow> nat \<Rightarrow> path option) \<Rightarrow> 'w env \<Rightarrow> bool" where
  "file_ops_quiet al pr ev \<longleftrightarrow> (\<forall>p q c.
     quiet al pr (ev_read ev p) \<and> quiet al pr (ev_metadata_ok ev p) \<and>
     quiet al pr (ev_modified ev p) \<and> quiet al pr (ev_try_exists ev p) \<and>
     quiet al pr (ev_symlink_metadata ev p) \<and> quiet al pr (ev_open_new ev p) \<and>
     quiet al pr (ev_set_permissions ev p) \<and> quiet al pr (ev_write_sync ev p c) \<and>
     quiet al pr (ev_remove_file ev p) \<and> quiet al pr (ev_validate_absent ev p) \<and>
     quiet al pr (ev_validate_existing ev p) \<and> quiet al pr (ev_move_new ev p q) \<and>
     quiet al pr (ev_replace ev p q) \<and> quiet al pr (ev_remove_regular ev p) \<and>
     quiet al pr (ev_sync_dir ev p) \<and> quiet al pr (ev_read_dir ev p))"

definition net_ops_quiet ::
  "('w \<Rightarrow> nat \<Rightarrow> bool) \<Rightarrow> ('w \<Rightarrow> nat \<Rightarrow> path option) \<Rightarrow> 'w env \<Rightarrow> bool" where
  "net_ops_quiet al pr ev \<longleftrightarrow> (\<forall>cmd t rc patch p i.
     quiet al pr (ev_run ev cmd t) \<and> quiet al pr (ev_client ev rc t) \<and>
     quiet al pr (ev_patch_config ev rc patch) \<and> quiet al pr (ev_configs ev rc) \<and>
     quiet al pr (ev_update_config ev rc p) \<and> quiet al pr (ev_probe ev i) \<and>
     quiet al pr (ev_cancel ev i) \<and> quiet al pr (ev_sink_shutdown ev) \<and>
     quiet al pr (ev_create_dir_all ev p) \<and> quiet al pr (ev_protect_dir ev p) \<and>
     quiet al pr (ev_canonicalize ev p) \<and> quiet al pr (ev_lock ev p) \<and>
     quiet al pr (ev_sink_spawn ev p))"

text \<open>A supervisor ends only when its process tree is gone.\<close>

definition events_ok ::
  "('w \<Rightarrow> nat \<Rightarrow> bool) \<Rightarrow> ('w \<Rightarrow> nat \<Rightarrow> path option) \<Rightarrow> 'w env \<Rightarrow> bool" where
  "events_ok al pr ev \<longleftrightarrow>
     quiet al pr (ev_events ev) \<and> quiet al pr (ev_wait ev) \<and>
     (\<forall>w i. i \<in> ended (fst (ev_events ev w)) \<longrightarrow> \<not> al (snd (ev_events ev w)) i) \<and>
     (\<forall>w i. i \<in> ended (concat (fst (ev_wait ev w))) \<longrightarrow> \<not> al (snd (ev_wait ev w)) i)"

text \<open>Spawning an instance touches no other one, records the new identity, and leaves no process
  behind when it fails.\<close>

definition spawn_ok ::
  "('w \<Rightarrow> nat \<Rightarrow> bool) \<Rightarrow> ('w \<Rightarrow> nat \<Rightarrow> path option) \<Rightarrow> 'w env \<Rightarrow> bool" where
  "spawn_ok al pr ev \<longleftrightarrow> (\<forall>i cmd opts w.
     (\<forall>j. j \<noteq> i \<longrightarrow> (al (snd (ev_spawn ev i cmd opts w)) j \<longrightarrow> al w j) \<and>
        pr (snd (ev_spawn ev i cmd opts w)) j = pr w j) \<and>
     (isl (fst (ev_spawn ev i cmd opts w)) \<longrightarrow> \<not> al (snd (ev_spawn ev i cmd opts w)) i) \<and>
     pr (snd (ev_spawn ev i cmd opts w)) i = map_option fst (cmd_epoch_pid_file cmd))"

text \<open>Stopping and reaping start nothing; a process reported as exited or killed is dead.\<close>

definition reap_ok ::
  "('w \<Rightarrow> nat \<Rightarrow> bool) \<Rightarrow> ('w \<Rightarrow> nat \<Rightarrow> path option) \<Rightarrow> 'w env \<Rightarrow> bool" where
  "reap_ok al pr ev \<longleftrightarrow>
     (\<forall>i t. quiet al pr (ev_supervisor_stop ev i t)) \<and> (\<forall>p d. quiet al pr (ev_reap ev p d)) \<and>
     (\<forall>p d w i. fst (ev_reap ev p d w) \<in> {Inr AlreadyExited, Inr Killed} \<longrightarrow> pr w i = Some p \<longrightarrow>
        \<not> al (snd (ev_reap ev p d w)) i)"

definition env_ok ::
  "('w \<Rightarrow> nat \<Rightarrow> bool) \<Rightarrow> ('w \<Rightarrow> nat \<Rightarrow> path option) \<Rightarrow> 'w env \<Rightarrow> bool" where
  "env_ok al pr ev \<longleftrightarrow>
     file_ops_quiet al pr ev \<and> net_ops_quiet al pr ev \<and> events_ok al pr ev \<and>
     spawn_ok al pr ev \<and> reap_ok al pr ev"

lemma env_ok_quiet:
  assumes "env_ok al pr ev"
  shows "quiet al pr (ev_read ev p)" "quiet al pr (ev_metadata_ok ev p)"
    "quiet al pr (ev_modified ev p)" "quiet al pr (ev_try_exists ev p)"
    "quiet al pr (ev_symlink_metadata ev p)" "quiet al pr (ev_open_new ev p)"
    "quiet al pr (ev_set_permissions ev p)" "quiet al pr (ev_write_sync ev p c)"
    "quiet al pr (ev_remove_file ev p)" "quiet al pr (ev_validate_absent ev p)"
    "quiet al pr (ev_validate_existing ev p)" "quiet al pr (ev_move_new ev p q)"
    "quiet al pr (ev_replace ev p q)" "quiet al pr (ev_remove_regular ev p)"
    "quiet al pr (ev_sync_dir ev p)" "quiet al pr (ev_read_dir ev p)"
    "quiet al pr (ev_run ev cmd t)" "quiet al pr (ev_client ev rc t)"
    "quiet al pr (ev_patch_config ev rc patch)" "quiet al pr (ev_configs ev rc)"
    "quiet al pr (ev_update_config ev rc p)" "quiet al pr (ev_probe ev i)"
    "quiet al pr (ev_cancel ev i)" "quiet al pr (ev_sink_shutdown ev)"
    "quiet al pr (ev_reap ev p d)" "quiet al pr (ev_supervisor_stop ev i t)"
    "quiet al pr (\<lambda>w. ((), w))"
    "quiet al pr (ev_create_dir_all ev p)" "quiet al pr (ev_protect_dir ev p)"
    "quiet al pr (ev_canonicalize ev p)" "quiet al pr (ev_lock ev p)"
    "quiet al pr (ev_sink_spawn ev p)"
proof -
  have f: "file_ops_quiet al pr ev" and n: "net_ops_quiet al pr ev" and
    "reap_ok al pr ev"
    using assms by (simp_all add: env_ok_def)
  then have r: "\<forall>p d. quiet al pr (ev_reap ev p d)" and s: "\<forall>i t. quiet al pr (ev_supervisor_stop ev i t)"
    unfolding reap_ok_def by blast+
  show "quiet al pr (ev_read ev p)" "quiet al pr (ev_metadata_ok ev p)"
    "quiet al pr (ev_modified ev p)" "quiet al pr (ev_try_exists ev p)"
    "quiet al pr (ev_symlink_metadata ev p)" "quiet al pr (ev_open_new ev p)"
    "quiet al pr (ev_set_permissions ev p)" "quiet al pr (ev_write_sync ev p c)"
    "quiet al pr (ev_remove_file ev p)" "quiet al pr (ev_validate_absent ev p)"
    "quiet al pr (ev_validate_existing ev p)" "quiet al pr (ev_move_new ev p q)"
    "quiet al pr (ev_replace ev p q)" "quiet al pr (ev_remove_regular ev p)"
    "quiet al pr (ev_sync_dir ev p)" "quiet al pr (ev_read_dir ev p)"
    using f by (simp_all add: file_ops_quiet_def)
  show "quiet al pr (ev_run ev cmd t)" "quiet al pr (ev_client ev rc t)"
    "quiet al pr (ev_patch_config ev rc patch)" "quiet al pr (ev_configs ev rc)"
    "quiet al pr (ev_update_config ev rc p)" "quiet al pr (ev_probe ev i)"
    "quiet al pr (ev_cancel ev i)" "quiet al pr (ev_sink_shutdown ev)"
    "quiet al pr (ev_create_dir_all ev p)" "quiet al pr (ev_protect_dir ev p)"
    "quiet al pr (ev_canonicalize ev p)" "quiet al pr (ev_lock ev p)"
    "quiet al pr (ev_sink_spawn ev p)"
    using n by (simp_all add: net_ops_quiet_def)
  show "quiet al pr (ev_reap ev p d)" "quiet al pr (ev_supervisor_stop ev i t)"
    using r s by simp_all
  show "quiet al pr (\<lambda>w. ((), w))" by (simp add: quiet_def)
qed

section \<open>The invariant\<close>

definition spec_ok :: "'w manager \<Rightarrow> u64 \<Rightarrow> instance_spec \<Rightarrow> bool" where
  "spec_ok m epoch spec \<longleftrightarrow>
     is_pid_file spec = Some (pid_path (mg_env m) (mg_dir m) epoch) \<and>
     is_config_path spec = runtime_path (mg_env m) (mg_dir m) epoch"

text \<open>A terminal instance is dead and its monitor has ended; a monitor that has ended by itself
  left a terminal state, and only a joinable monitor runs.\<close>

definition shape :: "bool \<Rightarrow> bool \<Rightarrow> bool \<Rightarrow> bool \<Rightarrow> bool" where
  "shape alive terminal over handle \<longleftrightarrow>
     (terminal \<longrightarrow> \<not> alive \<and> over) \<and> (handle \<and> over \<longrightarrow> terminal) \<and> (\<not> over \<longrightarrow> handle)"

definition terminal :: "inst \<Rightarrow> bool" where
  "terminal x = is_terminal (ist_state (sh_status (in_shared x)))"

definition shape_ok :: "('w \<Rightarrow> nat \<Rightarrow> bool) \<Rightarrow> 'w \<Rightarrow> nat \<Rightarrow> inst \<Rightarrow> bool" where
  "shape_ok al w i x = shape (al w i) (terminal x) (in_monitor x = None) (in_handle x)"

definition inst_safe ::
  "'w manager \<Rightarrow> ('w \<Rightarrow> nat \<Rightarrow> bool) \<Rightarrow> ('w \<Rightarrow> nat \<Rightarrow> path option) \<Rightarrow> 'w sys \<Rightarrow> nat \<Rightarrow> inst \<Rightarrow> bool" where
  "inst_safe m al pr s i x \<longleftrightarrow>
     i < sy_next s \<and> shape_ok al (sy_world s) i x \<and>
     (al (sy_world s) i \<longrightarrow> pr (sy_world s) i = Some (pid_path (mg_env m) (mg_dir m) (in_epoch x))) \<and>
     spec_ok m (in_epoch x) (in_spec x) \<and> unat (in_epoch x) \<le> unat (sy_epoch s)"

definition accounted :: "ctrl \<Rightarrow> (nat \<times> u64) set \<Rightarrow> nat \<Rightarrow> inst \<Rightarrow> bool" where
  "accounted c T i x \<longleftrightarrow>
     (i, in_epoch x) \<in> T \<or> (\<exists>a. ct_current c = Some a \<and> ac_instance a = i) \<or>
     (\<exists>q \<in> set (ct_quarantine c). qe_epoch q = in_epoch x \<and> \<not> qe_death_proven q)"

definition ctrl_ok :: "'w manager \<Rightarrow> ctrl \<Rightarrow> 'w sys \<Rightarrow> bool" where
  "ctrl_ok m c s \<longleftrightarrow>
     distinct (map qe_epoch (ct_quarantine c)) \<and>
     (\<forall>a. ct_current c = Some a \<longrightarrow>
        (\<exists>x. sy_inst s (ac_instance a) = Some x \<and> in_epoch x = rev_epoch (ac_revision a)) \<and>
        rev_runtime_path (ac_revision a) =
          runtime_path (mg_env m) (mg_dir m) (rev_epoch (ac_revision a)) \<and>
        rev_epoch (ac_revision a) \<notin> qe_epoch ` set (ct_quarantine c))"

definition at ::
  "'w manager \<Rightarrow> ('w \<Rightarrow> nat \<Rightarrow> bool) \<Rightarrow> ('w \<Rightarrow> nat \<Rightarrow> path option) \<Rightarrow> ctrl \<Rightarrow> u64 \<Rightarrow>
   (nat \<times> u64) set \<Rightarrow> 'w sys \<Rightarrow> bool" where
  "at m al pr c e T s \<longleftrightarrow>
     sy_ctrl s = c \<and> sy_epoch s = e \<and>
     (\<forall>i x. sy_inst s i = Some x \<longrightarrow> inst_safe m al pr s i x) \<and>
     (\<forall>i. al (sy_world s) i \<longrightarrow> (\<exists>x. sy_inst s i = Some x \<and> accounted c T i x)) \<and>
     (\<forall>(i, E) \<in> T. \<exists>x. sy_inst s i = Some x \<and> in_epoch x = E) \<and>
     ctrl_ok m c s"

text \<open>What a change has to respect to keep the invariant: instances keep their identity.\<close>

lemma at_tame:
  assumes "at m al pr c e T s"
    and "sy_ctrl s' = sy_ctrl s" "sy_epoch s' = sy_epoch s" "sy_next s' = sy_next s"
    and "\<And>i. al (sy_world s') i \<Longrightarrow> al (sy_world s) i"
    and "\<And>i. pr (sy_world s') i = pr (sy_world s) i"
    and "\<And>i x. sy_inst s i = Some x \<Longrightarrow> \<exists>x'. sy_inst s' i = Some x' \<and> in_epoch x' = in_epoch x \<and>
      in_spec x' = in_spec x \<and> shape_ok al (sy_world s') i x'"
    and "\<And>i. sy_inst s i = None \<Longrightarrow> sy_inst s' i = None"
  shows "at m al pr c e T s'"
proof -
  have pre: "\<exists>x. sy_inst s i = Some x \<and> in_epoch x' = in_epoch x \<and> in_spec x' = in_spec x \<and>
      shape_ok al (sy_world s') i x'" if "sy_inst s' i = Some x'" for i x'
    using assms(7) [of i] assms(8) [of i] that by (cases "sy_inst s i") auto
  have "inst_safe m al pr s' i x'" if x: "sy_inst s' i = Some x'" for i x'
  proof -
    from pre [OF x] obtain y where y: "sy_inst s i = Some y" "in_epoch x' = in_epoch y"
      "in_spec x' = in_spec y" "shape_ok al (sy_world s') i x'" by blast
    with assms(1) have "inst_safe m al pr s i y" by (simp add: at_def)
    with y assms(3-6) show ?thesis by (auto simp: inst_safe_def)
  qed
  moreover have "\<exists>x. sy_inst s' i = Some x \<and> accounted c T i x" if a: "al (sy_world s') i" for i
  proof -
    from assms(5) [OF a] assms(1) obtain y where y: "sy_inst s i = Some y" "accounted c T i y"
      by (auto simp: at_def)
    with assms(7) [OF y(1)] show ?thesis by (auto simp: accounted_def)
  qed
  moreover have "\<forall>(i, E) \<in> T. \<exists>x. sy_inst s' i = Some x \<and> in_epoch x = E"
    using assms(1,7) by (fastforce simp: at_def)
  moreover have "ctrl_ok m c s'"
    using assms(1,7) unfolding at_def ctrl_ok_def by fastforce
  ultimately show ?thesis
    using assms(1-3) by (auto simp: at_def)
qed

section \<open>Other tasks\<close>

lemma shape_ok_mono: "shape_ok al w i x \<Longrightarrow> (al w' i \<Longrightarrow> al w i) \<Longrightarrow> shape_ok al w' i x"
  unfolding shape_ok_def shape_def by blast

lemma shape_ok_step:
  assumes "shape_ok al w i x" and "inst_step ch (in_monitor x, in_shared x) e = (mo, sh)"
    and "\<And>ck me. e = EMon ck me \<Longrightarrow> ends_supervision me \<Longrightarrow> \<not> al w i"
  shows "shape_ok al w i (x\<lparr>in_monitor := mo, in_shared := sh\<rparr>)"
proof -
  let ?t = "is_terminal (ist_state (sh_status sh))"
  have "shape (al w i) ?t (mo = None) (in_handle x)"
  proof (cases "(\<exists>obs pe. e = EOut obs pe) \<or> in_monitor x = None")
    case True
    then have "mo = in_monitor x" "sh_status sh = sh_status (in_shared x)"
      using assms(2) by (cases e; auto)+
    with assms(1) show ?thesis by (simp add: shape_ok_def terminal_def)
  next
    case False
    then obtain ck me mn where e: "e = EMon ck me" and mn: "in_monitor x = Some mn"
      by (cases e) auto
    then have step: "monitor_step ck me (mn, in_shared x) = (mo, sh)" using assms(2) by simp
    have nt: "\<not> terminal x" "in_handle x"
      using assms(1) mn unfolding shape_ok_def shape_def by auto
    note st = monitor_step_state [OF step]
    show ?thesis
    proof (cases "ends_supervision me")
      case True
      with st assms(3) [OF e True] show ?thesis by (simp add: shape_def)
    next
      case False
      with st nt have "mo \<noteq> None \<and> \<not> ?t" by (auto simp: terminal_def)
      with nt show ?thesis by (simp add: shape_def)
    qed
  qed
  then show ?thesis by (simp add: shape_ok_def terminal_def)
qed

lemma at_status [simp]: "at m al pr c e T (s\<lparr>sy_status := st\<rparr>) = at m al pr c e T s"
  by (simp add: at_def inst_safe_def ctrl_ok_def)

lemma at_forwarders [simp]: "at m al pr c e T (s\<lparr>sy_forwarders := fs\<rparr>) = at m al pr c e T s"
  by (simp add: at_def inst_safe_def ctrl_ok_def)

lemma at_cache [simp]: "at m al pr c e T (s\<lparr>sy_cache := cs\<rparr>) = at m al pr c e T s"
  by (simp add: at_def inst_safe_def ctrl_ok_def)

lemma at_temp [simp]: "at m al pr c e T (s\<lparr>sy_temp := t\<rparr>) = at m al pr c e T s"
  by (simp add: at_def inst_safe_def ctrl_ok_def)

lemma at_sink [simp]: "at m al pr c e T (s\<lparr>sy_sink := b\<rparr>) = at m al pr c e T s"
  by (simp add: at_def inst_safe_def ctrl_ok_def)

lemma at_shape: "at m al pr c e T s \<Longrightarrow> sy_inst s i = Some x \<Longrightarrow> shape_ok al (sy_world s) i x"
  by (simp add: at_def inst_safe_def)

text \<open>Replacing the runtime data of one instance.\<close>

lemma at_upd_inst:
  assumes "at m al pr c e T s"
    and "\<And>x. sy_inst s i = Some x \<Longrightarrow> in_epoch (f x) = in_epoch x \<and> in_spec (f x) = in_spec x \<and>
      shape_ok al (sy_world s) i (f x)"
  shows "at m al pr c e T (upd_inst i f s)"
proof (cases "sy_inst s i")
  case None
  with assms(1) show ?thesis by (simp add: upd_inst_def)
next
  case (Some y)
  with assms show ?thesis
    by (intro at_tame [OF assms(1)]) (auto simp: upd_inst_def dest: at_shape split: if_splits)
qed

lemma at_deliver:
  assumes "at m al pr c e T s" and "\<And>i. i \<in> ended [ie] \<Longrightarrow> \<not> al (sy_world s) i"
  shows "at m al pr c e T (deliver ev s ie)"
proof (cases ie)
  case (IInst i ev')
  show ?thesis
  proof (cases "sy_inst s i")
    case None
    with assms(1) IInst show ?thesis by (simp add: deliver_inst_def)
  next
    case (Some x)
    obtain mo sh where st: "inst_step (ev_chrono ev) (in_monitor x, in_shared x) ev' = (mo, sh)"
      by fastforce
    have "shape_ok al (sy_world s) i (x\<lparr>in_monitor := mo, in_shared := sh\<rparr>)"
      using at_shape [OF assms(1) Some] st assms(2) IInst
      by (intro shape_ok_step) (auto simp: ended_def)
    moreover have "deliver ev s ie = upd_inst i (\<lambda>x. x\<lparr>in_monitor := mo, in_shared := sh\<rparr>) s"
      using IInst Some st by (simp add: deliver_inst_def upd_inst_def)
    ultimately show ?thesis using assms(1) Some by (auto intro: at_upd_inst)
  qed
next
  case (IForward i now)
  with assms(1) show ?thesis by (auto simp: forward_def Let_def split: option.split)
qed

lemma at_delivers:
  "at m al pr c e T s \<Longrightarrow> (\<And>i. i \<in> ended es \<Longrightarrow> \<not> al (sy_world s) i) \<Longrightarrow>
   at m al pr c e T (foldl (deliver ev) s es)"
proof (induction es arbitrary: s)
  case (Cons ie es)
  have "at m al pr c e T (deliver ev s ie)"
    using Cons.prems by (intro at_deliver) (auto simp: ended_def)
  then show ?case
    using Cons.IH [of "deliver ev s ie"] Cons.prems(2) by (fastforce simp: ended_def)
qed simp

lemma at_world:
  assumes "at m al pr c e T s" and "\<And>i. al w i \<Longrightarrow> al (sy_world s) i" and "\<And>i. pr w i = pr (sy_world s) i"
  shows "at m al pr c e T (s\<lparr>sy_world := w\<rparr>)"
proof (rule at_tame [OF assms(1)])
  fix i x
  assume "sy_inst s i = Some x"
  moreover have "shape_ok al w i x"
    using at_shape [OF assms(1) \<open>sy_inst s i = Some x\<close>] assms(2) [of i]
    unfolding shape_ok_def shape_def by blast
  ultimately show "\<exists>x'. sy_inst (s\<lparr>sy_world := w\<rparr>) i = Some x' \<and> in_epoch x' = in_epoch x \<and>
      in_spec x' = in_spec x \<and> shape_ok al (sy_world (s\<lparr>sy_world := w\<rparr>)) i x'"
    by simp
qed (use assms(2,3) in auto)

text \<open>What the environment promises of the events it delivers.\<close>

lemma env_events:
  assumes "env_ok al pr ev"
  shows "al (snd (ev_events ev w)) i \<Longrightarrow> al w i" "pr (snd (ev_events ev w)) i = pr w i"
    "i \<in> ended (fst (ev_events ev w)) \<Longrightarrow> \<not> al (snd (ev_events ev w)) i"
    "al (snd (ev_wait ev w)) i \<Longrightarrow> al w i" "pr (snd (ev_wait ev w)) i = pr w i"
    "i \<in> ended (concat (fst (ev_wait ev w))) \<Longrightarrow> \<not> al (snd (ev_wait ev w)) i"
proof -
  have "quiet al pr (ev_events ev)" "quiet al pr (ev_wait ev)"
    and d: "\<forall>w i. i \<in> ended (fst (ev_events ev w)) \<longrightarrow> \<not> al (snd (ev_events ev w)) i"
    "\<forall>w i. i \<in> ended (concat (fst (ev_wait ev w))) \<longrightarrow> \<not> al (snd (ev_wait ev w)) i"
    using assms unfolding env_ok_def events_ok_def by blast+
  then have "al (snd (ev_events ev w)) i \<longrightarrow> al w i" "pr (snd (ev_events ev w)) i = pr w i"
    "al (snd (ev_wait ev w)) i \<longrightarrow> al w i" "pr (snd (ev_wait ev w)) i = pr w i"
    unfolding quiet_def by blast+
  then show "al (snd (ev_events ev w)) i \<Longrightarrow> al w i" "pr (snd (ev_events ev w)) i = pr w i"
    "al (snd (ev_wait ev w)) i \<Longrightarrow> al w i" "pr (snd (ev_wait ev w)) i = pr w i"
    by blast+
  show "i \<in> ended (fst (ev_events ev w)) \<Longrightarrow> \<not> al (snd (ev_events ev w)) i"
    "i \<in> ended (concat (fst (ev_wait ev w))) \<Longrightarrow> \<not> al (snd (ev_wait ev w)) i"
    using d by blast+
qed

lemma at_interfere:
  assumes "env_ok al pr ev" and "at m al pr c e T s"
  shows "at m al pr c e T (interfere ev s)"
  unfolding interfere_eq
proof (rule at_delivers)
  show "at m al pr c e T (s\<lparr>sy_world := snd (ev_events ev (sy_world s))\<rparr>)"
    using env_events(1,2) [OF assms(1)] by (intro at_world assms(2))
  show "\<And>i. i \<in> ended (fst (ev_events ev (sy_world s))) \<Longrightarrow>
      \<not> al (sy_world (s\<lparr>sy_world := snd (ev_events ev (sy_world s))\<rparr>)) i"
    using env_events(3) [OF assms(1)] by simp
qed

end
