(* ===== verification/Manager_Rules.thy ===== *)
theory Manager_Rules
  imports Manager_Inv
begin

text \<open>
  Rules for the building blocks of the manager's operations: the effects of the runtime store
  and of the version probe keep the invariant; spawning adds an instance to those in hand;
  stopping one either proves its death or fails with \<^verbatim>\<open>StopUnconfirmed\<close>.
\<close>

section \<open>Operations that keep an assertion\<close>

definition keeps :: "('s \<Rightarrow> bool) \<Rightarrow> ('s, 'a) state \<Rightarrow> bool" where
  "keeps S op \<longleftrightarrow> (\<forall>s. S s \<longrightarrow> wp op (\<lambda>_. S) s)"

named_theorems keeps_intros \<open>introduction rules for \<open>keeps\<close>\<close>

lemma keepsD: "keeps S op \<Longrightarrow> S s \<Longrightarrow> (\<And>a s'. S s' \<Longrightarrow> Q a s') \<Longrightarrow> wp op Q s"
  by (auto simp: keeps_def intro: wp_mono)

lemma keeps_ret [keeps_intros]: "keeps S (ret a)"
  by (simp add: keeps_def wp_simps)

lemma keeps_lift [keeps_intros]: "keeps S (lift_result r)"
  by (simp add: keeps_def wp_simps)

lemma keeps_gets [keeps_intros]: "keeps S (gets f)"
  by (simp add: keeps_def wp_simps)

lemma keeps_modify: "(\<And>s. S s \<Longrightarrow> S (f s)) \<Longrightarrow> keeps S (modify f)"
  by (simp add: keeps_def wp_simps)

lemma keeps_bind [keeps_intros]:
  "keeps S op \<Longrightarrow> (\<And>a. keeps S (f a)) \<Longrightarrow> keeps S (State_Monad.bind op f)"
  by (auto simp: keeps_def wp_simps intro: wp_mono)

lemma keeps_try [keeps_intros]:
  "keeps S op \<Longrightarrow> (\<And>a. keeps S (f a)) \<Longrightarrow> keeps S (try_op op f)"
  by (auto simp: try_op_def intro!: keeps_bind keeps_ret split: sum.split)

lemma keeps_ignore [keeps_intros]: "keeps S op \<Longrightarrow> keeps S (ignore op)"
  by (auto simp: ignore_def intro!: keeps_intros)

lemma keeps_if [keeps_intros]:
  "(b \<Longrightarrow> keeps S x) \<Longrightarrow> (\<not> b \<Longrightarrow> keeps S y) \<Longrightarrow> keeps S (if b then x else y)"
  by simp

lemma keeps_case_option [keeps_intros]:
  "keeps S n \<Longrightarrow> (\<And>x. keeps S (f x)) \<Longrightarrow> keeps S (case v of None \<Rightarrow> n | Some x \<Rightarrow> f x)"
  by (simp split: option.split)

lemma keeps_case_sum [keeps_intros]:
  "(\<And>x. keeps S (f x)) \<Longrightarrow> (\<And>x. keeps S (g x)) \<Longrightarrow>
   keeps S (case v of Inl x \<Rightarrow> f x | Inr x \<Rightarrow> g x)"
  by (simp split: sum.split)

lemma keeps_case_prod [keeps_intros]:
  "(\<And>x y. keeps S (f x y)) \<Longrightarrow> keeps S (case v of (x, y) \<Rightarrow> f x y)"
  by (simp split: prod.split)

lemma keeps_let [keeps_intros]: "(\<And>x. keeps S (f x)) \<Longrightarrow> keeps S (Let v f)"
  by simp

section \<open>Effects\<close>

text \<open>The invariant, and the instances of \<open>D\<close> are dead.\<close>

definition atd ::
  "'w manager \<Rightarrow> ('w \<Rightarrow> nat \<Rightarrow> bool) \<Rightarrow> ('w \<Rightarrow> nat \<Rightarrow> path option) \<Rightarrow> ctrl \<Rightarrow> u64 \<Rightarrow>
   (nat \<times> u64) set \<Rightarrow> nat set \<Rightarrow> 'w sys \<Rightarrow> bool" where
  "atd m al pr c e T D s \<longleftrightarrow> at m al pr c e T s \<and> (\<forall>i \<in> D. \<not> al (sy_world s) i)"

lemma atd_empty [simp]: "atd m al pr c e T {} = at m al pr c e T"
  by (auto simp: atd_def)

lemma interfere_dead: "env_ok al pr ev \<Longrightarrow> \<not> al (sy_world s) i \<Longrightarrow> \<not> al (sy_world (interfere ev s)) i"
  using env_events(1) [of al pr ev "sy_world s" i] by (auto simp: interfere_eq)

lemma atd_ext:
  assumes "env_ok al pr ev" and "quiet al pr op" and "atd m al pr c e T D s"
  shows "atd m al pr c e T D (interfere ev (s\<lparr>sy_world := snd (op (sy_world s))\<rparr>))"
proof -
  have q: "al (snd (op (sy_world s))) i \<Longrightarrow> al (sy_world s) i"
    "pr (snd (op (sy_world s))) i = pr (sy_world s) i" for i
    using assms(2) by (auto simp: quiet_def)
  have "at m al pr c e T (s\<lparr>sy_world := snd (op (sy_world s))\<rparr>)"
    using assms(3) q by (intro at_world) (auto simp: atd_def)
  moreover have "\<not> al (sy_world (interfere ev (s\<lparr>sy_world := snd (op (sy_world s))\<rparr>))) i" if "i \<in> D" for i
    using that assms(3) q by (intro interfere_dead [OF assms(1)]) (auto simp: atd_def)
  ultimately show ?thesis
    using assms(1) by (simp add: atd_def at_interfere)
qed

lemma keeps_ext: "env_ok al pr ev \<Longrightarrow> quiet al pr op \<Longrightarrow> keeps (atd m al pr c e T D) (ext ev op)"
  by (auto simp: keeps_def wp_ext atd_ext)

lemma keeps_ext_io: "env_ok al pr ev \<Longrightarrow> quiet al pr op \<Longrightarrow> keeps (atd m al pr c e T D) (ext_io ev op)"
  unfolding ext_io_def by (intro keeps_intros keeps_ext)

lemma keeps_ext_fs: "env_ok al pr ev \<Longrightarrow> quiet al pr op \<Longrightarrow> keeps (atd m al pr c e T D) (ext_fs ev op)"
  unfolding ext_fs_def by (intro keeps_intros keeps_ext)

lemmas keeps_effects = keeps_ext keeps_ext_io keeps_ext_fs env_ok_quiet

lemma atd_simps [simp]:
  "atd m al pr c e T D (s\<lparr>sy_status := st\<rparr>) = atd m al pr c e T D s"
  "atd m al pr c e T D (s\<lparr>sy_cache := cs\<rparr>) = atd m al pr c e T D s"
  "atd m al pr c e T D (s\<lparr>sy_temp := t\<rparr>) = atd m al pr c e T D s"
  "atd m al pr c e T D (s\<lparr>sy_forwarders := fs\<rparr>) = atd m al pr c e T D s"
  by (simp_all add: atd_def)

section \<open>Store, versions, checks and publication\<close>

lemma keeps_case_platform [keeps_intros]:
  "keeps S x \<Longrightarrow> keeps S y \<Longrightarrow> keeps S (case p of Windows \<Rightarrow> x | Unix \<Rightarrow> y)"
  by (simp split: platform.split)

lemma keeps_case_meta [keeps_intros]:
  "(\<And>x. keeps S (f x)) \<Longrightarrow> (\<And>x. keeps S (g x)) \<Longrightarrow> (\<And>x. keeps S (h x)) \<Longrightarrow>
   keeps S (case v of MetaFound x \<Rightarrow> f x | MetaNotFound x \<Rightarrow> g x | MetaFailed x \<Rightarrow> h x)"
  by (simp split: meta_answer.split)

lemma keeps_status [keeps_intros]: "keeps (atd m al pr c e T D) (modify (\<lambda>s. s\<lparr>sy_status := f s\<rparr>))"
  by (rule keeps_modify) simp

lemma keeps_cache [keeps_intros]: "keeps (atd m al pr c e T D) (modify (\<lambda>s. s\<lparr>sy_cache := f s\<rparr>))"
  by (rule keeps_modify) simp

lemma keeps_temp [keeps_intros]: "keeps (atd m al pr c e T D) (modify (\<lambda>s. s\<lparr>sy_temp := f s\<rparr>))"
  by (rule keeps_modify) simp

lemma keeps_forwarders [keeps_intros]:
  "keeps (atd m al pr c e T D) (modify (\<lambda>s. s\<lparr>sy_forwarders := f s\<rparr>))"
  by (rule keeps_modify) simp

lemma keeps_drop_staged: "env_ok al pr ev \<Longrightarrow> keeps (atd m al pr c e T D) (drop_staged ev p)"
  unfolding drop_staged_def by (intro keeps_intros keeps_effects)

lemma keeps_or_drop:
  "env_ok al pr ev \<Longrightarrow> keeps (atd m al pr c e T D) op \<Longrightarrow> keeps (atd m al pr c e T D) (or_drop ev p op)"
  unfolding or_drop_def by (intro keeps_intros keeps_drop_staged)

lemma keeps_stage: "env_ok al pr ev \<Longrightarrow> keeps (atd m al pr c e T D) (stage ev dir epoch contents)"
  unfolding stage_def by (intro keeps_intros keeps_effects)

lemma keeps_validate_staged:
  "env_ok al pr ev \<Longrightarrow> keeps (atd m al pr c e T D) (validate_staged ev dir p epoch)"
  unfolding validate_staged_def by (intro keeps_intros keeps_effects)

lemmas keeps_store_steps =
  keeps_effects keeps_drop_staged keeps_or_drop keeps_stage keeps_validate_staged

lemma keeps_commit_new:
  "env_ok al pr ev \<Longrightarrow> keeps (atd m al pr c e T D) (commit_new ev dir p epoch)"
  unfolding commit_new_def by (intro keeps_intros keeps_store_steps)

lemma keeps_commit_replace:
  "env_ok al pr ev \<Longrightarrow> keeps (atd m al pr c e T D) (commit_replace ev dir p epoch)"
  unfolding commit_replace_def by (intro keeps_intros keeps_store_steps)

lemma keeps_store_backup:
  "env_ok al pr ev \<Longrightarrow> keeps (atd m al pr c e T D) (store_backup ev dir epoch generation)"
  unfolding store_backup_def by (intro keeps_intros keeps_store_steps)

lemma keeps_store_restore: "env_ok al pr ev \<Longrightarrow> keeps (atd m al pr c e T D) (store_restore ev dir b)"
  unfolding store_restore_def store_replace_def
  by (intro keeps_intros keeps_store_steps keeps_commit_replace)

lemma keeps_remove_backup: "env_ok al pr ev \<Longrightarrow> keeps (atd m al pr c e T D) (remove_backup ev b)"
  unfolding remove_backup_def by (intro keeps_effects)

lemma keeps_cleanup_entries:
  "env_ok al pr ev \<Longrightarrow> keeps (atd m al pr c e T D) (cleanup_entries ev dir epoch es)"
  by (induction ev dir epoch es rule: cleanup_entries.induct)
    (auto intro!: keeps_intros keeps_effects)

lemma keeps_cleanup: "env_ok al pr ev \<Longrightarrow> keeps (atd m al pr c e T D) (cleanup_epoch ev dir epoch)"
  unfolding cleanup_epoch_def remove_socket_artifact_def
  by (intro keeps_intros keeps_effects keeps_cleanup_entries)

lemma keeps_run_check: "env_ok al pr ev \<Longrightarrow> keeps (atd m al pr c e T D) (check_config ev spec)"
  unfolding check_config_def run_check_def by (intro keeps_intros keeps_effects)

lemma keeps_features:
  "env_ok al pr ev \<Longrightarrow> keeps (atd m al pr c e T D) (resolve_features ev core policy)"
  unfolding resolve_features_def version_resolve_def binary_modified_def probe_version_def
  by (intro keeps_intros keeps_effects)

lemma keeps_load: "env_ok al pr ev \<Longrightarrow> keeps (atd m al pr c e T D) (load_snapshot ev p)"
  unfolding load_snapshot_def by (intro keeps_intros keeps_effects)

lemma keeps_publish [keeps_intros]: "keeps (atd m al pr c e T D) (publish m' state spec controller revision)"
  unfolding publish_def now_ms_def by (intro keeps_intros)

lemma keeps_publish_instance [keeps_intros]:
  "keeps (atd m al pr c e T D) (publish_instance m' i state spec revision caps rfs)"
  unfolding publish_instance_def now_ms_def
  by (intro keeps_intros keeps_modify) (simp split: option.split)

lemma keeps_publications [keeps_intros]:
  "keeps (atd m al pr c e T D) (publish_active m' a state)"
  "keeps (atd m al pr c e T D) (publish_terminal_error m' err)"
  "keeps (atd m al pr c e T D) (republish_retained m')"
  "keeps (atd m al pr c e T D) (publish_launch m' state p)"
  "keeps (atd m al pr c e T D) (publish_of_active m' state a)"
  "keeps (atd m al pr c e T D) (publish_restarting m' a controller)"
  "keeps (atd m al pr c e T D) (spawn_forwarder i epoch)"
  unfolding publish_active_def publish_terminal_error_def republish_retained_def publish_launch_def
    publish_of_active_def publish_restarting_def spawn_forwarder_def
  by (intro keeps_intros)+

lemma keeps_abort:
  "env_ok al pr (mg_env m') \<Longrightarrow> keeps (atd m al pr c e T D) (abort_and_await m' i)"
  unfolding abort_and_await_def by (intro keeps_intros keeps_effects)

text \<open>The preparations of a launch.\<close>

lemma keeps_validate_launchable:
  "env_ok al pr (mg_env m') \<Longrightarrow> keeps (atd m al pr c e T D) (validate_launchable m' spec)"
  unfolding validate_launchable_def by (intro keeps_intros keeps_effects)

lemma keeps_stage_checked:
  "env_ok al pr (mg_env m') \<Longrightarrow> keeps (atd m al pr c e T D) (stage_checked m' spec epoch bytes)"
  unfolding stage_checked_def by (intro keeps_intros keeps_store_steps keeps_run_check)

lemma keeps_manager_features:
  "env_ok al pr (mg_env m') \<Longrightarrow> keeps (atd m al pr c e T D) (manager_features m' core)"
  unfolding manager_features_def by (rule keeps_features)

lemma keeps_manager_cleanup:
  "env_ok al pr (mg_env m') \<Longrightarrow> keeps (atd m al pr c e T D) (manager_cleanup m' epoch)"
  unfolding manager_cleanup_def by (rule keeps_cleanup)

lemmas keeps_steps = keeps_effects keeps_drop_staged keeps_or_drop keeps_stage keeps_commit_new
  keeps_commit_replace keeps_store_backup keeps_store_restore keeps_remove_backup keeps_cleanup
  keeps_run_check keeps_load keeps_abort keeps_validate_launchable keeps_stage_checked
  keeps_manager_features keeps_manager_cleanup

end
