(* ===== verification/Instance_Rules.thy ===== *)
theory Instance_Rules
  imports Manager_Rules
begin

text \<open>
  Rules for the operations on an instance: waiting and probing keep the invariant, spawning adds
  the new instance to those in hand, and a stop either proves the death of the instance or
  fails with \<^verbatim>\<open>StopUnconfirmed\<close>.
\<close>

lemma upd_inst_simps [simp]:
  "sy_world (upd_inst i f s) = sy_world s" "sy_ctrl (upd_inst i f s) = sy_ctrl s"
  "sy_epoch (upd_inst i f s) = sy_epoch s" "sy_next (upd_inst i f s) = sy_next s"
  by (simp_all add: upd_inst_def split: option.split)

lemma upd_shared_simps [simp]: "sy_world (upd_shared i f s) = sy_world s"
  by (simp add: upd_shared_def)

lemma atd_upd_inst:
  assumes "atd m al pr c e T D s"
    and "\<And>x. sy_inst s i = Some x \<Longrightarrow> in_epoch (f x) = in_epoch x \<and> in_spec (f x) = in_spec x \<and>
      shape_ok al (sy_world s) i (f x)"
  shows "atd m al pr c e T D (upd_inst i f s)"
  using assms by (auto simp: atd_def intro: at_upd_inst)

lemma atd_shape: "atd m al pr c e T D s \<Longrightarrow> sy_inst s i = Some x \<Longrightarrow> shape_ok al (sy_world s) i x"
  by (auto simp: atd_def dest: at_shape)

text \<open>A change of the shared data that does not touch whether the state is terminal.\<close>

lemma atd_upd_shared:
  assumes "atd m al pr c e T D s"
    and "\<And>sh. is_terminal (ist_state (sh_status (f sh))) = is_terminal (ist_state (sh_status sh))"
  shows "atd m al pr c e T D (upd_shared i f s)"
  unfolding upd_shared_def
  using assms atd_shape [OF assms(1)]
  by (intro atd_upd_inst) (auto simp: shape_ok_def terminal_def)

section \<open>Waiting and probing\<close>

lemma keeps_shared_read:
  assumes "\<And>sh. sh_status (snd (f sh)) = sh_status sh"
  shows "keeps (atd m al pr c e T D) (shared_read i f)"
  using assms
  by (auto simp: keeps_def shared_read_def wp_def split: option.split intro: atd_upd_shared)

lemma keeps_stopped_before_ready: "keeps (atd m al pr c e T D) (stopped_before_ready i reason)"
  unfolding stopped_before_ready_def
  by (intro keeps_intros keeps_shared_read)
    (simp add: failure_summary_def diagnostic_frames_def Let_def)

lemma ended_append: "ended (xs @ ys) = ended xs \<union> ended ys"
  by (auto simp: ended_def)

lemma wp_wait_loop:
  assumes "atd m al pr c e T D s" and "\<forall>i \<in> ended (concat bs). \<not> al (sy_world s) i"
  shows "wp (wait_loop ev i bs) (\<lambda>_. atd m al pr c e T D) s"
  using assms
proof (induction bs arbitrary: s)
  case Nil
  have "keeps (atd m al pr c e T D) (shared_read i diagnostics)"
    by (intro keeps_shared_read) simp
  with Nil show ?case
    by (subst wait_loop.simps)
      (auto simp: wp_simps intro: keepsD [OF keeps_stopped_before_ready] keepsD
        split: instance_state.split)
next
  case (Cons b bs)
  have "atd m al pr c e T D (foldl (deliver ev) s b)"
    using Cons.prems by (auto simp: atd_def ended_append intro!: at_delivers)
  moreover have "\<forall>i \<in> ended (concat bs). \<not> al (sy_world (foldl (deliver ev) s b)) i"
    using Cons.prems by (auto simp: ended_append)
  ultimately have "wp (wait_loop ev i bs) (\<lambda>_. atd m al pr c e T D) (foldl (deliver ev) s b)"
    by (rule Cons.IH)
  with Cons.prems show ?case
    by (subst wait_loop.simps)
      (auto simp: wp_simps intro: keepsD [OF keeps_stopped_before_ready] split: instance_state.split)
qed

lemma keeps_wait_ready:
  assumes "env_ok al pr ev"
  shows "keeps (atd m al pr c e T D) (wait_ready ev i)"
proof -
  have "wp (wait_ready ev i) (\<lambda>_. atd m al pr c e T D) s" if s: "atd m al pr c e T D s" for s
  proof -
    let ?w = "snd (ev_wait ev (sy_world s))"
    have "at m al pr c e T (s\<lparr>sy_world := ?w\<rparr>)"
      using s env_events(4,5) [OF assms] by (intro at_world) (auto simp: atd_def)
    then have "atd m al pr c e T D (s\<lparr>sy_world := ?w\<rparr>)"
      using s env_events(4) [OF assms] by (auto simp: atd_def)
    moreover have "\<forall>i \<in> ended (concat (fst (ev_wait ev (sy_world s)))). \<not> al ?w i"
      using env_events(6) [OF assms] by blast
    ultimately have "wp (wait_loop ev i (fst (ev_wait ev (sy_world s)))) (\<lambda>_. atd m al pr c e T D)
        (s\<lparr>sy_world := ?w\<rparr>)"
      by (intro wp_wait_loop) simp_all
    then show ?thesis
      by (cases "ev_wait ev (sy_world s)") (simp add: wait_ready_def wp_simps wp_def [of "State _"])
  qed
  then show ?thesis by (simp add: keeps_def)
qed

lemma keeps_probe_now:
  assumes "env_ok al pr ev"
  shows "keeps (atd m al pr c e T D) (probe_now ev i phase)"
proof -
  have "wp (probe_now ev i phase) (\<lambda>_. atd m al pr c e T D) s" if s: "atd m al pr c e T D s" for s
  proof (cases "Option.bind (sy_inst s i) in_monitor")
    case None
    with s show ?thesis by (simp add: probe_now_def wp_simps)
  next
    case (Some mn)
    then obtain x where x: "sy_inst s i = Some x" "in_monitor x = Some mn" by (auto simp: bind_eq_Some_conv)
    obtain reply mn' where r: "probe_request i mn = (reply, mn')" by fastforce
    have "atd m al pr c e T D (upd_inst i (\<lambda>inst. inst\<lparr>in_monitor := Some mn'\<rparr>) s)"
      using atd_shape [OF s x(1)] x
      by (intro atd_upd_inst [OF s]) (auto simp: shape_ok_def terminal_def)
    with s Some r assms show ?thesis
      by (auto simp: probe_now_def wp_simps split: probe_reply.split
          intro!: keepsD [OF keeps_ext] env_ok_quiet)
  qed
  then show ?thesis by (simp add: keeps_def)
qed

lemma keeps_reconcile:
  assumes "env_ok al pr (mg_env m')"
  shows "keeps (atd m al pr c e T D) (reconcile_probe m' i)"
    and "keeps (atd m al pr c e T D) (patch_and_verify m' i patch projection)"
    and "keeps (atd m al pr c e T D) (reconcile_in_place m' a change desired)"
proof -
  show 1: "keeps (atd m al pr c e T D) (reconcile_probe m' i)" for i
    unfolding reconcile_probe_def timed_def by (intro keeps_intros keeps_probe_now assms)
  show 2: "keeps (atd m al pr c e T D) (patch_and_verify m' i patch projection)" for i patch projection
    unfolding patch_and_verify_def timed_def by (intro keeps_intros keeps_effects 1 assms)
  show "keeps (atd m al pr c e T D) (reconcile_in_place m' a change desired)"
    unfolding reconcile_in_place_def timed_def
    by (cases change) (auto intro!: keeps_intros keeps_effects 1 2 assms)
qed

section \<open>Spawning\<close>

lemma plain_names [simp]:
  "plain_name plat (pid_name epoch)" "plain_name plat (runtime_name epoch)"
proof -
  have "\<not> is_separator plat ch" if "ch \<in> set (show_u64 epoch)" for ch
  proof -
    have "is_ascii_digit ch" using that by (simp add: show_u64_def)
    then show ?thesis by (auto simp: is_separator_def is_ascii_digit_def)
  qed
  then have "list_all (\<lambda>c. \<not> is_separator plat c) (show_u64 epoch)" by (simp add: list_all_iff)
  moreover have "list_all (\<lambda>c. \<not> is_separator Windows c) ''core-config-.pid.yaml''"
    "list_all (\<lambda>c. \<not> is_separator Unix c) ''core-config-.pid.yaml''"
    by code_simp+
  then have "list_all (\<lambda>c. \<not> is_separator plat c) ''core-config-.pid.yaml''"
    by (cases plat) simp_all
  ultimately show "plain_name plat (pid_name epoch)" "plain_name plat (runtime_name epoch)"
    by (simp_all add: plain_name_def pid_name_def runtime_name_def)
qed

lemma epoch_pid_path_ok:
  assumes "spec_ok m epoch spec"
  shows "epoch_pid_path (ev_platform (mg_env m)) spec epoch =
      Some (pid_path (mg_env m) (mg_dir m) epoch)"
    and "\<exists>d. path_parent (ev_platform (mg_env m)) (is_config_path spec) = Some d"
proof -
  let ?p = "ev_platform (mg_env m)"
  show "epoch_pid_path ?p spec epoch = Some (pid_path (mg_env m) (mg_dir m) epoch)"
    using assms parent_join(1) [of ?p "pid_name epoch" "runtime_name epoch" "mg_dir m"]
    by (simp add: epoch_pid_path_def spec_ok_def pid_path_def runtime_path_def)
  show "\<exists>d. path_parent ?p (is_config_path spec) = Some d"
    using assms parent_join(2) [of ?p "runtime_name epoch" "runtime_name epoch" "mg_dir m"]
    by (simp add: spec_ok_def runtime_path_def)
qed


lemma at_fresh: "at m al pr c e T s \<Longrightarrow> \<not> al (sy_world s) (sy_next s) \<and> sy_inst s (sy_next s) = None"
  by (cases "sy_inst s (sy_next s)") (auto simp: at_def inst_safe_def)

lemma at_install:
  assumes "at m al pr c e T s" and "spec_ok m E (in_spec x)" and "in_epoch x = E" "unat E \<le> unat e"
    and "shape False (terminal x) (in_monitor x = None) (in_handle x)"
  shows "at m al pr c e T (s\<lparr>sy_next := sy_next s + 1, sy_inst := (sy_inst s)(sy_next s \<mapsto> x)\<rparr>)"
proof -
  let ?s = "s\<lparr>sy_next := sy_next s + 1, sy_inst := (sy_inst s)(sy_next s \<mapsto> x)\<rparr>"
  note fresh = at_fresh [OF assms(1)]
  have "inst_safe m al pr ?s i y" if y: "sy_inst ?s i = Some y" for i y
  proof (cases "i = sy_next s")
    case True
    with y assms fresh show ?thesis
      by (simp add: inst_safe_def shape_ok_def at_def)
  next
    case False
    with y assms(1) have "inst_safe m al pr s i y" by (simp add: at_def)
    then show ?thesis by (simp add: inst_safe_def)
  qed
  moreover have "ctrl_ok m c ?s" using assms(1) fresh unfolding at_def ctrl_ok_def by fastforce
  ultimately show ?thesis
    using assms(1) fresh unfolding at_def by fastforce
qed

text \<open>What the environment promises of a spawn.\<close>

lemma env_spawn:
  assumes "env_ok al pr ev"
  shows "j \<noteq> i \<Longrightarrow> al (snd (ev_spawn ev i cmd opts w)) j \<Longrightarrow> al w j"
    "j \<noteq> i \<Longrightarrow> pr (snd (ev_spawn ev i cmd opts w)) j = pr w j"
    "isl (fst (ev_spawn ev i cmd opts w)) \<Longrightarrow> \<not> al (snd (ev_spawn ev i cmd opts w)) i"
    "pr (snd (ev_spawn ev i cmd opts w)) i = map_option fst (cmd_epoch_pid_file cmd)"
proof -
  have "spawn_ok al pr ev" using assms by (simp add: env_ok_def)
  note ok = this [unfolded spawn_ok_def, THEN spec, THEN spec, THEN spec, THEN spec]
  from ok [of i cmd opts w]
  show "j \<noteq> i \<Longrightarrow> al (snd (ev_spawn ev i cmd opts w)) j \<Longrightarrow> al w j"
    "j \<noteq> i \<Longrightarrow> pr (snd (ev_spawn ev i cmd opts w)) j = pr w j"
    "isl (fst (ev_spawn ev i cmd opts w)) \<Longrightarrow> \<not> al (snd (ev_spawn ev i cmd opts w)) i"
    "pr (snd (ev_spawn ev i cmd opts w)) i = map_option fst (cmd_epoch_pid_file cmd)"
    by blast+
qed

text \<open>The world after a spawn: only the new instance may have come to life, and it is in hand.\<close>

lemma at_spawned:
  assumes "at m al pr c e T s" and "sy_inst s i = Some x" and "in_epoch x = E" and "\<not> terminal x"
    and "\<And>j. j \<noteq> i \<Longrightarrow> al w j \<Longrightarrow> al (sy_world s) j" "\<And>j. j \<noteq> i \<Longrightarrow> pr w j = pr (sy_world s) j"
    and "pr w i = Some (pid_path (mg_env m) (mg_dir m) E)"
  shows "at m al pr c e (insert (i, E) T) (s\<lparr>sy_world := w\<rparr>)"
proof -
  have "inst_safe m al pr (s\<lparr>sy_world := w\<rparr>) j y" if y: "sy_inst s j = Some y" for j y
  proof -
    from y assms(1) have j: "inst_safe m al pr s j y" by (simp add: at_def)
    show ?thesis
    proof (cases "j = i")
      case True
      then have x: "y = x" using y assms(2) by simp
      have "shape_ok al w i x"
        using j True x assms(4) by (auto simp: inst_safe_def shape_ok_def shape_def)
      with True x j assms(3,7) show ?thesis by (simp add: inst_safe_def)
    next
      case False
      have "shape_ok al (sy_world s) j y" using j by (simp add: inst_safe_def)
      then have "shape_ok al w j y"
        by (rule shape_ok_mono) (use assms(5) False in blast)
      then show ?thesis
        using False j assms(5,6) [of j] unfolding inst_safe_def by simp
    qed
  qed
  moreover have "\<exists>y. sy_inst s j = Some y \<and> accounted c (insert (i, E) T) j y" if "al w j" for j
  proof (cases "j = i")
    case True
    with assms(2,3) show ?thesis by (simp add: accounted_def)
  next
    case False
    with assms(5) that have "al (sy_world s) j" by blast
    with assms(1) show ?thesis by (fastforce simp: at_def accounted_def)
  qed
  moreover have "ctrl_ok m c (s\<lparr>sy_world := w\<rparr>)"
    using assms(1) by (simp add: at_def ctrl_ok_def)
  ultimately show ?thesis
    using assms(1-3) by (auto simp: at_def)
qed

lemma at_less: "at m al pr c e (insert (i, E) T) s \<Longrightarrow> \<not> al (sy_world s) i \<Longrightarrow> at m al pr c e T s"
  unfolding at_def accounted_def by fastforce

lemma wp_install:
  "wp (install_inst ev liveness spec epoch controller) Q s =
     Q (sy_next s) (s\<lparr>sy_next := sy_next s + 1,
       sy_inst := (sy_inst s)(sy_next s \<mapsto>
         \<lparr>in_epoch = epoch, in_spec = spec, in_controller = controller,
          in_shared = (shared_new (cs_kind (is_core spec)) epoch (ev_now_ms ev (sy_world s)))
            \<lparr>sh_supervisor := True\<rparr>,
          in_monitor = Some (monitor_new (is_options spec) liveness
            (ev_instant ev (sy_world s) + io_startup_timeout (is_options spec))),
          in_handle = True\<rparr>)\<rparr>)"
  by (simp add: install_inst_def wp_def Let_def)

lemma wp_spawn_process:
  assumes "env_ok al pr (mg_env m)" and "at m al pr c e T s" and "spec_ok m E spec"
    and "unat E \<le> unat e"
  shows "wp (spawn_process (mg_env m) liveness spec E controller)
    (\<lambda>r. at m al pr c e (case r of Inl _ \<Rightarrow> T | Inr i \<Rightarrow> insert (i, E) T)) s"
proof -
  let ?ev = "mg_env m"
  let ?i = "sy_next s"
  let ?cmd = "build_command (ev_platform ?ev) spec E controller"
  define x where "x = \<lparr>in_epoch = E, in_spec = spec, in_controller = controller,
    in_shared = (shared_new (cs_kind (is_core spec)) E (ev_now_ms ?ev (sy_world s)))
      \<lparr>sh_supervisor := True\<rparr>,
    in_monitor = Some (monitor_new (is_options spec) liveness
      (ev_instant ?ev (sy_world s) + io_startup_timeout (is_options spec))), in_handle = True\<rparr>"
  define s2 where "s2 = s\<lparr>sy_next := ?i + 1, sy_inst := (sy_inst s)(?i \<mapsto> x)\<rparr>"
  have s2: "s2 = s\<lparr>sy_next := ?i + 1, sy_inst := (sy_inst s)(?i \<mapsto> x)\<rparr>"
    "in_spec x = spec" "in_epoch x = E" "\<not> terminal x" "in_monitor x \<noteq> None" "in_handle x"
    by (simp_all add: s2_def x_def terminal_def shared_new_def instance_status_initial_def)
  have inst: "wp (install_inst ?ev liveness spec E controller) Q s = Q ?i s2"
    for Q :: "nat \<Rightarrow> 'a sys \<Rightarrow> bool"
    unfolding s2_def x_def by (rule wp_install)
  have at2: "at m al pr c e T s2"
    unfolding s2(1) using s2(2-6) assms by (intro at_install) (auto simp: shape_def)
  let ?r = "ev_spawn ?ev ?i ?cmd (is_options spec) (sy_world s2)"
  have "cmd_epoch_pid_file ?cmd = Some (pid_path ?ev (mg_dir m) E, E, is_config_path spec)"
    using epoch_pid_path_ok(1) [OF assms(3)] by (simp add: build_command_def Let_def)
  then have "at m al pr c e (insert (?i, E) T) (s2\<lparr>sy_world := snd ?r\<rparr>)"
    using env_spawn [OF assms(1)] s2 by (intro at_spawned [OF at2]) auto
  then have at3: "at m al pr c e (insert (?i, E) T) (interfere ?ev (s2\<lparr>sy_world := snd ?r\<rparr>))"
    by (rule at_interfere [OF assms(1)])
  show ?thesis
  proof (cases "fst ?r")
    case (Inr u)
    with at3 show ?thesis by (simp add: spawn_process_def wp_simps inst wp_ext)
  next
    case (Inl msg)
    let ?s3 = "interfere ?ev (s2\<lparr>sy_world := snd ?r\<rparr>)"
    have dead: "\<not> al (sy_world ?s3) ?i"
      using Inl env_spawn(3) [OF assms(1)] by (intro interfere_dead [OF assms(1)]) simp
    have at4: "at m al pr c e T ?s3" using at3 dead by (rule at_less)
    have "at m al pr c e T (upd_inst ?i (\<lambda>inst. inst\<lparr>in_monitor := None, in_handle := False,
        in_shared := (in_shared inst)\<lparr>sh_supervisor := False\<rparr>\<rparr>) ?s3)"
      by (rule at_upd_inst [OF at4]) (use dead in \<open>auto simp: shape_ok_def shape_def terminal_def\<close>)
    with Inl show ?thesis by (simp add: spawn_process_def wp_simps inst wp_ext)
  qed
qed

lemma wp_spawn:
  assumes "env_ok al pr (mg_env m)" and "at m al pr c e T s" and "spec_ok m E spec"
    and "unat E \<le> unat e"
  shows "wp (manager_spawn m spec E controller)
    (\<lambda>r. at m al pr c e (case r of Inl _ \<Rightarrow> T | Inr i \<Rightarrow> insert (i, E) T)) s"
proof -
  have k: "keeps (at m al pr c e T) (ext (mg_env m) (ev_metadata_ok (mg_env m) p))"
    "keeps (at m al pr c e T) (ext (mg_env m) (ev_client (mg_env m) rc t))" for p rc t
    using keeps_effects(1) [OF assms(1) env_ok_quiet(2) [OF assms(1)], of m c e T "{}"]
      keeps_effects(1) [OF assms(1) env_ok_quiet(18) [OF assms(1)], of m c e T "{}"] by simp_all
  obtain args where args: "run_args (cs_kind (is_core spec)) (is_working_dir spec)
      (is_config_path spec) = Inr args"
    by (cases "cs_kind (is_core spec)") auto
  show ?thesis
    unfolding manager_spawn_def spawn_configured_def
    using assms(2)
    by (auto simp: wp_bind wp_try_op wp_ret wp_lift_result args
        intro!: keepsD [OF k(1)] keepsD [OF k(2)] wp_spawn_process [OF assms(1) _ assms(3,4)]
        split: sum.split)
qed

end
