(* ===== verification/Stop_Rules.thy ===== *)
theory Stop_Rules
  imports Instance_Rules
begin

text \<open>
  Stopping an instance: the stop either succeeds with the process tree proven gone, or fails
  with \<^verbatim>\<open>StopUnconfirmed\<close> and leaves the instance with its caller.
\<close>

lemma wp_bind_fun: "wp (State_Monad.bind op f) Q = wp op (\<lambda>a. wp (f a) Q)"
  by (rule HOL.ext) (rule wp_bind)

lemma wp_ret_fun: "wp (ret a) Q = Q a"
  by (rule HOL.ext) (rule wp_ret)

lemma keeps_verify:
  "env_ok al pr ev \<Longrightarrow> keeps (atd m al pr c e T D) (verify_identity ev context spec epoch)"
  unfolding verify_identity_def reap_epoch_record_if_present_def
  by (intro keeps_intros keeps_effects)

lemma keeps_drop: "env_ok al pr ev \<Longrightarrow> keeps (atd m al pr c e T D) (drop_instance ev i)"
  unfolding drop_instance_def
  by (intro keeps_intros keeps_effects keeps_modify atd_upd_shared) simp_all

text \<open>A verification fails only as \<^verbatim>\<open>StopUnconfirmed\<close>.\<close>

lemma wp_verify:
  assumes "env_ok al pr ev" and "atd m al pr c e T D s"
  shows "wp (verify_identity ev context spec epoch)
    (\<lambda>r s'. atd m al pr c e T D s' \<and> (\<forall>x. r = Inl x \<longrightarrow> is_stop_unconfirmed x)) s"
proof -
  have "keeps (atd m al pr c e T D) (reap_epoch_record_if_present ev spec epoch)"
    unfolding reap_epoch_record_if_present_def by (intro keeps_intros keeps_effects assms(1))
  then show ?thesis
    unfolding verify_identity_def wp_bind using assms(2)
    by (rule keepsD) (auto simp: wp_ret map_sum_def split: sum.splits)
qed

section \<open>The handle of the monitor\<close>

text \<open>Once the handle is taken, nobody gives it back.\<close>

definition no_handle :: "nat \<Rightarrow> 'w sys \<Rightarrow> bool" where
  "no_handle i s \<longleftrightarrow> (\<forall>x. sy_inst s i = Some x \<longrightarrow> \<not> in_handle x)"

lemma no_handle_deliver: "no_handle i s \<Longrightarrow> no_handle i (deliver ev s ie)"
  by (cases ie) (auto simp: no_handle_def forward_def deliver_inst_def Let_def
      split: option.splits prod.splits if_splits)

lemma no_handle_interfere: "no_handle i s \<Longrightarrow> no_handle i (interfere ev s)"
proof -
  have "no_handle i s \<Longrightarrow> no_handle i (foldl (deliver ev) s es)" for es and s :: "'a sys"
    by (induction es arbitrary: s) (auto intro: no_handle_deliver)
  moreover assume "no_handle i s"
  then have "no_handle i (s\<lparr>sy_world := w\<rparr>)" for w by (simp add: no_handle_def)
  ultimately show ?thesis by (simp only: interfere_eq)
qed

lemma handle_interfere:
  assumes "sy_inst s i = Some x"
  shows "\<exists>y. sy_inst (interfere ev s) i = Some y \<and> in_handle y = in_handle x"
proof -
  have "\<exists>y. sy_inst (deliver ev s ie) i = Some y \<and> in_handle y = in_handle x"
    if "sy_inst s i = Some x" for ie x and s :: "'a sys"
    using that by (cases ie) (auto simp: forward_def deliver_inst_def Let_def split: option.splits prod.splits)
  then have "\<exists>y. sy_inst (foldl (deliver ev) s es) i = Some y \<and> in_handle y = in_handle x"
    if "sy_inst s i = Some x" for es x and s :: "'a sys"
    using that by (induction es arbitrary: s x) (simp, fastforce)
  from this [of "s\<lparr>sy_world := snd (ev_events ev (sy_world s))\<rparr>"] assms show ?thesis
    by (simp add: interfere_eq)
qed

lemma inst_terminal:
  "is_terminal (inst_state i s) \<longleftrightarrow> (\<exists>x. sy_inst s i = Some x \<and> terminal x)"
  by (auto simp: inst_state_def terminal_def split: option.split)

lemma at_terminal_dead:
  "at m al pr c e T s \<Longrightarrow> is_terminal (inst_state i s) \<Longrightarrow> \<not> al (sy_world s) i"
  by (auto simp: inst_terminal shape_ok_def shape_def dest: at_shape)

section \<open>The steps of a stop\<close>

lemma env_reap:
  assumes "env_ok al pr ev" "fst (ev_reap ev p d w) = Inr r" "r \<noteq> NotFound" "pr w i = Some p"
  shows "\<not> al (snd (ev_reap ev p d w)) i"
proof -
  have "\<forall>p d w i. fst (ev_reap ev p d w) \<in> {Inr AlreadyExited, Inr Killed} \<longrightarrow> pr w i = Some p \<longrightarrow>
        \<not> al (snd (ev_reap ev p d w)) i"
    using assms(1) unfolding env_ok_def reap_ok_def by blast
  moreover have "fst (ev_reap ev p d w) \<in> {Inr AlreadyExited, Inr Killed}"
    using assms(2,3) by (cases r) auto
  ultimately show ?thesis using assms(4) by blast
qed

lemma at_record:
  assumes "at m al pr c e T s" "(i, E) \<in> T" "al (sy_world s) i"
  shows "pr (sy_world s) i = Some (pid_path (mg_env m) (mg_dir m) E)"
proof -
  from assms(1,2) obtain x where "sy_inst s i = Some x" "in_epoch x = E" by (auto simp: at_def)
  moreover from this assms(1) have "inst_safe m al pr s i x" by (simp add: at_def)
  ultimately show ?thesis using assms(3) by (simp add: inst_safe_def)
qed

text \<open>The outcome of a stop: dead, or unconfirmed.\<close>

definition stop_post ::
  "('w sys \<Rightarrow> bool) \<Rightarrow> ('w sys \<Rightarrow> bool) \<Rightarrow> error + unit \<Rightarrow> 'w sys \<Rightarrow> bool" where
  "stop_post D L r s = (case r of Inr _ \<Rightarrow> D s | Inl x \<Rightarrow> L s \<and> is_stop_unconfirmed x)"

lemma stop_post_simps [simp]:
  "stop_post D L (Inr u) s = D s" "stop_post D L (Inl x) s = (L s \<and> is_stop_unconfirmed x)"
  by (simp_all add: stop_post_def)

lemma wp_reap_uncertain:
  assumes ev: "env_ok al pr (mg_env m)" and "at m al pr c e T s" and "(i, E) \<in> T"
    and "spec_ok m E spec" and "no_handle i s" and "t \<longrightarrow> \<not> al (sy_world s) i"
  shows "wp (reap_uncertain (mg_env m) i spec E t msg)
    (stop_post (atd m al pr c e T {i}) (at m al pr c e T)) s"
proof -
  let ?ev = "mg_env m"
  let ?p = "pid_path ?ev (mg_dir m) E"
  obtain d where d: "path_parent (ev_platform ?ev) (is_config_path spec) = Some d"
    using epoch_pid_path_ok(2) [OF assms(4)] by blast
  let ?r = "ev_reap ?ev ?p d (sy_world s)"
  let ?s = "interfere ?ev (s\<lparr>sy_world := snd ?r\<rparr>)"
  have at': "at m al pr c e T ?s"
    using atd_ext [OF ev env_ok_quiet(25) [OF ev], of m c e T "{}" s ?p d] assms(2) by simp
  have nh: "no_handle i ?s" using assms(5) by (intro no_handle_interfere) (simp add: no_handle_def)
  have q: "al (snd ?r) i \<Longrightarrow> al (sy_world s) i"
    using env_ok_quiet(25) [OF ev, of ?p d] by (auto simp: quiet_def)
  have dead: "\<not> al (sy_world ?s) i" if "fst ?r = Inr r" "r \<noteq> NotFound \<or> t" for r
  proof (rule interfere_dead [OF ev], simp)
    show "\<not> al (snd ?r) i"
      using env_reap [OF ev that(1), of i] at_record [OF assms(2,3)] assms(6) that(2) q by blast
  qed
  have pub: "atd m al pr c e T {i} (upd_shared i (shared_publish (IStopped User)) ?s)"
    if "\<not> al (sy_world ?s) i"
    unfolding upd_shared_def
  proof (rule atd_upd_inst)
    show "atd m al pr c e T {i} ?s" using at' that by (simp add: atd_def)
    fix x
    assume x: "sy_inst ?s i = Some x"
    then have "\<not> in_handle x" using nh by (simp add: no_handle_def)
    moreover from this have "in_monitor x = None"
      using at_shape [OF at' x] by (simp add: shape_ok_def shape_def)
    ultimately show "in_epoch (x\<lparr>in_shared := shared_publish (IStopped User) (in_shared x)\<rparr>) = in_epoch x \<and>
        in_spec (x\<lparr>in_shared := shared_publish (IStopped User) (in_shared x)\<rparr>) = in_spec x \<and>
        shape_ok al (sy_world ?s) i (x\<lparr>in_shared := shared_publish (IStopped User) (in_shared x)\<rparr>)"
      using that by (simp add: shape_ok_def shape_def)
  qed
  show ?thesis
    using at' dead pub
    by (auto simp: reap_uncertain_def epoch_pid_path_ok(1) [OF assms(4)] d wp_simps wp_ext atd_def
        split: sum.split)
qed

text \<open>Stopping the supervisor keeps the invariant, and joining the monitor confirms a death.\<close>

lemma keeps_stop_supervisor:
  "env_ok al pr ev \<Longrightarrow> keeps (atd m al pr c e T D) (stop_supervisor ev i timeout)"
  unfolding stop_supervisor_def
  by (intro keeps_intros keeps_effects keeps_modify atd_upd_shared) simp_all

lemma wp_join_monitor:
  assumes ev: "env_ok al pr ev" and "at m al pr c e T s"
  shows "wp (join_monitor ev i) (\<lambda>confirmed s'. at m al pr c e T s' \<and> no_handle i s' \<and>
      (confirmed \<longrightarrow> \<not> al (sy_world s') i)) s"
proof (cases "\<exists>x. sy_inst s i = Some x \<and> in_handle x")
  case False
  then have "no_handle i s" by (simp add: no_handle_def)
  with False assms(2) show ?thesis
    by (auto simp: join_monitor_def wp_simps split: option.split)
next
  case True
  let ?s = "interfere ev s"
  let ?f = "\<lambda>inst. inst\<lparr>in_monitor := None, in_handle := False\<rparr>"
  have at': "at m al pr c e T ?s" using at_interfere [OF ev assms(2)] .
  have "at m al pr c e T (upd_inst i ?f ?s)"
    by (rule at_upd_inst [OF at']) (auto simp: shape_ok_def shape_def terminal_def dest!: at_shape [OF at'])
  moreover have "no_handle i (upd_inst i ?f ?s)"
    by (auto simp: no_handle_def upd_inst_def split: option.splits)
  moreover have "\<not> al (sy_world ?s) i" if "Option.bind (sy_inst ?s i) in_monitor = None"
  proof (cases "sy_inst ?s i")
    case None
    with at' show ?thesis by (auto simp: at_def)
  next
    case (Some x)
    have "in_handle x" using True Some handle_interfere [of s i _ ev] by auto
    with that Some at_shape [OF at' Some] show ?thesis by (simp add: shape_ok_def shape_def)
  qed
  ultimately show ?thesis
    using True by (auto simp: join_monitor_def wp_simps wp_ext)
qed

lemma shared_publish_state [simp]: "ist_state (sh_status (shared_publish st sh)) = st"
  by (simp add: shared_publish_def Let_def split: instance_state.split)

lemma wp_stop_running:
  assumes ev: "env_ok al pr (mg_env m)" and "at m al pr c e T s" and "(i, E) \<in> T"
    and "sy_inst s i = Some x" "\<not> terminal x" and "spec_ok m E spec"
  shows "wp (stop_running (mg_env m) i spec E timeout)
    (stop_post (atd m al pr c e T {i}) (at m al pr c e T)) s"
proof -
  let ?f = "\<lambda>sh. shared_publish IStopping (sh\<lparr>sh_user_stop := True, sh_probe_cancelled := True\<rparr>)"
  have pub: "at m al pr c e T (upd_shared i ?f s)"
    unfolding upd_shared_def using assms(4,5) at_shape [OF assms(2), of i]
    by (intro at_upd_inst [OF assms(2)]) (simp add: shape_ok_def terminal_def)
  have sup: "keeps (at m al pr c e T) (stop_supervisor (mg_env m) i timeout)"
    using keeps_stop_supervisor [OF ev, of m c e T "{}"] by simp
  have join: "wp (join_monitor (mg_env m) i) (\<lambda>confirmed. wp (gets (\<lambda>s. is_terminal (inst_state i s)))
      (\<lambda>t. wp (case r of
         Inr _ \<Rightarrow> if confirmed \<or> t then verify_identity (mg_env m) ''stopped'' spec E
           else reap_uncertain (mg_env m) i spec E t ''instance monitor did not confirm termination''
       | Inl stop_error \<Rightarrow> reap_uncertain (mg_env m) i spec E t stop_error)
      (stop_post (atd m al pr c e T {i}) (at m al pr c e T)))) s'"
    if "at m al pr c e T s'" for r s'
  proof (rule wp_mono [OF wp_join_monitor [OF ev that, of i]])
    fix confirmed s''
    assume j: "at m al pr c e T s'' \<and> no_handle i s'' \<and> (confirmed \<longrightarrow> \<not> al (sy_world s'') i)"
    let ?t = "is_terminal (inst_state i s'')"
    have t: "?t \<longrightarrow> \<not> al (sy_world s'') i" using at_terminal_dead j by blast
    have "wp (verify_identity (mg_env m) ''stopped'' spec E)
        (stop_post (atd m al pr c e T {i}) (at m al pr c e T)) s''" if "confirmed \<or> ?t"
    proof -
      have "atd m al pr c e T {i} s''" using j t that by (auto simp: atd_def)
      from wp_verify [OF ev this] show ?thesis
        by (rule wp_mono) (auto simp: stop_post_def atd_def split: sum.split)
    qed
    moreover have "wp (reap_uncertain (mg_env m) i spec E ?t msg)
        (stop_post (atd m al pr c e T {i}) (at m al pr c e T)) s''" for msg
      using j t assms(3,6) by (intro wp_reap_uncertain [OF ev]) auto
    ultimately show "wp (gets (\<lambda>s. is_terminal (inst_state i s)))
      (\<lambda>t. wp (case r of
         Inr _ \<Rightarrow> if confirmed \<or> t then verify_identity (mg_env m) ''stopped'' spec E
           else reap_uncertain (mg_env m) i spec E t ''instance monitor did not confirm termination''
       | Inl stop_error \<Rightarrow> reap_uncertain (mg_env m) i spec E t stop_error)
      (stop_post (atd m al pr c e T {i}) (at m al pr c e T))) s''"
      by (cases r; cases ?t; cases confirmed) (simp_all add: wp_simps)
  qed
  show ?thesis
    unfolding stop_running_def wp_bind_fun wp_modify by (rule keepsD [OF sup pub]) (rule join)
qed

lemma wp_stop_and_confirm:
  assumes ev: "env_ok al pr (mg_env m)" and at: "at m al pr c e T s" and "(i, E) \<in> T"
  shows "wp (stop_and_confirm_dead (mg_env m) i timeout)
    (stop_post (atd m al pr c e T {i}) (at m al pr c e T)) s"
proof -
  from at assms(3) obtain x where x: "sy_inst s i = Some x" "in_epoch x = E" by (auto simp: at_def)
  then have "inst_safe m al pr s i x" using at by (simp add: at_def)
  then have spec: "spec_ok m E (in_spec x)" using x(2) by (simp add: inst_safe_def)
  have drop: "wp (drop_instance (mg_env m) i)
      (\<lambda>_. stop_post (atd m al pr c e T {i}) (at m al pr c e T) r) s'"
    if "stop_post (atd m al pr c e T {i}) (at m al pr c e T) r s'" for r s'
    using that keepsD [OF keeps_drop [OF ev]] keepsD [OF keeps_drop [OF ev, of m c e T "{}"]]
    by (cases r) (auto simp: stop_post_def)
  have "wp (if terminal x then verify_identity (mg_env m) ''terminal'' (in_spec x) E
      else stop_running (mg_env m) i (in_spec x) E timeout)
      (stop_post (atd m al pr c e T {i}) (at m al pr c e T)) s"
  proof (cases "terminal x")
    case True
    then have "atd m al pr c e T {i} s"
      using at_shape [OF at x(1)] at by (simp add: atd_def shape_ok_def shape_def)
    then have "wp (verify_identity (mg_env m) ''terminal'' (in_spec x) E)
        (stop_post (atd m al pr c e T {i}) (at m al pr c e T)) s"
      by (rule wp_mono [OF wp_verify [OF ev]]) (auto simp: stop_post_def atd_def split: sum.split)
    with True show ?thesis by simp
  next
    case False
    with wp_stop_running [OF ev at assms(3) x(1) False spec] show ?thesis by simp
  qed
  then have "wp (if terminal x then verify_identity (mg_env m) ''terminal'' (in_spec x) E
      else stop_running (mg_env m) i (in_spec x) E timeout)
      (\<lambda>r. wp (drop_instance (mg_env m) i)
        (\<lambda>_. stop_post (atd m al pr c e T {i}) (at m al pr c e T) r)) s"
    by (rule wp_mono) (rule drop)
  then show ?thesis
    using x by (simp add: stop_and_confirm_dead_def wp_bind_fun wp_gets wp_ret_fun terminal_def split: if_splits)
qed

text \<open>The rule the manager's operations use.\<close>

lemma wp_stop:
  assumes "env_ok al pr (mg_env m)" and "at m al pr c e (insert (i, E) T) s"
    and "\<And>s'. at m al pr c e T s' \<Longrightarrow> Q (Inr ()) s'"
    and "\<And>x s'. at m al pr c e (insert (i, E) T) s' \<Longrightarrow> is_stop_unconfirmed x \<Longrightarrow> Q (Inl x) s'"
  shows "wp (stop_instance m i) Q s"
  unfolding stop_instance_def
proof (rule wp_mono [OF wp_stop_and_confirm [OF assms(1,2)]])
  show "(i, E) \<in> insert (i, E) T" by simp
  fix r s'
  assume "stop_post (atd m al pr c e (insert (i, E) T) {i}) (at m al pr c e (insert (i, E) T)) r s'"
  then show "Q r s'"
    using assms(3,4) at_less [of m al pr c e i E T s'] by (cases r) (auto simp: atd_def)
qed

end
