(* ===== verification/Control_Rules.thy ===== *)
theory Control_Rules
  imports Stop_Rules
begin

text \<open>
  Rules for the control data: which instance is the current one, which epochs are quarantined,
  and the epoch counter. An operation moves an instance between its hands (\<open>T\<close>), the current
  slot and the quarantine; each rule says when a move loses nobody.
\<close>

section \<open>Moving instances\<close>

definition free :: "ctrl \<Rightarrow> u64 \<Rightarrow> bool" where
  "free c E \<longleftrightarrow> E \<notin> qe_epoch ` set (ct_quarantine c)"

lemma at_ctrl:
  assumes "at m al pr c e T s"
    and "\<And>i x. al (sy_world s) i \<Longrightarrow> sy_inst s i = Some x \<Longrightarrow> accounted c T i x \<Longrightarrow> accounted c' T' i x"
    and "\<And>i E. (i, E) \<in> T' \<Longrightarrow> \<exists>x. sy_inst s i = Some x \<and> in_epoch x = E"
    and "ctrl_ok m c' s"
  shows "at m al pr c' e T' (s\<lparr>sy_ctrl := c'\<rparr>)"
  using assms unfolding at_def ctrl_ok_def inst_safe_def by (auto; blast)

lemma at_epochs: "at m al pr c e T s \<Longrightarrow> (i, E) \<in> T \<Longrightarrow> inst_epoch i s = E"
  by (auto simp: at_def inst_epoch_def)

lemma at_current:
  assumes "at m al pr c e T s" and "ct_current c = Some a"
  shows "inst_epoch (ac_instance a) s = rev_epoch (ac_revision a)"
    and "unat (rev_epoch (ac_revision a)) \<le> unat e"
    and "free c (rev_epoch (ac_revision a))"
    and "rev_runtime_path (ac_revision a) =
      runtime_path (mg_env m) (mg_dir m) (rev_epoch (ac_revision a))"
    and "\<exists>x. sy_inst s (ac_instance a) = Some x \<and> in_epoch x = rev_epoch (ac_revision a) \<and>
      spec_ok m (rev_epoch (ac_revision a)) (in_spec x)"
proof -
  from assms have ok: "ctrl_ok m c s" by (simp add: at_def)
  with assms(2) obtain x where x: "sy_inst s (ac_instance a) = Some x"
    "in_epoch x = rev_epoch (ac_revision a)" by (auto simp: ctrl_ok_def)
  then have "inst_safe m al pr s (ac_instance a) x" using assms(1) by (simp add: at_def)
  with x assms(1) show "unat (rev_epoch (ac_revision a)) \<le> unat e"
    "\<exists>x. sy_inst s (ac_instance a) = Some x \<and> in_epoch x = rev_epoch (ac_revision a) \<and>
      spec_ok m (rev_epoch (ac_revision a)) (in_spec x)"
    by (auto simp: inst_safe_def at_def)
  show "inst_epoch (ac_instance a) s = rev_epoch (ac_revision a)"
    using x by (simp add: inst_epoch_def)
  show "free c (rev_epoch (ac_revision a))"
    "rev_runtime_path (ac_revision a) =
      runtime_path (mg_env m) (mg_dir m) (rev_epoch (ac_revision a))"
    using ok assms(2) by (simp_all add: ctrl_ok_def free_def)
qed

text \<open>Taking the current instance into one's hands.\<close>

lemma wp_take:
  assumes "at m al pr c e T s" and "ct_current c = Some a"
    and "\<And>s'. at m al pr (c\<lparr>ct_current := None\<rparr>) e
      (insert (ac_instance a, rev_epoch (ac_revision a)) T) s' \<Longrightarrow> Q () s'"
  shows "wp (set_current None) Q s"
proof -
  let ?c = "c\<lparr>ct_current := None\<rparr>"
  let ?T = "insert (ac_instance a, rev_epoch (ac_revision a)) T"
  note cur = at_current [OF assms(1,2)]
  have "at m al pr ?c e ?T (s\<lparr>sy_ctrl := ?c\<rparr>)"
  proof (rule at_ctrl [OF assms(1)])
    show "\<And>i x. sy_inst s i = Some x \<Longrightarrow> accounted c T i x \<Longrightarrow> accounted ?c ?T i x"
      using assms(2) cur(5) by (auto simp: accounted_def)
    show "\<And>i E. (i, E) \<in> ?T \<Longrightarrow> \<exists>x. sy_inst s i = Some x \<and> in_epoch x = E"
      using cur(5) assms(1) by (auto simp: at_def)
    show "ctrl_ok m ?c s" using assms(1) by (simp add: at_def ctrl_ok_def)
  qed
  moreover have "sy_ctrl s = c" using assms(1) by (simp add: at_def)
  ultimately show ?thesis using assms(3) by (simp add: set_current_def wp_modify)
qed

text \<open>Making an instance in hand the current one.\<close>

lemma wp_give:
  assumes "at m al pr c e (insert (i, E) T) s" and "ct_current c = None"
    and "ac_instance a = i" "rev_epoch (ac_revision a) = E"
    "rev_runtime_path (ac_revision a) = runtime_path (mg_env m) (mg_dir m) E"
    and "free c E"
    and "\<And>s'. at m al pr (c\<lparr>ct_current := Some a\<rparr>) e T s' \<Longrightarrow> Q () s'"
  shows "wp (set_current (Some a)) Q s"
proof -
  let ?c = "c\<lparr>ct_current := Some a\<rparr>"
  have "at m al pr ?c e T (s\<lparr>sy_ctrl := ?c\<rparr>)"
  proof (rule at_ctrl [OF assms(1)])
    show "\<And>j x. sy_inst s j = Some x \<Longrightarrow> accounted c (insert (i, E) T) j x \<Longrightarrow> accounted ?c T j x"
      using assms(2,3) by (auto simp: accounted_def)
    show "\<And>j F. (j, F) \<in> T \<Longrightarrow> \<exists>x. sy_inst s j = Some x \<and> in_epoch x = F"
      using assms(1) by (auto simp: at_def)
    show "ctrl_ok m ?c s" using assms(1-6) by (auto simp: at_def ctrl_ok_def free_def)
  qed
  moreover have "sy_ctrl s = c" using assms(1) by (simp add: at_def)
  ultimately show ?thesis using assms(7) by (simp add: set_current_def wp_modify)
qed

text \<open>Replacing the record of the current instance.\<close>

lemma wp_update_current:
  assumes "at m al pr c e T s" and "ct_current c = Some a" and "ac_instance a' = ac_instance a"
    and "rev_epoch (ac_revision a') = rev_epoch (ac_revision a)"
    "rev_runtime_path (ac_revision a') = rev_runtime_path (ac_revision a)"
    and "\<And>s'. at m al pr (c\<lparr>ct_current := Some a'\<rparr>) e T s' \<Longrightarrow> Q () s'"
  shows "wp (set_current (Some a')) Q s"
proof -
  let ?c = "c\<lparr>ct_current := Some a'\<rparr>"
  have "at m al pr ?c e T (s\<lparr>sy_ctrl := ?c\<rparr>)"
  proof (rule at_ctrl [OF assms(1)])
    show "\<And>j x. sy_inst s j = Some x \<Longrightarrow> accounted c T j x \<Longrightarrow> accounted ?c T j x"
      using assms(2,3) by (auto simp: accounted_def)
    show "\<And>j F. (j, F) \<in> T \<Longrightarrow> \<exists>x. sy_inst s j = Some x \<and> in_epoch x = F"
      using assms(1) by (auto simp: at_def)
    show "ctrl_ok m ?c s" using assms(1-5) by (auto simp: at_def ctrl_ok_def)
  qed
  moreover have "sy_ctrl s = c" using assms(1) by (simp add: at_def)
  ultimately show ?thesis using assms(6) by (simp add: set_current_def wp_modify)
qed

lemma wp_last_spec:
  assumes "at m al pr c e T s"
    and "\<And>s'. at m al pr (c\<lparr>ct_last_spec := Some spec\<rparr>) e T s' \<Longrightarrow> Q () s'"
  shows "wp (set_last_spec spec) Q s"
proof -
  have "at m al pr (c\<lparr>ct_last_spec := Some spec\<rparr>) e T (s\<lparr>sy_ctrl := c\<lparr>ct_last_spec := Some spec\<rparr>\<rparr>)"
    using assms(1) by (intro at_ctrl [OF assms(1)]) (auto simp: at_def accounted_def ctrl_ok_def)
  moreover have "sy_ctrl s = c" using assms(1) by (simp add: at_def)
  ultimately show ?thesis using assms(2) by (simp add: set_last_spec_def wp_modify)
qed

section \<open>Quarantine\<close>

lemma record_entry_epochs:
  "qe_epoch ` set (record_entry E r qs) = insert E (qe_epoch ` set qs)"
  by (induction qs) auto

lemma record_entry_distinct:
  "distinct (map qe_epoch qs) \<Longrightarrow> distinct (map qe_epoch (record_entry E r qs))"
proof (induction qs)
  case (Cons q qs)
  have "qe_epoch q \<notin> qe_epoch ` set (record_entry E r qs)" if "qe_epoch q \<noteq> E"
    using Cons.prems that by (simp add: record_entry_epochs)
  with Cons show ?case by auto
qed simp

lemma free_simps [simp]:
  "ct_quarantine c = [] \<Longrightarrow> free c E" "free (c\<lparr>ct_current := a\<rparr>) E = free c E"
  "free (c\<lparr>ct_last_spec := l\<rparr>) E = free c E"
  "free (c\<lparr>ct_quarantine := record_entry F r (ct_quarantine c)\<rparr>) E \<longleftrightarrow> E \<noteq> F \<and> free c E"
  by (simp_all add: free_def record_entry_epochs)

definition unproven :: "quarantined_epoch list \<Rightarrow> u64 \<Rightarrow> bool" where
  "unproven qs E \<longleftrightarrow> (\<exists>q \<in> set qs. qe_epoch q = E \<and> \<not> qe_death_proven q)"

lemma unproven_record:
  "unproven qs F \<Longrightarrow> unproven (record_entry E r qs) F"
  "E \<notin> qe_epoch ` set qs \<Longrightarrow> unproven (record_entry E r qs) E"
  by (induction qs) (auto simp: unproven_def)

text \<open>An instance in hand whose epoch is put into quarantine need not be held any longer.\<close>

lemma at_record_entry:
  fixes r :: string
  assumes "at m al pr c e T s" and "free c E" and "T = T' \<or> T = insert (i, E) T'"
    and "\<And>a. ct_current c = Some a \<Longrightarrow> rev_epoch (ac_revision a) \<noteq> E"
  defines "c' \<equiv> c\<lparr>ct_quarantine := record_entry E r (ct_quarantine c)\<rparr>"
  shows "at m al pr c' e T' (s\<lparr>sy_ctrl := c'\<rparr>)"
proof (rule at_ctrl [OF assms(1)])
  fix j x
  assume "sy_inst s j = Some x" "accounted c T j x"
  then have "(j, in_epoch x) \<in> T' \<or> in_epoch x = E \<or> (\<exists>a. ct_current c = Some a \<and> ac_instance a = j) \<or>
      unproven (ct_quarantine c) (in_epoch x)"
    using assms(3) by (auto simp: accounted_def unproven_def)
  then show "accounted c' T' j x"
    using unproven_record [where qs = "ct_quarantine c"] assms(2)
    by (auto simp: c'_def accounted_def free_def simp flip: unproven_def)
next
  show "\<And>j F. (j, F) \<in> T' \<Longrightarrow> \<exists>x. sy_inst s j = Some x \<and> in_epoch x = F"
    using assms(1,3) by (auto simp: at_def)
  show "ctrl_ok m c' s"
    using assms(1,4) by (simp add: c'_def at_def ctrl_ok_def record_entry_distinct record_entry_epochs)
qed

lemma wp_record:
  assumes "at m al pr c e (insert (i, E) T) s" and "free c E"
    and "\<And>a. ct_current c = Some a \<Longrightarrow> rev_epoch (ac_revision a) \<noteq> E"
    and "\<And>s'. at m al pr (c\<lparr>ct_quarantine := record_entry E r (ct_quarantine c)\<rparr>) e T s' \<Longrightarrow> Q () s'"
  shows "wp (record_quarantine E r) Q s"
proof -
  have "sy_ctrl s = c" using assms(1) by (simp add: at_def)
  with at_record_entry [OF assms(1,2) _ assms(3), of T i] assms(4) show ?thesis
    by (simp add: record_quarantine_def wp_modify)
qed

lemma wp_record_idle:
  assumes "at m al pr c e T s" and "free c E"
    and "\<And>a. ct_current c = Some a \<Longrightarrow> rev_epoch (ac_revision a) \<noteq> E"
    and "\<And>s'. at m al pr (c\<lparr>ct_quarantine := record_entry E r (ct_quarantine c)\<rparr>) e T s' \<Longrightarrow> Q () s'"
  shows "wp (record_quarantine E r) Q s"
proof -
  have "sy_ctrl s = c" using assms(1) by (simp add: at_def)
  with at_record_entry [OF assms(1,2) _ assms(3), of T] assms(4) show ?thesis
    by (simp add: record_quarantine_def wp_modify)
qed

text \<open>A proof of death, and the release of an epoch that is proven dead.\<close>

lemma prove_death_epochs [simp]: "map qe_epoch (prove_death E qs) = map qe_epoch qs"
  by (induction qs) auto

lemma unproven_prove: "E \<noteq> F \<Longrightarrow> unproven (prove_death E qs) F = unproven qs F"
  by (induction qs) (auto simp: unproven_def)

lemma unproven_proved: "distinct (map qe_epoch qs) \<Longrightarrow> \<not> unproven (prove_death E qs) E"
  by (induction qs) (auto simp: unproven_def, metis image_eqI)

lemma wp_prove:
  assumes "at m al pr c e T s" and "\<And>i x. sy_inst s i = Some x \<Longrightarrow> in_epoch x = E \<Longrightarrow> \<not> al (sy_world s) i"
    and "\<And>s'. at m al pr (c\<lparr>ct_quarantine := prove_death E (ct_quarantine c)\<rparr>) e T s' \<Longrightarrow> Q () s'"
  shows "wp (set_quarantine (prove_death E)) Q s"
proof -
  let ?c = "c\<lparr>ct_quarantine := prove_death E (ct_quarantine c)\<rparr>"
  have img: "qe_epoch ` set (prove_death E qs) = qe_epoch ` set qs" for qs
    using prove_death_epochs [of E qs] by (metis set_map)
  have "at m al pr ?c e T (s\<lparr>sy_ctrl := ?c\<rparr>)"
  proof (rule at_ctrl [OF assms(1)])
    fix i x
    assume "al (sy_world s) i" "sy_inst s i = Some x" "accounted c T i x"
    then show "accounted ?c T i x"
      using assms(2) [of i x] unproven_prove [of E "in_epoch x" "ct_quarantine c"]
      by (auto simp: accounted_def simp flip: unproven_def)
  next
    show "\<And>j F. (j, F) \<in> T \<Longrightarrow> \<exists>x. sy_inst s j = Some x \<and> in_epoch x = F"
      using assms(1) by (auto simp: at_def)
    show "ctrl_ok m ?c s" using assms(1) by (simp add: at_def ctrl_ok_def img)
  qed
  moreover have "sy_ctrl s = c" using assms(1) by (simp add: at_def)
  ultimately show ?thesis using assms(3) by (simp add: set_quarantine_def wp_modify)
qed

lemma wp_release:
  assumes "at m al pr c e T s" and "\<not> unproven (ct_quarantine c) E"
    and "\<And>s'. at m al pr (c\<lparr>ct_quarantine := filter (\<lambda>q. qe_epoch q \<noteq> E) (ct_quarantine c)\<rparr>) e T s' \<Longrightarrow> Q () s'"
  shows "wp (set_quarantine (filter (\<lambda>q. qe_epoch q \<noteq> E))) Q s"
proof -
  let ?c = "c\<lparr>ct_quarantine := filter (\<lambda>q. qe_epoch q \<noteq> E) (ct_quarantine c)\<rparr>"
  have "at m al pr ?c e T (s\<lparr>sy_ctrl := ?c\<rparr>)"
  proof (rule at_ctrl [OF assms(1)])
    show "\<And>i x. sy_inst s i = Some x \<Longrightarrow> accounted c T i x \<Longrightarrow> accounted ?c T i x"
      using assms(2) by (auto simp: accounted_def unproven_def)
    show "\<And>j F. (j, F) \<in> T \<Longrightarrow> \<exists>x. sy_inst s j = Some x \<and> in_epoch x = F"
      using assms(1) by (auto simp: at_def)
    show "ctrl_ok m ?c s"
      using assms(1) by (auto simp: at_def ctrl_ok_def distinct_map_filter)
  qed
  moreover have "sy_ctrl s = c" using assms(1) by (simp add: at_def)
  ultimately show ?thesis using assms(3) by (simp add: set_quarantine_def wp_modify)
qed

section \<open>Epochs\<close>

definition epoch_left :: "u64 \<Rightarrow> bool" where
  "epoch_left e \<longleftrightarrow> unat e < 2 ^ 64 - 1"

lemma unat_next_epoch: "epoch_left e \<Longrightarrow> unat (e + 1) = unat e + 1"
  by (simp add: epoch_left_def unat_word_ariths)

lemma wp_next_epoch:
  assumes "at m al pr c e T s" and "epoch_left e"
    and "\<And>s'. at m al pr c (e + 1) T s' \<Longrightarrow> Q (e + 1) s'"
  shows "wp next_epoch Q s"
proof -
  have e: "sy_epoch s = e" using assms(1) by (simp add: at_def)
  have "at m al pr c (e + 1) T (s\<lparr>sy_epoch := e + 1\<rparr>)"
    using assms(1) unat_next_epoch [OF assms(2)] unfolding at_def inst_safe_def ctrl_ok_def
    by (auto; fastforce)
  with assms(3) e show ?thesis by (simp add: next_epoch_def wp_def)
qed

end
