(* ===== verification/Manager_Safety.thy ===== *)
theory Manager_Safety
  imports Control_Rules
begin

text \<open>
  Every operation of the manager keeps its invariant: whatever the environment answers, a
  process tree that may be alive belongs to the current instance or to a quarantined epoch.
\<close>

section \<open>Proof rules\<close>

definition sound ::
  "'w manager \<Rightarrow> ('w \<Rightarrow> nat \<Rightarrow> bool) \<Rightarrow> ('w \<Rightarrow> nat \<Rightarrow> path option) \<Rightarrow> 'w sys \<Rightarrow> bool" where
  "sound m al pr s \<longleftrightarrow> at m al pr (sy_ctrl s) (sy_epoch s) {} s"

lemma soundI [elim]: "at m al pr c e {} s \<Longrightarrow> sound m al pr s"
  by (auto simp: sound_def at_def)

lemma at_step:
  "at m al pr c e T s \<Longrightarrow> keeps (atd m al pr c e T {}) op \<Longrightarrow>
   (\<And>a s'. at m al pr c e T s' \<Longrightarrow> Q a s') \<Longrightarrow> wp op Q s"
  by (auto intro: keepsD)

lemma at_sy_ctrl: "at m al pr c e T s \<Longrightarrow> sy_ctrl s = c"
  by (simp add: at_def)

text \<open>
  The rules below consume the assertion about the state an operation starts in and hand the
  continuation the assertion about the state it ends in; used as eliminations they walk through
  an operation.
\<close>

named_theorems at_steps \<open>rules that walk through an operation\<close>

lemmas [at_steps] = keeps_manager_cleanup [THEN [2] at_step] keeps_abort [THEN [2] at_step]
  keeps_publish [THEN [2] at_step] keeps_publish_instance [THEN [2] at_step]
  keeps_publications [THEN [2] at_step] keeps_wait_ready [THEN [2] at_step]
  keeps_load [THEN [2] at_step] keeps_validate_launchable [THEN [2] at_step]
  keeps_manager_features [THEN [2] at_step] keeps_drop_staged [THEN [2] at_step]
  keeps_remove_backup [THEN [2] at_step] keeps_store_restore [THEN [2] at_step]
  keeps_commit_replace [THEN [2] at_step] keeps_reconcile [THEN [2] at_step]

lemma at_epoch_of [at_steps]:
  "at m al pr c e (insert (i, E) T) s \<Longrightarrow> (at m al pr c e (insert (i, E) T) s \<Longrightarrow> Q E s) \<Longrightarrow>
   wp (gets (inst_epoch i)) Q s"
  using at_epochs [of m al pr c e "insert (i, E) T" s i E] by (simp add: wp_gets)

lemma at_get_current [at_steps]:
  "at m al pr c e T s \<Longrightarrow> (at m al pr c e T s \<Longrightarrow> Q (ct_current c) s) \<Longrightarrow>
   wp (gets (ct_current \<circ> sy_ctrl)) Q s"
  by (simp add: wp_gets at_sy_ctrl)

lemma at_current_epoch [at_steps]:
  "at m al pr c e {} s \<Longrightarrow> ct_current c = Some a \<Longrightarrow>
   (at m al pr c e {} s \<Longrightarrow> Q (rev_epoch (ac_revision a)) s) \<Longrightarrow>
   wp (gets (inst_epoch (ac_instance a))) Q s"
  by (simp add: wp_gets at_current)

lemma at_current_inst [at_steps]:
  assumes "at m al pr c e T s" and "ct_current c = Some a"
    and "\<And>x. at m al pr c e T s \<Longrightarrow> spec_ok m (rev_epoch (ac_revision a)) (in_spec x) \<Longrightarrow> Q (Some x) s"
  shows "wp (gets (\<lambda>s. sy_inst s (ac_instance a))) Q s"
  using at_current(5) [OF assms(1,2)] assms(1,3) by (auto simp: wp_gets)

lemma at_stop [at_steps]:
  "at m al pr c e (insert (i, E) T) s \<Longrightarrow> env_ok al pr (mg_env m) \<Longrightarrow>
   (\<And>s'. at m al pr c e T s' \<Longrightarrow> Q (Inr ()) s') \<Longrightarrow>
   (\<And>x s'. at m al pr c e (insert (i, E) T) s' \<Longrightarrow> is_stop_unconfirmed x \<Longrightarrow> Q (Inl x) s') \<Longrightarrow>
   wp (stop_instance m i) Q s"
  by (rule wp_stop)

lemma at_spawn [at_steps]:
  assumes "at m al pr c e T s" and "env_ok al pr (mg_env m)" and "spec_ok m E spec"
    and "unat E \<le> unat e"
    and "\<And>x s'. at m al pr c e T s' \<Longrightarrow> Q (Inl x) s'"
    and "\<And>i s'. at m al pr c e (insert (i, E) T) s' \<Longrightarrow> Q (Inr i) s'"
  shows "wp (manager_spawn m spec E controller) Q s"
  by (rule wp_mono [OF wp_spawn [OF assms(2,1,3,4)]]) (auto intro: assms(5,6) split: sum.splits)

lemma at_latch [at_steps]:
  assumes "at m al pr c e (insert (i, E) T) s" and "free c E"
    and "\<And>a. ct_current c = Some a \<Longrightarrow> rev_epoch (ac_revision a) \<noteq> E"
    and "\<And>s'. at m al pr (c\<lparr>ct_quarantine := record_entry E (to_string x) (ct_quarantine c)\<rparr>) e T s' \<Longrightarrow> Q x s'"
  shows "wp (latch_quarantine m E x) Q s"
  unfolding latch_quarantine_def wp_bind_fun
  using assms
  by (intro wp_record [OF assms(1-3)])
    (auto simp: wp_simps elim!: at_steps split: option.split)

text \<open>The quarantine of an epoch nobody is held of.\<close>

lemma at_latch_idle:
  assumes "at m al pr c e T s" and "free c E"
    and "\<And>a. ct_current c = Some a \<Longrightarrow> rev_epoch (ac_revision a) \<noteq> E"
    and "\<And>c' s'. at m al pr c' e T s' \<Longrightarrow> Q x s'"
  shows "wp (latch_quarantine m E x) Q s"
  unfolding latch_quarantine_def wp_bind_fun
  using assms
  by (intro wp_record_idle [OF assms(1-3)])
    (auto simp: wp_simps elim!: at_steps split: option.split)

lemmas [at_steps] = wp_last_spec

lemma wp_stop_failed:
  "is_stop_unconfirmed x \<Longrightarrow>
   wp (stop_failed m E x other) Q s = wp (latch_quarantine m E x) (\<lambda>x'. Q (Inl x')) s"
  by (simp add: stop_failed_def wp_bind_fun wp_ret_fun)

lemma at_stop_failed_idle:
  assumes "at m al pr c e {} s" and "ct_current c = None" "free c E"
    and "\<And>s'. at m al pr c e {} s' \<Longrightarrow> wp other (\<lambda>_. sound m al pr) s'"
  shows "wp (stop_failed m E x other) (\<lambda>_. sound m al pr) s"
  using assms
  by (auto simp: stop_failed_def wp_bind_fun wp_ret_fun elim!: at_latch_idle soundI)

lemma wp_ignore: "wp (ignore op) Q s = wp op (\<lambda>_. Q ()) s"
  by (simp add: ignore_def wp_bind_fun wp_ret_fun)

lemma quarantine_error_None [simp]: "quarantine_error c = None \<longleftrightarrow> ct_quarantine c = []"
  by (simp add: quarantine_error_def split: list.split)

lemma wp_reject:
  "(ct_quarantine (sy_ctrl s) = [] \<Longrightarrow> Q (Inr ()) s) \<Longrightarrow> (\<And>x. Q (Inl x) s) \<Longrightarrow>
   wp reject_quarantine Q s"
  by (auto simp: reject_quarantine_def wp_gets split: option.split)

lemmas at_wp = wp_bind wp_bind_fun wp_ret wp_ret_fun wp_try_op wp_lift_result wp_modify wp_ignore
  wp_stop_failed Let_def
  wp_gets [of is_running] wp_gets [of "ct_last_spec \<circ> sy_ctrl"]
  wp_gets [of "inst_state i" for i] wp_gets [of "current_pid i" for i] wp_gets [of sy_sink]

section \<open>Prepared launches\<close>

definition launch_ok :: "'w manager \<Rightarrow> u64 \<Rightarrow> prepared_launch \<Rightarrow> bool" where
  "launch_ok m E p \<longleftrightarrow>
     spec_ok m E (pl_effective_spec p) \<and> rev_epoch (pl_revision p) = E \<and>
     rev_runtime_path (pl_revision p) = runtime_path (mg_env m) (mg_dir m) E"

lemma launch_of_ok [simp]:
  "launch_ok m E (launch_of m spec snapshot resolved prepared E g (runtime_path (mg_env m) (mg_dir m) E))"
  by (simp add: launch_ok_def launch_of_def spec_ok_def effective_spec_of_def)

lemma active_of_simps [simp]: "ac_instance (active_of i p) = i" "ac_revision (active_of i p) = pl_revision p"
  by (simp_all add: active_of_def)

text \<open>What an operation can return.\<close>

definition yields :: "('s, 'e + 'a) state \<Rightarrow> ('a \<Rightarrow> bool) \<Rightarrow> bool" where
  "yields op P \<longleftrightarrow> (\<forall>s. wp op (\<lambda>r _. \<forall>a. r = Inr a \<longrightarrow> P a) s)"

lemma wp_any: "(\<And>a s'. Q a s') \<Longrightarrow> wp op Q s"
  by (simp add: wp_def split: prod.split)

lemma yields_try: "(\<And>a. yields (f a) P) \<Longrightarrow> yields (try_op op f) P"
  by (auto simp: yields_def wp_simps intro!: wp_any split: sum.split)

lemma yields_ret: "(\<And>a. r = Inr a \<Longrightarrow> P a) \<Longrightarrow> yields (ret r) P"
  by (auto simp: yields_def wp_simps)

lemma yields_try_yields:
  assumes "yields op P'" and "\<And>a. P' a \<Longrightarrow> yields (f a) P"
  shows "yields (try_op op f) P"
  unfolding yields_def wp_try_op
proof
  fix s
  have "wp op (\<lambda>r _. \<forall>a. r = Inr a \<longrightarrow> P' a) s" using assms(1) by (simp add: yields_def)
  then show "wp op (\<lambda>r s'. case r of Inl x \<Rightarrow> \<forall>a. Inl x = Inr a \<longrightarrow> P a
      | Inr x \<Rightarrow> wp (f x) (\<lambda>r _. \<forall>a. r = Inr a \<longrightarrow> P a) s') s"
    by (rule wp_mono) (use assms(2) in \<open>auto simp: yields_def split: sum.split\<close>)
qed

lemma yields_or_drop:
  fixes op :: "('w sys, error + 'a) state"
  assumes "yields op P"
  shows "yields (or_drop ev p op) P"
  unfolding yields_def
proof
  fix s
  have "wp op (\<lambda>r _. \<forall>a. r = Inr a \<longrightarrow> P a) s" using assms by (simp add: yields_def)
  then show "wp (or_drop ev p op) (\<lambda>r _. \<forall>a. r = Inr a \<longrightarrow> P a) s"
    unfolding or_drop_def wp_bind
  proof (rule wp_mono)
    fix r :: "error + 'a" and s' :: "'w sys"
    assume "\<forall>a. r = Inr a \<longrightarrow> P a"
    then show "wp (case r of Inl e \<Rightarrow> do { drop_staged ev p; ret (Inl e) } | Inr x \<Rightarrow> ret (Inr x))
        (\<lambda>r _. \<forall>a. r = Inr a \<longrightarrow> P a) s'"
      by (cases r) (auto simp: wp_simps intro: wp_any)
  qed
qed

lemma yields_if: "yields op P \<Longrightarrow> yields (if b then ret (Inl x) else op) P"
  by (auto intro: yields_ret)

lemma yields_commit_new: "yields (commit_new ev dir staged E) (\<lambda>p. p = runtime_path ev dir E)"
  unfolding commit_new_def Let_def by (intro yields_try yields_ret) simp

text \<open>An operation that keeps the invariant and yields only good results.\<close>

lemma at_yield:
  fixes op :: "('w sys, 'e + 'a) state"
  assumes "at m al pr c e T s" and "keeps (atd m al pr c e T {}) op" and "yields op P"
    and "\<And>x s'. at m al pr c e T s' \<Longrightarrow> Q (Inl x) s'"
    and "\<And>a s'. at m al pr c e T s' \<Longrightarrow> P a \<Longrightarrow> Q (Inr a) s'"
  shows "wp op Q s"
proof -
  have "wp op (\<lambda>r s'. at m al pr c e T s' \<and> (\<forall>a. r = Inr a \<longrightarrow> P a)) s"
    using assms(1-3) by (auto simp: wp_conj keeps_def yields_def)
  then show ?thesis
  proof (rule wp_mono)
    fix r :: "'e + 'a" and s'
    assume "at m al pr c e T s' \<and> (\<forall>a. r = Inr a \<longrightarrow> P a)"
    then show "Q r s'" by (cases r) (auto intro: assms(4,5))
  qed
qed

lemma keeps_prepare_launch:
  assumes "env_ok al pr (mg_env m')"
  shows "keeps (atd m al pr c e T D) (prepare_launch_with_features m' spec E snapshot resolved)"
    and "keeps (atd m al pr c e T D) (prepare_launch m' spec E snapshot)"
    and "keeps (atd m al pr c e T D) (prepare_graceful m' spec E snapshot resolved)"
    and "keeps (atd m al pr c e T D) (prepare_apply m' a spec snapshot)"
  unfolding prepare_launch_def prepare_launch_with_features_def prepare_graceful_def prepare_apply_def
  by (intro keeps_intros keeps_steps assms)+

lemma yields_prepare_launch_with:
  "yields (prepare_launch_with_features m spec E snapshot resolved) (launch_ok m E)"
  unfolding prepare_launch_with_features_def
  by (intro yields_try yields_try_yields [OF yields_commit_new] yields_ret) auto

lemma yields_prepare_launch: "yields (prepare_launch m spec E snapshot) (launch_ok m E)"
  unfolding prepare_launch_def by (intro yields_try yields_prepare_launch_with)

lemma yields_prepare_graceful:
  "yields (prepare_graceful m spec E snapshot resolved) (\<lambda>g. launch_ok m E (pg_launch g))"
  unfolding prepare_graceful_def
  by (intro yields_try yields_if yields_try_yields [OF yields_or_drop [OF yields_commit_new]] yields_ret)
    auto

lemma yields_prepare_apply:
  "rev_runtime_path (ac_revision a) = runtime_path (mg_env m) (mg_dir m) (rev_epoch (ac_revision a)) \<Longrightarrow>
   yields (prepare_apply m a spec snapshot) (\<lambda>q. launch_ok m (rev_epoch (ac_revision a)) (pa_launch q))"
  unfolding prepare_apply_def Let_def by (intro yields_try yields_ret) auto

section \<open>Start, stop and shutdown\<close>

lemma safe_start_prepared:
  assumes at: "at m al pr c e {} s" and ev: "env_ok al pr (mg_env m)"
    and c: "ct_current c = None" "ct_quarantine c = []"
    and p: "launch_ok m E p" "unat E \<le> unat e"
  shows "wp (start_prepared m p) (\<lambda>_. sound m al pr) s"
proof -
  have E: "rev_epoch (pl_revision p) = E" and spec: "spec_ok m E (pl_effective_spec p)"
    and path: "rev_runtime_path (pl_revision p) = runtime_path (mg_env m) (mg_dir m) E"
    using p(1) by (simp_all add: launch_ok_def)
  show ?thesis
    unfolding start_prepared_def E Let_def
    using at
    by (auto simp: at_wp c E path spec p(2) ev elim!: at_steps wp_give soundI split: sum.split)
qed

lemma safe_start_locked:
  assumes at: "at m al pr c e {} s" and ev: "env_ok al pr (mg_env m)"
    and c: "ct_current c = None" "ct_quarantine c = []" and e: "epoch_left e"
  shows "wp (start_locked m spec) (\<lambda>_. sound m al pr) s"
  unfolding start_locked_def using at
  by (auto simp: at_wp ev c e elim!: at_steps wp_next_epoch soundI
      safe_start_prepared [OF _ ev c _ order_refl] at_yield [OF _ keeps_prepare_launch(2) [OF ev] yields_prepare_launch] split: sum.split)

lemma safe_clear_stale:
  assumes at: "at m al pr c e {} s" and ev: "env_ok al pr (mg_env m)" and c: "ct_quarantine c = []"
    and Q: "\<And>c' s'. at m al pr c' e {} s' \<Longrightarrow> ct_current c' = None \<Longrightarrow> ct_quarantine c' = [] \<Longrightarrow> Q (Inr ()) s'"
    "\<And>x s'. sound m al pr s' \<Longrightarrow> Q (Inl x) s'"
  shows "wp (clear_stale m) Q s"
proof (cases "ct_current c")
  case None
  with assms show ?thesis by (auto simp: clear_stale_def at_wp wp_gets at_sy_ctrl)
next
  case (Some a)
  have ok: "Q r s'" if "at m al pr (c\<lparr>ct_current := None\<rparr>) e {} s'" for r s'
    using that Q(1) Q(2) [OF soundI] c by (cases r) auto
  show ?thesis
    using at
    by (auto simp: clear_stale_def at_wp ev Some c
        elim!: wp_take [OF _ Some] at_steps ok Q(2) [OF soundI] split: sum.split)
qed

lemma sound_at: "sound m al pr s \<Longrightarrow> at m al pr (sy_ctrl s) (sy_epoch s) {} s"
  by (simp add: sound_def)

lemma safe_start:
  assumes ev: "env_ok al pr (mg_env m)" and s: "sound m al pr s" and e: "epoch_left (sy_epoch s)"
  shows "wp (start m spec) (\<lambda>_. sound m al pr) s"
  unfolding start_def wp_try_op
  using s by (intro wp_reject)
    (auto simp: at_wp ev e intro!: safe_clear_stale [OF sound_at [OF s] ev] elim!: safe_start_locked)

lemma safe_stop_active:
  assumes "at m al pr c e {(ac_instance a, E)} s" and "env_ok al pr (mg_env m)"
    and "ct_current c = None" "free c E"
  shows "wp (stop_active m a) (\<lambda>_. sound m al pr) s"
  using assms(1) by (auto simp: stop_active_def at_wp assms(2-4) elim!: at_steps soundI split: sum.split)

lemma safe_stop:
  assumes ev: "env_ok al pr (mg_env m)" and s: "sound m al pr s"
  shows "wp (stop m) (\<lambda>_. sound m al pr) s"
proof (cases "ct_current (sy_ctrl s)")
  case None
  with s show ?thesis by (simp add: stop_def at_wp wp_gets)
next
  case (Some a)
  note at = sound_at [OF s]
  show ?thesis
    using at
    by (auto simp: stop_def at_wp ev Some at_current(3) [OF at Some] split: sum.split
        elim!: wp_take [OF _ Some] at_steps safe_stop_active soundI)
qed

lemma safe_shutdown:
  assumes ev: "env_ok al pr (mg_env m)" and s: "sound m al pr s"
  shows "wp (shutdown m) (\<lambda>_. sound m al pr) s"
proof -
  note at = sound_at [OF s]
  let ?rest = "\<lambda>r. do {
        sink \<leftarrow> gets sy_sink;
        modify (\<lambda>s. s\<lparr>sy_sink := False\<rparr>);
        (if sink then ext (mg_env m) (ev_sink_shutdown (mg_env m)) else ret ());
        ret r
      }"
  have rest: "wp (?rest r) (\<lambda>_. sound m al pr) s'" if "sound m al pr s'" for s' and r :: "error + unit"
    using sound_at [OF that, THEN at_sink [THEN iffD2, of _ _ _ _ _ _ _ False]]
    by (auto simp: at_wp simp del: at_sink elim!: soundI keeps_ext [OF ev env_ok_quiet(24) [OF ev], THEN [2] at_step])
  show ?thesis
  proof (cases "ct_current (sy_ctrl s)")
    case None
    with s rest show ?thesis by (simp add: shutdown_def wp_bind wp_gets wp_ret)
  next
    case (Some a)
    have act: "wp (stop_active m a) (\<lambda>r. wp (?rest r) (\<lambda>_. sound m al pr)) s'"
      if "at m al pr ((sy_ctrl s)\<lparr>ct_current := None\<rparr>) (sy_epoch s)
        {(ac_instance a, rev_epoch (ac_revision a))} s'" for s'
      using at_current(3) [OF at Some]
      by (intro wp_mono [OF safe_stop_active [OF that ev]] rest) simp_all
    have "wp (do { set_current None; abort_and_await m (ac_instance a); stop_active m a })
        (\<lambda>r. wp (?rest r) (\<lambda>_. sound m al pr)) s"
      using at unfolding wp_bind_fun
      by (auto simp: ev Some elim!: wp_take [OF _ Some] at_steps act [unfolded wp_bind_fun])
    then show ?thesis
      by (simp add: shutdown_def wp_bind_fun wp_gets Some)
  qed
qed

section \<open>Switching\<close>

lemma at_replacement [at_steps]:
  assumes "at m al pr c e T s" and "env_ok al pr (mg_env m)" and "spec_ok m E spec"
    and "unat E \<le> unat e"
    and "\<And>i s'. at m al pr c e (insert (i, E) T) s' \<Longrightarrow> Q (Inr i) s'"
    and "\<And>x s'. at m al pr c e T s' \<Longrightarrow> Q (Inl x) s'"
    and "\<And>i x s'. at m al pr c e (insert (i, E) T) s' \<Longrightarrow> is_stop_unconfirmed x \<Longrightarrow> Q (Inl x) s'"
  shows "wp (spawn_replacement m spec E controller) Q s"
  using assms(1)
  by (auto simp: spawn_replacement_def at_wp assms(2-4) elim!: at_steps assms(5-7) split: sum.split)

lemma safe_hard_switch:
  assumes at: "at m al pr c e {} s" and ev: "env_ok al pr (mg_env m)"
    and c: "ct_current c = Some old" "ct_quarantine c = []" and e: "epoch_left e"
  shows "wp (hard_switch m spec snapshot resolved) (\<lambda>_. sound m al pr) s"
  unfolding hard_switch_def using at
  by (auto simp: at_wp ev c e elim!: at_steps wp_next_epoch wp_take [OF _ c(1)] soundI
      safe_start_prepared [OF _ ev _ _ _ order_refl]
      at_yield [OF _ keeps_prepare_launch(1) [OF ev] yields_prepare_launch_with] split: sum.split)

lemma at_bootstrap:
  assumes at: "at m al pr c e {} s" and ev: "env_ok al pr (mg_env m)"
    and c: "ct_current c = Some old" "ct_quarantine c = []" "rev_epoch (ac_revision old) \<noteq> E"
    and g: "launch_ok m E (pg_launch g)" "unat E \<le> unat e"
    and Q: "\<And>i s'. at m al pr c e {(i, E)} s' \<Longrightarrow> Q (Inr i) s'"
      "\<And>x s'. sound m al pr s' \<Longrightarrow> Q (Inl x) s'"
  shows "wp (graceful_bootstrap m E g) Q s"
proof -
  have spec: "spec_ok m E (pl_effective_spec (pg_launch g))" using g(1) by (simp add: launch_ok_def)
  show ?thesis
    unfolding graceful_bootstrap_def using at
    by (auto simp: at_wp ev c c(3) [symmetric] spec g(2) elim!: at_steps Q(1) Q(2) [OF soundI] split: sum.split)
qed

lemma safe_old_stuck:
  assumes at: "at m al pr c e {(j, F), (i, E)} s" and ev: "env_ok al pr (mg_env m)"
    and c: "ct_current c = None" "ct_quarantine c = []" and x: "is_stop_unconfirmed x" and EF: "F \<noteq> E"
  shows "wp (graceful_old_stuck m F E i staged x) (\<lambda>_. sound m al pr) s"
proof -
  have comm: "at m al pr c e {(i, E), (j, F)} s' = at m al pr c e {(j, F), (i, E)} s'" for s'
    by (simp add: insert_commute)
  have rec: "wp (record_quarantine F r) (\<lambda>_. wp (latch_quarantine m E y) (\<lambda>_. sound m al pr)) s'"
    if "at m al pr c e {(i, E), (j, F)} s'" for s' y r
    using that [unfolded comm] EF by (auto simp: c free_def elim!: wp_record at_steps soundI)
  show ?thesis
    unfolding graceful_old_stuck_def using at [folded comm]
    by (auto simp: at_wp ev c x elim!: at_steps rec soundI split: sum.split)
qed

lemma at_install_switched [at_steps]:
  assumes at: "at m al pr c e (insert (i, E) T) s" and c: "ct_current c = None" "free c E"
    and p: "launch_ok m E p" and Q: "\<And>c' s'. at m al pr c' e T s' \<Longrightarrow> Q () s'"
  shows "wp (install_switched m i p) Q s"
proof -
  have E: "rev_epoch (pl_revision p) = E"
    and path: "rev_runtime_path (pl_revision p) = runtime_path (mg_env m) (mg_dir m) E"
    using p by (simp_all add: launch_ok_def)
  show ?thesis
    unfolding install_switched_def using at
    by (auto simp: at_wp c E path elim!: at_steps wp_give Q)
qed

lemma safe_commit_failed:
  assumes at: "at m al pr c e {(i, E)} s" and ev: "env_ok al pr (mg_env m)"
    and c: "ct_current c = None" "ct_quarantine c = []"
  shows "wp (graceful_commit_failed m E i x) (\<lambda>_. sound m al pr) s"
  unfolding graceful_commit_failed_def using at
  by (auto simp: at_wp ev c elim!: at_steps at_stop_failed_idle soundI split: sum.split)

lemma safe_replace:
  assumes at: "at m al pr c e {(i, E)} s" and ev: "env_ok al pr (mg_env m)"
    and c: "ct_current c = None" "ct_quarantine c = []"
    and p: "launch_ok m E p" "unat E \<le> unat e"
  shows "wp (graceful_replace m F E i p) (\<lambda>_. sound m al pr) s"
proof -
  have spec: "spec_ok m E (pl_effective_spec p)" using p(1) by (simp add: launch_ok_def)
  show ?thesis
    unfolding graceful_replace_def using at
    by (auto simp: at_wp ev c p spec elim!: at_steps at_stop_failed_idle soundI split: sum.split)
qed

lemma safe_graceful:
  assumes at: "at m al pr c e {} s" and ev: "env_ok al pr (mg_env m)"
    and c: "ct_current c = Some old" "ct_quarantine c = []" and e: "epoch_left e"
  shows "wp (graceful_switch m spec snapshot resolved) (\<lambda>_. sound m al pr) s"
proof -
  let ?F = "rev_epoch (ac_revision old)"
  have ne: "?F \<noteq> e + 1" using at_current(2) [OF at c(1)] unat_next_epoch [OF e] by auto
  show ?thesis
    unfolding graceful_switch_def using at
    by (auto simp: at_wp ev c e ne elim!: at_steps wp_next_epoch wp_take [OF _ c(1)] soundI
        at_bootstrap [OF _ ev c ne _ order_refl] safe_old_stuck safe_commit_failed
        safe_replace [OF _ ev _ _ _ order_refl]
        at_yield [OF _ keeps_prepare_launch(3) [OF ev] yields_prepare_graceful]
        split: sum.split option.split)
qed

lemma safe_switch_locked:
  assumes at: "at m al pr c e {} s" and ev: "env_ok al pr (mg_env m)"
    and c: "ct_quarantine c = []" and e: "epoch_left e"
  shows "wp (switch_locked m spec) (\<lambda>_. sound m al pr) s"
proof (cases "is_running s")
  case False
  then show ?thesis
    unfolding switch_locked_def using at
    by (auto simp: at_wp wp_gets intro!: safe_clear_stale [OF at ev c] split: sum.split)
      (auto intro!: wp_mono [OF safe_start_locked [OF _ ev _ _ e]])
next
  case True
  then obtain old where c': "ct_current c = Some old"
    using at_sy_ctrl [OF at] by (auto simp: is_running_def split: option.splits)
  show ?thesis
    unfolding switch_locked_def using at True
    by (auto simp: at_wp wp_gets ev elim!: at_steps soundI safe_graceful [OF _ ev c' c e]
        wp_mono [OF safe_hard_switch [OF _ ev c' c e]] split: sum.split option.split)
qed

lemma safe_switch:
  assumes "env_ok al pr (mg_env m)" and "sound m al pr s" and "epoch_left (sy_epoch s)"
  shows "wp (switch m spec) (\<lambda>_. sound m al pr) s" and "wp (restart m) (\<lambda>_. sound m al pr) s"
  unfolding switch_def restart_def wp_try_op using assms(2)
  by (auto simp: at_wp intro!: wp_reject safe_switch_locked [OF sound_at assms(1) _ assms(3)]
      split: option.split)

section \<open>Applying a configuration\<close>

lemma at_install_active [at_steps]:
  assumes at: "at m al pr c e (insert (i, E) T) s" and c: "ct_current c = None" "free c E"
    and a: "ac_instance a = i" "rev_epoch (ac_revision a) = E"
      "rev_runtime_path (ac_revision a) = runtime_path (mg_env m) (mg_dir m) E"
    and Q: "\<And>c' s'. at m al pr c' e T s' \<Longrightarrow> Q () s'"
  shows "wp (install_active m i a) Q s"
  unfolding install_active_def using at
  by (auto simp: at_wp c a elim!: at_steps wp_give Q)

lemma safe_roll_back:
  assumes at: "at m al pr c e {} s" and ev: "env_ok al pr (mg_env m)"
    and c: "ct_current c = None" "ct_quarantine c = []"
    and old: "rev_runtime_path (ac_revision old) =
      runtime_path (mg_env m) (mg_dir m) (rev_epoch (ac_revision old))"
      "spec_ok m (rev_epoch (ac_revision old)) spec" "unat (rev_epoch (ac_revision old)) \<le> unat e"
    and after: "\<And>c e T. keeps (atd m al pr c e T {}) after"
  shows "wp (roll_back m old spec controller what apply_text after) (\<lambda>_. sound m al pr) s"
  unfolding roll_back_def using at
  by (auto simp: at_wp c ev old elim!: at_steps at_latch_idle [where T = "{}"] soundI after [THEN [2] at_step]
      split: sum.split)

lemma safe_apply_stop_failed:
  assumes "at m al pr c e {(i, rev_epoch (ac_revision old))} s" and "is_stop_unconfirmed x"
    and "ct_current c = None" "ct_quarantine c = []"
  shows "wp (apply_stop_failed m old what x) (\<lambda>_. sound m al pr) s"
  using assms(1) by (auto simp: apply_stop_failed_def at_wp assms(2-4) elim!: at_steps soundI)

lemma safe_restart_failed:
  assumes at: "at m al pr c e {} s" and ev: "env_ok al pr (mg_env m)"
    and c: "ct_current c = None" "ct_quarantine c = []"
    and old: "rev_runtime_path (ac_revision old) =
      runtime_path (mg_env m) (mg_dir m) (rev_epoch (ac_revision old))"
      "spec_ok m (rev_epoch (ac_revision old)) spec" "unat (rev_epoch (ac_revision old)) \<le> unat e"
  shows "wp (restart_failed m old spec controller b x) (\<lambda>_. sound m al pr) s"
proof -
  have "keeps (atd m al pr c e T {}) (ignore (remove_backup (mg_env m) b))" for c e T
    by (intro keeps_ignore keeps_remove_backup ev)
  note roll = safe_roll_back [OF _ ev c old this]
  show ?thesis
    unfolding restart_failed_def using at
    by (auto simp: at_wp ev elim!: at_steps soundI roll split: sum.split)
qed

lemma safe_switch_failed:
  assumes at: "at m al pr c e {} s" and ev: "env_ok al pr (mg_env m)"
    and c: "ct_current c = None" "ct_quarantine c = []"
    and old: "rev_runtime_path (ac_revision old) =
      runtime_path (mg_env m) (mg_dir m) (rev_epoch (ac_revision old))"
      "spec_ok m (rev_epoch (ac_revision old)) spec" "unat (rev_epoch (ac_revision old)) \<le> unat e"
  shows "wp (switch_failed m old spec controller E x) (\<lambda>_. sound m al pr) s"
  unfolding switch_failed_def using at
  by (auto simp: at_wp ev elim!: at_steps safe_roll_back [OF _ ev c old keeps_ret])

lemma safe_restart_with:
  assumes at: "at m al pr c e {} s" and ev: "env_ok al pr (mg_env m)"
    and c: "ct_current c = Some old" "ct_quarantine c = []"
    and d: "launch_ok m (rev_epoch (ac_revision old)) desired"
  shows "wp (restart_with_compensation m desired b) (\<lambda>_. sound m al pr) s"
proof -
  let ?E = "rev_epoch (ac_revision old)"
  note cur = at_current [OF at c(1)]
  have E: "rev_epoch (pl_revision desired) = ?E" and spec: "spec_ok m ?E (pl_effective_spec desired)"
    and path: "rev_runtime_path (pl_revision desired) = runtime_path (mg_env m) (mg_dir m) ?E"
    using d by (simp_all add: launch_ok_def)
  show ?thesis
    unfolding restart_with_compensation_def E using at
    by (auto simp: at_wp ev c E spec path cur(2) elim!: at_steps wp_take [OF _ c(1)]
        safe_apply_stop_failed safe_restart_failed [OF _ ev _ _ cur(4) _ cur(2)]
        at_latch_idle [where T = "{}"] soundI split: sum.split)
qed

lemma safe_switch_with:
  assumes at: "at m al pr c e {} s" and ev: "env_ok al pr (mg_env m)"
    and c: "ct_current c = Some old" "ct_quarantine c = []" and e: "epoch_left e"
  shows "wp (switch_with_compensation m input snapshot) (\<lambda>_. sound m al pr) s"
proof -
  note cur = at_current [OF at c(1)]
  have le: "unat (rev_epoch (ac_revision old)) \<le> unat (e + 1)"
    using cur(2) unat_next_epoch [OF e] by simp
  have launch: "rev_epoch (pl_revision p) = e + 1" "spec_ok m (e + 1) (pl_effective_spec p)"
    "rev_runtime_path (pl_revision p) = runtime_path (mg_env m) (mg_dir m) (e + 1)"
    if "launch_ok m (e + 1) p" for p
    using that by (simp_all add: launch_ok_def)
  show ?thesis
    unfolding switch_with_compensation_def using at
    by (auto simp: at_wp ev c e launch elim!: at_steps wp_next_epoch wp_take [OF _ c(1)]
        safe_apply_stop_failed safe_switch_failed [OF _ ev _ _ cur(4) _ le]
        at_latch_idle [where T = "{}"] soundI
        at_yield [OF _ keeps_prepare_launch(2) [OF ev] yields_prepare_launch] split: sum.split)
qed

lemma safe_accept:
  assumes at: "at m al pr c e {} s" and ev: "env_ok al pr (mg_env m)" and c: "ct_current c = Some a"
    and d: "launch_ok m (rev_epoch (ac_revision a)) desired"
  shows "wp (accept_in_place m a change desired b warning) (\<lambda>_. sound m al pr) s"
proof -
  have "rev_epoch (ac_revision (active_of (ac_instance a) desired)) = rev_epoch (ac_revision a)"
    "rev_runtime_path (ac_revision (active_of (ac_instance a) desired)) = rev_runtime_path (ac_revision a)"
    using d at_current(4) [OF at c] by (simp_all add: launch_ok_def)
  note upd = wp_update_current [OF _ c _ this]
  show ?thesis
    unfolding accept_in_place_def using at
    by (auto simp: at_wp ev elim!: at_steps upd soundI)
qed

lemma safe_apply:
  assumes ev: "env_ok al pr (mg_env m)" and s: "sound m al pr s" and e: "epoch_left (sy_epoch s)"
  shows "wp (apply_config m input expected) (\<lambda>_. sound m al pr) s"
proof (cases "ct_quarantine (sy_ctrl s) = [] \<and> ct_current (sy_ctrl s) \<noteq> None")
  case False
  with s show ?thesis
    unfolding apply_config_def wp_try_op
    by (intro wp_reject) (auto simp: at_wp wp_gets split: option.split)
next
  case True
  then obtain a where c: "ct_current (sy_ctrl s) = Some a" "ct_quarantine (sy_ctrl s) = []" by blast
  note at = sound_at [OF s] and cur = at_current [OF sound_at [OF s] c(1)]
  have place: "wp (apply_in_place m a change q) (\<lambda>_. sound m al pr) s'"
    if "at m al pr (sy_ctrl s) (sy_epoch s) {} s'" "launch_ok m (rev_epoch (ac_revision a)) (pa_launch q)"
    for change q s'
  proof -
    have k: "keeps (atd m al pr c' e' T D) (or_drop (mg_env m) p (store_backup (mg_env m) d E g))"
      for c' e' T D p d E g
      by (intro keeps_or_drop keeps_store_backup ev)
    show ?thesis
      unfolding apply_in_place_def apply_committed_def using that(1)
      by (auto simp: at_wp ev that(2) elim!: at_steps soundI k [THEN [2] at_step]
          safe_accept [OF _ ev c(1)] safe_restart_with [OF _ ev c] split: sum.split)
  qed
  have k: "keeps (atd m al pr c' e' T D) (or_drop (mg_env m) p (lift_result r))"
    for c' e' T D p and r :: "error + config_change"
    by (intro keeps_or_drop keeps_lift ev)
  show ?thesis
    unfolding apply_config_def wp_try_op using at s
    by (intro wp_reject)
      (auto simp: at_wp wp_gets [of is_running] ev c Let_def elim!: at_steps soundI place
        k [THEN [2] at_step] safe_switch_with [OF _ ev c e]
        at_yield [OF _ keeps_prepare_launch(4) [OF ev] yields_prepare_apply [OF cur(4)]]
        split: sum.split config_change.split)
qed

section \<open>Recovery from quarantine\<close>

lemma at_reap:
  assumes ev: "env_ok al pr (mg_env m)" and at: "at m al pr c e T s"
    and "\<And>x s'. at m al pr c e T s' \<Longrightarrow> Q (Inl x) s'" "\<And>s'. at m al pr c e T s' \<Longrightarrow> Q (Inr NotFound) s'"
    and "\<And>r s'. at m al pr c e T s' \<Longrightarrow> r \<noteq> NotFound \<Longrightarrow>
      (\<And>i x. sy_inst s' i = Some x \<Longrightarrow> in_epoch x = E \<Longrightarrow> \<not> al (sy_world s') i) \<Longrightarrow> Q (Inr r) s'"
  shows "wp (ext (mg_env m) (ev_reap (mg_env m) (pid_path (mg_env m) (mg_dir m) E) d)) Q s"
proof -
  let ?ev = "mg_env m" and ?p = "pid_path (mg_env m) (mg_dir m) E"
  let ?r = "ev_reap ?ev ?p d (sy_world s)"
  let ?s = "interfere ?ev (s\<lparr>sy_world := snd ?r\<rparr>)"
  have at': "at m al pr c e T ?s"
    using atd_ext [OF ev env_ok_quiet(25) [OF ev], of m c e T "{}" s ?p d] at by simp
  have "\<not> al (sy_world ?s) i"
    if x: "sy_inst ?s i = Some x" "in_epoch x = E" and r: "fst ?r = Inr r" "r \<noteq> NotFound" for i x r
  proof
    assume a: "al (sy_world ?s) i"
    have "inst_safe m al pr ?s i x" using at' x(1) by (simp add: at_def)
    with a x(2) have "pr (sy_world ?s) i = Some ?p" by (simp add: inst_safe_def)
    moreover have "pr (sy_world ?s) i = pr (snd ?r) i" using env_events(2) [OF ev] by (simp add: interfere_eq)
    moreover have "pr (snd ?r) i = pr (sy_world s) i"
      using env_ok_quiet(25) [OF ev, of ?p d] by (simp add: quiet_def)
    ultimately have "\<not> al (snd ?r) i" using env_reap [OF ev r] by simp
    with a interfere_dead [OF ev, of "s\<lparr>sy_world := snd ?r\<rparr>" i] show False by simp
  qed
  with at' assms(3-5) show ?thesis
    by (cases "fst ?r"; cases "fst ?r = Inr NotFound") (auto simp: wp_ext)
qed

text \<open>The entries that are still to be visited are those of the quarantine.\<close>

definition kept :: "ctrl \<Rightarrow> quarantined_epoch list \<Rightarrow> bool" where
  "kept c qs \<longleftrightarrow> set qs \<subseteq> set (ct_quarantine c) \<and> distinct (map qe_epoch qs)"

lemma kept_Cons:
  "kept c (q # qs) \<longleftrightarrow>
     q \<in> set (ct_quarantine c) \<and> kept c qs \<and> (\<forall>x \<in> set qs. qe_epoch x \<noteq> qe_epoch q)"
  by (auto simp: kept_def image_iff)

lemma prove_death_other: "q' \<in> set qs \<Longrightarrow> qe_epoch q' \<noteq> E \<Longrightarrow> q' \<in> set (prove_death E qs)"
  by (induction qs) auto

lemma at_distinct: "at m al pr c e T s \<Longrightarrow> distinct (map qe_epoch (ct_quarantine c))"
  by (simp add: at_def ctrl_ok_def)

lemma proven_entry:
  assumes "distinct (map qe_epoch qs)" "q \<in> set qs" "qe_death_proven q"
  shows "\<not> unproven qs (qe_epoch q)"
  using assms by (auto simp: unproven_def distinct_map inj_on_def)

lemma at_recover_reap:
  assumes at: "at m al pr c e {} s" and ev: "env_ok al pr (mg_env m)" and k: "kept c (q # qs)"
    and Q: "\<And>f s'. at m al pr c e {} s' \<Longrightarrow> Q (Some f) s'"
      "\<And>c' s'. at m al pr c' e {} s' \<Longrightarrow> kept c' qs \<Longrightarrow> \<not> unproven (ct_quarantine c') (qe_epoch q) \<Longrightarrow>
        Q None s'"
  shows "wp (recover_reap m q) Q s"
proof (cases "qe_death_proven q")
  case True
  have "\<not> unproven (ct_quarantine c) (qe_epoch q)"
    using True k by (intro proven_entry at_distinct [OF at]) (auto simp: kept_def)
  with True k at show ?thesis by (auto simp: recover_reap_def at_wp kept_def intro!: Q(2))
next
  case False
  let ?c = "c\<lparr>ct_quarantine := prove_death (qe_epoch q) (ct_quarantine c)\<rparr>"
  have "kept ?c qs"
    using k unfolding kept_Cons by (auto simp: kept_def intro!: prove_death_other)
  moreover have "\<not> unproven (ct_quarantine ?c) (qe_epoch q)"
    using unproven_proved at_distinct [OF at] by simp
  ultimately have proved: "wp (set_quarantine (prove_death (qe_epoch q))) (\<lambda>_. Q None) s'"
    if "at m al pr c e {} s'"
      "\<And>i x. sy_inst s' i = Some x \<Longrightarrow> in_epoch x = qe_epoch q \<Longrightarrow> \<not> al (sy_world s') i" for s'
    by (rule_tac wp_prove [OF that]) (simp_all add: Q(2))
  show ?thesis
    unfolding recover_reap_def using False
    by (simp add: at_wp) (rule at_reap [OF ev at, where E = "qe_epoch q"],
      auto simp: at_wp intro: Q(1) proved split: reap_outcome.split)
qed

lemma at_recover_entry:
  assumes at: "at m al pr c e {} s" and ev: "env_ok al pr (mg_env m)" and k: "kept c (q # qs)"
    and Q: "\<And>c' r s'. at m al pr c' e {} s' \<Longrightarrow> kept c' qs \<Longrightarrow> Q r s'"
  shows "wp (recover_entry m q) Q s"
proof -
  have tail: "kept c qs" using k by (auto simp: kept_def)
  have release: "wp (set_quarantine (filter (\<lambda>q'. qe_epoch q' \<noteq> qe_epoch q))) (\<lambda>_. Q None) s'"
    if "at m al pr c' e {} s'" "kept c' qs" "\<not> unproven (ct_quarantine c') (qe_epoch q)" for c' s'
    using that k unfolding kept_Cons by (intro wp_release [OF that(1,3)] Q) (auto simp: kept_def)
  show ?thesis
    unfolding recover_entry_def wp_bind
    by (rule at_recover_reap [OF at ev k])
      (auto simp: at_wp elim!: keeps_cleanup [OF ev, THEN [2] at_step] release Q [OF _ tail] Q
        split: sum.split)
qed

lemma at_recover_entries:
  "at m al pr c e {} s \<Longrightarrow> env_ok al pr (mg_env m) \<Longrightarrow> kept c qs \<Longrightarrow>
   wp (recover_entries m qs fs) (\<lambda>_ s'. \<exists>c'. at m al pr c' e {} s') s"
proof (induction qs arbitrary: c s fs)
  case (Cons q qs)
  then show ?case
    by (auto simp: wp_bind_fun intro!: at_recover_entry [OF Cons.prems])
qed (auto simp: wp_ret)

lemma safe_recover:
  assumes ev: "env_ok al pr (mg_env m)" and s: "sound m al pr s"
  shows "wp (recover_quarantine m) (\<lambda>_. sound m al pr) s"
proof -
  note at = sound_at [OF s]
  have "kept (sy_ctrl s) (ct_quarantine (sy_ctrl s))"
    using at_distinct [OF at] by (simp add: kept_def)
  from at_recover_entries [OF at ev this]
  have "wp (recover_entries m (ct_quarantine (sy_ctrl s)) []) (\<lambda>failures. wp (
      if failures \<noteq> [] then do {
         left \<leftarrow> gets (ct_quarantine \<circ> sy_ctrl);
         ret (Inl (ManagerQuarantined (case left of q # _ \<Rightarrow> qe_epoch q | [] \<Rightarrow> 0)
           (str_join '' | '' failures)))
       }
       else do { publish m (CStopped None) None None None; ret (Inr ()) }) (\<lambda>_. sound m al pr)) s"
    by (rule wp_mono) (auto simp: at_wp wp_gets elim!: at_steps soundI)
  with s show ?thesis
    by (auto simp: recover_quarantine_def at_wp wp_gets)
qed

end
