(* ===== verification/Manager_Reach.thy ===== *)
theory Manager_Reach
  imports Manager_Safety
begin

text \<open>
  The life of a manager: it is built over a runtime directory that is swept of the leftovers of
  earlier ones, and then runs public operations in any order. In every state it can reach, a
  process tree that may be alive is accounted for.
\<close>

section \<open>Construction\<close>

text \<open>A program that has spawned nothing yet.\<close>

definition blank :: "('w \<Rightarrow> nat \<Rightarrow> bool) \<Rightarrow> 'w sys \<Rightarrow> bool" where
  "blank al s \<longleftrightarrow> sy_inst s = Map.empty \<and> (\<forall>i. \<not> al (sy_world s) i)"

lemma blank_deliver: "sy_inst s = Map.empty \<Longrightarrow> deliver ev s ie = s"
  by (cases ie) (simp_all add: deliver_inst_def forward_def split: option.split)

lemma blank_delivers: "sy_inst s = Map.empty \<Longrightarrow> foldl (deliver ev) s es = s"
  by (induction es) (simp_all add: blank_deliver)

lemma keeps_blank_ext:
  assumes "env_ok al pr ev" and "quiet al pr op"
  shows "keeps (blank al) (ext ev op)"
proof -
  have "blank al (interfere ev (s\<lparr>sy_world := snd (op (sy_world s))\<rparr>))" if "blank al s" for s
    using that assms(2) interfere_dead [OF assms(1), of "s\<lparr>sy_world := snd (op (sy_world s))\<rparr>"]
    by (auto simp: blank_def quiet_def interfere_eq blank_delivers)
  then show ?thesis by (simp add: keeps_def wp_ext)
qed

lemma keeps_blank_io:
  "env_ok al pr ev \<Longrightarrow> quiet al pr op \<Longrightarrow> keeps (blank al) (ext_io ev op)"
  "env_ok al pr ev \<Longrightarrow> quiet al pr op' \<Longrightarrow> keeps (blank al) (ext_fs ev op')"
  unfolding ext_io_def ext_fs_def by (intro keeps_intros keeps_blank_ext; assumption)+

lemmas keeps_blank = keeps_blank_ext keeps_blank_io env_ok_quiet

lemma keeps_blank_open:
  "env_ok al pr ev \<Longrightarrow> keeps (blank al) (store_new ev dir)"
  "env_ok al pr ev \<Longrightarrow> keeps (blank al) (acquire_ownership ev dir)"
  "env_ok al pr ev \<Longrightarrow> keeps (blank al) (prepare_dir ev dir)"
  unfolding store_new_def acquire_ownership_def prepare_dir_def
  by (intro keeps_intros keeps_blank; assumption)+

lemma keeps_blank_cleanup:
  assumes "env_ok al pr ev"
  shows "keeps (blank al) (cleanup_epoch ev dir epoch)"
proof -
  note kb = keeps_blank_ext [OF assms] keeps_blank_io [OF assms] env_ok_quiet [OF assms]
  have "keeps (blank al) (ext_fs ev (ev_remove_regular ev p))" for p by (intro kb)
  then have "keeps (blank al) (cleanup_entries ev dir epoch es)" for es
    by (induction ev dir epoch es rule: cleanup_entries.induct) (auto intro!: keeps_intros)
  then show ?thesis
    unfolding cleanup_epoch_def remove_socket_artifact_def by (intro keeps_intros kb)
qed

lemma keeps_blank_sweep:
  assumes "env_ok al pr ev"
  shows "keeps (blank al) (sweep_orphans ev dir)"
proof -
  note kb = keeps_blank_ext [OF assms] keeps_blank_io [OF assms] env_ok_quiet [OF assms]
  have "keeps (blank al) (sweep_epochs ev dir es)" for es
    by (induction es) (auto intro!: keeps_intros kb keeps_blank_cleanup [OF assms])
  then show ?thesis
    unfolding sweep_orphans_def artifact_epochs_def by (intro keeps_intros kb)
qed

lemma blank_sound:
  "blank al s \<Longrightarrow> sy_ctrl s = ctrl_default \<Longrightarrow> sound m al pr s"
  by (simp add: sound_def at_def blank_def ctrl_ok_def ctrl_default_def)

lemma wp_build:
  assumes ev: "env_ok al pr ev" and "blank al s"
  shows "wp (build_configured ev options plan)
    (\<lambda>r s'. \<forall>m. r = Inr m \<longrightarrow> mg_env m = ev \<and> sound m al pr s') s"
proof -
  have step: "wp op Q s'" if "keeps (blank al) op" "blank al s'" "\<And>r s'. blank al s' \<Longrightarrow> Q r s'"
    for op :: "('a sys, 'r) state" and Q s'
    using keepsD [OF that] by simp
  have fin: "sound m al pr (s'\<lparr>sy_status := st, sy_epoch := e, sy_cache := c, sy_sink := b,
      sy_ctrl := ctrl_default, sy_forwarders := f\<rparr>)" if "blank al s'" for m st e c b f s'
    using that by (intro blank_sound) (simp_all add: blank_def)
  show ?thesis
    unfolding build_configured_def using assms(2)
    by (auto simp: wp_try_op wp_bind wp_ret wp_modify wp_lift_result now_ms_def wp_gets fin
        split: option.split sum.split
        intro!: keepsD [OF keeps_blank_open(1) [OF ev]] keepsD [OF keeps_blank_open(2) [OF ev]]
          keepsD [OF keeps_blank_open(3) [OF ev]]
          keepsD [OF keeps_blank_sweep [OF ev]]
          keepsD [OF keeps_blank_ext [OF ev env_ok_quiet(32) [OF ev]]])
qed

section \<open>Reachable states\<close>

text \<open>
  The epoch counter is 64 bits wide and wraps; a step starts before it is exhausted. A run of
  the manager would need more than \<^verbatim>\<open>2^64\<close> launches to get there.
\<close>

inductive reach ::
  "'w env \<Rightarrow> manager_options \<Rightarrow> probe_plan \<Rightarrow> ('w \<Rightarrow> nat \<Rightarrow> bool) \<Rightarrow> 'w manager \<Rightarrow> 'w sys \<Rightarrow> bool"
  for ev options plan al where
  reach_build: "blank al s \<Longrightarrow> run_state (build_configured ev options plan) s = (Inr m, s') \<Longrightarrow>
    reach ev options plan al m s'"
| reach_op: "reach ev options plan al m s \<Longrightarrow> epoch_left (sy_epoch s) \<Longrightarrow>
    run_state (run_op m op) s = ((), s') \<Longrightarrow> reach ev options plan al m s'"

lemma safe_idle: "env_ok al pr (mg_env m) \<Longrightarrow> sound m al pr s \<Longrightarrow>
    wp (ext (mg_env m) (\<lambda>w. ((), w))) (\<lambda>_. sound m al pr) s"
  by (rule at_step [OF sound_at keeps_ext [OF _ env_ok_quiet(27)]]) (auto elim: soundI)

lemma safe_op:
  assumes "env_ok al pr (mg_env m)" and "sound m al pr s" and "epoch_left (sy_epoch s)"
  shows "wp (run_op m op) (\<lambda>_. sound m al pr) s"
  using safe_start [OF assms] safe_stop [OF assms(1,2)] safe_switch [OF assms]
    safe_apply [OF assms] safe_recover [OF assms(1,2)] safe_shutdown [OF assms(1,2)]
    safe_idle [OF assms(1,2)]
  by (cases op) (simp_all add: wp_ignore)

lemma reach_sound:
  assumes "reach ev options plan al m s" and "env_ok al pr ev"
  shows "mg_env m = ev \<and> sound m al pr s"
  using assms(1)
proof induction
  case (reach_build s m s')
  from wp_run [OF wp_build [OF assms(2) reach_build(1)] reach_build(2)] show ?case by simp
next
  case (reach_op m s op s')
  then have "wp (run_op m op) (\<lambda>_. sound m al pr) s" using assms(2) by (intro safe_op) simp_all
  from wp_run [OF this reach_op(3)] reach_op.IH show ?case by simp
qed

lemma sound_accounted:
  assumes "sound m al pr s" and "al (sy_world s) i"
  shows "(\<exists>a. ct_current (sy_ctrl s) = Some a \<and> ac_instance a = i) \<or>
    (\<exists>x q. sy_inst s i = Some x \<and> q \<in> set (ct_quarantine (sy_ctrl s)) \<and>
      qe_epoch q = in_epoch x \<and> \<not> qe_death_proven q)"
  using sound_at [OF assms(1)] assms(2) by (fastforce simp: at_def accounted_def)

end
