(* ===== verification/Simulation.thy ===== *)
theory Simulation
  imports Manager_Reach
begin

text \<open>
  A small concrete environment: a file system that accepts everything, a supervisor that starts
  a process, and a reaper that kills what a pid file records. It satisfies what the manager
  relies on, and the operations run in it by evaluation.
\<close>

record sim =
  si_alive :: "nat list"
  si_record :: "(nat \<times> path) list"
  si_files :: "(path \<times> string) list"

definition sim_al :: "sim \<Rightarrow> nat \<Rightarrow> bool" where
  "sim_al w i \<longleftrightarrow> i \<in> set (si_alive w)"

definition sim_pr :: "sim \<Rightarrow> nat \<Rightarrow> path option" where
  "sim_pr w i = map_of (si_record w) i"

definition sim_spawn :: "nat \<Rightarrow> command \<Rightarrow> instance_options \<Rightarrow> sim \<Rightarrow> (string + unit) \<times> sim" where
  "sim_spawn i cmd opts w =
     (Inr (), w\<lparr>si_alive := i # si_alive w,
        si_record := (case cmd_epoch_pid_file cmd of Some (p, _, _) \<Rightarrow> [(i, p)] | None \<Rightarrow> []) @
          filter (\<lambda>(j, _). j \<noteq> i) (si_record w)\<rparr>)"

text \<open>Reaping kills every process the file records.\<close>

definition sim_reap :: "path \<Rightarrow> path \<Rightarrow> sim \<Rightarrow> (string + reap_outcome) \<times> sim" where
  "sim_reap p d w =
     (Inr Killed, w\<lparr>si_alive := filter (\<lambda>i. sim_pr w i \<noteq> Some p) (si_alive w)\<rparr>)"

definition sim_wait :: "sim \<Rightarrow> ievent list list \<times> sim" where
  "sim_wait w =
     ((case si_alive w of
         [] \<Rightarrow> []
       | i # _ \<Rightarrow>
           [[IInst i (EMon \<lparr>ck_instant = 1, ck_ms = 1\<rparr> (MStarted 42)),
             IInst i (EMon \<lparr>ck_instant = 2, ck_ms = 2\<rparr> (MObservation
               \<lparr>po_run_id = 1, po_pid = 42, po_phase = Readiness, po_completed_at = 2, po_completed_at_ms = 2,
                po_result = PHealthy\<rparr> True))]]), w)"

definition sim_codec :: codec where
  "sim_codec =
     \<lparr>cx_from_slice = (\<lambda>raw. Inr (YMapping [(YString ''external-controller'', YString ''127.0.0.1:9090'')])),
      cx_to_string = (\<lambda>_. Inr ''yaml''),
      cx_url_parse = (\<lambda>s. Inr \<lparr>url_scheme = ''http'', url_authority = s, url_path = ''/'',
        url_query = None, url_fragment = None, url_cannot_be_a_base = False\<rparr>)\<rparr>"

definition sim_env :: "sim env" where
  "sim_env =
     \<lparr>ev_platform = Unix, ev_codec = sim_codec,
      ev_patch_codec = \<lparr>pc_from_value = (\<lambda>_. None), pc_to_value = (\<lambda>_. Inl ''''),
        pc_runtime_to_value = (\<lambda>_. Inl '''')\<rparr>,
      ev_semver = \<lparr>version_parse = (\<lambda>_. None), req_ge_matches = (\<lambda>_ _. False)\<rparr>,
      ev_chrono = \<lparr>ch_rfc3339_ms = (\<lambda>_. None), ch_from_ymd = (\<lambda>_ _ _. None),
        ch_from_hms_nano = (\<lambda>_ _ _ _. None), ch_parse_hms = (\<lambda>_. None), ch_succ = (\<lambda>_. None),
        ch_pred = (\<lambda>_. None), ch_time_diff = (\<lambda>_ _. 0), ch_local_ms = (\<lambda>_ _ _. None)\<rparr>,
      ev_canon = (\<lambda>p. Inr (Some p)), ev_process_id = ''7'',
      ev_now_ms = (\<lambda>_. 0), ev_instant = (\<lambda>_. 0),
      ev_observed = (\<lambda>_ _. \<lparr>ob_ms = 0, ob_date = 0, ob_time = 0, ob_offset = 0\<rparr>),
      ev_events = (\<lambda>w. ([], w)), ev_wait = sim_wait, ev_expired = (\<lambda>_. False),
      ev_read = (\<lambda>_ w. (Inr ''raw'', w)), ev_metadata_ok = (\<lambda>_ w. (True, w)),
      ev_modified = (\<lambda>_ w. (Some (Inr 0), w)), ev_try_exists = (\<lambda>_ w. (Inr True, w)),
      ev_symlink_metadata = (\<lambda>_ w. (MetaFound \<lparr>fm_symlink = False, fm_reparse = False, fm_dir = True,
        fm_file = False, fm_socket = True\<rparr>, w)),
      ev_create_dir_all = (\<lambda>_ w. (Inr (), w)), ev_protect_dir = (\<lambda>_ w. (Inr (), w)),
      ev_canonicalize = (\<lambda>p w. (Inr (Some p), w)), ev_lock = (\<lambda>_ w. (Inr (), w)),
      ev_open_new = (\<lambda>_ w. (Inr (), w)), ev_set_permissions = (\<lambda>_ w. (Inr (), w)),
      ev_write_sync = (\<lambda>_ _ w. (Inr (), w)), ev_remove_file = (\<lambda>_ w. (Inr (), w)),
      ev_validate_absent = (\<lambda>_ w. (Inr (), w)), ev_validate_existing = (\<lambda>_ w. (Inr (), w)),
      ev_move_new = (\<lambda>_ _ w. (Inr (), w)), ev_replace = (\<lambda>_ _ w. (Inr (), w)),
      ev_remove_regular = (\<lambda>_ w. (Inr (), w)), ev_sync_dir = (\<lambda>_ w. (Inr (), w)),
      ev_read_dir = (\<lambda>_ w. (Inr [], w)),
      ev_run = (\<lambda>_ _ w. (CmdOutput \<lparr>co_success = True, co_code = ''0'', co_stdout = ''v'', co_stderr = ''''\<rparr>, w)),
      ev_reap = sim_reap, ev_spawn = sim_spawn, ev_supervisor_stop = (\<lambda>_ _ w. (StopOk, w)),
      ev_cancel = (\<lambda>_ w. ((), w)), ev_client = (\<lambda>_ _ w. (Inr (), w)),
      ev_patch_config = (\<lambda>_ _ w. (Inr (), w)), ev_configs = (\<lambda>_ w. (Inl '''', w)),
      ev_update_config = (\<lambda>_ _ w. (Inr (), w)), ev_probe = (\<lambda>_ w. (Some PHealthy, w)),
      ev_sink_spawn = (\<lambda>p w. (Inr (), w)), ev_sink_shutdown = (\<lambda>w. ((), w))\<rparr>"

text \<open>The simulated environment keeps the promises the manager relies on.\<close>

lemma sim_quiet [simp]: "quiet al pr (\<lambda>w. (f w, w))"
  by (simp add: quiet_def)

lemma map_of_other: "map_of (filter (\<lambda>(j, _). j \<noteq> i) xs) k = (if k = i then None else map_of xs k)"
  by (induction xs) auto

lemma sim_ok: "env_ok sim_al sim_pr sim_env"
proof -
  have "file_ops_quiet sim_al sim_pr sim_env"
    unfolding file_ops_quiet_def sim_env_def by (simp add: quiet_def)
  moreover have "net_ops_quiet sim_al sim_pr sim_env"
    unfolding net_ops_quiet_def sim_env_def by (simp add: quiet_def)
  moreover have "events_ok sim_al sim_pr sim_env"
    unfolding events_ok_def sim_env_def
    by (auto simp: quiet_def sim_wait_def ended_def split: list.splits)
  moreover have "spawn_ok sim_al sim_pr sim_env"
    unfolding spawn_ok_def sim_env_def
    by (auto simp: sim_spawn_def sim_al_def sim_pr_def map_of_other split: option.splits)
  moreover have "reap_ok sim_al sim_pr sim_env"
    unfolding reap_ok_def sim_env_def by (auto simp: quiet_def sim_reap_def sim_al_def sim_pr_def)
  ultimately show ?thesis by (simp add: env_ok_def)
qed

section \<open>A run\<close>

definition sim_options :: manager_options where
  "sim_options = default_manager_options\<lparr>mo_runtime_dir := Some ''/r'', mo_local_ipc_policy := Disable\<rparr>"

definition sim_plan :: probe_plan where
  "sim_plan = \<lparr>pp_readiness = True, pp_liveness = False, pp_liveness_with_readiness = False\<rparr>"

definition sim_spec :: instance_spec where
  "sim_spec =
     \<lparr>is_core = \<lparr>cs_kind = Mihomo, cs_binary_path = ''/d/mihomo'', cs_version = None, cs_features = []\<rparr>,
      is_config_path = ''/c.yaml'', is_working_dir = ''/d'', is_pid_file = None,
      is_options = \<lparr>io_startup_timeout = from_secs 30, io_health = default_health_policy,
        io_restart_policy = [], io_backoff = []\<rparr>\<rparr>"

definition sim_init :: "sim sys" where
  "sim_init =
     \<lparr>sy_world = \<lparr>si_alive = [], si_record = [], si_files = []\<rparr>, sy_temp = 0, sy_next = 0, sy_inst = Map.empty,
      sy_forwarders = [], sy_status = core_status_initial 0, sy_epoch = 0, sy_cache = [],
      sy_sink = True, sy_ctrl = ctrl_default\<rparr>"

definition sim_manager :: "sim manager" where
  "sim_manager = \<lparr>mg_env = sim_env, mg_options = sim_options, mg_plan = sim_plan, mg_dir = ''/r''\<rparr>"

lemma sim_fields [simp]:
  "ev_platform sim_env = Unix"
  "ev_codec sim_env = sim_codec"
  "ev_patch_codec sim_env = \<lparr>pc_from_value = (\<lambda>_. None), pc_to_value = (\<lambda>_. Inl ''''), pc_runtime_to_value = (\<lambda>_. Inl '''')\<rparr>"
  "ev_semver sim_env = \<lparr>version_parse = (\<lambda>_. None), req_ge_matches = (\<lambda>_ _. False)\<rparr>"
  "ev_chrono sim_env = \<lparr>ch_rfc3339_ms = (\<lambda>_. None), ch_from_ymd = (\<lambda>_ _ _. None), ch_from_hms_nano = (\<lambda>_ _ _ _. None), ch_parse_hms = (\<lambda>_. None), ch_succ = (\<lambda>_. None), ch_pred = (\<lambda>_. None), ch_time_diff = (\<lambda>_ _. 0), ch_local_ms = (\<lambda>_ _ _. None)\<rparr>"
  "ev_canon sim_env = (\<lambda>p. Inr (Some p))"
  "ev_process_id sim_env = ''7''"
  "ev_now_ms sim_env = (\<lambda>_. 0)"
  "ev_instant sim_env = (\<lambda>_. 0)"
  "ev_observed sim_env = (\<lambda>_ _. \<lparr>ob_ms = 0, ob_date = 0, ob_time = 0, ob_offset = 0\<rparr>)"
  "ev_events sim_env = (\<lambda>w. ([], w))"
  "ev_wait sim_env = sim_wait"
  "ev_expired sim_env = (\<lambda>_. False)"
  "ev_read sim_env = (\<lambda>_ w. (Inr ''raw'', w))"
  "ev_metadata_ok sim_env = (\<lambda>_ w. (True, w))"
  "ev_modified sim_env = (\<lambda>_ w. (Some (Inr 0), w))"
  "ev_try_exists sim_env = (\<lambda>_ w. (Inr True, w))"
  "ev_symlink_metadata sim_env = (\<lambda>_ w. (MetaFound \<lparr>fm_symlink = False, fm_reparse = False, fm_dir = True, fm_file = False, fm_socket = True\<rparr>, w))"
  "ev_create_dir_all sim_env = (\<lambda>_ w. (Inr (), w))"
  "ev_protect_dir sim_env = (\<lambda>_ w. (Inr (), w))"
  "ev_canonicalize sim_env = (\<lambda>p w. (Inr (Some p), w))"
  "ev_lock sim_env = (\<lambda>_ w. (Inr (), w))"
  "ev_open_new sim_env = (\<lambda>_ w. (Inr (), w))"
  "ev_set_permissions sim_env = (\<lambda>_ w. (Inr (), w))"
  "ev_write_sync sim_env = (\<lambda>_ _ w. (Inr (), w))"
  "ev_remove_file sim_env = (\<lambda>_ w. (Inr (), w))"
  "ev_validate_absent sim_env = (\<lambda>_ w. (Inr (), w))"
  "ev_validate_existing sim_env = (\<lambda>_ w. (Inr (), w))"
  "ev_move_new sim_env = (\<lambda>_ _ w. (Inr (), w))"
  "ev_replace sim_env = (\<lambda>_ _ w. (Inr (), w))"
  "ev_remove_regular sim_env = (\<lambda>_ w. (Inr (), w))"
  "ev_sync_dir sim_env = (\<lambda>_ w. (Inr (), w))"
  "ev_read_dir sim_env = (\<lambda>_ w. (Inr [], w))"
  "ev_run sim_env = (\<lambda>_ _ w. (CmdOutput \<lparr>co_success = True, co_code = ''0'', co_stdout = ''v'', co_stderr = ''''\<rparr>, w))"
  "ev_reap sim_env = sim_reap"
  "ev_spawn sim_env = sim_spawn"
  "ev_supervisor_stop sim_env = (\<lambda>_ _ w. (StopOk, w))"
  "ev_cancel sim_env = (\<lambda>_ w. ((), w))"
  "ev_client sim_env = (\<lambda>_ _ w. (Inr (), w))"
  "ev_patch_config sim_env = (\<lambda>_ _ w. (Inr (), w))"
  "ev_configs sim_env = (\<lambda>_ w. (Inl '''', w))"
  "ev_update_config sim_env = (\<lambda>_ _ w. (Inr (), w))"
  "ev_probe sim_env = (\<lambda>_ w. (Some PHealthy, w))"
  "ev_sink_spawn sim_env = (\<lambda>p w. (Inr (), w))"
  "ev_sink_shutdown sim_env = (\<lambda>w. ((), w))"
  by (simp_all add: sim_env_def)

lemma sim_manager_fields [simp]:
  "mg_env sim_manager = sim_env" "mg_options sim_manager = sim_options" "mg_plan sim_manager = sim_plan"
  "mg_dir sim_manager = ''/r''"
  by (simp_all add: sim_manager_def)

text \<open>No task runs between the effects of the simulation.\<close>

lemma sim_ext: "wp (ext sim_env op) Q s =
    Q (fst (op (sy_world s))) (s\<lparr>sy_world := snd (op (sy_world s))\<rparr>)"
  by (simp add: wp_ext interfere_eq)

lemma sim_snapshot:
  "\<exists>h. snapshot_from_bytes sim_codec p raw = Inr \<lparr>sn_source_path = p,
     sn_document = [(YString ''external-controller'', YString ''127.0.0.1:9090'')], sn_source_hash = h\<rparr>"
  by (simp add: snapshot_from_bytes_def sim_codec_def collect_entries_def mapping_insert_def serialize_mapping_def)

lemma sim_host: "\<not> isl (host_http (cx_url_parse sim_codec) (probe_address ''127.0.0.1:9090''))"
  by code_simp

lemma sim_prepare:
  "\<exists>p. manager_prepare_full sim_manager \<lparr>sn_source_path = q,
     sn_document = [(YString ''external-controller'', YString ''127.0.0.1:9090'')], sn_source_hash = h\<rparr> e {} = Inr p"
proof -
  obtain x where x: "host_http (cx_url_parse sim_codec) (probe_address ''127.0.0.1:9090'') = Inr x"
    using sim_host by (cases "host_http (cx_url_parse sim_codec) (probe_address ''127.0.0.1:9090'')") auto
  have "cx_to_string sim_codec = (\<lambda>_. Inr ''yaml'')"
    by (simp add: sim_codec_def)
  with x show ?thesis
    by (simp add: manager_prepare_full_def prepare_full_def prepare_def
        collect_entries_def mapping_insert_def serialize_mapping_def inspect_http_def
        str_value_def mapping_get_def field_defs resolve_controller_def Let_def)
qed

lemma sim_stage:
  assumes "sy_temp s = 0"
  shows "wp (stage_checked sim_manager sim_spec 1 bytes)
     (\<lambda>r s'. r = Inr ''/r/.config-1.yaml.tmp-7-0'' \<and> s' = s\<lparr>sy_temp := 1\<rparr>) s"
proof -
  have p: "path_join Unix ''/r'' (temp_name sim_env 1 0) = ''/r/.config-1.yaml.tmp-7-0''"
    unfolding temp_name_def temp_prefix_def sim_fields by code_simp
  have d: "path_parent Unix ''/r/.config-1.yaml.tmp-7-0'' = Some ''/r''" by code_simp
  show ?thesis
    using assms
    by (simp add: stage_checked_def stage_def or_drop_def check_config_def run_check_def wp_simps
        ext_io_def ext_fs_def sim_ext ignore_def p d Let_def)
qed

lemma sim_commit:
  assumes "sy_temp s = 1"
  shows "wp (commit_new sim_env ''/r'' ''/r/.config-1.yaml.tmp-7-0'' 1)
     (\<lambda>r s'. r = Inr ''/r/config-1.yaml'' \<and> s' = s) s"
proof -
  have "path_parent Unix ''/r/.config-1.yaml.tmp-7-0'' = Some ''/r''"
    "path_file_name Unix ''/r/.config-1.yaml.tmp-7-0'' = Some ''.config-1.yaml.tmp-7-0''"
    "prefix (temp_prefix 1) ''.config-1.yaml.tmp-7-0''"
    "path_join Unix ''/r'' (runtime_name 1) = ''/r/config-1.yaml''"
    by code_simp+
  then show ?thesis
    by (simp add: commit_new_def validate_staged_def or_drop_def wp_simps ext_io_def ext_fs_def
        sim_ext runtime_path_def Let_def)
qed

text \<open>The version is asked of the binary, and cached.\<close>

lemma sim_version:
  "wp (version_resolve sim_env (is_core sim_spec)) (\<lambda>r s'. (\<exists>v. r = Inr v) \<and> (\<exists>c. s' = s\<lparr>sy_cache := c\<rparr>)) s"
proof -
  have out: "version_output b (CmdOutput \<lparr>co_success = True, co_code = ''0'', co_stdout = ''v'', co_stderr = ''''\<rparr>) = Inr ''v''" for b
    by code_simp
  have keep: "\<exists>c. s = s\<lparr>sy_cache := c\<rparr>" by (rule exI [of _ "sy_cache s"]) simp
  show ?thesis
    by (auto simp: version_resolve_def sim_spec_def binary_modified_def probe_version_def out wp_simps sim_ext
        keep split: option.split)
qed

lemma sim_features:
  "wp (manager_features sim_manager (is_core sim_spec))
     (\<lambda>r s'. (\<exists>x. r = Inr x \<and> rf_runtime x = {}) \<and> (\<exists>c. s' = s\<lparr>sy_cache := c\<rparr>)) s"
proof -
  have keep: "\<exists>c. s = s\<lparr>sy_cache := c\<rparr>" by (rule exI [of _ "sy_cache s"]) simp
  have policy: "mo_local_ipc_policy sim_options = Disable" by (simp add: sim_options_def)
  show ?thesis
    by (auto simp: manager_features_def resolve_features_def policy resolve_runtime_def wp_simps keep
        intro!: wp_mono [OF sim_version])
qed

lemma sim_launch:
  assumes "sy_temp s = 0"
  shows "wp (prepare_launch sim_manager sim_spec 1 \<lparr>sn_source_path = q,
       sn_document = [(YString ''external-controller'', YString ''127.0.0.1:9090'')], sn_source_hash = h\<rparr>)
     (\<lambda>r s'. (\<exists>p. r = Inr p \<and> launch_ok sim_manager 1 p \<and>
       pl_effective_spec p = effective_spec_of sim_manager sim_spec 1 ''/r/config-1.yaml'') \<and>
       (\<exists>c. s' = s\<lparr>sy_temp := 1, sy_cache := c\<rparr>)) s"
proof -
  let ?snap = "\<lparr>sn_source_path = q,
       sn_document = [(YString ''external-controller'', YString ''127.0.0.1:9090'')], sn_source_hash = h\<rparr>"
  obtain p where p: "manager_prepare_full sim_manager ?snap 1 {} = Inr p" using sim_prepare by blast
  have path: "runtime_path sim_env ''/r'' 1 = ''/r/config-1.yaml''"
    unfolding runtime_path_def sim_fields by code_simp
  have "wp (prepare_launch_with_features sim_manager sim_spec 1 ?snap resolved)
     (\<lambda>r s'. (\<exists>p. r = Inr p \<and> launch_ok sim_manager 1 p \<and>
       pl_effective_spec p = effective_spec_of sim_manager sim_spec 1 ''/r/config-1.yaml'') \<and>
       (\<exists>c. s' = s\<lparr>sy_temp := 1, sy_cache := c\<rparr>)) (s\<lparr>sy_cache := cache\<rparr>)"
    if "rf_runtime resolved = {}" for resolved cache
    unfolding prepare_launch_with_features_def
    using that path assms
    by (auto simp: wp_simps p launch_of_def launch_ok_def spec_ok_def effective_spec_of_def
        intro!: wp_mono [OF sim_stage] wp_mono [OF sim_commit] exI [of _ cache])
  note features = this
  have "wp (validate_launchable sim_manager sim_spec) (\<lambda>r s'. r = Inr () \<and> s' = s) s"
    by (simp add: validate_launchable_def sim_spec_def wp_simps sim_ext)
  note valid = this
  show ?thesis
    unfolding prepare_launch_def
    by (auto simp: wp_simps intro!: wp_mono [OF valid] wp_mono [OF sim_features] features)
qed

text \<open>The core comes up: the run is started, answers its first probe, and is acknowledged.\<close>

definition sim_fresh :: "monitor option \<times> shared" where
  "sim_fresh = (Some (monitor_new (is_options sim_spec) False (from_secs 30)),
     (shared_new Mihomo 1 0)\<lparr>sh_supervisor := True\<rparr>)"

definition sim_ready :: "monitor option \<times> shared" where
  "sim_ready = foldl (inst_step (ev_chrono sim_env)) sim_fresh
     [EMon \<lparr>ck_instant = 1, ck_ms = 1\<rparr> (MStarted 42),
      EMon \<lparr>ck_instant = 2, ck_ms = 2\<rparr> (MObservation
        \<lparr>po_run_id = 1, po_pid = 42, po_phase = Readiness, po_completed_at = 2,
         po_completed_at_ms = 2, po_result = PHealthy\<rparr> True)]"

lemma sim_ready_running: "ist_state (sh_status (snd sim_ready)) = IRunning 42"
  by (simp add: sim_ready_def sim_fresh_def monitor_step_def monitor_started_def monitor_new_def
      apply_probe_observation_def observation_applies_def shared_new_def Let_def sim_spec_def
      observe_def health_tracker_new_def saturating_add_def default_health_policy_def from_secs_def
      split: prod.split)

lemma sim_spawned:
  assumes "sy_next s = 0" "si_alive (sy_world s) = []"
  shows "wp (manager_spawn sim_manager (effective_spec_of sim_manager sim_spec 1 ''/r/config-1.yaml'') 1 rc)
    (\<lambda>r s'. r = Inr 0 \<and> si_alive (sy_world s') = [0] \<and>
       (\<exists>x. sy_inst s' 0 = Some x \<and> (in_monitor x, in_shared x) = sim_fresh)) s"
  using assms
  by (simp add: manager_spawn_def spawn_configured_def wp_simps sim_ext sim_plan_def spawn_process_def
      wp_install sim_fresh_def sim_spawn_def effective_spec_of_def sim_spec_def)

lemma sim_waited:
  assumes "si_alive (sy_world s) = [0]" "sy_inst s 0 = Some x" "(in_monitor x, in_shared x) = sim_fresh"
  shows "wp (wait_ready sim_env 0) (\<lambda>r s'. r = Inr () \<and> si_alive (sy_world s') = [0] \<and>
      inst_state 0 s' = IRunning 42) s"
proof -
  let ?e1 = "EMon \<lparr>ck_instant = 1, ck_ms = 1\<rparr> (MStarted 42)"
  let ?e2 = "EMon \<lparr>ck_instant = 2, ck_ms = 2\<rparr> (MObservation
        \<lparr>po_run_id = 1, po_pid = 42, po_phase = Readiness, po_completed_at = 2,
         po_completed_at_ms = 2, po_result = PHealthy\<rparr> True)"
  have st: "inst_state 0 s = IStarting"
    using assms(2,3) by (simp add: inst_state_def sim_fresh_def shared_new_def instance_status_initial_def)
  have "inst_state 0 (foldl (deliver sim_env) s [IInst 0 ?e1, IInst 0 ?e2]) = IRunning 42"
    using assms(2,3) sim_ready_running
    by (auto simp: inst_state_def deliver_inst_def sim_ready_def split: prod.split)
  then show ?thesis
    using assms(1) st
    by (simp add: wait_ready_def sim_wait_def wp_simps wp_def [of "State _"] wait_loop.simps
        del: deliver.simps foldl.simps)
qed

lemma sim_up:
  assumes "sy_next s = 0" "si_alive (sy_world s) = []" "launch_ok sim_manager 1 p"
    "pl_effective_spec p = effective_spec_of sim_manager sim_spec 1 ''/r/config-1.yaml''"
  shows "wp (start_prepared sim_manager p) (\<lambda>r s'. r = Inr () \<and> si_alive (sy_world s') = [0] \<and>
      ct_current (sy_ctrl s') = Some (active_of 0 p) \<and> inst_state 0 s' = IRunning 42) s"
proof -
  have E: "rev_epoch (pl_revision p) = 1" using assms(3) by (simp add: launch_ok_def)
  have rest: "wp (do {
      pid \<leftarrow> gets (current_pid 0);
      publish_instance sim_manager 0 (CRunning 1 pid) (pl_source_spec p) (pl_revision p)
        (pl_capabilities p) (pl_runtime_features p);
      spawn_forwarder 0 1;
      set_last_spec (pl_source_spec p);
      set_current (Some (active_of 0 p));
      ret (Inr () :: error + unit) }) (\<lambda>r s'. r = Inr () \<and> si_alive (sy_world s') = [0] \<and>
      ct_current (sy_ctrl s') = Some (active_of 0 p) \<and> inst_state 0 s' = IRunning 42) s'"
    if "si_alive (sy_world s') = [0]" "inst_state 0 s' = IRunning 42" for s'
    using that
    by (auto simp: wp_simps publish_instance_def now_ms_def spawn_forwarder_def set_last_spec_def
        set_current_def inst_state_def split: option.splits)
  show ?thesis
    unfolding start_prepared_def E Let_def assms(4) publish_launch_def publish_def now_ms_def
    using assms(1,2)
    by (auto simp: wp_bind wp_gets wp_modify
        intro!: wp_mono [OF sim_spawned] wp_mono [OF sim_waited])
      (use rest in \<open>auto simp: wp_bind wp_gets\<close>)
qed

text \<open>A manager built over an empty directory, and the state after its first start.\<close>

definition sim_started :: "sim sys" where
  "sim_started = snd (run_state (run_op sim_manager (OpStart sim_spec)) sim_init)"

lemma sim_build:
  "run_state (build_configured sim_env sim_options sim_plan) sim_init = (Inr sim_manager, sim_init)"
proof -
  have "wp (build_configured sim_env sim_options sim_plan) (\<lambda>r s'. r = Inr sim_manager \<and> s' = sim_init) sim_init"
    by (simp add: build_configured_def sim_options_def default_manager_options_def store_new_def
        acquire_ownership_def validate_directory_metadata_def validate_options_def sweep_orphans_def
        artifact_epochs_def managed_endpoint_path_def validate_controller_template_def from_secs_def
        ext_io_def ext_fs_def sim_ext wp_simps now_ms_def prepare_dir_def Let_def) (simp add: sim_init_def)
  then show ?thesis by (auto simp: wp_def split: prod.splits)
qed

lemma sim_reach_init: "reach sim_env sim_options sim_plan sim_al sim_manager sim_init"
  by (rule reach_build [OF _ sim_build]) (simp add: blank_def sim_init_def sim_al_def)

lemma sim_start:
  "wp (start sim_manager sim_spec) (\<lambda>r s'. r = Inr () \<and> si_alive (sy_world s') = [0] \<and>
     (\<exists>p. launch_ok sim_manager 1 p \<and> ct_current (sy_ctrl s') = Some (active_of 0 p)) \<and>
     inst_state 0 s' = IRunning 42) sim_init"
proof -
  obtain h where snap: "snapshot_from_bytes sim_codec ''/c.yaml'' ''raw'' = Inr \<lparr>sn_source_path = ''/c.yaml'',
     sn_document = [(YString ''external-controller'', YString ''127.0.0.1:9090'')], sn_source_hash = h\<rparr>"
    using sim_snapshot by blast
  have "is_config_path sim_spec = ''/c.yaml''" by (simp add: sim_spec_def)
  with snap show ?thesis
    by (auto simp: start_def reject_quarantine_def quarantine_error_def is_running_def clear_stale_def
        ctrl_default_def sim_init_def wp_simps start_locked_def next_epoch_def load_snapshot_def
        ext_io_def sim_ext wp_def [of "State _"]
        intro!: wp_mono [OF sim_launch] wp_mono [OF sim_up])
qed

lemma sim_reach: "reach sim_env sim_options sim_plan sim_al sim_manager sim_started"
proof (rule reach_op [OF sim_reach_init])
  show "epoch_left (sy_epoch sim_init)" by (simp add: epoch_left_def sim_init_def)
  show "run_state (run_op sim_manager (OpStart sim_spec)) sim_init = ((), sim_started)"
    by (simp add: sim_started_def prod_eq_iff)
qed

lemma sim_started_alive:
  "sim_al (sy_world sim_started) 0" "\<exists>a. ct_current (sy_ctrl sim_started) = Some a \<and> ac_instance a = 0"
proof -
  have "wp (run_op sim_manager (OpStart sim_spec)) (\<lambda>_ s'. si_alive (sy_world s') = [0] \<and>
      (\<exists>a. ct_current (sy_ctrl s') = Some a \<and> ac_instance a = 0)) sim_init"
    using sim_start by (auto simp: wp_ignore elim!: wp_mono)
  then show "sim_al (sy_world sim_started) 0"
    "\<exists>a. ct_current (sy_ctrl sim_started) = Some a \<and> ac_instance a = 0"
    by (auto simp: wp_def sim_started_def sim_al_def split: prod.splits)
qed

section \<open>Process safety\<close>

text \<open>
  C1. In every state a manager can reach, by any sequence of public operations and with any
  interleaving of the instances' own tasks, a core process tree that may still be alive belongs
  to the current instance or to an instance whose epoch is quarantined with its death unproven.
  So the manager never loses track of a core, and while nothing is quarantined at most one core
  is alive. The environment is assumed to keep its documented promises (\<open>env_ok\<close>): a supervisor
  ends only when its tree is gone, and the reaper reports a recorded process as exited or killed
  only when it is; every call may fail, time out or stall.
\<close>

theorem manager_accounts_for_every_core:
  assumes "env_ok al pr ev" and "reach ev options plan al m s" and "al (sy_world s) i"
  shows "((\<exists>a. ct_current (sy_ctrl s) = Some a \<and> ac_instance a = i) \<or>
      (\<exists>x q. sy_inst s i = Some x \<and> q \<in> set (ct_quarantine (sy_ctrl s)) \<and>
        qe_epoch q = in_epoch x \<and> \<not> qe_death_proven q)) \<and>
    (ct_quarantine (sy_ctrl s) = [] \<longrightarrow> (\<forall>j. al (sy_world s) j \<longrightarrow> j = i))"
proof -
  have "sound m al pr s" using reach_sound [OF assms(2,1)] by simp
  note acc = sound_accounted [OF this]
  show ?thesis
    using acc [OF assms(3)] acc by fastforce
qed

theorem manager_accounts_for_every_core_witness:
  "sim_al (sy_world sim_started) 0 \<and> (\<exists>a. ct_current (sy_ctrl sim_started) = Some a \<and> ac_instance a = 0) \<and>
   ((\<exists>a. ct_current (sy_ctrl sim_started) = Some a \<and> ac_instance a = 0) \<or>
     (\<exists>x q. sy_inst sim_started 0 = Some x \<and> q \<in> set (ct_quarantine (sy_ctrl sim_started)) \<and>
        qe_epoch q = in_epoch x \<and> \<not> qe_death_proven q))"
  using manager_accounts_for_every_core [OF sim_ok sim_reach sim_started_alive(1)]
    sim_started_alive by simp

end
