(* ===== verification/Service_Facts.thy ===== *)
theory Service_Facts
  imports Service Simulation
begin

text \<open>
  Properties of the service: every call keeps the manager's process safety, a closing service
  refuses every call without touching the manager, the event stream agrees with the snapshots,
  and the projections onto the wire lose nothing a client compares.
\<close>

section \<open>The calls of the service\<close>

datatype svc_op =
    SvcStart runtime_infos core_type path
  | SvcStop
  | SvcRestart
  | SvcApply runtime_infos core_type os_path "revision_id_info option"
  | SvcCheck runtime_infos core_type os_path
  | SvcRecover
  | SvcShutdown

fun run_svc :: "'w service_env \<Rightarrow> svc_op \<Rightarrow> ('w service, unit) state" where
  "run_svc se (SvcStart infos ct p) = ignore (service_start se infos ct p)"
| "run_svc se SvcStop = ignore (service_stop se)"
| "run_svc se SvcRestart = ignore (service_restart se)"
| "run_svc se (SvcApply infos ct f e) = ignore (service_apply se infos ct f e)"
| "run_svc se (SvcCheck infos ct f) = ignore (service_check se infos ct f)"
| "run_svc se SvcRecover = ignore (service_recover se)"
| "run_svc se SvcShutdown = service_shutdown se"

lemma wp_on_sys [wp_simps]: "wp (on_sys m) Q s = wp m (\<lambda>a t. Q a (s\<lparr>sv_sys := t\<rparr>)) (sv_sys s)"
  by (simp add: on_sys_def wp_def split: prod.split)

lemma wp_unless_closing [wp_simps]:
  "wp (unless_closing e m) Q s = (if sv_closing s then Q (Inl e) s else wp m Q s)"
  by (simp add: unless_closing_def wp_simps)

section \<open>Process safety\<close>

text \<open>The file operations of the adapter start and end no process.\<close>

definition service_quiet ::
  "('w \<Rightarrow> nat \<Rightarrow> bool) \<Rightarrow> ('w \<Rightarrow> nat \<Rightarrow> path option) \<Rightarrow> 'w service_env \<Rightarrow> bool" where
  "service_quiet al pr se \<longleftrightarrow> (\<forall>p. quiet al pr (se_canonicalize_utf8 se p)) \<and>
     (\<forall>p. quiet al pr (se_canonicalize se p)) \<and> (\<forall>p. quiet al pr (se_metadata se p))"

lemma foldl_deliver_epoch [simp]: "sy_epoch (foldl (deliver ev) s es) = sy_epoch s"
  by (induction es arbitrary: s) simp_all

lemma safe_ext:
  assumes "env_ok al pr (mg_env m)" "quiet al pr op" "sound m al pr s" "epoch_left (sy_epoch s)"
  shows "wp (ext (mg_env m) op) (\<lambda>_ s'. sound m al pr s' \<and> epoch_left (sy_epoch s')) s"
proof -
  have "wp (ext (mg_env m) op) (\<lambda>_. sound m al pr) s"
    by (rule at_step [OF sound_at [OF assms(3)] keeps_ext [OF assms(1,2)]]) (auto elim: soundI)
  then show ?thesis using assms(4) by (simp add: wp_ext interfere_eq)
qed

lemma safe_canonical:
  assumes "env_ok al pr (mg_env (se_manager se))" "service_quiet al pr se"
    "sound (se_manager se) al pr s" "epoch_left (sy_epoch s)"
  shows "wp (canonical_config_path se p) (\<lambda>_ s'. sound (se_manager se) al pr s' \<and> epoch_left (sy_epoch s')) s"
  unfolding canonical_config_path_def
  using assms(2) by (auto simp: wp_simps service_quiet_def intro!: wp_mono [OF safe_ext [OF assms(1) _ assms(3,4)]])

lemma safe_check:
  assumes "env_ok al pr (mg_env (se_manager se))" "service_quiet al pr se"
    "sound (se_manager se) al pr s" "epoch_left (sy_epoch s)"
  shows "wp (check_body se infos ct p) (\<lambda>_. sound (se_manager se) al pr) s"
proof -
  have check: "wp (check_config (mg_env (se_manager se)) spec) (\<lambda>_. sound (se_manager se) al pr) s'"
    if "sound (se_manager se) al pr s'" for spec s'
    by (rule at_step [OF sound_at [OF that] keeps_run_check [OF assms(1)]]) (auto elim: soundI)
  show ?thesis
    unfolding check_body_def
    by (auto simp: wp_simps split: sum.split intro!: wp_mono [OF safe_canonical [OF assms]] wp_mono [OF check])
qed

lemma safe_svc:
  assumes ev: "env_ok al pr (mg_env (se_manager se))" "service_quiet al pr se"
    and s: "sound (se_manager se) al pr (sv_sys s)" "epoch_left (sy_epoch (sv_sys s))"
  shows "wp (run_svc se op) (\<lambda>_ s'. sound (se_manager se) al pr (sv_sys s')) s"
proof (cases op)
  case (SvcStart infos ct p)
  have q: "quiet al pr (se_canonicalize_utf8 se p)" "quiet al pr (se_metadata se p')" for p'
    using ev(2) by (auto simp: service_quiet_def)
  show ?thesis
    unfolding SvcStart run_svc.simps service_start_def publish_requested_core_def Let_def
    using s
    by (auto simp: wp_ignore wp_simps split: sum.split
        intro!: wp_mono [OF safe_ext [OF ev(1) q(1)]] wp_mono [OF safe_ext [OF ev(1) q(2)]]
          wp_mono [OF safe_start [OF ev(1)]])
next
  case (SvcApply infos ct p e)
  show ?thesis
    unfolding SvcApply run_svc.simps service_apply_def publish_requested_core_def
    using s
    by (auto simp: wp_ignore wp_simps split: sum.split option.split
        intro!: wp_mono [OF safe_canonical [OF ev]] wp_mono [OF safe_apply [OF ev(1)]])
next
  case (SvcCheck infos ct p)
  then show ?thesis
    using s by (auto simp: wp_ignore wp_simps service_check_def check_admit_def check_release_def
        intro!: wp_mono [OF safe_check [OF ev]])
qed (use s in \<open>auto simp: wp_ignore wp_simps service_stop_def service_restart_def service_recover_def
    service_shutdown_def intro!: wp_mono [OF safe_stop [OF ev(1)]] wp_mono [OF safe_switch(2) [OF ev(1)]]
    wp_mono [OF safe_recover [OF ev(1)]] wp_mono [OF safe_shutdown [OF ev(1)]]\<close>)

text \<open>A service over a freshly built manager, and every state its calls lead to.\<close>

inductive svc_reach ::
  "'w service_env \<Rightarrow> ('w \<Rightarrow> nat \<Rightarrow> bool) \<Rightarrow> 'w service \<Rightarrow> bool" for se al where
  svc_new: "blank al s \<Longrightarrow> service_new (mg_env (se_manager se)) plan dir policy s = (Inr (se_manager se), s') \<Longrightarrow>
    svc_reach se al s'"
| svc_call: "svc_reach se al s \<Longrightarrow> epoch_left (sy_epoch (sv_sys s)) \<Longrightarrow>
    run_state (run_svc se op) s = ((), s') \<Longrightarrow> svc_reach se al s'"

lemma svc_reach_sound:
  assumes "svc_reach se al s" and "env_ok al pr (mg_env (se_manager se))" and "service_quiet al pr se"
  shows "sound (se_manager se) al pr (sv_sys s)"
  using assms(1)
proof induction
  case (svc_new s plan dir policy s')
  from svc_new(2) obtain r where "run_state (build_configured (mg_env (se_manager se)) (default_manager_options
      \<lparr>mo_runtime_dir := Some dir, mo_local_ipc_policy := policy\<rparr>) plan) s = (r, sv_sys s')" "map_sum to_string id r = Inr (se_manager se)"
    by (auto simp: service_new_def split: prod.splits)
  with wp_run [OF wp_build [OF assms(2) svc_new(1)] this(1)] show ?case by auto
next
  case (svc_call s op s')
  from wp_run [OF safe_svc [OF assms(2,3) svc_call.IH svc_call.hyps(2)] svc_call.hyps(3)] show ?case .
qed


text \<open>A service over the simulated environment, before and after its first start.\<close>

definition sim_service_env :: "sim service_env" where
  "sim_service_env =
     \<lparr>se_manager = sim_manager, se_executable_name = (\<lambda>_. ''mihomo''), se_exists = (\<lambda>_ _. True),
      se_canonicalize_utf8 = (\<lambda>p w. (Inr p, w)), se_canonicalize = (\<lambda>p w. (Inr p, w)),
      se_simplified = id, se_metadata = (\<lambda>_ w. (Inr (), w)), se_without_credentials = url_authority,
      se_restart_policy = [], se_backoff = []\<rparr>"

definition sim_infos :: runtime_infos where
  "sim_infos =
     \<lparr>rt_service_data_dir = OsUtf8 ''/s'', rt_service_config_dir = OsUtf8 ''/e'',
      rt_config_dir = OsUtf8 ''/f'', rt_data_dir = OsUtf8 ''/d'', rt_app_dir = OsUtf8 ''/a''\<rparr>"

definition sim_service :: "sim service" where
  "sim_service = \<lparr>sv_sys = sim_init, sv_requested = None, sv_closing = False,
     sv_slots = MAX_CONCURRENT_CHECKS\<rparr>"

definition sim_service_started :: "sim service" where
  "sim_service_started =
     snd (run_state (run_svc sim_service_env (SvcStart sim_infos ClashMihomo ''/c.yaml'')) sim_service)"

lemma sim_service_fields [simp]:
  "se_manager sim_service_env = sim_manager"
  "se_canonicalize_utf8 sim_service_env = (\<lambda>p w. (Inr p, w))"
  "se_canonicalize sim_service_env = (\<lambda>p w. (Inr p, w))"
  "se_simplified sim_service_env = id"
  "se_metadata sim_service_env = (\<lambda>_ w. (Inr (), w))"
  "sv_sys sim_service = sim_init" "\<not> sv_closing sim_service"
  by (simp_all add: sim_service_env_def sim_service_def)

lemma sim_service_quiet: "service_quiet sim_al sim_pr sim_service_env"
  by (simp add: service_quiet_def quiet_def)

lemma sim_service_spec:
  "instance_spec_of sim_service_env sim_infos ClashMihomo ''/c.yaml'' w = Inr sim_spec"
proof -
  have "os_join Unix (OsUtf8 ''/d'') ''mihomo'' = OsUtf8 ''/d/mihomo''" by code_simp
  then show ?thesis
    by (simp add: instance_spec_of_def find_binary_path_def sim_service_env_def sim_infos_def
        sim_spec_def default_instance_options_def Let_def)
qed

lemma sim_svc_reach: "svc_reach sim_service_env sim_al sim_service_started"
proof (rule svc_call)
  have "blank sim_al sim_init" by (simp add: blank_def sim_init_def sim_al_def)
  moreover have "service_new sim_env sim_plan ''/r'' Disable sim_init = (Inr sim_manager, sim_service)"
    using sim_build by (simp add: service_new_def sim_options_def sim_service_def)
  ultimately show "svc_reach sim_service_env sim_al sim_service" by (auto intro: svc_new)
  show "epoch_left (sy_epoch (sv_sys sim_service))" by (simp add: epoch_left_def sim_init_def)
  show "run_state (run_svc sim_service_env (SvcStart sim_infos ClashMihomo ''/c.yaml'')) sim_service =
      ((), sim_service_started)"
    by (simp add: sim_service_started_def prod_eq_iff)
qed

lemma sim_service_alive: "sim_al (sy_world (sv_sys sim_service_started)) 0"
proof -
  have "st_state (sy_status sim_init) = CStopped None"
    by (simp add: sim_init_def core_status_initial_def)
  then have "wp (run_svc sim_service_env (SvcStart sim_infos ClashMihomo ''/c.yaml''))
      (\<lambda>_ s'. si_alive (sy_world (sv_sys s')) = [0]) sim_service"
    by (auto simp: service_start_def wp_ignore wp_simps sim_ext sim_service_spec Let_def
        publish_requested_core_def intro!: wp_mono [OF sim_start])
  then show ?thesis by (auto simp: wp_def sim_service_started_def sim_al_def split: prod.splits)
qed


section \<open>The closing latch\<close>

text \<open>
  C20. Once the service is closing, every call is refused and changes nothing, neither in the manager
  nor in the service; and shutting down closes the service, whatever the manager answers.
\<close>

theorem closing_refuses_every_call:
  "sv_closing (snd (run_state (service_shutdown se) s)) \<and>
   (sv_closing s \<longrightarrow> run_state (service_start se infos ct p) s = (Inl MSG_SHUTTING_DOWN, s) \<and>
     run_state (service_stop se) s = (Inl MSG_SHUTTING_DOWN, s) \<and>
     run_state (service_restart se) s = (Inl MSG_SHUTTING_DOWN, s) \<and>
     run_state (service_apply se infos ct f e) s = (Inl (op_plain MSG_SHUTTING_DOWN), s) \<and>
     run_state (service_check se infos ct f) s = (Inl (op_plain MSG_SHUTTING_DOWN), s) \<and>
     run_state (service_recover se) s = (Inl (op_plain MSG_SHUTTING_DOWN), s) \<and>
     run_state (service_shutdown se) s = ((), s))"
proof -
  have value_of: "run_state m t = (a, t)" if "wp m (\<lambda>r u. r = a \<and> u = t) t" for m :: "('a service, 'r) state" and a t
    using that by (auto simp: wp_def split: prod.splits)
  have "wp (service_shutdown se) (\<lambda>_ s'. sv_closing s') s"
    by (auto simp: service_shutdown_def wp_simps ignore_def wp_def [of "shutdown _"] split: prod.split)
  then have "sv_closing (snd (run_state (service_shutdown se) s))" by (simp add: wp_def case_prod_unfold)
  then show ?thesis
    by (intro conjI impI value_of; simp add: service_start_def service_stop_def service_restart_def
        service_apply_def service_check_def check_admit_def service_recover_def service_shutdown_def wp_simps)
qed

definition sim_closing :: "sim service" where
  "sim_closing = sim_service\<lparr>sv_closing := True\<rparr>"

theorem closing_refuses_every_call_witness:
  "sv_closing sim_closing \<and>
   run_state (service_start sim_service_env sim_infos ClashMihomo ''/c.yaml'') sim_closing =
     (Inl MSG_SHUTTING_DOWN, sim_closing) \<and>
   run_state (service_recover sim_service_env) sim_closing = (Inl (op_plain MSG_SHUTTING_DOWN), sim_closing)"
  using closing_refuses_every_call [of sim_service_env sim_closing sim_infos ClashMihomo "''/c.yaml''"]
  by (simp add: sim_closing_def)

section \<open>The event stream\<close>

fun legacy_of :: "ws_event \<Rightarrow> wire_state option" where
  "legacy_of (CoreStateChanged s) = Some s"
| "legacy_of _ = None"

fun snapshot_of :: "ws_event \<Rightarrow> core_infos option" where
  "snapshot_of (CoreStatusChanged i) = Some i"
| "snapshot_of _ = None"

fun wake_infos :: "(url \<Rightarrow> string) \<Rightarrow> wake \<Rightarrow> core_infos" where
  "wake_infos wc (StatesChanged raw requested) = project_core_infos wc raw requested"
| "wake_infos wc (RequestedChanged raw requested) = project_core_infos wc raw requested"

lemma same_ipc_state_iff [simp]: "same_ipc_state a b \<longleftrightarrow> a = b"
  by (cases "(a, b)" rule: same_ipc_state.cases) auto

text \<open>A status on the way from one state to another.\<close>

fun transitional :: "core_state \<Rightarrow> bool" where
  "transitional (CStopping _) = True"
| "transitional (CSwitching _ _) = True"
| "transitional _ = False"

lemma bridge_suppressed_transitional: "bridge_suppressed p raw \<Longrightarrow> transitional raw"
  by (cases raw) (auto simp: bridge_suppressed_def)

lemma bridge_legacy:
  "distinct_adj (p # List.map_filter legacy_of (status_bridge wc p ws))"
  "\<not> transitional (st_state raw) \<Longrightarrow>
     last (p # List.map_filter legacy_of (status_bridge wc p (ws @ [StatesChanged raw rq]))) = map_core_state (st_state raw)"
proof (induction ws arbitrary: p)
  case Nil
  { case 1 show ?case by simp }
  { case 2 then show ?case using bridge_suppressed_transitional by (auto simp: Let_def) }
next
  case (Cons w ws)
  { case 1 show ?case using Cons.IH(1) by (cases w) (auto simp: Let_def) }
  { case 2
    note IH = Cons.IH(2) [OF 2]
    show ?case
    proof (cases w)
      case (StatesChanged raw' rq')
      then show ?thesis
        using IH [of p] IH [of "map_core_state (st_state raw')"] by (auto simp: Let_def split: if_splits)
    qed (use IH [of p] in simp)
  }
qed

text \<open>
  The event stream is consistent. Every wake-up of the bridge sends exactly one snapshot, the one
  \<^verbatim>\<open>/status\<close> would answer; the legacy stream never repeats a state; and when the manager's last status
  is not a transition in progress, the last legacy state a client holds is the projection of that
  status.
\<close>

theorem bridge_stream_consistent:
  "List.map_filter snapshot_of (status_bridge wc p ws) = map (wake_infos wc) ws \<and>
   distinct_adj (p # List.map_filter legacy_of (status_bridge wc p ws)) \<and>
   (\<not> transitional (st_state raw) \<longrightarrow>
      last (p # List.map_filter legacy_of (status_bridge wc p (ws @ [StatesChanged raw rq]))) =
        map_core_state (st_state raw))"
proof -
  have "List.map_filter snapshot_of (status_bridge wc p ws) = map (wake_infos wc) ws"
  proof (induction ws arbitrary: p)
    case (Cons w ws)
    then show ?case by (cases w) (auto simp: Let_def)
  qed simp
  with bridge_legacy show ?thesis by blast
qed

theorem bridge_stream_consistent_witness:
  "last (WireStopped None # List.map_filter legacy_of (status_bridge url_authority (WireStopped None)
     [StatesChanged ((core_status_initial 0)\<lparr>st_state := CRunning 1 42\<rparr>) None])) = WireRunning"
  using bridge_stream_consistent [of url_authority "WireStopped None" "[]"
    "(core_status_initial 0)\<lparr>st_state := CRunning 1 42\<rparr>" None] by simp

section \<open>Projections onto the wire\<close>

text \<open>What the wire keeps of an outcome: its kind, and all its warnings, outermost first.\<close>

fun outcome_warnings :: "apply_outcome \<Rightarrow> string list" where
  "outcome_warnings (ApplyDurabilityUncertain outcome warning) = warning # outcome_warnings outcome"
| "outcome_warnings _ = []"

fun outcome_revision :: "apply_outcome \<Rightarrow> config_revision" where
  "outcome_revision (ApplyDurabilityUncertain outcome _) = outcome_revision outcome"
| "outcome_revision (ApplyNoop r) = r"
| "outcome_revision (Patched r) = r"
| "outcome_revision (Reloaded r) = r"
| "outcome_revision (Restarted r) = r"
| "outcome_revision (Switched r) = r"
| "outcome_revision (RolledBack r _) = r"

fun outcome_failure :: "apply_outcome \<Rightarrow> string option" where
  "outcome_failure (ApplyDurabilityUncertain outcome _) = outcome_failure outcome"
| "outcome_failure (RolledBack _ failed) = Some failed"
| "outcome_failure _ = None"

lemma unwrap_warnings_all:
  "\<exists>inner. unwrap_warnings ws outcome = (ws @ outcome_warnings outcome, inner) \<and>
     (\<exists>kind. outcome_parts inner = Some (kind, outcome_revision outcome, outcome_failure outcome) \<and>
       (kind = KRolledBack \<longleftrightarrow> outcome_failure outcome \<noteq> None))"
proof (induction outcome arbitrary: ws)
  case (ApplyDurabilityUncertain outcome warning)
  from this [of "ws @ [warning]"] show ?case by simp
qed auto

lemma revision_token [simp]: "map_revision_id (revision_info_id (map_revision r)) = revision_id_of r"
  by (simp add: map_revision_id_def revision_info_id_def map_revision_def revision_id_of_def)

text \<open>
  C21. The answer to an apply loses nothing. The projection is total (its unreachable branch is never
  taken), keeps every durability warning in order, names a failure exactly when the apply was
  rolled back, and carries the running revision, whose token, sent back as the expected revision of
  the next apply, is the one the manager compares.
\<close>

theorem apply_answer_faithful:
  "\<exists>d. map_apply_outcome outcome = Some d \<and>
     ad_warning d = (if outcome_warnings outcome = [] then None else Some (join_warnings (outcome_warnings outcome))) \<and>
     ad_failed_apply d = outcome_failure outcome \<and>
     (ad_outcome d = KRolledBack \<longleftrightarrow> outcome_failure outcome \<noteq> None) \<and>
     map_revision_id (revision_info_id (ad_revision d)) = revision_id_of (outcome_revision outcome)"
  using unwrap_warnings_all [of "[]" outcome] by (auto simp: map_apply_outcome_def)

end
