(* ===== verification/Quarantine_Facts.thy ===== *)
theory Quarantine_Facts
  imports Service_Facts
begin

text \<open>
  The gates of the manager's operations: what a quarantine, a missing core and a revision that is
  no longer the running one refuse, that a refusal changes nothing, and what recovering does.
\<close>

section \<open>Refusals\<close>

text \<open>An operation that answers without an effect.\<close>

definition refuses :: "('w sys, error + 'a) state \<Rightarrow> 'w sys \<Rightarrow> error \<Rightarrow> bool" where
  "refuses m s e \<longleftrightarrow> wp m (\<lambda>r s'. r = Inl e \<and> s' = s) s"

lemma refuses_run: "refuses m s e \<longleftrightarrow> run_state m s = (Inl e, s)"
  by (auto simp: refuses_def wp_def split: prod.splits)

lemma gate_refuses:
  "quarantine_error (sy_ctrl s) = Some e \<Longrightarrow> refuses (try_op reject_quarantine k) s e"
  "quarantine_error (sy_ctrl s) = None \<Longrightarrow> refuses (try_op reject_quarantine k) s e = refuses (k ()) s e"
  by (auto simp: refuses_def reject_quarantine_def wp_simps simp del: quarantine_error_None)

lemma open_gate:
  assumes "quarantine_error (sy_ctrl s) = None"
  shows "is_running s \<Longrightarrow> refuses (start m spec) s AlreadyRunning"
    "\<not> is_running s \<Longrightarrow> refuses (apply_config m spec expected) s NotStarted"
    "ct_last_spec (sy_ctrl s) = None \<Longrightarrow> refuses (restart m) s NotStarted"
    "is_running s \<Longrightarrow> ct_current (sy_ctrl s) = Some a \<Longrightarrow> expected \<noteq> None \<Longrightarrow>
     expected \<noteq> Some (revision_id_of (ac_revision a)) \<Longrightarrow> refuses (apply_config m spec expected) s
       (RevisionConflict (the expected) (Some (revision_id_of (ac_revision a))))"
  unfolding start_def restart_def apply_config_def gate_refuses(2) [OF assms]
  by (auto simp: refuses_def wp_simps Let_def split: option.split)


section \<open>Recovery\<close>

lemma ctrl_ext: "(\<And>r s'. sy_ctrl s' = sy_ctrl s \<Longrightarrow> Q r s') \<Longrightarrow> wp (ext ev op) Q s"
proof -
  have "sy_ctrl (foldl (deliver ev) t es) = sy_ctrl t" for t es
    by (induction es arbitrary: t) simp_all
  then show "(\<And>r s'. sy_ctrl s' = sy_ctrl s \<Longrightarrow> Q r s') \<Longrightarrow> wp (ext ev op) Q s"
    by (simp add: wp_ext interfere_eq)
qed

lemma ctrl_cleanup_entries:
  "(\<And>r s'. sy_ctrl s' = sy_ctrl s \<Longrightarrow> Q r s') \<Longrightarrow> wp (cleanup_entries ev dir e es) Q s"
proof (induction es arbitrary: s rule: cleanup_entries.induct)
  case (4 ev dir e name es)
  then show ?case
    by (auto simp: wp_simps ext_fs_def split: sum.split intro!: ctrl_ext)
qed (auto simp: wp_simps)

lemma ctrl_cleanup:
  assumes "\<And>r s'. sy_ctrl s' = sy_ctrl s \<Longrightarrow> Q r s'"
  shows "wp (cleanup_epoch ev dir e) Q s"
  using assms
  by (auto simp: cleanup_epoch_def remove_socket_artifact_def wp_simps ext_fs_def ext_io_def
      split: sum.split meta_answer.split intro!: ctrl_ext ctrl_cleanup_entries)

text \<open>The epochs in quarantine.\<close>

definition held_epochs :: "'w sys \<Rightarrow> u64 set" where
  "held_epochs s = set (map qe_epoch (ct_quarantine (sy_ctrl s)))"

lemma wp_recover_entry:
  "wp (recover_entry m q) (\<lambda>r s'. ct_current (sy_ctrl s') = ct_current (sy_ctrl s) \<and>
     held_epochs s' \<subseteq> (if r = None then held_epochs s - {qe_epoch q} else held_epochs s)) s"
proof -
  have reap: "wp (recover_reap m q) (\<lambda>r s'. ct_current (sy_ctrl s') = ct_current (sy_ctrl s) \<and> held_epochs s' = held_epochs s) s"
    by (auto simp: recover_reap_def wp_simps set_quarantine_def held_epochs_def intro!: ctrl_ext
        split: sum.split reap_outcome.split simp del: set_map)
  have rest: "wp (cleanup_epoch (mg_env m) (mg_dir m) (qe_epoch q)) (\<lambda>r s'. sy_ctrl s' = sy_ctrl t) t" for t
    by (rule ctrl_cleanup)
  show ?thesis
    unfolding recover_entry_def wp_bind
    by (rule wp_mono [OF reap]) (auto simp: wp_simps set_quarantine_def held_epochs_def intro!: wp_mono [OF rest]
      split: option.split sum.split, blast)
qed

lemma wp_recover_entries:
  "wp (recover_entries m qs fs) (\<lambda>r s'. ct_current (sy_ctrl s') = ct_current (sy_ctrl s) \<and>
     held_epochs s' \<subseteq> held_epochs s \<and> (\<exists>new. r = fs @ new \<and> (new = [] \<longrightarrow> held_epochs s' \<subseteq> held_epochs s - set (map qe_epoch qs)))) s"
proof (induction qs arbitrary: s fs)
  case (Cons q qs)
  show ?case
    unfolding recover_entries.simps wp_bind
  proof (rule wp_mono [OF wp_recover_entry])
    fix f :: "string option" and t :: "'a sys"
    assume "ct_current (sy_ctrl t) = ct_current (sy_ctrl s) \<and>
      held_epochs t \<subseteq> (if f = None then held_epochs s - {qe_epoch q} else held_epochs s)"
    then show "wp (recover_entries m qs (case f of Some x \<Rightarrow> fs @ [x] | None \<Rightarrow> fs)) (\<lambda>r s'.
        ct_current (sy_ctrl s') = ct_current (sy_ctrl s) \<and> held_epochs s' \<subseteq> held_epochs s \<and>
        (\<exists>new. r = fs @ new \<and> (new = [] \<longrightarrow> held_epochs s' \<subseteq> held_epochs s - set (map qe_epoch (q # qs))))) t"
      by (cases f) (auto intro!: wp_mono [OF Cons.IH], (blast dest: subsetD)+)
  qed
qed (auto simp: wp_simps)

text \<open>
  C19. Recovery never touches the current core and never adds to the quarantine; when it answers
  \<^verbatim>\<open>Ok\<close> the quarantine is empty. If there was one, the published status is then \<^verbatim>\<open>Stopped\<close> with no
  revision, also when the manager still has a current core: a replacement that was quarantined
  by a failed graceful switch leaves the old core running, and recovering reports it as stopped.
\<close>

theorem recover_effect:
  "case run_state (recover_quarantine m) s of (r, s') \<Rightarrow>
     ct_current (sy_ctrl s') = ct_current (sy_ctrl s) \<and> held_epochs s' \<subseteq> held_epochs s \<and>
     (r = Inr () \<longrightarrow> ct_quarantine (sy_ctrl s') = [] \<and>
       (ct_quarantine (sy_ctrl s) \<noteq> [] \<longrightarrow>
          st_state (sy_status s') = CStopped None \<and> st_revision (sy_status s') = None))"
proof -
  have "wp (recover_quarantine m) (\<lambda>r s'. ct_current (sy_ctrl s') = ct_current (sy_ctrl s) \<and> held_epochs s' \<subseteq> held_epochs s \<and>
     (r = Inr () \<longrightarrow> ct_quarantine (sy_ctrl s') = [] \<and>
       (ct_quarantine (sy_ctrl s) \<noteq> [] \<longrightarrow>
          st_state (sy_status s') = CStopped None \<and> st_revision (sy_status s') = None))) s"
    unfolding recover_quarantine_def
    by (auto simp: wp_simps publish_def now_ms_def publish_status_def held_epochs_def
        intro!: wp_mono [OF wp_recover_entries])
  then show ?thesis by (simp add: wp_def)
qed

text \<open>A core runs and another epoch is quarantined: recovering reports the manager as stopped.\<close>

definition sim_held :: "sim sys" where
  "sim_held = sim_started\<lparr>sy_ctrl := (sy_ctrl sim_started)
     \<lparr>ct_quarantine := [\<lparr>qe_epoch = 9, qe_reason = ''r'', qe_death_proven = False\<rparr>]\<rparr>\<rparr>"

definition sim_recovered :: "sim sys" where
  "sim_recovered = snd (run_state (recover_quarantine sim_manager) sim_held)"

lemma sim_recover: "run_state (recover_quarantine sim_manager) sim_held = (Inr (), sim_recovered)"
proof -
  have "wp (recover_quarantine sim_manager) (\<lambda>r s'. r = Inr ()) sim_held"
    by (simp add: recover_quarantine_def recover_entry_def recover_reap_def sim_held_def wp_simps sim_ext
        sim_reap_def cleanup_epoch_def remove_socket_artifact_def ext_io_def ext_fs_def set_quarantine_def
        publish_def now_ms_def)
  then show ?thesis by (auto simp: wp_def sim_recovered_def split: prod.splits)
qed

theorem recover_effect_witness:
  "ct_quarantine (sy_ctrl sim_held) \<noteq> [] \<and> ct_current (sy_ctrl sim_recovered) \<noteq> None \<and>
   ct_quarantine (sy_ctrl sim_recovered) = [] \<and> st_state (sy_status sim_recovered) = CStopped None"
proof -
  have "ct_current (sy_ctrl sim_held) \<noteq> None" "ct_quarantine (sy_ctrl sim_held) \<noteq> []"
    using sim_started_alive(2) by (auto simp: sim_held_def)
  with recover_effect [where m = sim_manager and s = sim_held] show ?thesis
    unfolding sim_recover by auto
qed


end
