(* ===== verification/Ipc_Facts.thy ===== *)
theory Ipc_Facts
  imports Ipc Quarantine_Facts
begin

text \<open>
  A call through the client is the call of the service: the operation the client names is the one
  that runs, its result comes back with the message and the failure kind the service gave, and
  nothing else happens to the service.
\<close>

section \<open>What the codec and the router promise\<close>

fun op_body :: "ipc_op \<Rightarrow> req_body option \<Rightarrow> bool" where
  "op_body IpcCoreStart b \<longleftrightarrow> (\<exists>ct p. b = Some (StartReq ct p))"
| "op_body IpcCoreApply b \<longleftrightarrow> (\<exists>ct p e. b = Some (ApplyReq ct p e))"
| "op_body IpcCoreCheck b \<longleftrightarrow> (\<exists>ct p. b = Some (CheckReq ct p))"
| "op_body IpcNetworkSetDns b \<longleftrightarrow> (\<exists>servers. b = Some (SetDnsReq servers))"
| "op_body _ b \<longleftrightarrow> b = None"

fun op_payload :: "ipc_op \<Rightarrow> payload \<Rightarrow> bool" where
  "op_payload IpcStatus d \<longleftrightarrow> (\<exists>b. d = PStatus b)"
| "op_payload IpcCoreApply d \<longleftrightarrow> (\<exists>a. d = PApply a)"
| "op_payload IpcLogsRetrieve d \<longleftrightarrow> (\<exists>l. d = PLogs l)"
| "op_payload IpcLogsInspect d \<longleftrightarrow> (\<exists>l. d = PLogs l)"
| "op_payload _ d \<longleftrightarrow> d = PUnit"

text \<open>The unit payload is written as \<^verbatim>\<open>null\<close>, which is read back as no payload.\<close>

definition carried :: "payload response \<Rightarrow> payload response" where
  "carried r = (if re_data r = Some PUnit then r\<lparr>re_data := None\<rparr> else r)"

definition codec_ok :: "'b codec_env \<Rightarrow> bool" where
  "codec_ok jc \<longleftrightarrow>
     (\<forall>op b. op_body op (Some b) \<longrightarrow> jc_parse_request jc op (jc_request jc b) = Some b) \<and>
     (\<forall>op r. (\<forall>d. re_data r = Some d \<longrightarrow> op_payload op d) \<longrightarrow>
        jc_parse_response jc op (jc_response jc r) = Inr (carried r)) \<and>
     (\<forall>r. re_data r = None \<longrightarrow> jc_parse_error jc (jc_response jc r) = Some r) \<and>
     (\<forall>table method path op. distinct (map (\<lambda>(m, p, _). (m, p)) table) \<and> (method, path, op) \<in> set table \<longrightarrow>
        rt_route jc method path table = RouteTo op)"

section \<open>The exchange\<close>

lemma mounted_distinct: "distinct (map (\<lambda>(m, p, _). (m, p)) mounted)"
  by (simp add: mounted_def registered_def)

lemma op_mounted: "(op_method op, op_path op, op) \<in> set mounted"
  by (cases op) (simp_all add: mounted_def registered_def)

text \<open>An answer is an envelope of the operation, and its status code tells whether it succeeded.\<close>

definition reply_ok :: "ipc_op \<Rightarrow> reply \<Rightarrow> bool" where
  "reply_ok op r \<longleftrightarrow> (case r of (status, e) \<Rightarrow>
     if is_success status then re_code e = CodeOk \<and> (\<exists>d. re_data e = Some d \<and> op_payload op d)
     else re_code e \<noteq> CodeOk \<and> re_data e = None)"

definition received :: "ipc_op \<Rightarrow> reply \<Rightarrow> client_error + payload response" where
  "received op r = (case r of (status, e) \<Rightarrow>
     if is_success status then Inr (carried e)
     else Inl (ClientServer (op_path op) (re_code e) (re_msg e) (re_error_kind e)))"

lemma exchange:
  assumes "codec_ok jc" and "reply_ok op r"
  shows "(case client_send jc (op_path op) (map_prod id (jc_response jc) r) of
     Inl e \<Rightarrow> Inl e | Inr bytes \<Rightarrow> client_decode jc op bytes) = received op r"
proof -
  obtain status e where r: "r = (status, e)" by (cases r)
  have "jc_parse_response jc op (jc_response jc e) = Inr (carried e)" if "is_success status"
    using assms that unfolding codec_ok_def reply_ok_def r by auto
  moreover have "jc_parse_error jc (jc_response jc e) = Some e" if "\<not> is_success status"
    using assms that unfolding codec_ok_def reply_ok_def r by auto
  ultimately show ?thesis
    using assms(2)
    by (cases "is_success status") (simp_all add: r client_send_def client_decode_def received_def reply_ok_def carried_def)
qed

lemma state_eqI: "(\<And>s. run_state m s = run_state n s) \<Longrightarrow> m = n"
  by (cases m; cases n) auto

lemma call_route:
  assumes jc: "codec_ok jc" and body: "op_body op body" and h: "handler ie op body = Some h"
    and ok: "\<And>s. reply_ok op (fst (run_state h s))"
  shows "client_call ie jc op body = do { r \<leftarrow> h; ret (received op r) }"
proof (rule state_eqI)
  fix s
  have route: "rt_route jc (op_method op) (op_path op) mounted = RouteTo op"
    using jc mounted_distinct op_mounted unfolding codec_ok_def by blast
  have parse: "Option.bind (map_option (jc_request jc) body) (jc_parse_request jc op) = body"
    using jc body by (cases body) (auto simp: codec_ok_def)
  show "run_state (client_call ie jc op body) s = run_state (do { r \<leftarrow> h; ret (received op r) }) s"
    using exchange [OF jc ok [of s]]
    by (cases "run_state h s") (simp add: client_call_def serve_def route parse h)
qed

section \<open>The calls\<close>

text \<open>How a result of the service reaches the caller.\<close>

abbreviation relay :: "ipc_op \<Rightarrow> string + 'a \<Rightarrow> client_error + 'a" where
  "relay op \<equiv> map_sum (\<lambda>e. ClientServer (op_path op) CodeOtherError e None) id"

abbreviation relay_op :: "ipc_op \<Rightarrow> op_error + 'a \<Rightarrow> client_error + 'a" where
  "relay_op op \<equiv> map_sum (\<lambda>e. ClientServer (op_path op) CodeOtherError (oe_message e) (oe_kind e)) id"

lemma run_gets: "run_state (gets f) s = (f s, s)"
  by (simp add: gets_def)

lemmas envelope_defs = success_def other_error_def other_error_with_kind_def into_envelope_def error_envelope_def
  response_for_panic_def answer_def answer_op_def carried_def

lemma call_answer:
  assumes jc: "codec_ok jc" and body: "op_body op body"
    and h: "handler ie op body = Some (do { r \<leftarrow> m; ts \<leftarrow> current_ts ie; ret (ans ts r) })"
    and ok: "\<And>ts r. reply_ok op (ans ts r)" and f: "\<And>ts r. f (received op (ans ts r)) = rel r"
  shows "do { r \<leftarrow> client_call ie jc op body; ret (f r) } = do { r \<leftarrow> m; ret (rel r) }"
proof (rule state_eqI)
  fix s
  have "client_call ie jc op body = do { r \<leftarrow> do { r \<leftarrow> m; ts \<leftarrow> current_ts ie; ret (ans ts r) };
      ret (received op r) }"
    by (rule call_route [OF jc body h]) (simp add: ok current_ts_def run_gets split: prod.split)
  then show "run_state (do { r \<leftarrow> client_call ie jc op body; ret (f r) }) s = run_state (do { r \<leftarrow> m; ret (rel r) }) s"
    by (simp add: f current_ts_def run_gets split: prod.split)
qed

lemma unit_replies:
  "op_payload op PUnit \<Longrightarrow> reply_ok op (answer ts (unit_payload r))"
  "op_payload op PUnit \<Longrightarrow> reply_ok op (answer_op ts (unit_payload r'))"
  "map_sum id (\<lambda>_. ()) (received op (answer ts (unit_payload r))) = relay op r"
  "map_sum id (\<lambda>_. ()) (received op (answer_op ts (unit_payload r'))) = relay_op op r'"
  by (cases r; cases r'; simp add: reply_ok_def received_def envelope_defs)+

lemma call_unit_answer:
  assumes "codec_ok jc" and "op_body op body" and "op_payload op PUnit"
  shows "handler ie op body = Some (do { r \<leftarrow> m; ts \<leftarrow> current_ts ie; ret (answer ts (unit_payload r)) }) \<Longrightarrow>
      call_unit ie jc op body = do { r \<leftarrow> m; ret (relay op r) }"
    "handler ie op body = Some (do { r \<leftarrow> m'; ts \<leftarrow> current_ts ie; ret (answer_op ts (unit_payload r)) }) \<Longrightarrow>
      call_unit ie jc op body = do { r \<leftarrow> m'; ret (relay_op op r) }"
  unfolding call_unit_def
  by (erule call_answer [OF assms(1,2)]; simp only: unit_replies assms(3))+

text \<open>An apply is always answered with its data: the panic of the projection is not reached.\<close>

lemma apply_has_data: "fst (run_state (service_apply se infos ct p e) s) \<noteq> Inr None"
proof -
  have total: "map_apply_outcome outcome \<noteq> None" for outcome
    using unwrap_warnings_all [of "[]" outcome] by (auto simp: map_apply_outcome_def)
  have "wp (service_apply se infos ct p e) (\<lambda>r _. r \<noteq> Inr None) s"
    unfolding service_apply_def publish_requested_core_def
    by (auto simp: wp_simps total wp_def [of "canonical_config_path _ _"] wp_def [of "apply_config _ _ _"]
        split: prod.split sum.split option.split)
  then show ?thesis by (simp add: wp_def case_prod_unfold)
qed

lemma call_apply:
  assumes "codec_ok jc"
  shows "client_apply_config ie jc ct p e =
    do { r \<leftarrow> on_service (service_apply (ie_service ie) (ie_infos ie) ct p e);
         ret (relay_op IpcCoreApply (map_sum id (PApply \<circ> the) r)) }"
proof -
  let ?m = "on_service (service_apply (ie_service ie) (ie_infos ie) ct p e)"
  let ?ans = "\<lambda>ts r. case r of Inl e \<Rightarrow> answer_op ts (Inl e) | Inr (Some data) \<Rightarrow> answer_op ts (Inr (PApply data))
    | Inr None \<Rightarrow> response_for_panic ts"
  let ?rel = "\<lambda>r. case r of Inr None \<Rightarrow> Inl (ClientServer (op_path IpcCoreApply) CodeOtherError
      ''internal server error'' None) | _ \<Rightarrow> relay_op IpcCoreApply (map_sum id (PApply \<circ> the) r)"
  have "client_apply_config ie jc ct p e = do { r \<leftarrow> ?m; ret (?rel r) }"
    unfolding client_apply_config_def call_data_def
    by (rule call_answer [OF assms, where ans = ?ans])
      (auto simp: route_apply_def reply_ok_def received_def envelope_defs split: sum.split option.split)
  also have "\<dots> = do { r \<leftarrow> ?m; ret (relay_op IpcCoreApply (map_sum id (PApply \<circ> the) r)) }"
  proof (rule state_eqI)
    fix s
    have "fst (run_state ?m s) \<noteq> Inr None"
      using apply_has_data by (simp add: on_service_def case_prod_unfold)
    then show "run_state (do { r \<leftarrow> ?m; ret (?rel r) }) s =
        run_state (do { r \<leftarrow> ?m; ret (relay_op IpcCoreApply (map_sum id (PApply \<circ> the) r)) }) s"
      by (cases "run_state ?m s") (auto split: sum.split option.split)
  qed
  finally show ?thesis .
qed

lemma call_status:
  assumes "codec_ok jc"
  shows "client_status ie jc = do { body \<leftarrow> gets (status_body_of ie); ret (Inr (PStatus body)) }"
  unfolding client_status_def call_data_def
  by (rule call_answer [OF assms, where ans = "\<lambda>ts body. (OK200, success ts (PStatus body))"])
    (simp_all add: route_status_def reply_ok_def received_def envelope_defs)


text \<open>A codec and a router that keep these promises.\<close>

definition demo_codec :: "(req_body + payload response) codec_env" where
  "demo_codec =
     \<lparr>jc_request = Inl, jc_parse_request = (\<lambda>_ b. case b of Inl r \<Rightarrow> Some r | Inr _ \<Rightarrow> None),
      jc_response = Inr, jc_parse_response = (\<lambda>_ b. case b of Inr r \<Rightarrow> Inr (carried r) | Inl _ \<Rightarrow> Inl ''''),
      jc_parse_error = (\<lambda>b. case b of Inr r \<Rightarrow> Some r | Inl _ \<Rightarrow> None), jc_text = (\<lambda>_. None),
      rt_route = (\<lambda>m p table. case map_of (map (\<lambda>(m, p, op). ((m, p), op)) table) (m, p) of
         Some op \<Rightarrow> RouteTo op | None \<Rightarrow> RouteNotFound),
      rt_reject = (OtherStatus 415, Inl (SetDnsReq None))\<rparr>"

lemma demo_codec_ok: "codec_ok demo_codec"
proof -
  have "map_of (map (\<lambda>(m, p, op). ((m, p), op)) table) (m, p) = Some op"
    if "distinct (map (\<lambda>(m, p, _). (m, p)) table)" "(m, p, op) \<in> set table" for table and m :: http_method and p :: string and op :: ipc_op
    using that by (intro map_of_is_SomeI) (force simp: comp_def case_prod_unfold)+
  then show ?thesis unfolding codec_ok_def demo_codec_def by (auto split: sum.split)
qed

definition sim_ipc_env :: "sim ipc_env" where
  "sim_ipc_env =
     \<lparr>ie_service = sim_service_env, ie_infos = sim_infos, ie_version = ''1'', ie_service_logs_dir = OsUtf8 ''/l'',
      ie_now = (\<lambda>_. 0), ie_set_dns = None, ie_hardware_port = (\<lambda>w. (Inl '''', w))\<rparr>"

definition sim_app :: "sim app" where
  "sim_app = \<lparr>ap_service = sim_closing, ap_logger = []\<rparr>"


end
