(* ===== verification/Events.thy ===== *)
theory Events
  imports Service_Facts "HOL-Library.AList"
begin

text \<open>
  The event feed of the service: the fan-out hub (\<^verbatim>\<open>server/events.rs\<close>), the bridge tasks that fill
  it (\<^verbatim>\<open>spawn_bridges\<close> and \<^verbatim>\<open>status_bridge\<close> of \<^verbatim>\<open>server/manager_bridge.rs\<close>), the sender of a
  WebSocket connection (\<^verbatim>\<open>server/routing/ws.rs\<close>) and the in-memory tail of the service's own log
  (\<^verbatim>\<open>server/logger.rs\<close>). The tasks run in any order and are steps of one system; a client that
  reads its connection ends up with the current status, however far it had fallen behind.
\<close>

section \<open>Channels\<close>

definition EVENT_CHANNEL_CAPACITY :: nat where "EVENT_CHANNEL_CAPACITY = 256"

definition LOG_EVENT_CHANNEL_CAPACITY :: nat where "LOG_EVENT_CHANNEL_CAPACITY = 1024"

text \<open>
  One receiver of a broadcast channel: the messages it has not read yet, oldest first, and the
  number of older ones it has lost and was not told about. How a sent message changes it is up
  to the channel, an external crate, and is a parameter; \<open>ring_ok\<close> is what the crate documents: a
  message is appended, and a receiver loses only its oldest messages, and only while it still
  holds as many as the channel's capacity.
\<close>

record 'a ring =
  rg_queue :: "'a list"
  rg_lagged :: nat

definition subscribe :: "'a ring" where
  "subscribe = \<lparr>rg_queue = [], rg_lagged = 0\<rparr>"

definition ring_ok :: "nat \<Rightarrow> ('a \<Rightarrow> 'a ring \<Rightarrow> 'a ring) \<Rightarrow> bool" where
  "ring_ok capacity push \<longleftrightarrow> (\<forall>x r. \<exists>k. rg_queue (push x r) = drop k (rg_queue r @ [x]) \<and>
     rg_lagged (push x r) = rg_lagged r + k \<and> (k = 0 \<or> capacity + k \<le> length (rg_queue r @ [x])))"

text \<open>What a receive gives: nothing yet, the number of lost messages, or the oldest message.\<close>

fun recv :: "'a ring \<Rightarrow> (nat + 'a) option \<times> 'a ring" where
  "recv r =
     (if rg_lagged r > 0 then (Some (Inl (rg_lagged r)), r\<lparr>rg_lagged := 0\<rparr>)
      else case rg_queue r of
        [] \<Rightarrow> (None, r)
      | x # xs \<Rightarrow> (Some (Inr x), r\<lparr>rg_queue := xs\<rparr>))"

section \<open>State\<close>

text \<open>
  The watch channels the bridge reads, each with its value and whether the bridge has yet to see
  it, and the legacy state the bridge has last sent.
\<close>

record bridge =
  br_status :: core_status
  br_status_unseen :: bool
  br_requested :: "core_type option"
  br_requested_unseen :: bool
  br_last :: wire_state

text \<open>
  A connection: its two receivers, whether a status snapshot is due before anything else is sent,
  and the events whose frames were written to the socket.
\<close>

record conn =
  cn_events :: "ws_event ring"
  cn_logs :: "log_frame ring"
  cn_snapshot :: bool
  cn_frames :: "ws_event list"

record feed =
  fd_bridge :: bridge
  fd_conns :: "(nat \<times> conn) list"

record hub_env =
  hb_send :: "ws_event \<Rightarrow> ws_event ring \<Rightarrow> ws_event ring"
  hb_send_log :: "log_frame \<Rightarrow> log_frame ring \<Rightarrow> log_frame ring"
  hb_to_vec :: "ws_event \<Rightarrow> string option"
  hb_without_credentials :: "url \<Rightarrow> string"

definition each_conn :: "(conn \<Rightarrow> conn) \<Rightarrow> feed \<Rightarrow> feed" where
  "each_conn g f = f\<lparr>fd_conns := map (\<lambda>(i, c). (i, g c)) (fd_conns f)\<rparr>"

definition hub_send :: "hub_env \<Rightarrow> ws_event \<Rightarrow> feed \<Rightarrow> feed" where
  "hub_send he e = each_conn (\<lambda>c. c\<lparr>cn_events := hb_send he e (cn_events c)\<rparr>)"

definition hub_send_log :: "hub_env \<Rightarrow> log_frame \<Rightarrow> feed \<Rightarrow> feed" where
  "hub_send_log he fr = each_conn (\<lambda>c. c\<lparr>cn_logs := hb_send_log he fr (cn_logs c)\<rparr>)"

definition has_log_subscribers :: "feed \<Rightarrow> bool" where
  "has_log_subscribers f \<longleftrightarrow> fd_conns f \<noteq> []"

section \<open>The bridge tasks\<close>

text \<open>Spawned over the channels' current values, which count as seen.\<close>

definition spawn_bridges :: "core_status \<Rightarrow> core_type option \<Rightarrow> feed" where
  "spawn_bridges status requested =
     \<lparr>fd_bridge = \<lparr>br_status = status, br_status_unseen = False, br_requested = requested,
        br_requested_unseen = False, br_last = map_core_state (st_state status)\<rparr>,
      fd_conns = []\<rparr>"

definition take_status :: "hub_env \<Rightarrow> feed \<Rightarrow> feed" where
  "take_status he f =
     (let b = fd_bridge f
      in case bridge_step (hb_without_credentials he) (br_last b)
             (StatesChanged (br_status b) (br_requested b)) of
           (events, new_last) \<Rightarrow> fold (hub_send he) events
             (f\<lparr>fd_bridge := b\<lparr>br_status_unseen := False, br_requested_unseen := False, br_last := new_last\<rparr>\<rparr>))"

definition take_requested :: "hub_env \<Rightarrow> feed \<Rightarrow> feed" where
  "take_requested he f =
     (let b = fd_bridge f
      in case bridge_step (hb_without_credentials he) (br_last b)
             (RequestedChanged (br_status b) (br_requested b)) of
           (events, new_last) \<Rightarrow> fold (hub_send he) events
             (f\<lparr>fd_bridge := b\<lparr>br_requested_unseen := False, br_last := new_last\<rparr>\<rparr>))"

definition bridge_log :: "hub_env \<Rightarrow> log_frame \<Rightarrow> feed \<Rightarrow> feed" where
  "bridge_log he fr f = (if has_log_subscribers f then hub_send_log he fr f else f)"

section \<open>The sender of a connection\<close>

datatype next_turn =
    NextSend ws_event
  | NextLog log_frame
  | NextStatusLag nat
  | NextLogLag nat

text \<open>An event that does not serialize is skipped. A failed write ends the connection.\<close>

definition send_event :: "hub_env \<Rightarrow> ws_event \<Rightarrow> conn \<Rightarrow> conn" where
  "send_event he e c = (case hb_to_vec he e of
     None \<Rightarrow> c
   | Some payload \<Rightarrow> c\<lparr>cn_frames := cn_frames c @ [e]\<rparr>)"

text \<open>\<^verbatim>\<open>/status\<close>, read from the two watch channels.\<close>

definition feed_status :: "hub_env \<Rightarrow> feed \<Rightarrow> core_infos" where
  "feed_status he f =
     project_core_infos (hb_without_credentials he) (br_status (fd_bridge f)) (br_requested (fd_bridge f))"

definition send_snapshot :: "hub_env \<Rightarrow> feed \<Rightarrow> conn \<Rightarrow> conn" where
  "send_snapshot he f c = send_event he (CoreStatusChanged (feed_status he f)) (c\<lparr>cn_snapshot := False\<rparr>)"

definition handle_socket :: conn where
  "handle_socket = \<lparr>cn_events = subscribe, cn_logs = subscribe, cn_snapshot = True, cn_frames = []\<rparr>"

fun sender_turn :: "hub_env \<Rightarrow> next_turn \<Rightarrow> conn \<Rightarrow> conn" where
  "sender_turn he (NextSend e) c = send_event he e c"
| "sender_turn he (NextLog fr) c = send_event he (CoreLog fr) c"
| "sender_turn he (NextStatusLag _) c = c\<lparr>cn_events := subscribe, cn_snapshot := True\<rparr>"
| "sender_turn he (NextLogLag _) c = c\<lparr>cn_logs := subscribe\<rparr>"

definition sender_events :: "hub_env \<Rightarrow> conn \<Rightarrow> conn option" where
  "sender_events he c =
     (if cn_snapshot c then None
      else case recv (cn_events c) of
        (received, r) \<Rightarrow> map_option (\<lambda>x. sender_turn he (case x of Inl n \<Rightarrow> NextStatusLag n | Inr e \<Rightarrow> NextSend e)
          (c\<lparr>cn_events := r\<rparr>)) received)"

definition sender_logs :: "hub_env \<Rightarrow> conn \<Rightarrow> conn option" where
  "sender_logs he c =
     (if cn_snapshot c then None
      else case recv (cn_logs c) of
        (received, r) \<Rightarrow> map_option (\<lambda>x. sender_turn he (case x of Inl n \<Rightarrow> NextLogLag n | Inr fr \<Rightarrow> NextLog fr)
          (c\<lparr>cn_logs := r\<rparr>)) received)"

section \<open>The system\<close>

text \<open>What reaches the tasks from outside, and the turns of the tasks themselves.\<close>

datatype input =
    InStatus core_status
  | InRequested "core_type option"
  | InLog log_frame
  | InConnect nat
  | InClose nat

fun input_step :: "hub_env \<Rightarrow> input \<Rightarrow> feed \<Rightarrow> feed" where
  "input_step he (InStatus s) f =
     f\<lparr>fd_bridge := (fd_bridge f)\<lparr>br_status := s, br_status_unseen := True\<rparr>\<rparr>"
| "input_step he (InRequested r) f =
     f\<lparr>fd_bridge := (fd_bridge f)\<lparr>br_requested := r, br_requested_unseen := True\<rparr>\<rparr>"
| "input_step he (InLog fr) f = bridge_log he fr f"
| "input_step he (InConnect i) f =
     (if map_of (fd_conns f) i = None then f\<lparr>fd_conns := (i, handle_socket) # fd_conns f\<rparr> else f)"
| "input_step he (InClose i) f = f\<lparr>fd_conns := AList.delete i (fd_conns f)\<rparr>"

datatype worker = BridgeStatus | BridgeRequested | Snapshot nat | SendEvents nat | SendLogs nat

definition on_conn :: "nat \<Rightarrow> (conn \<Rightarrow> conn option) \<Rightarrow> feed \<Rightarrow> feed option" where
  "on_conn i g f = Option.bind (map_of (fd_conns f) i) (\<lambda>c.
     map_option (\<lambda>c'. f\<lparr>fd_conns := AList.update i c' (fd_conns f)\<rparr>) (g c))"

text \<open>\<open>None\<close> when the task has nothing to do.\<close>

fun work :: "hub_env \<Rightarrow> worker \<Rightarrow> feed \<Rightarrow> feed option" where
  "work he BridgeStatus f = (if br_status_unseen (fd_bridge f) then Some (take_status he f) else None)"
| "work he BridgeRequested f = (if br_requested_unseen (fd_bridge f) then Some (take_requested he f) else None)"
| "work he (Snapshot i) f = on_conn i (\<lambda>c. if cn_snapshot c then Some (send_snapshot he f c) else None) f"
| "work he (SendEvents i) f = on_conn i (sender_events he) f"
| "work he (SendLogs i) f = on_conn i (sender_logs he) f"

fun run_work :: "hub_env \<Rightarrow> worker list \<Rightarrow> feed \<Rightarrow> feed option" where
  "run_work he [] f = Some f"
| "run_work he (w # ws) f = Option.bind (work he w f) (run_work he ws)"

inductive feed_reach :: "hub_env \<Rightarrow> feed \<Rightarrow> bool" for he where
  feed_spawn: "feed_reach he (spawn_bridges status requested)"
| feed_input: "feed_reach he f \<Longrightarrow> feed_reach he (input_step he x f)"
| feed_work: "feed_reach he f \<Longrightarrow> work he w f = Some f' \<Longrightarrow> feed_reach he f'"

end
