(* ===== verification/Events_Facts.thy ===== *)
theory Events_Facts
  imports Events
begin

text \<open>
  Every run of the feed's tasks ends, and leaves every connected client with the current status
  as its last status frame, whatever was published, read, lost or reconnected before.
\<close>

section \<open>Receivers\<close>

lemma ring_push:
  assumes "ring_ok capacity push" and "0 < capacity"
  shows "\<exists>p. rg_queue (push x r) = p @ [x]"
proof -
  obtain k where k: "rg_queue (push x r) = drop k (rg_queue r @ [x])"
    "k = 0 \<or> capacity + k \<le> length (rg_queue r @ [x])"
    using assms(1) unfolding ring_ok_def by blast
  then have "k \<le> length (rg_queue r)" using assms(2) by auto
  with k show ?thesis by simp
qed

lemma ring_push_two:
  assumes "ring_ok capacity push" and "1 < capacity"
  shows "\<exists>p. rg_queue (push y (push x r)) = p @ [x, y]"
proof -
  obtain p where p: "rg_queue (push x r) = p @ [x]" using ring_push [OF assms(1)] assms(2) by fastforce
  obtain k where k: "rg_queue (push y (push x r)) = drop k (rg_queue (push x r) @ [y])"
    "k = 0 \<or> capacity + k \<le> length (rg_queue (push x r) @ [y])"
    using assms(1) unfolding ring_ok_def by blast
  then have "k \<le> length p" using assms(2) p by auto
  with k p show ?thesis by simp
qed

text \<open>A message costs a receiver at most two turns: itself, or the report of a loss.\<close>

fun ring_load :: "'a ring \<Rightarrow> nat" where
  "ring_load r = length (rg_queue r) + (if rg_lagged r > 0 then 2 else 0)"

lemma ring_load_push: "ring_ok capacity push \<Longrightarrow> ring_load (push x r) \<le> ring_load r + 2"
  unfolding ring_ok_def
proof (elim allE [of _ x] allE [of _ r] exE conjE)
  fix k
  assume "rg_queue (push x r) = drop k (rg_queue r @ [x])" "rg_lagged (push x r) = rg_lagged r + k"
  then show ?thesis by (cases k) auto
qed

section \<open>The connections\<close>

lemma each_conn_of [simp]: "map_of (fd_conns (each_conn g f)) i = map_option g (map_of (fd_conns f) i)"
  by (simp add: each_conn_def map_of_map)

lemma each_conn_frame [simp]:
  "fd_bridge (each_conn g f) = fd_bridge f"
  "map fst (fd_conns (each_conn g f)) = map fst (fd_conns f)"
  "each_conn g (f\<lparr>fd_bridge := b\<rparr>) = (each_conn g f)\<lparr>fd_bridge := b\<rparr>"
  by (simp_all add: each_conn_def case_prod_unfold)

lemma each_conn_comp [simp]: "each_conn g (each_conn h f) = each_conn (\<lambda>c. g (h c)) f"
  by (simp add: each_conn_def case_prod_unfold)

abbreviation status_frames :: "ws_event list \<Rightarrow> core_infos list" where
  "status_frames es \<equiv> List.map_filter snapshot_of es"

text \<open>
  What holds of a connection while \<open>infos\<close> is the status and the bridge has seen it: the latest
  status in its queue is \<open>infos\<close>, or the latest one the client was sent is, unless a snapshot is
  still to come.
\<close>

definition conn_ok :: "core_infos \<Rightarrow> conn \<Rightarrow> bool" where
  "conn_ok infos c \<longleftrightarrow>
     (let queued = status_frames (rg_queue (cn_events c)) in
       if queued \<noteq> [] then last queued = infos
       else cn_snapshot c \<or> 0 < rg_lagged (cn_events c) \<or>
         (status_frames (cn_frames c) \<noteq> [] \<and> last (status_frames (cn_frames c)) = infos))"

definition bridge_idle :: "feed \<Rightarrow> bool" where
  "bridge_idle f \<longleftrightarrow> \<not> br_status_unseen (fd_bridge f) \<and> \<not> br_requested_unseen (fd_bridge f)"

definition feed_ok :: "hub_env \<Rightarrow> feed \<Rightarrow> bool" where
  "feed_ok he f \<longleftrightarrow> distinct (map fst (fd_conns f)) \<and>
     (bridge_idle f \<longrightarrow> (\<forall>i c. map_of (fd_conns f) i = Some c \<longrightarrow> conn_ok (feed_status he f) c))"

text \<open>The promises of the channels and of the serializer the service relies on.\<close>

definition hub_ok :: "hub_env \<Rightarrow> bool" where
  "hub_ok he \<longleftrightarrow> ring_ok EVENT_CHANNEL_CAPACITY (hb_send he) \<and>
     ring_ok LOG_EVENT_CHANNEL_CAPACITY (hb_send_log he) \<and> (\<forall>i. hb_to_vec he (CoreStatusChanged i) \<noteq> None)"

lemma conn_ok_sent:
  assumes "hub_ok he"
  shows "conn_ok infos (c\<lparr>cn_events := hb_send he (CoreStatusChanged infos) r\<rparr>)"
    "conn_ok infos (c\<lparr>cn_events := hb_send he (CoreStateChanged s) (hb_send he (CoreStatusChanged infos) r)\<rparr>)"
proof -
  have he: "ring_ok EVENT_CHANNEL_CAPACITY (hb_send he)" "1 < EVENT_CHANNEL_CAPACITY"
    using assms by (simp_all add: hub_ok_def EVENT_CHANNEL_CAPACITY_def)
  obtain p where "rg_queue (hb_send he (CoreStatusChanged infos) r) = p @ [CoreStatusChanged infos]"
    using ring_push [OF he(1)] he(2) by fastforce
  then show "conn_ok infos (c\<lparr>cn_events := hb_send he (CoreStatusChanged infos) r\<rparr>)"
    by (simp add: conn_ok_def List.map_filter_def)
  obtain p where "rg_queue (hb_send he (CoreStateChanged s) (hb_send he (CoreStatusChanged infos) r)) =
      p @ [CoreStatusChanged infos, CoreStateChanged s]"
    using ring_push_two [OF he] by blast
  then show "conn_ok infos (c\<lparr>cn_events := hb_send he (CoreStateChanged s)
      (hb_send he (CoreStatusChanged infos) r)\<rparr>)"
    by (simp add: conn_ok_def List.map_filter_def)
qed

lemma send_event_keeps [simp]:
  "cn_events (send_event he e c) = cn_events c" "cn_snapshot (send_event he e c) = cn_snapshot c"
  "cn_logs (send_event he e c) = cn_logs c"
  by (auto simp: send_event_def split: option.splits)

lemma send_event_frames:
  assumes "hub_ok he"
  shows "status_frames (cn_frames (send_event he e c)) = status_frames (cn_frames c) @ status_frames [e]"
proof (cases e)
  case (CoreStatusChanged i)
  moreover obtain payload where "hb_to_vec he (CoreStatusChanged i) = Some payload"
    using assms by (auto simp: hub_ok_def)
  ultimately show ?thesis by (simp add: send_event_def List.map_filter_def)
qed (auto simp: send_event_def List.map_filter_def split: option.splits)

lemma conn_ok_snapshot:
  "hub_ok he \<Longrightarrow> conn_ok (feed_status he f) c \<Longrightarrow> conn_ok (feed_status he f) (send_snapshot he f c)"
  by (auto simp: conn_ok_def send_snapshot_def send_event_frames Let_def)

lemma conn_ok_events:
  assumes "hub_ok he" and "conn_ok infos c" and "sender_events he c = Some c'"
  shows "conn_ok infos c'"
proof -
  have "conn_ok infos (send_event he e (c\<lparr>cn_events := r\<rparr>))"
    if "rg_queue (cn_events c) = e # rg_queue r" "rg_lagged r = rg_lagged (cn_events c)" for e r
    using assms(2) that
    by (cases e) (auto simp: conn_ok_def send_event_frames [OF assms(1)] List.map_filter_simps Let_def split: if_splits)
  moreover have "conn_ok infos (c\<lparr>cn_events := subscribe, cn_snapshot := True\<rparr>)"
    by (simp add: conn_ok_def subscribe_def List.map_filter_simps)
  ultimately show ?thesis
    using assms(3) by (auto simp: sender_events_def split: if_splits list.splits)
qed

lemma conn_ok_logs:
  assumes "hub_ok he" and "conn_ok infos c" and "sender_logs he c = Some c'"
  shows "conn_ok infos c'"
  using assms(2,3)
  by (auto simp: sender_logs_def conn_ok_def send_event_frames [OF assms(1)] List.map_filter_simps Let_def
      split: if_splits list.splits)

section \<open>The invariant\<close>

lemma conn_ok_other [simp]: "conn_ok infos (c\<lparr>cn_logs := r\<rparr>) = conn_ok infos c"
  by (simp add: conn_ok_def)

lemma conn_ok_new: "conn_ok infos handle_socket"
  by (simp add: conn_ok_def handle_socket_def subscribe_def List.map_filter_simps)

lemma each_conn_in [simp]:
  "(i, c) \<in> set (fd_conns (each_conn g f)) \<longleftrightarrow> (\<exists>c0. (i, c0) \<in> set (fd_conns f) \<and> c = g c0)"
  by (auto simp: each_conn_def)

lemma feed_ok_take:
  assumes "hub_ok he" and "feed_ok he f"
  shows "feed_ok he (take_status he f)" "feed_ok he (take_requested he f)"
  using assms
  by (auto simp: feed_ok_def take_status_def take_requested_def hub_send_def feed_status_def bridge_idle_def
      Let_def conn_ok_sent)

lemma feed_ok_input:
  assumes "feed_ok he f"
  shows "feed_ok he (input_step he x f)"
proof (cases x)
  case (InLog fr)
  with assms show ?thesis
    by (auto simp: feed_ok_def bridge_log_def hub_send_log_def bridge_idle_def feed_status_def)
next
  case (InConnect i)
  with assms show ?thesis
    by (auto simp: feed_ok_def bridge_idle_def feed_status_def conn_ok_new map_of_eq_None_iff split: if_splits)
next
  case (InClose i)
  with assms show ?thesis
    by (auto simp: feed_ok_def bridge_idle_def feed_status_def delete_conv' distinct_delete split: if_splits)
qed (use assms in \<open>auto simp: feed_ok_def bridge_idle_def\<close>)

lemma feed_ok_conn:
  assumes "feed_ok he f" and "on_conn i g f = Some f'"
    and "\<And>c c'. conn_ok (feed_status he f) c \<Longrightarrow> g c = Some c' \<Longrightarrow> conn_ok (feed_status he f) c'"
  shows "feed_ok he f'"
  using assms
  by (fastforce simp: feed_ok_def on_conn_def bridge_idle_def feed_status_def update_conv' distinct_update
      bind_eq_Some_conv split: if_splits)

lemma feed_ok_work:
  assumes "hub_ok he" and "feed_ok he f" and "work he w f = Some f'"
  shows "feed_ok he f'"
proof (cases w)
  case (Snapshot i)
  then show ?thesis
    using assms(3) conn_ok_snapshot [OF assms(1)] by (auto intro!: feed_ok_conn [OF assms(2)] split: if_splits)
next
  case (SendEvents i)
  then show ?thesis
    using assms(3) conn_ok_events [OF assms(1)] by (auto intro!: feed_ok_conn [OF assms(2)])
next
  case (SendLogs i)
  then show ?thesis
    using assms(3) conn_ok_logs [OF assms(1)] by (auto intro!: feed_ok_conn [OF assms(2)])
qed (use assms feed_ok_take in \<open>auto split: if_splits\<close>)

lemma feed_reach_ok: "feed_reach he f \<Longrightarrow> hub_ok he \<Longrightarrow> feed_ok he f"
proof (induction rule: feed_reach.induct)
  case (feed_spawn status requested)
  then show ?case by (simp add: feed_ok_def spawn_bridges_def)
qed (use feed_ok_input feed_ok_work in blast)+

section \<open>The tasks end\<close>

text \<open>An upper bound on the turns the tasks can still take.\<close>

fun conn_load :: "conn \<Rightarrow> nat" where
  "conn_load c = ring_load (cn_events c) + ring_load (cn_logs c) + (if cn_snapshot c then 1 else 0)"

definition conns_load :: "feed \<Rightarrow> nat" where
  "conns_load f = sum_list (map (conn_load \<circ> snd) (fd_conns f))"

definition feed_load :: "feed \<Rightarrow> nat" where
  "feed_load f = conns_load f + (4 * length (fd_conns f) + 1) *
     ((if br_status_unseen (fd_bridge f) then 1 else 0) + (if br_requested_unseen (fd_bridge f) then 1 else 0))"

lemma conns_load_bridge [simp]: "conns_load (f\<lparr>fd_bridge := b\<rparr>) = conns_load f"
  by (simp add: conns_load_def)

lemma conns_load_each:
  assumes "\<And>c. conn_load (g c) \<le> conn_load c + n"
  shows "conns_load (each_conn g f) \<le> conns_load f + n * length (fd_conns f)"
proof -
  have "(\<Sum>x\<leftarrow>xs. conn_load (g (snd x))) \<le> (\<Sum>x\<leftarrow>xs. conn_load (snd x)) + n * length xs" for xs :: "(nat \<times> conn) list"
  proof (induction xs)
    case (Cons x xs)
    then show ?case using assms [of "snd x"] by simp
  qed simp
  then show ?thesis by (simp add: conns_load_def each_conn_def case_prod_unfold comp_def)
qed

lemma conns_load_send:
  assumes "hub_ok he"
  shows "conns_load (hub_send he e f) \<le> conns_load f + 2 * length (fd_conns f)"
proof -
  have "ring_load (hb_send he e r) \<le> ring_load r + 2" for r
    using assms unfolding hub_ok_def by (blast intro: ring_load_push)
  then show ?thesis
    unfolding hub_send_def by (intro conns_load_each) (simp del: ring_load.simps)
qed

lemma hub_send_keeps [simp]:
  "fd_bridge (hub_send he e f) = fd_bridge f" "length (fd_conns (hub_send he e f)) = length (fd_conns f)"
  by (simp_all add: hub_send_def each_conn_def)

lemma conns_load_sends:
  assumes "hub_ok he"
  shows "conns_load (fold (hub_send he) es f) \<le> conns_load f + 2 * length es * length (fd_conns f)"
proof (induction es arbitrary: f)
  case (Cons e es)
  from this [of "hub_send he e f"] conns_load_send [OF assms, of e f] show ?case by simp
qed simp

lemma fold_send_keeps [simp]:
  "fd_bridge (fold (hub_send he) es f) = fd_bridge f"
  "length (fd_conns (fold (hub_send he) es f)) = length (fd_conns f)"
  by (induction es arbitrary: f) simp_all

lemma bridge_step_two: "bridge_step wc p w = (es, q) \<Longrightarrow> length es \<le> 2"
  by (cases w) (auto simp: Let_def split: if_splits)

lemma feed_load_take:
  assumes "hub_ok he"
  shows "br_status_unseen (fd_bridge f) \<Longrightarrow> feed_load (take_status he f) < feed_load f"
    "br_requested_unseen (fd_bridge f) \<Longrightarrow> feed_load (take_requested he f) < feed_load f"
proof -
  have sent: "conns_load (fold (hub_send he) es (f\<lparr>fd_bridge := b\<rparr>)) \<le> conns_load f + 4 * length (fd_conns f)"
    if "length es \<le> 2" for es b
  proof -
    have "2 * length es * length (fd_conns f) \<le> 4 * length (fd_conns f)"
      by (rule mult_right_mono) (use that in simp_all)
    moreover have "conns_load (fold (hub_send he) es (f\<lparr>fd_bridge := b\<rparr>)) \<le>
        conns_load f + 2 * length es * length (fd_conns f)"
      using conns_load_sends [OF assms, of es "f\<lparr>fd_bridge := b\<rparr>"] by simp
    ultimately show ?thesis by linarith
  qed
  show "feed_load (take_status he f) < feed_load f" if "br_status_unseen (fd_bridge f)"
  proof -
    obtain es l where "bridge_step (hb_without_credentials he) (br_last (fd_bridge f))
        (StatesChanged (br_status (fd_bridge f)) (br_requested (fd_bridge f))) = (es, l)" by fastforce
    with sent [OF bridge_step_two [OF this], of "(fd_bridge f)\<lparr>br_status_unseen := False,
        br_requested_unseen := False, br_last := l\<rparr>"] that show ?thesis
      by (simp add: take_status_def feed_load_def Let_def del: bridge_step.simps)
  qed
  show "feed_load (take_requested he f) < feed_load f" if "br_requested_unseen (fd_bridge f)"
  proof -
    obtain es l where "bridge_step (hb_without_credentials he) (br_last (fd_bridge f))
        (RequestedChanged (br_status (fd_bridge f)) (br_requested (fd_bridge f))) = (es, l)" by fastforce
    with sent [OF bridge_step_two [OF this], of "(fd_bridge f)\<lparr>br_requested_unseen := False, br_last := l\<rparr>"]
      that show ?thesis
      by (simp add: take_requested_def feed_load_def Let_def del: bridge_step.simps)
  qed
qed

lemma load_update:
  "distinct (map fst xs) \<Longrightarrow> map_of xs i = Some c \<Longrightarrow>
   sum_list (map (h \<circ> snd) (AList.update i c' xs)) + h c = sum_list (map (h \<circ> snd) xs) + (h c' :: nat)"
  by (induction xs) (auto split: if_splits)

lemma length_update: "map_of xs i = Some c \<Longrightarrow> length (AList.update i c' xs) = length xs"
  by (induction xs) (auto split: if_splits)

lemma feed_load_conn:
  assumes "distinct (map fst (fd_conns f))" and "on_conn i g f = Some f'"
    and "\<And>c c'. g c = Some c' \<Longrightarrow> conn_load c' < conn_load c"
  shows "feed_load f' < feed_load f"
proof -
  obtain c c' where c: "map_of (fd_conns f) i = Some c" "g c = Some c'"
    "f' = f\<lparr>fd_conns := AList.update i c' (fd_conns f)\<rparr>"
    using assms(2) by (auto simp: on_conn_def bind_eq_Some_conv)
  show ?thesis
    using load_update [OF assms(1) c(1), of conn_load c'] assms(3) [OF c(2)] length_update [OF c(1)]
    by (simp add: c(3) feed_load_def conns_load_def)
qed

lemma conn_load_turns:
  "sender_events he c = Some c' \<Longrightarrow> conn_load c' < conn_load c"
  "sender_logs he c = Some c' \<Longrightarrow> conn_load c' < conn_load c"
  "cn_snapshot c \<Longrightarrow> conn_load (send_snapshot he f c) < conn_load c"
  by (auto simp: sender_events_def sender_logs_def send_snapshot_def subscribe_def split: if_splits list.splits)

lemma feed_load_work:
  assumes "hub_ok he" and "distinct (map fst (fd_conns f))" and "work he w f = Some f'"
  shows "feed_load f' < feed_load f"
proof (cases w)
  case (Snapshot i)
  then show ?thesis
    using assms(3) conn_load_turns(3)
    by (auto intro!: feed_load_conn [OF assms(2)] simp del: conn_load.simps split: if_splits)
next
  case (SendEvents i)
  then show ?thesis
    using assms(3) conn_load_turns(1) by (auto intro!: feed_load_conn [OF assms(2)] simp del: conn_load.simps)
next
  case (SendLogs i)
  then show ?thesis
    using assms(3) conn_load_turns(2) by (auto intro!: feed_load_conn [OF assms(2)] simp del: conn_load.simps)
qed (use assms(3) feed_load_take [OF assms(1)] in \<open>auto split: if_splits\<close>)

lemma run_work_bound:
  assumes "hub_ok he"
  shows "feed_ok he f \<Longrightarrow> run_work he ws f = Some f' \<Longrightarrow> feed_ok he f' \<and> length ws + feed_load f' \<le> feed_load f"
proof (induction ws arbitrary: f)
  case (Cons w ws)
  then obtain f1 where f1: "work he w f = Some f1" "run_work he ws f1 = Some f'"
    by (auto simp: bind_eq_Some_conv)
  have "feed_load f1 < feed_load f"
    using feed_load_work [OF assms _ f1(1)] Cons.prems(1) by (simp add: feed_ok_def)
  with Cons.IH [OF feed_ok_work [OF assms Cons.prems(1) f1(1)] f1(2)] show ?case by simp
qed simp

lemma quiescent:
  assumes "\<And>w. work he w f = None"
  shows "bridge_idle f" "map_of (fd_conns f) i = Some c \<Longrightarrow> \<not> cn_snapshot c \<and> cn_events c = subscribe"
proof -
  show "bridge_idle f"
    using assms [of BridgeStatus] assms [of BridgeRequested] by (auto simp: bridge_idle_def split: if_splits)
  assume "map_of (fd_conns f) i = Some c"
  with assms [of "Snapshot i"] assms [of "SendEvents i"] show "\<not> cn_snapshot c \<and> cn_events c = subscribe"
    by (cases "cn_events c") (auto simp: on_conn_def sender_events_def subscribe_def split: if_splits list.splits)
qed

text \<open>
  C7. A client catches up. Whatever was published, read, lost by a slow receiver, connected or closed
  before, the tasks of the feed, the status bridge and the senders of the connections, stop after
  at most \<open>feed_load\<close> turns when nothing more is published, in whatever order they run; and when
  none of them has anything to do, the last status frame each connected client was sent is the
  status the service would answer.
\<close>

theorem client_catches_up:
  assumes "hub_ok he" and "feed_reach he f" and "run_work he ws f = Some f'"
  shows "length ws \<le> feed_load f \<and>
    ((\<forall>w. work he w f' = None) \<longrightarrow> (\<forall>i c. map_of (fd_conns f') i = Some c \<longrightarrow>
      status_frames (cn_frames c) \<noteq> [] \<and> last (status_frames (cn_frames c)) = feed_status he f'))"
proof -
  note ok = run_work_bound [OF assms(1) feed_reach_ok [OF assms(2,1)] assms(3)]
  have "status_frames (cn_frames c) \<noteq> [] \<and> last (status_frames (cn_frames c)) = feed_status he f'"
    if "\<forall>w. work he w f' = None" "map_of (fd_conns f') i = Some c" for i c
    using quiescent [of he f'] that ok
    by (auto simp: feed_ok_def conn_ok_def subscribe_def List.map_filter_simps)
  with ok show ?thesis by auto
qed

text \<open>A hub whose receivers drop their oldest message when they are full.\<close>

definition drop_oldest :: "nat \<Rightarrow> 'a \<Rightarrow> 'a ring \<Rightarrow> 'a ring" where
  "drop_oldest capacity x r =
     (let q = rg_queue r @ [x] in
      if capacity < length q then \<lparr>rg_queue = drop 1 q, rg_lagged = rg_lagged r + 1\<rparr> else r\<lparr>rg_queue := q\<rparr>)"

definition demo_hub :: hub_env where
  "demo_hub =
     \<lparr>hb_send = drop_oldest EVENT_CHANNEL_CAPACITY, hb_send_log = drop_oldest LOG_EVENT_CHANNEL_CAPACITY,
      hb_to_vec = (\<lambda>_. Some []), hb_without_credentials = url_authority\<rparr>"

definition demo_running :: core_status where
  "demo_running = (core_status_initial 0)\<lparr>st_state := CRunning 1 42\<rparr>"

definition demo_feed :: feed where
  "demo_feed = input_step demo_hub (InStatus demo_running) (input_step demo_hub (InConnect 7)
     (spawn_bridges (core_status_initial 0) None))"

lemma drop_oldest_ok: "ring_ok capacity (drop_oldest capacity)"
  unfolding ring_ok_def
proof (intro allI)
  fix x and r :: "'a ring"
  show "\<exists>k. rg_queue (drop_oldest capacity x r) = drop k (rg_queue r @ [x]) \<and>
     rg_lagged (drop_oldest capacity x r) = rg_lagged r + k \<and> (k = 0 \<or> capacity + k \<le> length (rg_queue r @ [x]))"
    by (rule exI [of _ "if capacity < length (rg_queue r @ [x]) then 1 else 0"])
      (simp add: drop_oldest_def Let_def)
qed

lemma demo_hub_ok: "hub_ok demo_hub"
  by (simp add: hub_ok_def demo_hub_def drop_oldest_ok)

definition demo_done :: feed where
  "demo_done =
     \<lparr>fd_bridge = \<lparr>br_status = demo_running, br_status_unseen = False, br_requested = None,
        br_requested_unseen = False, br_last = WireRunning\<rparr>,
      fd_conns = [(7, \<lparr>cn_events = subscribe, cn_logs = subscribe, cn_snapshot = False,
        cn_frames = [CoreStatusChanged (project_core_infos url_authority demo_running None),
          CoreStatusChanged (project_core_infos url_authority demo_running None),
          CoreStateChanged WireRunning]\<rparr>)]\<rparr>"

lemmas demo_defs = demo_hub_def demo_feed_def demo_running_def spawn_bridges_def handle_socket_def subscribe_def
  core_status_initial_def

lemma demo_run: "run_work demo_hub [Snapshot 7, BridgeStatus, SendEvents 7, SendEvents 7] demo_feed = Some demo_done"
  by (simp add: demo_defs demo_done_def on_conn_def send_snapshot_def send_event_def take_status_def Let_def
      bridge_suppressed_def hub_send_def each_conn_def drop_oldest_def EVENT_CHANNEL_CAPACITY_def
      sender_events_def feed_status_def)

lemma demo_quiet: "work demo_hub w demo_done = None"
  by (cases w) (auto simp: demo_done_def on_conn_def sender_events_def sender_logs_def subscribe_def)

theorem client_catches_up_witness:
  "4 \<le> feed_load demo_feed \<and> map_of (fd_conns demo_done) 7 \<noteq> None \<and>
   last (status_frames (cn_frames (the (map_of (fd_conns demo_done) 7)))) = feed_status demo_hub demo_done"
proof -
  have "feed_reach demo_hub demo_feed"
    unfolding demo_feed_def by (intro feed_input feed_spawn)
  note caught_up = client_catches_up [OF demo_hub_ok this demo_run]
  have "map_of (fd_conns demo_done) 7 = Some (the (map_of (fd_conns demo_done) 7))"
    by (simp add: demo_done_def)
  with caught_up demo_quiet show ?thesis by auto
qed

end
