(* ===== verification/Store_Facts.thy ===== *)
theory Store_Facts
  imports Runtime_Store
begin

text \<open>
  Facts about the runtime directory: the names the store makes up are numbered names in the
  sense of \<open>numbered_name\<close> (the epoch is read back from every one of them, so different epochs
  never share a file), and cleaning up an epoch names only files of that epoch.
\<close>

section \<open>The epoch of an artifact\<close>

text \<open>An epoch in decimal is followed in every name by a dot, which is no digit.\<close>

lemma not_digit_dot [simp]: "\<not> is_ascii_digit (CHR ''.'')"
  by (simp add: is_ascii_digit_def)

lemma split_once_digits:
  assumes "list_all is_ascii_digit ds" and "\<not> is_ascii_digit c"
  shows "split_once (c # p) (ds @ c # p @ s) = Some (ds, s)"
  using assms(1)
proof (induction ds)
  case Nil
  show ?case by (subst split_once.simps) (simp add: prefix_def)
next
  case (Cons d ds)
  with assms(2) have "\<not> prefix (c # p) ((d # ds) @ c # p @ s)" by auto
  with Cons show ?case by (subst split_once.simps) simp
qed

lemma show_u64_digits [simp]: "list_all is_ascii_digit (show_u64 e)"
  by (auto simp: list_all_iff show_u64_def)

lemmas split_once_show = split_once_digits [OF show_u64_digits not_digit_dot]

lemma strip_suffix_None: "strip_suffix p s = None \<longleftrightarrow> \<not> suffix p s"
  by (simp add: strip_suffix_def)

lemma suffix_last: "suffix p s \<Longrightarrow> p \<noteq> [] \<Longrightarrow> last s = last p"
  by (auto simp: suffix_def)

lemma last_show_u64: "last (xs @ show_u64 g) \<noteq> c" if "\<not> is_ascii_digit c"
proof -
  have "show_u64 g \<noteq> []" by (simp add: show_u64_def)
  then have "last (xs @ show_u64 g) \<in> set (show_u64 g)" by simp
  then show ?thesis using digits_not_in [OF that] by metis
qed

lemma artifact_epoch_runtime: "artifact_epoch (runtime_name e) = Some e"
proof -
  have "strip_prefix ''core-'' (runtime_name e) = None" "strip_prefix ''config-'' (runtime_name e) = Some (show_u64 e @ ''.yaml'')"
    by (simp_all add: strip_prefix_def runtime_name_def)
  then show ?thesis by (simp add: artifact_epoch_def)
qed

lemma artifact_epoch_pid: "artifact_epoch (pid_name e) = Some e"
proof -
  have "strip_prefix ''core-'' (pid_name e) = Some (show_u64 e @ ''.pid'')"
    by (simp add: strip_prefix_def pid_name_def)
  then show ?thesis by (simp add: artifact_epoch_def)
qed

lemma artifact_epoch_socket: "artifact_epoch (socket_name e) = Some e"
proof -
  have "strip_prefix ''core-'' (socket_name e) = Some (show_u64 e @ ''.sock'')"
    by (simp add: strip_prefix_def socket_name_def)
  moreover have "strip_suffix ''.pid'' (show_u64 e @ ''.sock'') = None"
    by (auto simp: strip_suffix_None dest: suffix_last)
  ultimately show ?thesis by (simp add: artifact_epoch_def)
qed

lemma artifact_epoch_temp: "artifact_epoch (temp_prefix e @ s) = Some e"
proof -
  have "strip_prefix ''core-'' (temp_prefix e @ s) = None" "strip_prefix ''config-'' (temp_prefix e @ s) = None"
    "strip_prefix ''.config-'' (temp_prefix e @ s) = Some (show_u64 e @ ''.yaml.tmp-'' @ s)"
    by (simp_all add: strip_prefix_def temp_prefix_def)
  then show ?thesis using split_once_show [of "''yaml.tmp-''" e s] by (simp add: artifact_epoch_def)
qed

lemma artifact_epoch_backup: "artifact_epoch (backup_prefix e @ show_u64 g) = Some e"
proof -
  have "strip_prefix ''core-'' (backup_prefix e @ show_u64 g) = None"
    "strip_prefix ''config-'' (backup_prefix e @ show_u64 g) = Some (show_u64 e @ ''.yaml.backup-'' @ show_u64 g)"
    by (simp_all add: strip_prefix_def backup_prefix_def)
  moreover have "\<not> is_ascii_digit (CHR ''l'')" by (simp add: is_ascii_digit_def)
  from last_show_u64 [OF this, of "show_u64 e @ ''.yaml.backup-''" g]
  have "strip_suffix ''.yaml'' (show_u64 e @ ''.yaml.backup-'' @ show_u64 g) = None"
    by (auto simp: strip_suffix_None dest: suffix_last)
  ultimately show ?thesis
    using split_once_show [of "''yaml.backup-''" e "show_u64 g"]
    by (simp add: artifact_epoch_def)
qed

text \<open>Every kind of file the store names after an epoch is a numbered name.\<close>

interpretation runtime: numbered_name runtime_name artifact_epoch
  by unfold_locales (rule artifact_epoch_runtime)

interpretation pid: numbered_name pid_name artifact_epoch
  by unfold_locales (rule artifact_epoch_pid)

interpretation socket: numbered_name socket_name artifact_epoch
  by unfold_locales (rule artifact_epoch_socket)

interpretation temp: numbered_name "\<lambda>e. temp_name ev e c" artifact_epoch for ev c
  by unfold_locales (simp add: temp_name_def artifact_epoch_temp)

interpretation backup: numbered_name "\<lambda>e. backup_prefix e @ show_u64 g" artifact_epoch for g
  by unfold_locales (rule artifact_epoch_backup)

section \<open>Names cleaned up with an epoch\<close>

lemma temp_prefix_inject: "prefix (temp_prefix d) n \<Longrightarrow> prefix (temp_prefix e) n \<Longrightarrow> d = e"
  by (auto simp: prefix_def) (metis artifact_epoch_temp option.inject)

lemma backup_prefix_inject: "prefix (backup_prefix d) n \<Longrightarrow> prefix (backup_prefix e) n \<Longrightarrow> d = e"
  by (auto simp: prefix_def backup_prefix_def dest: show_u64_append_inject)

lemma pid_temp_prefix_inject: "prefix (pid_temp_prefix d) n \<Longrightarrow> prefix (pid_temp_prefix e) n \<Longrightarrow> d = e"
  by (auto simp: prefix_def pid_temp_prefix_def dest: show_u64_append_inject)

lemma cleanup_match_unique: "cleanup_match d n \<Longrightarrow> cleanup_match e n \<Longrightarrow> d = e"
proof -
  have "\<not> (prefix (backup_prefix d) n \<and> prefix (temp_prefix e) n)"
    "\<not> (prefix (backup_prefix d) n \<and> prefix (pid_temp_prefix e) n)"
    "\<not> (prefix (temp_prefix d) n \<and> prefix (pid_temp_prefix e) n)" for d e
    by (auto simp: prefix_def backup_prefix_def temp_prefix_def pid_temp_prefix_def)
  then show "cleanup_match d n \<Longrightarrow> cleanup_match e n \<Longrightarrow> d = e"
    using temp_prefix_inject backup_prefix_inject pid_temp_prefix_inject
    unfolding cleanup_match_def by blast
qed

text \<open>The names of an epoch: its three stable files and what the directory scan removes.\<close>

definition epoch_name :: "u64 \<Rightarrow> string \<Rightarrow> bool" where
  "epoch_name e n \<longleftrightarrow> n = runtime_name e \<or> n = pid_name e \<or> n = socket_name e \<or> cleanup_match e n"

lemma cleanup_match_stable:
  "\<not> cleanup_match e (runtime_name d)" "\<not> cleanup_match e (pid_name d)" "\<not> cleanup_match e (socket_name d)"
proof -
  have n: "xs = ys" if "show_u64 d @ CHR ''.'' # xs = show_u64 e @ CHR ''.'' # ys" for xs ys
    using digits_append_inject [OF show_u64_digits show_u64_digits not_digit_dot not_digit_dot that] by simp
  show "\<not> cleanup_match e (runtime_name d)" "\<not> cleanup_match e (pid_name d)" "\<not> cleanup_match e (socket_name d)"
    by (auto simp: cleanup_match_def prefix_def runtime_name_def pid_name_def socket_name_def
        backup_prefix_def temp_prefix_def pid_temp_prefix_def dest!: n)
qed

lemma epoch_name_unique: "epoch_name d n \<Longrightarrow> epoch_name e n \<Longrightarrow> d = e"
  using cleanup_match_unique cleanup_match_stable
  unfolding epoch_name_def by (metis artifact_epoch_runtime artifact_epoch_pid artifact_epoch_socket option.inject)

end
