(* ===== verification/Store_Files.thy ===== *)
theory Store_Files
  imports Store_Facts
begin

text \<open>
  What the operations of the runtime directory do to its files. \<open>files_ok files ev\<close> says that the
  environment's file operations mean what they are documented to mean, where \<open>files w\<close> are the
  regular files of a world and their contents: reading and validating change nothing, a file is
  created only where there is none, writing and removing touch only their path, and moving and
  replacing are atomic. Every operation may fail at any point.
\<close>

section \<open>What the file operations promise\<close>

type_synonym files = "path \<Rightarrow> string option"

text \<open>The effect of an operation: its answer, the files before and the files after are in \<open>R\<close>.\<close>

definition effect :: "('w \<Rightarrow> files) \<Rightarrow> ('w \<Rightarrow> 'a \<times> 'w) \<Rightarrow> ('a \<Rightarrow> files \<Rightarrow> files \<Rightarrow> bool) \<Rightarrow> bool" where
  "effect files op R \<longleftrightarrow> (\<forall>w. R (fst (op w)) (files w) (files (snd (op w))))"

definition unchanged :: "'a \<Rightarrow> files \<Rightarrow> files \<Rightarrow> bool" where
  "unchanged a F F' \<longleftrightarrow> F' = F"

definition read_effect :: "path \<Rightarrow> string + string \<Rightarrow> files \<Rightarrow> files \<Rightarrow> bool" where
  "read_effect p r F F' \<longleftrightarrow> F' = F \<and> (\<forall>c. r = Inr c \<longrightarrow> F p = Some c)"

definition meta_effect :: "path \<Rightarrow> meta_answer \<Rightarrow> files \<Rightarrow> files \<Rightarrow> bool" where
  "meta_effect p r F F' \<longleftrightarrow> F' = F \<and> (\<forall>e. r = MetaNotFound e \<longrightarrow> F p = None)"

text \<open>A directory is listed completely.\<close>

definition list_effect :: "platform \<Rightarrow> path \<Rightarrow> dir_entries \<Rightarrow> files \<Rightarrow> files \<Rightarrow> bool" where
  "list_effect plat dir r F F' \<longleftrightarrow> F' = F \<and>
     (\<forall>es n. r = Inr es \<and> plain_name plat n \<and> F (path_join plat dir n) \<noteq> None \<longrightarrow> Inr (Some n) \<in> set es)"

definition absent_effect :: "path \<Rightarrow> 'e + unit \<Rightarrow> files \<Rightarrow> files \<Rightarrow> bool" where
  "absent_effect p r F F' \<longleftrightarrow> F' = F \<and> (r = Inr () \<longrightarrow> F p = None)"

definition open_effect :: "path \<Rightarrow> 'e + unit \<Rightarrow> files \<Rightarrow> files \<Rightarrow> bool" where
  "open_effect p r F F' \<longleftrightarrow>
     (case r of Inl _ \<Rightarrow> F' = F | Inr _ \<Rightarrow> F p = None \<and> F' = F(p \<mapsto> ''''))"

definition write_effect :: "path \<Rightarrow> string \<Rightarrow> 'e + unit \<Rightarrow> files \<Rightarrow> files \<Rightarrow> bool" where
  "write_effect p c r F F' \<longleftrightarrow>
     (case r of Inl _ \<Rightarrow> \<exists>v. F' = F(p := v) | Inr _ \<Rightarrow> F' = F(p \<mapsto> c))"

definition remove_effect :: "path \<Rightarrow> 'e + unit \<Rightarrow> files \<Rightarrow> files \<Rightarrow> bool" where
  "remove_effect p r F F' \<longleftrightarrow>
     (case r of Inl _ \<Rightarrow> F' = F \<or> F' = F(p := None) | Inr _ \<Rightarrow> F' = F(p := None))"

definition move_effect :: "path \<Rightarrow> path \<Rightarrow> 'e + unit \<Rightarrow> files \<Rightarrow> files \<Rightarrow> bool" where
  "move_effect a b r F F' \<longleftrightarrow>
     (case r of Inl _ \<Rightarrow> F' = F | Inr _ \<Rightarrow> F' = F(b := F a, a := None))"

lemmas effect_defs = unchanged_def read_effect_def meta_effect_def list_effect_def absent_effect_def open_effect_def write_effect_def
  remove_effect_def move_effect_def

definition files_ok :: "('w \<Rightarrow> files) \<Rightarrow> 'w env \<Rightarrow> bool" where
  "files_ok files ev \<longleftrightarrow>
     effect files (ev_events ev) unchanged \<and>
     (\<forall>p. effect files (ev_symlink_metadata ev p) (meta_effect p)) \<and>
     (\<forall>p. effect files (ev_validate_existing ev p) unchanged) \<and>
     (\<forall>p. effect files (ev_sync_dir ev p) unchanged) \<and>
     (\<forall>p. effect files (ev_read_dir ev p) (list_effect (ev_platform ev) p)) \<and>
     (\<forall>p. effect files (ev_set_permissions ev p) unchanged) \<and>
     (\<forall>p. effect files (ev_read ev p) (read_effect p)) \<and>
     (\<forall>p. effect files (ev_validate_absent ev p) (absent_effect p)) \<and>
     (\<forall>p. effect files (ev_open_new ev p) (open_effect p)) \<and>
     (\<forall>p c. effect files (ev_write_sync ev p c) (write_effect p c)) \<and>
     (\<forall>p. effect files (ev_remove_file ev p) (remove_effect p)) \<and>
     (\<forall>p. effect files (ev_remove_regular ev p) (remove_effect p)) \<and>
     (\<forall>a b. effect files (ev_move_new ev a b) (move_effect a b)) \<and>
     (\<forall>a b. effect files (ev_replace ev a b) (move_effect a b))"

section \<open>Effects on files\<close>

text \<open>The files of a state.\<close>

abbreviation files_of :: "('w \<Rightarrow> files) \<Rightarrow> 'w sys \<Rightarrow> files" where
  "files_of files s \<equiv> files (sy_world s)"

lemma foldl_deliver_temp [simp]: "sy_temp (foldl (deliver ev) s es) = sy_temp s"
  by (induction es arbitrary: s) simp_all

lemma wp_effect:
  assumes "files_ok files ev" and "effect files op R"
    and "\<And>a s'. R a (files_of files s) (files_of files s') \<Longrightarrow> sy_temp s' = sy_temp s \<Longrightarrow> Q a s'"
  shows "wp (ext ev op) Q s"
proof -
  have "files (snd (ev_events ev w)) = files w" for w
    using assms(1) by (simp add: files_ok_def effect_def unchanged_def)
  then show ?thesis
    using assms(2) by (auto simp: wp_ext interfere_eq effect_def intro!: assms(3))
qed

lemma files_laws:
  assumes "files_ok files ev"
  shows "effect files (ev_symlink_metadata ev p) (meta_effect p)" "effect files (ev_validate_existing ev p) unchanged"
    "effect files (ev_sync_dir ev p) unchanged" "effect files (ev_read_dir ev p) (list_effect (ev_platform ev) p)"
    "effect files (ev_set_permissions ev p) unchanged" "effect files (ev_read ev p) (read_effect p)"
    "effect files (ev_validate_absent ev p) (absent_effect p)"
    "effect files (ev_open_new ev p) (open_effect p)"
    "effect files (ev_write_sync ev p c) (write_effect p c)"
    "effect files (ev_remove_file ev p) (remove_effect p)"
    "effect files (ev_remove_regular ev p) (remove_effect p)"
    "effect files (ev_move_new ev p q) (move_effect p q)"
    "effect files (ev_replace ev p q) (move_effect p q)"
  using assms unfolding files_ok_def by simp_all

text \<open>One rule per file operation.\<close>

lemmas wp_files = files_laws [THEN wp_effect [rotated]]

lemmas io_simps = ext_io_def ext_fs_def ignore_def wp_simps

section \<open>The operations\<close>

definition temp_path :: "'w env \<Rightarrow> path \<Rightarrow> u64 \<Rightarrow> u64 \<Rightarrow> path" where
  "temp_path ev dir epoch counter = path_join (ev_platform ev) dir (temp_name ev epoch counter)"

lemma stage_files:
  assumes "files_ok files ev"
  shows "wp (stage ev dir epoch contents) (\<lambda>r s'.
      let t = temp_path ev dir epoch (sy_temp s) in sy_temp s' = sy_temp s + 1 \<and>
      (case r of Inl _ \<Rightarrow> \<forall>p. p \<noteq> t \<longrightarrow> files_of files s' p = files_of files s p
       | Inr p \<Rightarrow> p = t \<and> files_of files s t = None \<and> files_of files s' = (files_of files s)(t \<mapsto> contents))) s"
  unfolding stage_def Let_def temp_path_def
  by (auto simp: io_simps effect_defs intro!: wp_files [OF assms _ assms] split: sum.splits platform.splits)

lemma commit_new_files:
  assumes "files_ok files ev" and "staged \<noteq> runtime_path ev dir epoch"
  shows "wp (commit_new ev dir staged epoch) (\<lambda>r s'. sy_temp s' = sy_temp s \<and>
      (let t = runtime_path ev dir epoch; F = files_of files s; F' = files_of files s'; moved = F(t := F staged, staged := None)
       in case r of Inl _ \<Rightarrow> F' = F \<or> F' = F(staged := None) \<or> (F t = None \<and> F' = moved)
          | Inr p \<Rightarrow> p = t \<and> F t = None \<and> F' = moved)) s"
  unfolding commit_new_def Let_def validate_staged_def or_drop_def drop_staged_def
  using assms(2)
  by (auto simp: io_simps effect_defs intro!: wp_files [OF assms(1) _ assms(1)] split: sum.splits option.splits)

lemma commit_replace_files:
  assumes "files_ok files ev" and "staged \<noteq> runtime_path ev dir epoch"
  shows "wp (commit_replace ev dir staged epoch) (\<lambda>r s'. sy_temp s' = sy_temp s \<and>
      (let t = runtime_path ev dir epoch; F = files_of files s; F' = files_of files s'
       in case r of Inl _ \<Rightarrow> F' = F \<or> F' = F(staged := None)
          | Inr c \<Rightarrow> rco_path c = t \<and> F' = F(t := F staged, staged := None))) s"
  unfolding commit_replace_def Let_def validate_staged_def or_drop_def drop_staged_def
  using assms(2)
  by (auto simp: io_simps effect_defs installed_commit_def intro!: wp_files [OF assms(1) _ assms(1)]
      split: sum.splits option.splits)

text \<open>The names the store joins to its directory are relative.\<close>

lemma store_names_relative [simp]:
  "\<not> is_absolute (runtime_name e)" "\<not> is_absolute (pid_name e)" "\<not> is_absolute (socket_name e)"
  "\<not> is_absolute (temp_name ev e c)" "\<not> is_absolute (backup_prefix e @ s)"
  by (simp_all add: is_absolute_def runtime_name_def pid_name_def socket_name_def temp_name_def
      temp_prefix_def backup_prefix_def)

lemma temp_path_fresh [simp]:
  "temp_path ev dir e c \<noteq> runtime_path ev dir d" "temp_path ev dir e c \<noteq> backup_path ev dir d g"
proof -
  have "temp_name ev e c \<noteq> runtime_name d" "temp_name ev e c \<noteq> backup_prefix d @ s" for s
    by (simp_all add: temp_name_def temp_prefix_def runtime_name_def backup_prefix_def)
  then show "temp_path ev dir e c \<noteq> runtime_path ev dir d" "temp_path ev dir e c \<noteq> backup_path ev dir d g"
    by (simp_all add: temp_path_def runtime_path_def backup_path_def path_join_inject)
qed

lemmas temp_path_fresh_sym [simp] = temp_path_fresh [symmetric]

lemma backup_path_other [simp]: "backup_path ev dir e g \<noteq> runtime_path ev dir d"
proof -
  have "runtime_name d \<noteq> backup_prefix e @ show_u64 g"
    using cleanup_match_stable(1) [of e d] by (auto simp: cleanup_match_def)
  then show ?thesis by (simp add: backup_path_def runtime_path_def path_join_inject)
qed

lemma store_replace_files:
  assumes "files_ok files ev"
  shows "wp (store_replace ev dir epoch contents) (\<lambda>r s'.
      case r of
        Inl _ \<Rightarrow> \<forall>p. p \<noteq> temp_path ev dir epoch (sy_temp s) \<longrightarrow> files_of files s' p = files_of files s p
      | Inr c \<Rightarrow> rco_path c = runtime_path ev dir epoch \<and>
          files_of files s' = (files_of files s)(runtime_path ev dir epoch \<mapsto> contents)) s"
  unfolding store_replace_def wp_try_op
  by (intro wp_mono [OF stage_files [OF assms]])
    (auto simp: Let_def fun_upd_idem split: sum.splits intro!: wp_mono [OF commit_replace_files [OF assms]])

lemma store_backup_files:
  assumes "files_ok files ev"
  shows "wp (store_backup ev dir epoch generation) (\<lambda>r s'.
      case r of
        Inl _ \<Rightarrow> \<forall>p. p \<notin> {temp_path ev dir epoch (sy_temp s), backup_path ev dir epoch generation} \<longrightarrow>
          files_of files s' p = files_of files s p
      | Inr b \<Rightarrow> b = \<lparr>bk_path = backup_path ev dir epoch generation, bk_epoch = epoch\<rparr> \<and>
          files_of files s (bk_path b) = None \<and> files_of files s (runtime_path ev dir epoch) \<noteq> None \<and>
          files_of files s' = (files_of files s)(bk_path b := files_of files s (runtime_path ev dir epoch))) s"
  unfolding store_backup_def Let_def or_drop_def drop_staged_def
  by (auto simp: io_simps effect_defs Let_def fun_upd_idem intro!: wp_files [OF assms _ assms] wp_mono [OF stage_files [OF assms]]
      split: sum.splits)

lemma store_restore_files:
  assumes "files_ok files ev"
  shows "wp (store_restore ev dir b) (\<lambda>r s'.
      case r of
        Inl _ \<Rightarrow> \<forall>p. p \<noteq> temp_path ev dir (bk_epoch b) (sy_temp s) \<longrightarrow> files_of files s' p = files_of files s p
      | Inr _ \<Rightarrow> files_of files s (bk_path b) \<noteq> None \<and>
          files_of files s' = (files_of files s)(runtime_path ev dir (bk_epoch b) := files_of files s (bk_path b))) s"
  unfolding store_restore_def
  by (auto simp: io_simps effect_defs intro!: wp_files [OF assms _ assms]
      wp_mono [OF store_replace_files [OF assms]] split: sum.splits)

section \<open>Cleaning up\<close>

text \<open>The files of an epoch in the directory.\<close>

definition epoch_files :: "'w env \<Rightarrow> path \<Rightarrow> u64 \<Rightarrow> path set" where
  "epoch_files ev dir epoch = {path_join (ev_platform ev) dir n |n. epoch_name epoch n}"

lemma epoch_files_stable [simp]:
  "runtime_path ev dir e \<in> epoch_files ev dir e" "pid_path ev dir e \<in> epoch_files ev dir e"
  "socket_path ev dir e \<in> epoch_files ev dir e"
  by (auto simp: epoch_files_def runtime_path_def pid_path_def socket_path_def epoch_name_def)

lemma epoch_name_relative: "epoch_name e n \<Longrightarrow> \<not> is_absolute n"
  by (auto simp: epoch_name_def cleanup_match_def is_absolute_def prefix_def runtime_name_def pid_name_def
      socket_name_def backup_prefix_def temp_prefix_def pid_temp_prefix_def)

lemma epoch_files_disjoint: "p \<in> epoch_files ev dir d \<Longrightarrow> p \<in> epoch_files ev dir e \<Longrightarrow> d = e"
  by (auto simp: epoch_files_def path_join_inject epoch_name_relative dest: epoch_name_unique)

text \<open>Only files of \<open>E\<close> are removed, and nothing else happens.\<close>

definition shrunk :: "path set \<Rightarrow> files \<Rightarrow> files \<Rightarrow> bool" where
  "shrunk E F F' \<longleftrightarrow> (\<forall>p. p \<notin> E \<longrightarrow> F' p = F p) \<and> (\<forall>p. F p = None \<longrightarrow> F' p = None)"

lemma shrunk_refl [simp]: "shrunk E F F"
  by (simp add: shrunk_def)

lemma shrunk_trans: "shrunk E F F' \<Longrightarrow> shrunk E F' F'' \<Longrightarrow> shrunk E F F''"
  by (simp add: shrunk_def)

lemma shrunk_None: "shrunk E F F' \<Longrightarrow> F p = None \<Longrightarrow> F' p = None"
  by (simp add: shrunk_def)

lemma remove_shrinks: "remove_effect p r F F' \<Longrightarrow> p \<in> E \<Longrightarrow> shrunk E F F'"
  by (auto simp: remove_effect_def shrunk_def split: sum.splits)

lemma wp_remove_regular:
  assumes "files_ok files ev" and "p \<in> E"
    and "\<And>r s'. shrunk E (files_of files s) (files_of files s') \<Longrightarrow>
      (r = Inr () \<longrightarrow> files_of files s' p = None) \<Longrightarrow> Q r s'"
  shows "wp (ext_fs ev (ev_remove_regular ev p)) Q s"
  unfolding ext_fs_def using assms(2)
  by (auto simp: wp_simps remove_effect_def shrunk_def intro!: assms(3) wp_files [OF assms(1) _ assms(1)]
      split: sum.splits)

lemma wp_remove_socket:
  assumes "files_ok files ev" and "p \<in> E"
    and "\<And>r s'. shrunk E (files_of files s) (files_of files s') \<Longrightarrow>
      (r = Inr () \<longrightarrow> files_of files s' p = None) \<Longrightarrow> Q r s'"
  shows "wp (remove_socket_artifact ev p) Q s"
  unfolding remove_socket_artifact_def using assms(2)
  by (auto simp: io_simps effect_defs shrunk_def intro!: assms(3) wp_files [OF assms(1) _ assms(1)]
      split: sum.splits meta_answer.splits)

lemma cleanup_entries_files:
  assumes "files_ok files ev"
  shows "wp (cleanup_entries ev dir epoch es) (\<lambda>r s'.
      shrunk (epoch_files ev dir epoch) (files_of files s) (files_of files s') \<and>
      (r = Inr () \<longrightarrow> (\<forall>n. Inr (Some n) \<in> set es \<and> cleanup_match epoch n \<longrightarrow>
         files_of files s' (path_join (ev_platform ev) dir n) = None))) s"
proof (induction es arbitrary: s)
  case Nil
  show ?case by (simp add: wp_simps)
next
  case (Cons x es)
  consider (err) e where "x = Inl e" | (odd) "x = Inr None" | (name) n where "x = Inr (Some n)"
    by (metis sum.exhaust option.exhaust)
  then show ?case
  proof cases
    case name
    have E: "path_join (ev_platform ev) dir n \<in> epoch_files ev dir epoch" if "cleanup_match epoch n"
      using that by (auto simp: epoch_files_def epoch_name_def)
    show ?thesis
    proof (cases "cleanup_match epoch n")
      case True
      with name show ?thesis
        by (auto simp: wp_simps intro!: wp_remove_regular [OF assms E] wp_mono [OF Cons.IH]
            intro: shrunk_trans dest: shrunk_None split: sum.split)
    next
      case False
      with name show ?thesis by (auto intro!: wp_mono [OF Cons.IH])
    qed
  qed (use Cons.IH in \<open>auto simp: wp_simps elim!: wp_mono\<close>)
qed

lemma cleanup_scan_files:
  assumes "files_ok files ev"
  shows "wp (try_op (ext_io ev (ev_read_dir ev dir)) (\<lambda>es. try_op (cleanup_entries ev dir epoch es)
      (\<lambda>_. ext_io ev (ev_sync_dir ev dir)))) (\<lambda>r s'.
      shrunk (epoch_files ev dir epoch) (files_of files s) (files_of files s') \<and>
      (r = Inr () \<longrightarrow> (\<forall>n. cleanup_match epoch n \<and> plain_name (ev_platform ev) n \<longrightarrow>
         files_of files s' (path_join (ev_platform ev) dir n) = None))) s"
  unfolding wp_try_op ext_io_def wp_bind wp_ret
proof (rule wp_files(4) [OF assms _ assms])
  fix es s1
  assume listed: "list_effect (ev_platform ev) dir es (files_of files s) (files_of files s1)"
  have sync: "wp (ext ev (ev_sync_dir ev dir)) (\<lambda>r s'. files_of files s' = files_of files s2) s2" for s2
    by (rule wp_files(3) [OF assms _ assms]) (simp add: unchanged_def)
  note scan = cleanup_entries_files [OF assms, of dir epoch _ s1]
  show "case map_sum Io id es of
      Inl e \<Rightarrow> shrunk (epoch_files ev dir epoch) (files_of files s) (files_of files s1) \<and>
        (Inl e = Inr () \<longrightarrow> (\<forall>n. cleanup_match epoch n \<and> plain_name (ev_platform ev) n \<longrightarrow>
           files_of files s1 (path_join (ev_platform ev) dir n) = None))
    | Inr es \<Rightarrow> wp (cleanup_entries ev dir epoch es) (\<lambda>r s'. case r of
          Inl e \<Rightarrow> shrunk (epoch_files ev dir epoch) (files_of files s) (files_of files s') \<and>
            (Inl e = Inr () \<longrightarrow> (\<forall>n. cleanup_match epoch n \<and> plain_name (ev_platform ev) n \<longrightarrow>
               files_of files s' (path_join (ev_platform ev) dir n) = None))
        | Inr _ \<Rightarrow> wp (ext ev (ev_sync_dir ev dir)) (\<lambda>a s'.
            shrunk (epoch_files ev dir epoch) (files_of files s) (files_of files s') \<and>
            (map_sum Io id a = Inr () \<longrightarrow> (\<forall>n. cleanup_match epoch n \<and> plain_name (ev_platform ev) n \<longrightarrow>
               files_of files s' (path_join (ev_platform ev) dir n) = None))) s') s1"
  proof (cases es)
    case (Inl e)
    with listed show ?thesis by (simp add: list_effect_def)
  next
    case (Inr es)
    have "files_of files s1 (path_join (ev_platform ev) dir n) = None \<or> Inr (Some n) \<in> set es"
      if "plain_name (ev_platform ev) n" for n
      using listed that Inr by (auto simp: list_effect_def)
    moreover have "files_of files s1 = files_of files s" using listed by (simp add: list_effect_def)
    ultimately show ?thesis
      using Inr
      by (auto intro!: wp_mono [OF scan] wp_mono [OF sync] split: sum.split) (metis shrunk_None)
  qed
qed

text \<open>The operation removes only files of \<open>E\<close>, and when it succeeds those of \<open>K\<close> are gone.\<close>

definition removes ::
  "('w \<Rightarrow> files) \<Rightarrow> path set \<Rightarrow> path set \<Rightarrow> ('w sys, error + unit) state \<Rightarrow> bool" where
  "removes files E K m \<longleftrightarrow> (\<forall>s. wp m (\<lambda>r s'. shrunk E (files_of files s) (files_of files s') \<and>
     (r = Inr () \<longrightarrow> (\<forall>p \<in> K. files_of files s' p = None))) s)"

lemma removes_try:
  assumes "removes files E K m" and "removes files E L n"
  shows "removes files E (K \<union> L) (try_op m (\<lambda>_. n))"
  unfolding removes_def wp_try_op
proof (intro allI wp_mono [OF assms(1) [unfolded removes_def, rule_format]])
  fix s r s1
  assume 1: "shrunk E (files_of files s) (files_of files s1) \<and> (r = Inr () \<longrightarrow> (\<forall>p\<in>K. files_of files s1 p = None))"
  show "case r of Inl e \<Rightarrow> shrunk E (files_of files s) (files_of files s1) \<and>
      (Inl e = Inr () \<longrightarrow> (\<forall>p\<in>K \<union> L. files_of files s1 p = None))
    | Inr x \<Rightarrow> wp n (\<lambda>r s'. shrunk E (files_of files s) (files_of files s') \<and>
      (r = Inr () \<longrightarrow> (\<forall>p\<in>K \<union> L. files_of files s' p = None))) s1"
    using 1 by (auto simp: shrunk_None intro: shrunk_trans
        intro!: wp_mono [OF assms(2) [unfolded removes_def, rule_format]] split: sum.split)
qed

lemma removes_fewer: "removes files E K m \<Longrightarrow> L \<subseteq> K \<Longrightarrow> removes files E L m"
  unfolding removes_def by (intro allI, drule spec, erule wp_mono, auto)

lemma removes_regular: "files_ok files ev \<Longrightarrow> p \<in> E \<Longrightarrow> removes files E {p} (ext_fs ev (ev_remove_regular ev p))"
  by (auto simp: removes_def intro: wp_remove_regular)

lemma removes_socket: "files_ok files ev \<Longrightarrow> p \<in> E \<Longrightarrow> removes files E {p} (remove_socket_artifact ev p)"
  by (auto simp: removes_def intro: wp_remove_socket)

lemma cleanup_epoch_files:
  assumes "files_ok files ev"
  shows "removes files (epoch_files ev dir epoch)
     {path_join (ev_platform ev) dir n |n. epoch_name epoch n \<and> plain_name (ev_platform ev) n}
     (cleanup_epoch ev dir epoch)"
proof -
  let ?scanned = "{path_join (ev_platform ev) dir n |n. cleanup_match epoch n \<and> plain_name (ev_platform ev) n}"
  have "removes files (epoch_files ev dir epoch) ?scanned
      (try_op (ext_io ev (ev_read_dir ev dir)) (\<lambda>es. try_op (cleanup_entries ev dir epoch es)
      (\<lambda>_. ext_io ev (ev_sync_dir ev dir))))"
    by (auto simp: removes_def intro!: wp_mono [OF cleanup_scan_files [OF assms]])
  then have "removes files (epoch_files ev dir epoch)
      ({runtime_path ev dir epoch} \<union> ({pid_path ev dir epoch} \<union> ({socket_path ev dir epoch} \<union> ?scanned)))
      (cleanup_epoch ev dir epoch)"
    unfolding cleanup_epoch_def
    by (intro removes_try removes_regular removes_socket assms epoch_files_stable)
  then show ?thesis
    by (rule removes_fewer) (auto simp: epoch_name_def runtime_path_def pid_path_def socket_path_def)
qed

end
