(* ===== verification/Store_Safety.thy ===== *)
theory Store_Safety
  imports Store_Files Simulation
begin

text \<open>
  What the runtime directory guarantees, over any environment whose file operations keep their
  promises (\<open>files_ok\<close>), and a small file system in which the theorems are applied.
\<close>

section \<open>A file system\<close>

definition fs_files :: "sim \<Rightarrow> files" where
  "fs_files w = map_of (si_files w)"

definition fs_delete :: "path \<Rightarrow> sim \<Rightarrow> sim" where
  "fs_delete p w = w\<lparr>si_files := filter (\<lambda>(q, _). q \<noteq> p) (si_files w)\<rparr>"

definition fs_put :: "path \<Rightarrow> string \<Rightarrow> sim \<Rightarrow> sim" where
  "fs_put p c w = w\<lparr>si_files := (p, c) # si_files w\<rparr>"

definition fs_move :: "path \<Rightarrow> path \<Rightarrow> sim \<Rightarrow> (fs_error + unit) \<times> sim" where
  "fs_move a b w = (case fs_files w a of
     None \<Rightarrow> (Inl (UnsafePath a), w)
   | Some c \<Rightarrow> (Inr (), fs_delete a (fs_put b c w)))"

definition fs_list :: "path \<Rightarrow> sim \<Rightarrow> dir_entries" where
  "fs_list dir w = Inr (map (Inr \<circ> path_file_name Unix) (filter (\<lambda>p.
     case path_file_name Unix p of Some n \<Rightarrow> path_join Unix dir n = p | None \<Rightarrow> False)
     (map fst (si_files w))))"

definition fs_env :: "sim env" where
  "fs_env = sim_env\<lparr>
     ev_read := (\<lambda>p w. (case fs_files w p of None \<Rightarrow> Inl ''not found'' | Some c \<Rightarrow> Inr c, w)),
     ev_symlink_metadata := (\<lambda>p w. (case fs_files w p of None \<Rightarrow> MetaNotFound ''not found''
       | Some _ \<Rightarrow> MetaFailed ''io'', w)),
     ev_read_dir := (\<lambda>dir w. (fs_list dir w, w)),
     ev_open_new := (\<lambda>p w. case fs_files w p of None \<Rightarrow> (Inr (), fs_put p '''' w) | Some _ \<Rightarrow> (Inl ''exists'', w)),
     ev_write_sync := (\<lambda>p c w. (Inr (), fs_put p c w)),
     ev_remove_file := (\<lambda>p w. (Inr (), fs_delete p w)),
     ev_remove_regular := (\<lambda>p w. (Inr (), fs_delete p w)),
     ev_validate_absent := (\<lambda>p w. (if fs_files w p = None then Inr () else Inl (UnsafePath p), w)),
     ev_validate_existing := (\<lambda>p w. (if fs_files w p = None then Inl (UnsafePath p) else Inr (), w)),
     ev_move_new := fs_move, ev_replace := fs_move\<rparr>"

lemma fs_delete_files [simp]: "fs_files (fs_delete p w) = (fs_files w)(p := None)"
  by (auto simp: fs_files_def fs_delete_def map_of_other)

lemma fs_put_files [simp]: "fs_files (fs_put p c w) = (fs_files w)(p \<mapsto> c)"
  by (simp add: fs_files_def fs_put_def)

lemma fs_list_complete: "list_effect Unix dir (fs_list dir w) (fs_files w) (fs_files w)"
  unfolding list_effect_def fs_list_def fs_files_def
proof (intro conjI allI impI refl, elim conjE exE)
  fix es n
  assume es: "Inr (map (Inr \<circ> path_file_name Unix) (filter (\<lambda>p.
     case path_file_name Unix p of Some n \<Rightarrow> path_join Unix dir n = p | None \<Rightarrow> False)
     (map fst (si_files w)))) = (Inr es :: dir_entries)"
    and n: "plain_name Unix n" and f: "map_of (si_files w) (path_join Unix dir n) \<noteq> None"
  then have "path_join Unix dir n \<in> set (map fst (si_files w))" by (simp add: map_of_eq_None_iff)
  moreover have "path_file_name Unix (path_join Unix dir n) = Some n" using n by simp
  ultimately show "Inr (Some n) \<in> set es"
    using es by (force simp: image_iff split: option.splits)
qed

lemma fs_ok: "files_ok fs_files fs_env"
  unfolding files_ok_def fs_env_def effect_def
  using fs_list_complete
  by (auto simp: unchanged_def read_effect_def meta_effect_def absent_effect_def open_effect_def
      write_effect_def remove_effect_def move_effect_def fs_move_def split: option.splits)

section \<open>Names\<close>

text \<open>
  The epoch of an artifact is read back from every name the store gives it: the configuration,
  the pid file, the socket, every staged file and every backup. So a sweep of the directory finds
  every epoch that left something behind, and different epochs never share a file.
\<close>

theorem artifact_epoch_roundtrip:
  "artifact_epoch (runtime_name e) = Some e \<and> artifact_epoch (pid_name e) = Some e \<and>
   artifact_epoch (socket_name e) = Some e \<and> artifact_epoch (temp_name ev e c) = Some e \<and>
   artifact_epoch (backup_prefix e @ show_u64 g) = Some e"
  using runtime.number_name pid.number_name socket.number_name temp.number_name backup.number_name by simp

section \<open>Replacing a configuration\<close>

text \<open>
  C5. Replacing the configuration of an epoch is all or nothing: when the operation succeeds the
  file has exactly the new contents and nothing else changed; when it fails, at whatever step,
  every file but the temporary one, the configuration in particular, is as before.
\<close>

theorem store_replace_all_or_nothing:
  assumes "files_ok files ev" and "run_state (store_replace ev dir epoch contents) s = (r, s')"
  shows "case r of
      Inr c \<Rightarrow> rco_path c = runtime_path ev dir epoch \<and>
        files_of files s' = (files_of files s)(runtime_path ev dir epoch \<mapsto> contents)
    | Inl _ \<Rightarrow> files_of files s' (runtime_path ev dir epoch) = files_of files s (runtime_path ev dir epoch) \<and>
        (\<forall>p. p \<noteq> temp_path ev dir epoch (sy_temp s) \<longrightarrow> files_of files s' p = files_of files s p)"
  using wp_run [OF store_replace_files [OF assms(1)] assms(2)] by (auto split: sum.splits)

text \<open>
  C6. A backup restores: after a successful backup, a later restore of it, whatever was installed
  in between, gives the configuration its contents at the time of the backup and changes no other
  file.
\<close>

theorem store_backup_restore:
  assumes "files_ok files ev"
    and "run_state (store_backup ev dir epoch generation) s = (Inr b, s1)"
    and "files_of files s2 (bk_path b) = files_of files s1 (bk_path b)"
    and "run_state (store_restore ev dir b) s2 = (Inr c, s3)"
  shows "files_of files s3 (runtime_path ev dir epoch) = files_of files s (runtime_path ev dir epoch) \<and>
    files_of files s (runtime_path ev dir epoch) \<noteq> None \<and>
    (\<forall>p. p \<noteq> runtime_path ev dir epoch \<longrightarrow> files_of files s3 p = files_of files s2 p)"
  using wp_run [OF store_backup_files [OF assms(1)] assms(2)]
    wp_run [OF store_restore_files [OF assms(1)] assms(4)] assms(3) by auto


section \<open>The theorems at work\<close>

definition fs_start :: "sim sys" where
  "fs_start = sim_init\<lparr>sy_world := \<lparr>si_alive = [], si_record = [],
     si_files = [(''/r/config-1.yaml'', ''old''), (''/r/config-2.yaml'', ''other'')]\<rparr>\<rparr>"

lemma fs_fields [simp]:
  "ev_platform fs_env = Unix" "ev_process_id fs_env = ''7''" "ev_events fs_env = (\<lambda>w. ([], w))"
  "ev_sync_dir fs_env = (\<lambda>_ w. (Inr (), w))" "ev_set_permissions fs_env = (\<lambda>_ w. (Inr (), w))"
  by (simp_all add: fs_env_def)

lemma fs_ops [simp]:
  "ev_read fs_env p w = (case fs_files w p of None \<Rightarrow> Inl ''not found'' | Some c \<Rightarrow> Inr c, w)"
  "ev_symlink_metadata fs_env p w = (case fs_files w p of None \<Rightarrow> MetaNotFound ''not found''
     | Some _ \<Rightarrow> MetaFailed ''io'', w)"
  "ev_read_dir fs_env p w = (fs_list p w, w)"
  "ev_open_new fs_env p w = (case fs_files w p of None \<Rightarrow> (Inr (), fs_put p '''' w) | Some _ \<Rightarrow> (Inl ''exists'', w))"
  "ev_write_sync fs_env p c w = (Inr (), fs_put p c w)"
  "ev_remove_file fs_env p w = (Inr (), fs_delete p w)"
  "ev_remove_regular fs_env p w = (Inr (), fs_delete p w)"
  "ev_validate_absent fs_env p w = (if fs_files w p = None then Inr () else Inl (UnsafePath p), w)"
  "ev_validate_existing fs_env p w = (if fs_files w p = None then Inl (UnsafePath p) else Inr (), w)"
  "ev_move_new fs_env a b w = fs_move a b w" "ev_replace fs_env a b w = fs_move a b w"
  by (simp_all add: fs_env_def)

lemma fs_ext: "wp (ext fs_env op) Q s =
    Q (fst (op (sy_world s))) (s\<lparr>sy_world := snd (op (sy_world s))\<rparr>)"
  by (simp add: wp_ext interfere_eq)

lemma fs_paths:
  "runtime_path fs_env ''/r'' 1 = ''/r/config-1.yaml''"
  "backup_path fs_env ''/r'' 1 1 = ''/r/config-1.yaml.backup-1''"
  "path_join Unix ''/r'' (temp_name fs_env 1 0) = ''/r/.config-1.yaml.tmp-7-0''"
  "path_join Unix ''/r'' (temp_name fs_env 1 1) = ''/r/.config-1.yaml.tmp-7-1''"
  "path_join Unix ''/r'' (temp_name fs_env 1 2) = ''/r/.config-1.yaml.tmp-7-2''"
  unfolding runtime_path_def backup_path_def temp_name_def fs_fields by code_simp+

lemma fs_names:
  "path_parent Unix ''/r/.config-1.yaml.tmp-7-0'' = Some ''/r''" "path_parent Unix ''/r/.config-1.yaml.tmp-7-1'' = Some ''/r''"
  "path_parent Unix ''/r/.config-1.yaml.tmp-7-2'' = Some ''/r''"
  "path_file_name Unix ''/r/.config-1.yaml.tmp-7-2'' = Some ''.config-1.yaml.tmp-7-2''"
  "path_file_name Unix ''/r/.config-1.yaml.tmp-7-0'' = Some ''.config-1.yaml.tmp-7-0''"
  "path_file_name Unix ''/r/.config-1.yaml.tmp-7-1'' = Some ''.config-1.yaml.tmp-7-1''"
  "temp_prefix 1 = ''.config-1.yaml.tmp-''"
  by code_simp+

lemmas fs_run = fs_ext fs_paths fs_names ext_io_def ext_fs_def ignore_def wp_simps stage_def or_drop_def drop_staged_def
  store_replace_def commit_replace_def validate_staged_def installed_commit_def store_backup_def
  store_restore_def fs_move_def Let_def

lemma fs_given [simp]: "fs_files \<lparr>si_alive = a, si_record = r, si_files = fs\<rparr> = map_of fs"
  by (simp add: fs_files_def)

lemma fs_replaced: "wp (store_replace fs_env ''/r'' 1 ''new'') (\<lambda>r s'. \<not> isl r) fs_start"
  by (simp add: fs_run fs_start_def sim_init_def)

theorem store_replace_all_or_nothing_witness:
  "fs_files (sy_world (snd (run_state (store_replace fs_env ''/r'' 1 ''new'') fs_start))) =
     [''/r/config-1.yaml'' \<mapsto> ''new'', ''/r/config-2.yaml'' \<mapsto> ''other'']"
proof -
  obtain r s' where r: "run_state (store_replace fs_env ''/r'' 1 ''new'') fs_start = (r, s')" by fastforce
  moreover have "\<not> isl r" using fs_replaced r by (simp add: wp_def)
  ultimately show ?thesis
    using store_replace_all_or_nothing [OF fs_ok r]
    by (cases r) (auto simp: fs_paths fs_start_def)
qed

lemma fs_restored:
  "wp (store_backup fs_env ''/r'' 1 1) (\<lambda>r s1. \<not> isl r \<and>
     wp (store_replace fs_env ''/r'' 1 ''new'') (\<lambda>r' s2. wp (store_restore fs_env ''/r'' (projr r)) (\<lambda>r'' s3.
       \<not> isl r'' \<and> fs_files (sy_world s2) (bk_path (projr r)) = fs_files (sy_world s1) (bk_path (projr r))) s2) s1) fs_start"
  by (simp add: fs_run fs_start_def sim_init_def)

theorem store_backup_restore_witness:
  "\<exists>b c s1 s2 s3. run_state (store_backup fs_env ''/r'' 1 1) fs_start = (Inr b, s1) \<and>
     fs_files (sy_world s2) (bk_path b) = fs_files (sy_world s1) (bk_path b) \<and>
     run_state (store_restore fs_env ''/r'' b) s2 = (Inr c, s3) \<and>
     fs_files (sy_world s3) (runtime_path fs_env ''/r'' 1) = Some ''old''"
proof -
  obtain r s1 where 1: "run_state (store_backup fs_env ''/r'' 1 1) fs_start = (r, s1)" by fastforce
  obtain r' s2 where 2: "run_state (store_replace fs_env ''/r'' 1 ''new'') s1 = (r', s2)" by fastforce
  obtain r'' s3 where 3: "run_state (store_restore fs_env ''/r'' (projr r)) s2 = (r'', s3)" by fastforce
  from fs_restored 1 2 3 have k: "\<not> isl r" "\<not> isl r''"
    "fs_files (sy_world s2) (bk_path (projr r)) = fs_files (sy_world s1) (bk_path (projr r))"
    by (auto simp: wp_def)
  then obtain b c where b: "r = Inr b" "r'' = Inr c" by (cases r; cases r'') auto
  note store_backup_restore [OF fs_ok 1 [unfolded b] k(3) [unfolded b sum.sel] 3 [unfolded b sum.sel]]
  then show ?thesis using 1 3 k(3) b by (auto simp: fs_paths fs_start_def)
qed

lemma fs_cleaned: "wp (cleanup_epoch fs_env ''/r'' 1) (\<lambda>r s'. r = Inr ()) fs_start"
proof -
  have "pid_path fs_env ''/r'' 1 = ''/r/core-1.pid''" "socket_path fs_env ''/r'' 1 = ''/r/core-1.sock''"
    unfolding pid_path_def socket_path_def fs_fields by code_simp+
  moreover have "cleanup_entries fs_env ''/r'' 1 [Inr (Some ''config-2.yaml'')] = ret (Inr ())"
    by (simp add: cleanup_match_def temp_prefix_def backup_prefix_def pid_temp_prefix_def show_u64_def dec.simps
        digit_char_def)
  moreover have "path_file_name Unix ''/r/config-2.yaml'' = Some ''config-2.yaml''"
    "path_join Unix ''/r'' ''config-2.yaml'' = ''/r/config-2.yaml''" by code_simp+
  ultimately show ?thesis
    by (simp add: fs_run cleanup_epoch_def remove_socket_artifact_def fs_start_def sim_init_def fs_list_def fs_delete_def)
qed


end
