(* ===== verification/Log_Sink.thy ===== *)
theory Log_Sink
  imports Store_Facts
begin

text \<open>
  The archive of core logs (\<^verbatim>\<open>log_sink.rs\<close>): one writer task that receives the frames the manager
  broadcasts, writes them in batches as lines of JSON, rotates its file by size and prunes old
  files by count. The record \<open>sink_env\<close> holds what the task calls: the directory, the file it
  appends to (a handle is its path) and the JSON encoder. Log messages of the task itself are
  not modelled.

  The lemmas show that file names number the files, that pruning keeps the newest files and the
  active one, that the lines reach the files complete, once and in order, that a file overshoots
  its limit by less than one record while rotation works, and that a cancelled task ends after it
  has written everything that was waiting.
\<close>

section \<open>File names\<close>

definition FILE_PREFIX :: string where "FILE_PREFIX = ''core-''"

definition FILE_SUFFIX :: string where "FILE_SUFFIX = ''.jsonl''"

definition MAX_BATCH_RECORDS :: nat where "MAX_BATCH_RECORDS = 256"

definition file_name :: "u64 \<Rightarrow> string" where
  "file_name seq = FILE_PREFIX @ pad_left 6 (show_u64 seq) @ FILE_SUFFIX"

definition file_seq :: "string \<Rightarrow> u64 option" where
  "file_seq name =
     Option.bind (Option.bind (strip_prefix FILE_PREFIX name) (strip_suffix FILE_SUFFIX)) (\<lambda>digits.
       if digits \<noteq> [] \<and> list_all is_ascii_digit digits then parse_u64 digits else None)"

text \<open>The newest \<open>max_files\<close> survive; the others are returned, newest first.\<close>

definition prune_targets :: "u64 list \<Rightarrow> nat \<Rightarrow> u64 list" where
  "prune_targets seqs max_files = drop max_files (rev (sort seqs))"

section \<open>The environment and the writer\<close>

record 'w sink_env =
  sk_platform :: platform
  sk_read_dir :: "path \<Rightarrow> 'w \<Rightarrow> dir_entries \<times> 'w"
  sk_remove_file :: "path \<Rightarrow> 'w \<Rightarrow> (string + unit) \<times> 'w"
  sk_open_append :: "path \<Rightarrow> 'w \<Rightarrow> (string + unit) \<times> 'w"
  sk_write_all :: "path \<Rightarrow> string \<Rightarrow> 'w \<Rightarrow> (string + unit) \<times> 'w"
  sk_flush :: "path \<Rightarrow> 'w \<Rightarrow> (string + unit) \<times> 'w"
  sk_now_ms :: "'w \<Rightarrow> int"
  sk_log_json :: "log_frame \<Rightarrow> string + string"
  sk_gap_json :: "u64 \<Rightarrow> int \<Rightarrow> string + string"

record sink_options =
  so_max_bytes :: u64
  so_max_files :: nat

datatype entry = ELog log_frame | EGap u64

record writer =
  wr_dir :: path
  wr_options :: sink_options
  wr_file :: path
  wr_written :: u64
  wr_seq :: u64

text \<open>The state of the task: the outside world and the writer it owns.\<close>

record 'w sink =
  sk_world :: 'w
  sk_writer :: writer

definition sio :: "('w \<Rightarrow> 'a \<times> 'w) \<Rightarrow> ('w, 'a) state" where
  "sio op = State op"

text \<open>An operation on the world alone, run by the task.\<close>

definition on_world :: "('w, 'a) state \<Rightarrow> ('w sink, 'a) state" where
  "on_world m = State (\<lambda>s. case run_state m (sk_world s) of (a, w) \<Rightarrow> (a, s\<lparr>sk_world := w\<rparr>))"

fun entry_seqs :: "(string + string option) list \<Rightarrow> string + u64 list" where
  "entry_seqs [] = Inr []"
| "entry_seqs (Inl e # es) = Inl e"
| "entry_seqs (Inr None # es) = entry_seqs es"
| "entry_seqs (Inr (Some name) # es) =
     map_sum id (\<lambda>seqs. case file_seq name of Some seq \<Rightarrow> seq # seqs | None \<Rightarrow> seqs) (entry_seqs es)"

definition read_seqs :: "'w sink_env \<Rightarrow> path \<Rightarrow> ('w, string + u64 list) state" where
  "read_seqs ev dir = try_op (sio (sk_read_dir ev dir)) (\<lambda>entries. lift_result (entry_seqs entries))"

text \<open>The addition wraps, as it does in a release build.\<close>

definition next_seq :: "'w sink_env \<Rightarrow> path \<Rightarrow> ('w, error + u64) state" where
  "next_seq ev dir = do {
     seqs \<leftarrow> read_seqs ev dir;
     ret (map_sum Io (\<lambda>seqs. (if seqs = [] then 0 else Max (set seqs)) + 1) seqs)
   }"

fun remove_files :: "'w sink_env \<Rightarrow> path \<Rightarrow> u64 list \<Rightarrow> ('w, unit) state" where
  "remove_files ev dir [] = ret ()"
| "remove_files ev dir (seq # seqs) = do {
     _ \<leftarrow> sio (sk_remove_file ev (path_join (sk_platform ev) dir (file_name seq)));
     remove_files ev dir seqs
   }"

definition prune_dir :: "'w sink_env \<Rightarrow> path \<Rightarrow> nat \<Rightarrow> u64 option \<Rightarrow> ('w, unit) state" where
  "prune_dir ev dir keep protect = do {
     existing \<leftarrow> read_seqs ev dir;
     case existing of
       Inl _ \<Rightarrow> ret ()
     | Inr seqs \<Rightarrow> remove_files ev dir (filter (\<lambda>seq. Some seq \<noteq> protect) (prune_targets seqs keep))
   }"

definition create :: "'w sink_env \<Rightarrow> path \<Rightarrow> u64 \<Rightarrow> ('w, error + path) state" where
  "create ev dir seq = do {
     let p = path_join (sk_platform ev) dir (file_name seq);
     r \<leftarrow> sio (sk_open_append ev p);
     ret (map_sum Io (\<lambda>_. p) r)
   }"

definition writer_open :: "'w sink_env \<Rightarrow> path \<Rightarrow> sink_options \<Rightarrow> ('w, error + writer) state" where
  "writer_open ev dir options =
     try_op (next_seq ev dir) (\<lambda>seq. do {
       prune_dir ev dir (so_max_files options - 1) None;
       try_op (create ev dir seq) (\<lambda>file. ret (Inr
         \<lparr>wr_dir = dir, wr_options = options, wr_file = file, wr_written = 0, wr_seq = seq\<rparr>))
     })"

section \<open>Writing\<close>

text \<open>Appends the buffer to the active file; what cannot be written is dropped.\<close>

definition flush_pending :: "'w sink_env \<Rightarrow> string \<Rightarrow> ('w sink, unit) state" where
  "flush_pending ev buffer =
     (if buffer = [] then ret ()
      else do {
        file \<leftarrow> gets (wr_file \<circ> sk_writer);
        r \<leftarrow> on_world (sio (sk_write_all ev file buffer));
        case r of
          Inl _ \<Rightarrow> ret ()
        | Inr _ \<Rightarrow> do {
            _ \<leftarrow> on_world (sio (sk_flush ev file));
            modify (\<lambda>s. s\<lparr>sk_writer := (sk_writer s)\<lparr>wr_written :=
              wr_written (sk_writer s) + word_of_nat (length buffer)\<rparr>\<rparr>)
          }
      })"

definition rotate :: "'w sink_env \<Rightarrow> ('w sink, unit) state" where
  "rotate ev = do {
     w \<leftarrow> gets sk_writer;
     let seq = wr_seq w + 1;
     on_world (prune_dir ev (wr_dir w) (so_max_files (wr_options w) - 1) (Some (wr_seq w)));
     created \<leftarrow> on_world (create ev (wr_dir w) seq);
     case created of
       Inr file \<Rightarrow> do {
         modify (\<lambda>s. s\<lparr>sk_writer := (sk_writer s)\<lparr>wr_file := file, wr_seq := seq, wr_written := 0\<rparr>\<rparr>);
         on_world (prune_dir ev (wr_dir w) (so_max_files (wr_options w)) (Some seq))
       }
     | Inl _ \<Rightarrow> ret ()
   }"

definition to_json :: "'w sink_env \<Rightarrow> int \<Rightarrow> entry \<Rightarrow> string + string" where
  "to_json ev at e = (case e of ELog frame \<Rightarrow> sk_log_json ev frame | EGap dropped \<Rightarrow> sk_gap_json ev dropped at)"

text \<open>One turn of the loop over a batch; the buffer is passed on.\<close>

definition write_entry :: "'w sink_env \<Rightarrow> int \<Rightarrow> string \<Rightarrow> entry \<Rightarrow> ('w sink, string) state" where
  "write_entry ev at buffer e = do {
     w \<leftarrow> gets sk_writer;
     buffer \<leftarrow> (if so_max_bytes (wr_options w) \<le> wr_written w + word_of_nat (length buffer)
       then do { flush_pending ev buffer; rotate ev; ret [] } else ret buffer);
     ret (case to_json ev at e of Inl _ \<Rightarrow> buffer | Inr line \<Rightarrow> buffer @ line @ [NL])
   }"

fun write_entries :: "'w sink_env \<Rightarrow> int \<Rightarrow> string \<Rightarrow> entry list \<Rightarrow> ('w sink, string) state" where
  "write_entries ev at buffer [] = ret buffer"
| "write_entries ev at buffer (e # es) = do {
     buffer \<leftarrow> write_entry ev at buffer e;
     write_entries ev at buffer es
   }"

definition sink_write :: "'w sink_env \<Rightarrow> entry list \<Rightarrow> ('w sink, unit) state" where
  "sink_write ev batch =
     (if batch = [] then ret ()
      else do {
        at \<leftarrow> gets (\<lambda>s. sk_now_ms ev (sk_world s));
        buffer \<leftarrow> write_entries ev at [] batch;
        flush_pending ev buffer
      })"

section \<open>The task\<close>

text \<open>
  The receiving end of the broadcast: what is waiting for this subscriber (frames, and notices of
  frames it was too slow for), and whether every sender is gone.
\<close>

record chan =
  ch_queue :: "entry list"
  ch_closed :: bool

text \<open>Moves what is waiting into the batch, up to its limit; says whether the channel is closed.\<close>

fun drain :: "bool \<Rightarrow> entry list \<Rightarrow> entry list \<Rightarrow> bool \<times> entry list \<times> entry list" where
  "drain closed [] batch = (length batch < MAX_BATCH_RECORDS \<and> closed, [], batch)"
| "drain closed (e # queue) batch =
     (if length batch < MAX_BATCH_RECORDS then drain closed queue (batch @ [e])
      else (False, e # queue, batch))"

text \<open>Which branch of the \<^verbatim>\<open>select!\<close> a turn of the loop takes.\<close>

datatype turn = TurnCancelled | TurnReceived

text \<open>
  One turn: whether the task goes on, and what is left in the channel. Receiving from an empty
  open channel waits, so such a turn changes nothing.
\<close>

definition run_turn :: "'w sink_env \<Rightarrow> turn \<Rightarrow> chan \<Rightarrow> ('w sink, bool \<times> chan) state" where
  "run_turn ev t c =
     (case t of
        TurnCancelled \<Rightarrow>
          (case drain (ch_closed c) (ch_queue c) [] of
             (closed, queue, batch) \<Rightarrow> do {
               sink_write ev batch;
               ret (\<not> (closed \<or> length batch < MAX_BATCH_RECORDS), c\<lparr>ch_queue := queue\<rparr>)
             })
      | TurnReceived \<Rightarrow>
          (case ch_queue c of
             [] \<Rightarrow> if ch_closed c then do { sink_write ev []; ret (False, c) } else ret (True, c)
           | first # rest \<Rightarrow>
               (case drain (ch_closed c) rest [first] of
                  (closed, queue, batch) \<Rightarrow> do {
                    sink_write ev batch;
                    ret (\<not> closed, c\<lparr>ch_queue := queue\<rparr>)
                  })))"

text \<open>
  The task over a schedule: before each turn the frames that have arrived meanwhile join the
  queue, and the senders may be gone.
\<close>

fun run :: "'w sink_env \<Rightarrow> (entry list \<times> bool \<times> turn) list \<Rightarrow> chan \<Rightarrow> ('w sink, bool \<times> chan) state" where
  "run ev [] c = ret (True, c)"
| "run ev ((arrived, gone, t) # turns) c = do {
     r \<leftarrow> run_turn ev t \<lparr>ch_queue = ch_queue c @ (if ch_closed c then [] else arrived),
       ch_closed = (ch_closed c \<or> gone)\<rparr>;
     case r of (goes_on, c) \<Rightarrow> if goes_on then run ev turns c else ret (False, c)
   }"

section \<open>Names and pruning\<close>

lemma digits_value_zeros: "digits_value 0 (replicate n (CHR ''0'') @ ds) = digits_value 0 ds"
  by (induction n) (simp_all add: digit_value_def)

lemma pad_left_digits: "list_all is_ascii_digit (pad_left n (show_u64 s))"
  using show_u64_digits [of s] by (auto simp: pad_left_def list_all_iff is_ascii_digit_def [of "CHR ''0''"])

lemma pad_left_nonempty: "pad_left n (show_u64 s) \<noteq> []"
  by (simp add: pad_left_def show_u64_def)

lemma parse_u64_digits:
  assumes "list_all is_ascii_digit ds" "ds \<noteq> []" "digits_value 0 ds < 2 ^ 64"
  shows "parse_u64 ds = Some (word_of_nat (digits_value 0 ds))"
proof -
  have "hd ds \<noteq> CHR ''+''" using assms(1,2) not_digit_plus by (cases ds) auto
  with assms show ?thesis by (cases ds) (auto simp: parse_u64_def Let_def)
qed

lemma file_seq_name: "file_seq (file_name s) = Some s"
proof -
  have "digits_value 0 (pad_left 6 (show_u64 s)) = unat s"
    by (simp add: pad_left_def digits_value_zeros show_u64_def)
  then have "parse_u64 (pad_left 6 (show_u64 s)) = Some s"
    using parse_u64_digits [OF pad_left_digits [of 6 s] pad_left_nonempty] unat_bound [of s] by simp
  then show ?thesis
    by (simp add: file_seq_def file_name_def pad_left_digits pad_left_nonempty)
qed

interpretation archive: numbered_name file_name file_seq
  by unfold_locales (rule file_seq_name)

lemma prune_targets_mset: "mset (prune_targets seqs k) + mset (take k (rev (sort seqs))) = mset seqs"
  by (metis append_take_drop_id mset_append mset_rev mset_sort prune_targets_def add.commute)

lemma prune_targets_oldest:
  "a \<in> set (take k (rev (sort seqs))) \<Longrightarrow> b \<in> set (prune_targets seqs k) \<Longrightarrow> b \<le> a"
proof -
  have "sorted_wrt (\<ge>) (rev (sort seqs))" by (simp add: sorted_wrt_rev)
  then have "sorted_wrt (\<ge>) (take k (rev (sort seqs)) @ drop k (rev (sort seqs)))" by simp
  then show "a \<in> set (take k (rev (sort seqs))) \<Longrightarrow> b \<in> set (prune_targets seqs k) \<Longrightarrow> b \<le> a"
    unfolding sorted_wrt_append prune_targets_def by blast
qed

section \<open>What reaches the files\<close>

text \<open>
  \<open>tr w\<close> is the history of the bytes handed to the files: one entry per write. Only writing
  extends it.
\<close>

definition trace_ok :: "('w \<Rightarrow> (path \<times> string) list) \<Rightarrow> 'w sink_env \<Rightarrow> bool" where
  "trace_ok tr ev \<longleftrightarrow>
     (\<forall>p w. tr (snd (sk_read_dir ev p w)) = tr w) \<and> (\<forall>p w. tr (snd (sk_remove_file ev p w)) = tr w) \<and>
     (\<forall>p w. tr (snd (sk_open_append ev p w)) = tr w) \<and> (\<forall>p w. tr (snd (sk_flush ev p w)) = tr w) \<and>
     (\<forall>p c w. sk_write_all ev p c w = (Inr (), snd (sk_write_all ev p c w)) \<and>
        tr (snd (sk_write_all ev p c w)) = tr w @ [(p, c)])"

definition json_total :: "'w sink_env \<Rightarrow> bool" where
  "json_total ev \<longleftrightarrow> (\<forall>at e. \<not> isl (to_json ev at e))"

text \<open>A line that renders an entry.\<close>

definition renders :: "'w sink_env \<Rightarrow> string \<Rightarrow> entry \<Rightarrow> bool" where
  "renders ev l e \<longleftrightarrow> (\<exists>at json. to_json ev at e = Inr json \<and> l = json @ [NL])"

text \<open>
  The writes \<open>xs\<close> archive the entries \<open>es\<close>: one line per entry, in order, and every write consists
  of whole lines, so that no record is split between files.
\<close>

definition archived :: "'w sink_env \<Rightarrow> entry list \<Rightarrow> (path \<times> string) list \<Rightarrow> bool" where
  "archived ev es xs \<longleftrightarrow> (\<exists>parts. list_all2 (\<lambda>x part. snd x = concat part) xs parts \<and>
     list_all2 (renders ev) (concat parts) es)"

lemma archived_Nil [simp]: "archived ev [] []"
  by (auto simp: archived_def intro: exI [of _ "[]"])

lemma archived_append:
  assumes "archived ev es xs" "archived ev es' xs'"
  shows "archived ev (es @ es') (xs @ xs')"
proof -
  from assms obtain p p' where "list_all2 (\<lambda>x part. snd x = concat part) xs p" "list_all2 (renders ev) (concat p) es"
    "list_all2 (\<lambda>x part. snd x = concat part) xs' p'" "list_all2 (renders ev) (concat p') es'"
    by (auto simp: archived_def)
  then show ?thesis
    unfolding archived_def by (intro exI [of _ "p @ p'"]) (auto intro: list_all2_appendI)
qed

lemma archived_one: "list_all2 (renders ev) part es \<Longrightarrow> archived ev es [(p, concat part)]"
  by (auto simp: archived_def intro: exI [of _ "[part]"])

text \<open>The history of a state of the task.\<close>

abbreviation hist :: "('w \<Rightarrow> (path \<times> string) list) \<Rightarrow> 'w sink \<Rightarrow> (path \<times> string) list" where
  "hist tr s \<equiv> tr (sk_world s)"

lemma wp_on_world: "wp (on_world m) Q s = wp m (\<lambda>a w. Q a (s\<lparr>sk_world := w\<rparr>)) (sk_world s)"
  by (simp add: on_world_def wp_def split: prod.split)

lemma wp_sio: "wp (sio op) Q w = Q (fst (op w)) (snd (op w))"
  by (simp add: sio_def wp_def split: prod.split)

lemmas sink_simps = wp_on_world wp_sio wp_simps

lemma read_seqs_hist:
  assumes "trace_ok tr ev"
  shows "wp (read_seqs ev dir) (\<lambda>_ w'. tr w' = tr w) w"
  using assms by (auto simp: read_seqs_def sink_simps trace_ok_def split: sum.split)

lemma remove_files_hist:
  assumes "trace_ok tr ev"
  shows "wp (remove_files ev dir seqs) (\<lambda>_ w'. tr w' = tr w) w"
proof (induction seqs arbitrary: w)
  case (Cons seq seqs)
  show ?case
    using assms by (auto simp: sink_simps trace_ok_def intro!: wp_mono [OF Cons.IH])
qed (simp add: sink_simps)

lemma prune_dir_hist:
  assumes "trace_ok tr ev"
  shows "wp (prune_dir ev dir keep protect) (\<lambda>_ w'. tr w' = tr w) w"
  unfolding prune_dir_def
  by (auto simp: sink_simps split: sum.split intro!: wp_mono [OF read_seqs_hist [OF assms]]
      wp_mono [OF remove_files_hist [OF assms]])

lemma rotate_hist:
  assumes "trace_ok tr ev"
  shows "wp (rotate ev) (\<lambda>_ s'. hist tr s' = hist tr s) s"
  unfolding rotate_def create_def Let_def
  using assms by (auto simp: sink_simps trace_ok_def split: sum.split intro!: wp_mono [OF prune_dir_hist [OF assms]])

lemma flush_pending_hist:
  assumes "trace_ok tr ev"
  shows "wp (flush_pending ev buffer) (\<lambda>_ s'. hist tr s' = hist tr s @
      (if buffer = [] then [] else [(wr_file (sk_writer s), buffer)])) s"
  unfolding flush_pending_def
  using assms by (auto simp: sink_simps trace_ok_def split: sum.split)

text \<open>The buffer holds the lines of the entries taken so far that are not written yet.\<close>

lemma flush_pending_archives:
  assumes "trace_ok tr ev" "list_all2 (renders ev) part es" "buffer = concat part"
  shows "wp (flush_pending ev buffer) (\<lambda>_ s'. \<exists>xs. hist tr s' = hist tr s @ xs \<and> archived ev es xs) s"
proof -
  have "\<And>l e. renders ev l e \<Longrightarrow> l \<noteq> []" by (auto simp: renders_def)
  then have "buffer = [] \<longleftrightarrow> es = []" using assms(2,3) by (cases es; cases part) auto
  then show ?thesis
    using archived_one [OF assms(2)] assms(3)
    by (intro wp_mono [OF flush_pending_hist [OF assms(1)]]) auto
qed

lemma write_entry_archives:
  assumes "trace_ok tr ev" "json_total ev" "list_all2 (renders ev) part es"
  shows "wp (write_entry ev at (concat part) e) (\<lambda>buffer s'. \<exists>xs done part' es'.
      hist tr s' = hist tr s @ xs \<and> archived ev done xs \<and> list_all2 (renders ev) part' es' \<and>
      buffer = concat part' \<and> done @ es' = es @ [e]) s"
proof -
  obtain json where j: "to_json ev at e = Inr json" using assms(2) by (metis json_total_def isl_def sum.exhaust_sel)
  then have r: "renders ev (json @ [NL]) e" by (auto simp: renders_def)
  have keep: "\<exists>done. archived ev done [] \<and> (\<exists>part' es'. list_all2 (renders ev) part' es' \<and>
      concat part @ json @ [NL] = concat part' \<and> done @ es' = es @ [e])"
    using r assms(3)
    by (intro exI [of _ "[]"] exI [of _ "part @ [json @ [NL]]"] exI [of _ "es @ [e]"] conjI)
      (auto intro: list_all2_appendI)
  have new: "\<exists>done. archived ev done xs \<and> (\<exists>part' es'. list_all2 (renders ev) part' es' \<and>
      json @ [NL] = concat part' \<and> done @ es' = es @ [e])" if "archived ev es xs" for xs
    using that r by (intro exI [of _ es] exI [of _ "[json @ [NL]]"] exI [of _ "[e]"] conjI) auto
  show ?thesis
    unfolding write_entry_def
    by (auto simp: sink_simps j keep intro!: wp_mono [OF flush_pending_archives [OF assms(1,3) refl]]
        wp_mono [OF rotate_hist [OF assms(1)]] new)
qed

lemma write_entries_archives:
  assumes "trace_ok tr ev" "json_total ev" "list_all2 (renders ev) part es"
  shows "wp (write_entries ev at (concat part) batch) (\<lambda>buffer s'. \<exists>xs done part' es'.
      hist tr s' = hist tr s @ xs \<and> archived ev done xs \<and> list_all2 (renders ev) part' es' \<and>
      buffer = concat part' \<and> done @ es' = es @ batch) s"
  using assms(3)
proof (induction batch arbitrary: s part es)
  case Nil
  then show ?case by (auto simp: sink_simps intro: archived_Nil)
next
  case (Cons e batch)
  show ?case
    unfolding write_entries.simps wp_bind
  proof (rule wp_mono [OF write_entry_archives [OF assms(1,2) Cons.prems]], elim exE conjE)
    fix buffer s1 xs doneit part' es'
    assume 1: "hist tr s1 = hist tr s @ xs" "archived ev doneit xs" "list_all2 (renders ev) part' es'"
      "buffer = concat part'" "doneit @ es' = es @ [e]"
    show "wp (write_entries ev at buffer batch) (\<lambda>buffer s'. \<exists>xs done part' es'.
      hist tr s' = hist tr s @ xs \<and> archived ev done xs \<and> list_all2 (renders ev) part' es' \<and>
      buffer = concat part' \<and> done @ es' = es @ e # batch) s1"
      unfolding 1(4)
    proof (rule wp_mono [OF Cons.IH [OF 1(3)]], elim exE conjE)
      fix b s2 xs2 done2 part2 es2
      assume 2: "hist tr s2 = hist tr s1 @ xs2" "archived ev done2 xs2" "list_all2 (renders ev) part2 es2"
        "b = concat part2" "done2 @ es2 = es' @ batch"
      have "(doneit @ done2) @ es2 = es @ e # batch" using 1(5) 2(5) by simp
      with 1 2 show "\<exists>xs done part' es'. hist tr s2 = hist tr s @ xs \<and> archived ev done xs \<and>
          list_all2 (renders ev) part' es' \<and> b = concat part' \<and> done @ es' = es @ e # batch"
        by (intro exI [of _ "xs @ xs2"] exI [of _ "doneit @ done2"] exI [of _ part2] exI [of _ es2])
          (simp add: archived_append)
    qed
  qed
qed

lemma sink_write_archives:
  assumes "trace_ok tr ev" "json_total ev"
  shows "wp (sink_write ev batch) (\<lambda>_ s'. \<exists>xs. hist tr s' = hist tr s @ xs \<and> archived ev batch xs) s"
proof (cases "batch = []")
  case True
  then show ?thesis by (simp add: sink_write_def sink_simps)
next
  case False
  have "wp (write_entries ev at [] batch) (\<lambda>buffer s1. wp (flush_pending ev buffer)
      (\<lambda>_ s'. \<exists>xs. hist tr s' = hist tr s @ xs \<and> archived ev batch xs) s1) s" for at
  proof (rule wp_mono [OF write_entries_archives [OF assms, of "[]" "[]", simplified]], elim exE conjE)
    fix buffer s1 xs doneit part es
    assume 1: "hist tr s1 = hist tr s @ xs" "archived ev doneit xs" "list_all2 (renders ev) part es"
      "buffer = concat part" "doneit @ es = batch"
    show "wp (flush_pending ev buffer) (\<lambda>_ s'. \<exists>xs. hist tr s' = hist tr s @ xs \<and> archived ev batch xs) s1"
      using 1(1,2,5) archived_append
      by (intro wp_mono [OF flush_pending_archives [OF assms(1) 1(3,4)]]) fastforce
  qed
  then show ?thesis using False by (simp add: sink_write_def sink_simps)
qed

section \<open>The task archives what it receives\<close>

lemma drain_result:
  assumes "drain closed queue batch = (closed', queue', batch')"
  shows "batch' @ queue' = batch @ queue" "closed' \<Longrightarrow> queue' = []" "length batch' < MAX_BATCH_RECORDS \<Longrightarrow> queue' = []"
    "length batch \<le> MAX_BATCH_RECORDS \<Longrightarrow> length batch' = min MAX_BATCH_RECORDS (length batch + length queue)"
  using assms by (induction closed queue batch rule: drain.induct) (auto split: if_splits)

text \<open>One turn writes a prefix of what is waiting; it ends the task only when nothing is left.\<close>

lemma run_turn_archives:
  assumes "trace_ok tr ev" "json_total ev"
  shows "wp (run_turn ev t c) (\<lambda>r s'. \<exists>xs es. hist tr s' = hist tr s @ xs \<and> archived ev es xs \<and>
      es @ ch_queue (snd r) = ch_queue c \<and> ch_closed (snd r) = ch_closed c \<and>
      (\<not> fst r \<longrightarrow> ch_queue (snd r) = [])) s"
proof -
  have wr: "wp (sink_write ev batch) (\<lambda>_ s'. \<exists>xs es. hist tr s' = hist tr s @ xs \<and> archived ev es xs \<and>
      es @ queue = batch @ queue) s" for batch queue
    by (rule wp_mono [OF sink_write_archives [OF assms]]) blast
  show ?thesis
  proof (cases t)
    case TurnCancelled
    obtain cl q b where d: "drain (ch_closed c) (ch_queue c) [] = (cl, q, b)" by (metis prod_cases3)
    show ?thesis
      unfolding run_turn_def TurnCancelled turn.case d prod.case wp_bind wp_ret
      using drain_result [OF d] by (intro wp_mono [OF wr [where queue = q]]) auto
  next
    case TurnReceived
    show ?thesis
    proof (cases "ch_queue c")
      case Nil
      then show ?thesis using archived_Nil by (auto simp: run_turn_def TurnReceived sink_write_def wp_simps)
    next
      case (Cons first rest)
      obtain cl q b where d: "drain (ch_closed c) rest [first] = (cl, q, b)" by (metis prod_cases3)
      show ?thesis
        unfolding run_turn_def TurnReceived turn.case Cons list.case d prod.case wp_bind wp_ret
        using drain_result [OF d] by (intro wp_mono [OF wr [where queue = q]]) auto
    qed
  qed
qed

text \<open>What arrives over a schedule; a closed channel receives nothing more.\<close>

fun arriving :: "bool \<Rightarrow> (entry list \<times> bool \<times> turn) list \<Rightarrow> entry list" where
  "arriving closed [] = []"
| "arriving closed ((arrived, gone, t) # turns) =
     (if closed then [] else arrived @ arriving gone turns)"

lemma arriving_closed [simp]: "arriving True turns = []"
  by (cases turns) auto

lemma run_archives:
  assumes "trace_ok tr ev" "json_total ev"
  shows "wp (run ev turns c) (\<lambda>r s'. \<exists>xs es. hist tr s' = hist tr s @ xs \<and> archived ev es xs \<and>
      prefix (es @ ch_queue (snd r)) (ch_queue c @ arriving (ch_closed c) turns) \<and>
      (\<not> fst r \<longrightarrow> ch_queue (snd r) = []) \<and>
      (fst r \<longrightarrow> es @ ch_queue (snd r) = ch_queue c @ arriving (ch_closed c) turns)) s"
proof (induction turns arbitrary: c s)
  case Nil
  show ?case using archived_Nil by (auto simp: wp_simps)
next
  case (Cons x turns)
  obtain arrived gone t where x: "x = (arrived, gone, t)" by (metis prod_cases3)
  define c1 where "c1 = \<lparr>ch_queue = ch_queue c @ (if ch_closed c then [] else arrived), ch_closed = (ch_closed c \<or> gone)\<rparr>"
  have arr: "ch_queue c1 @ arriving (ch_closed c1) turns = ch_queue c @ arriving (ch_closed c) (x # turns)"
    by (auto simp: c1_def x)
  show ?case
    unfolding x run.simps wp_bind c1_def [symmetric]
  proof (rule wp_mono [OF run_turn_archives [OF assms]], elim exE conjE)
    fix r :: "bool \<times> chan" and s1 xs es
    assume 1: "hist tr s1 = hist tr s @ xs" "archived ev es xs" "es @ ch_queue (snd r) = ch_queue c1"
      "ch_closed (snd r) = ch_closed c1" "\<not> fst r \<longrightarrow> ch_queue (snd r) = []"
    let ?Q = "\<lambda>r s'. \<exists>xs es. hist tr s' = hist tr s @ xs \<and> archived ev es xs \<and>
      prefix (es @ ch_queue (snd r)) (ch_queue c @ arriving (ch_closed c) (x # turns)) \<and>
      (\<not> fst r \<longrightarrow> ch_queue (snd r) = []) \<and>
      (fst r \<longrightarrow> es @ ch_queue (snd r) = ch_queue c @ arriving (ch_closed c) (x # turns))"
    obtain goes c2 where r: "r = (goes, c2)" by fastforce
    have "wp (if goes then run ev turns c2 else ret (False, c2)) ?Q s1"
    proof (cases goes)
      case True
      have step: "?Q r' s'" if "hist tr s' = hist tr s1 @ ys \<and> archived ev fs ys \<and>
          prefix (fs @ ch_queue (snd r')) (ch_queue c2 @ arriving (ch_closed c2) turns) \<and>
          (\<not> fst r' \<longrightarrow> ch_queue (snd r') = []) \<and>
          (fst r' \<longrightarrow> fs @ ch_queue (snd r') = ch_queue c2 @ arriving (ch_closed c2) turns)" for r' s' ys fs
        using 1 that r arr [symmetric]
        by (intro exI [of _ "xs @ ys"] exI [of _ "es @ fs"])
          (auto simp: archived_append simp flip: 1(3))
      show ?thesis
        unfolding if_P [OF True] by (rule wp_mono [OF Cons.IH], elim exE, rule step)
    next
      case False
      have "prefix (es @ ch_queue c2) (ch_queue c @ arriving (ch_closed c) (x # turns))"
        using 1(3) r arr [symmetric] by simp
      with False 1 r have "?Q (False, c2) s1" by (intro exI [of _ xs] exI [of _ es]) simp
      with False show ?thesis by (simp only: if_False wp_ret)
    qed
    then show "wp (case r of (goes_on, c) \<Rightarrow> if goes_on then run ev turns c else ret (False, c))
        (\<lambda>r s'. \<exists>xs es. hist tr s' = hist tr s @ xs \<and> archived ev es xs \<and>
      prefix (es @ ch_queue (snd r)) (ch_queue c @ arriving (ch_closed c) ((arrived, gone, t) # turns)) \<and>
      (\<not> fst r \<longrightarrow> ch_queue (snd r) = []) \<and>
      (fst r \<longrightarrow> es @ ch_queue (snd r) = ch_queue c @ arriving (ch_closed c) ((arrived, gone, t) # turns))) s1"
      unfolding r prod.case x .
  qed
qed

section \<open>The task ends when it is cancelled\<close>

lemma run_turn_cancelled:
  "wp (run_turn ev TurnCancelled c) (\<lambda>r s'.
     (length (ch_queue c) < MAX_BATCH_RECORDS \<longrightarrow> \<not> fst r) \<and>
     length (ch_queue (snd r)) = length (ch_queue c) - MAX_BATCH_RECORDS) s"
proof -
  obtain cl q b where d: "drain (ch_closed c) (ch_queue c) [] = (cl, q, b)" by (metis prod_cases3)
  note r = drain_result [OF d]
  have "length b + length q = length (ch_queue c)" using r(1) by (metis append_Nil length_append)
  moreover have "length b = min MAX_BATCH_RECORDS (length (ch_queue c))" using r(4) by simp
  ultimately show ?thesis
    by (auto simp: run_turn_def d wp_simps wp_def [of "sink_write ev b"] split: prod.split)
qed

lemma run_cancelled_ends:
  assumes "length (ch_queue c) < n * MAX_BATCH_RECORDS"
  shows "wp (run ev (replicate n ([], False, TurnCancelled)) c) (\<lambda>r s'. \<not> fst r) s"
  using assms
proof (induction n arbitrary: c s)
  case (Suc n)
  have "\<lparr>ch_queue = ch_queue c, ch_closed = ch_closed c\<rparr> = c" by simp
  with Suc show ?case
    by (auto simp: wp_simps intro!: wp_mono [OF run_turn_cancelled] Suc.IH)
qed simp

section \<open>The size of the active file\<close>

text \<open>Room for one record after the limit; the counter does not wrap.\<close>

definition size_ok :: "nat \<Rightarrow> writer \<Rightarrow> nat \<Rightarrow> bool" where
  "size_ok r w pending \<longleftrightarrow> 0 < unat (so_max_bytes (wr_options w)) \<and>
     unat (so_max_bytes (wr_options w)) + r < 2 ^ 64 \<and>
     unat (wr_written w) + pending < unat (so_max_bytes (wr_options w)) + r"

lemma unat_add_length:
  "unat (w :: u64) + n < 2 ^ 64 \<Longrightarrow> unat (w + word_of_nat n) = unat w + n"
  by (simp add: unat_word_ariths unat_of_nat)

lemma flush_pending_size:
  assumes "size_ok r (sk_writer s) (length buffer)"
  shows "wp (flush_pending ev buffer) (\<lambda>_ s'. size_ok r (sk_writer s') 0 \<and>
      wr_options (sk_writer s') = wr_options (sk_writer s)) s"
  using assms unat_add_length [of "wr_written (sk_writer s)" "length buffer"]
  by (auto simp: flush_pending_def sink_simps size_ok_def split: sum.split)

lemma rotate_size:
  assumes "\<And>p w. fst (sk_open_append ev p w) = Inr ()" "size_ok r (sk_writer s) 0" "0 < r"
  shows "wp (rotate ev) (\<lambda>_ s'. size_ok r (sk_writer s') 0 \<and> wr_written (sk_writer s') = 0 \<and>
      wr_options (sk_writer s') = wr_options (sk_writer s)) s"
proof -
  have any: "wp m (\<lambda>_ w'. True) w" for m :: "('a, unit) state" and w by (simp add: wp_def split: prod.split)
  have world: "wp (on_world m) (\<lambda>_ s'. sk_writer s' = sk_writer s) s" for m :: "('a, unit) state" and s
    by (simp add: wp_on_world any)
  show ?thesis
    using assms(1) assms(2,3) unfolding rotate_def create_def Let_def
    by (auto simp: wp_simps wp_on_world [of "do { r \<leftarrow> sio _; ret (map_sum Io _ r) }"] wp_sio size_ok_def
        split: sum.split intro!: wp_mono [OF world])
qed

lemma write_entries_size:
  assumes "\<And>p w. fst (sk_open_append ev p w) = Inr ()" "0 < r"
    and "\<And>e json. e \<in> set batch \<Longrightarrow> to_json ev at e = Inr json \<Longrightarrow> length json < r"
    and "size_ok r (sk_writer s) (length buffer)"
  shows "wp (write_entries ev at buffer batch) (\<lambda>buffer' s'. size_ok r (sk_writer s') (length buffer')) s"
  using assms(3,4)
proof (induction batch arbitrary: s buffer)
  case Nil
  then show ?case by (simp add: wp_simps)
next
  case (Cons e batch)
  have "wp (write_entry ev at buffer e) (\<lambda>buffer' s'. size_ok r (sk_writer s') (length buffer')) s"
  proof (cases "so_max_bytes (wr_options (sk_writer s)) \<le> wr_written (sk_writer s) + word_of_nat (length buffer)")
    case True
    have "size_ok r w (length (case to_json ev at e of Inl _ \<Rightarrow> [] | Inr json \<Rightarrow> json @ [NL]))"
      if "size_ok r w 0" "wr_written w = 0" for w
      using that Cons.prems(1) [of e] by (auto simp: size_ok_def split: sum.split)
    with True show ?thesis
      by (auto simp: write_entry_def wp_simps cong: sum.case_cong
          intro!: wp_mono [OF flush_pending_size [OF Cons.prems(2)]] wp_mono [OF rotate_size [OF assms(1) _ assms(2)]]
          split: sum.split)
  next
    case False
    have "unat (wr_written (sk_writer s)) + length buffer < unat (so_max_bytes (wr_options (sk_writer s)))"
      using False Cons.prems(2) unat_add_length [of "wr_written (sk_writer s)" "length buffer"]
      by (auto simp: size_ok_def word_le_nat_alt not_le)
    then have "size_ok r (sk_writer s) (length (case to_json ev at e of Inl _ \<Rightarrow> buffer | Inr json \<Rightarrow> buffer @ json @ [NL]))"
      using Cons.prems(2) Cons.prems(1) [of e] by (auto simp: size_ok_def split: sum.split)
    with False show ?thesis by (simp add: write_entry_def wp_simps)
  qed
  then have "wp (write_entry ev at buffer e) (\<lambda>buffer'. wp (write_entries ev at buffer' batch)
      (\<lambda>buffer' s'. size_ok r (sk_writer s') (length buffer'))) s"
    by (rule wp_mono) (use Cons.IH Cons.prems(1) in auto)
  then show ?case by (simp add: wp_simps)
qed

section \<open>Properties\<close>




section \<open>The theorems at work\<close>

text \<open>A disk that remembers what was written.\<close>

definition demo_sink :: "(path \<times> string) list sink_env" where
  "demo_sink = \<lparr>sk_platform = Unix, sk_read_dir = (\<lambda>_ w. (Inr [], w)), sk_remove_file = (\<lambda>_ w. (Inr (), w)),
     sk_open_append = (\<lambda>_ w. (Inr (), w)), sk_write_all = (\<lambda>p c w. (Inr (), w @ [(p, c)])),
     sk_flush = (\<lambda>_ w. (Inr (), w)), sk_now_ms = (\<lambda>_. 0), sk_log_json = (\<lambda>_. Inr ''{}''),
     sk_gap_json = (\<lambda>_ _. Inr ''{gap}'')\<rparr>"

definition demo_writer :: "(path \<times> string) list sink" where
  "demo_writer = \<lparr>sk_world = [], sk_writer = \<lparr>wr_dir = ''/l'', wr_options = \<lparr>so_max_bytes = 8, so_max_files = 2\<rparr>,
     wr_file = ''/l/core-000001.jsonl'', wr_written = 0, wr_seq = 1\<rparr>\<rparr>"

definition demo_chan :: chan where
  "demo_chan = \<lparr>ch_queue = [EGap 1, EGap 2], ch_closed = False\<rparr>"

lemma demo_ok: "trace_ok id demo_sink" "json_total demo_sink"
  by (auto simp: trace_ok_def json_total_def demo_sink_def to_json_def split: entry.split)

lemma demo_ends: "wp (run demo_sink [([EGap 3], False, TurnCancelled)] demo_chan) (\<lambda>r s'. \<not> fst r) demo_writer"
  unfolding run.simps wp_bind
  by (intro wp_mono [OF run_turn_cancelled]) (auto simp: demo_chan_def wp_simps MAX_BATCH_RECORDS_def)




end
