(* ===== verification/Clash_Api.thy ===== *)
theory Clash_Api
  imports Core_State
begin

text \<open>
  The client of the core's controller (\<^verbatim>\<open>crates/clash-api\<close>: \<^verbatim>\<open>client.rs\<close>, \<^verbatim>\<open>retry.rs\<close>, \<^verbatim>\<open>error.rs\<close>) up
  to the HTTP library: building a client, addressing an endpoint, executing a request under a retry
  policy and bounding the body of an error, and the default readiness probe on top of it
  (\<^verbatim>\<open>health/probe.rs\<close>). A request, a delay and the back-off sequence are parameters.
\<close>

section \<open>Errors\<close>

definition MAX_ERROR_BODY_LENGTH :: nat where "MAX_ERROR_BODY_LENGTH = 16 * 1024"

record error_body =
  eb_message :: "string option"
  eb_text :: string

text \<open>An error of the HTTP library: what its predicates answer, and its text.\<close>

record reqwest_error =
  rq_connect :: bool
  rq_timeout :: bool
  rq_request :: bool
  rq_text :: string

datatype websocket_error =
    WsReqwest reqwest_error
  | WsUnexpectedStatusCode nat
  | WsOtherError string

text \<open>
  The errors of building a client and addressing an endpoint are kept as their texts, like in the
  manager; the errors of a request as their constructors.
\<close>

datatype api_error =
    ApiSetup error
  | AbsoluteEndpoint string
  | InvalidEndpoint string string
  | CannotAppendPathSegment string
  | InvalidArgument string string
  | UnsupportedTransport string string
  | InvalidSecret string
  | BuildClient string
  | Request string reqwest_error
  | HttpStatus string nat "error_body option"
  | Decode string string
  | StreamError string string
  | WebSocket string websocket_error

fun api_status :: "api_error \<Rightarrow> nat option" where
  "api_status (HttpStatus _ status _) = Some status"
| "api_status _ = None"

fun api_error_body :: "api_error \<Rightarrow> error_body option" where
  "api_error_body (HttpStatus _ _ body) = body"
| "api_error_body _ = None"

text \<open>\<open>parse\<close> reads the message of Mihomo's error schema, \<open>lossy\<close> is the lossy UTF-8 decoding.\<close>

definition error_body_from_bytes :: "(string \<Rightarrow> string option) \<Rightarrow> (string \<Rightarrow> string) \<Rightarrow> string \<Rightarrow> error_body" where
  "error_body_from_bytes parse lossy bytes =
     (let bytes = take (min (length bytes) MAX_ERROR_BODY_LENGTH) bytes
      in \<lparr>eb_message = parse bytes, eb_text = lossy bytes\<rparr>)"

section \<open>Retry policies\<close>

record request_metadata =
  rm_operation :: string
  rm_method :: string
  rm_retry_safe :: bool

record retry_policy =
  rp_delays :: "request_metadata \<Rightarrow> duration list"
  rp_is_retryable :: "request_metadata \<Rightarrow> api_error \<Rightarrow> bool"

definition no_retry :: retry_policy where
  "no_retry = \<lparr>rp_delays = (\<lambda>_. []), rp_is_retryable = (\<lambda>_ _. False)\<rparr>"

definition transient_status :: "nat \<Rightarrow> bool" where
  "transient_status status \<longleftrightarrow> status \<in> {502, 503, 504}"

definition transient_transport :: "reqwest_error \<Rightarrow> bool" where
  "transient_transport e \<longleftrightarrow> rq_connect e \<or> rq_timeout e \<or> rq_request e"

fun is_transient :: "api_error \<Rightarrow> bool" where
  "is_transient (Request _ source) = transient_transport source"
| "is_transient (HttpStatus _ status _) = transient_status status"
| "is_transient (WebSocket _ (WsReqwest source)) = transient_transport source"
| "is_transient (WebSocket _ (WsUnexpectedStatusCode status)) = transient_status status"
| "is_transient _ = False"

record exponential_retry =
  er_max_retries :: nat
  er_min_delay :: duration
  er_max_delay :: duration
  er_jitter :: bool

definition conservative :: exponential_retry where
  "conservative =
     \<lparr>er_max_retries = 3, er_min_delay = from_millis 100, er_max_delay = from_secs 2, er_jitter = True\<rparr>"

definition exponential_new :: "nat \<Rightarrow> duration \<Rightarrow> duration \<Rightarrow> exponential_retry" where
  "exponential_new max_retries min_delay max_delay =
     \<lparr>er_max_retries = max_retries, er_min_delay = min_delay, er_max_delay = max_delay, er_jitter = False\<rparr>"

definition with_jitter :: "exponential_retry \<Rightarrow> bool \<Rightarrow> exponential_retry" where
  "with_jitter r jitter = r\<lparr>er_jitter := jitter\<rparr>"

text \<open>\<open>backoff\<close> is the sequence of the back-off library for these settings.\<close>

definition exponential_policy ::
  "(duration \<Rightarrow> duration \<Rightarrow> nat \<Rightarrow> bool \<Rightarrow> duration list) \<Rightarrow> exponential_retry \<Rightarrow> retry_policy" where
  "exponential_policy backoff r =
     \<lparr>rp_delays = (\<lambda>_. backoff (er_min_delay r) (er_max_delay r) (er_max_retries r) (er_jitter r)),
      rp_is_retryable = (\<lambda>request e. rm_retry_safe request \<and> is_transient e)\<rparr>"

section \<open>The client\<close>

record client_builder =
  cb_host :: host
  cb_secret :: "string option"
  cb_retry_policy :: retry_policy

record api_client =
  cl_host :: host
  cl_base_url :: url
  cl_authorization :: "string option"
  cl_retry_policy :: retry_policy

text \<open>
  What a client uses of the libraries: parsing and joining of URLs, adding path segments, the header
  encoding (\<open>None\<close> when the value cannot be represented), and building the transport.
\<close>

record http_env =
  he_platform :: platform
  he_os :: string
  he_local_url :: url
  he_url_parses :: "string \<Rightarrow> bool"
  he_join :: "url \<Rightarrow> string \<Rightarrow> string + url"
  he_push_segments :: "url \<Rightarrow> string list \<Rightarrow> url option"
  he_header :: "string \<Rightarrow> string + string"
  he_build :: "host \<Rightarrow> string + unit"

definition builder_new :: "host \<Rightarrow> client_builder" where
  "builder_new host = \<lparr>cb_host = host, cb_secret = None, cb_retry_policy = no_retry\<rparr>"

definition builder_secret :: "string \<Rightarrow> client_builder \<Rightarrow> client_builder" where
  "builder_secret secret b = b\<lparr>cb_secret := Some secret\<rparr>"

definition builder_retry_policy :: "retry_policy \<Rightarrow> client_builder \<Rightarrow> client_builder" where
  "builder_retry_policy policy b = b\<lparr>cb_retry_policy := policy\<rparr>"

fun resolve_host :: "http_env \<Rightarrow> host \<Rightarrow> api_error + host \<times> url" where
  "resolve_host he (Http base_url) =
     (case normalize_base_url base_url of Inl e \<Rightarrow> Inl (ApiSetup e) | Inr u \<Rightarrow> Inr (Http u, u))"
| "resolve_host he (NamedPipe p) =
     (if he_platform he = Windows then Inr (NamedPipe p, he_local_url he)
      else Inl (UnsupportedTransport ''Windows named pipe'' (he_os he)))"
| "resolve_host he (UnixSocket p) =
     (if he_platform he = Unix then Inr (UnixSocket p, he_local_url he)
      else Inl (UnsupportedTransport ''Unix domain socket'' (he_os he)))"

text \<open>The secret is sent over HTTP only, and an empty one not at all.\<close>

fun authorization_of :: "http_env \<Rightarrow> host \<Rightarrow> string option \<Rightarrow> api_error + string option" where
  "authorization_of he (Http _) (Some secret) =
     (if secret = [] then Inr None
      else case he_header he (''Bearer '' @ secret) of Inl e \<Rightarrow> Inl (InvalidSecret e) | Inr v \<Rightarrow> Inr (Some v))"
| "authorization_of he _ _ = Inr None"

definition client_build :: "http_env \<Rightarrow> client_builder \<Rightarrow> api_error + api_client" where
  "client_build he b =
     (case resolve_host he (cb_host b) of
        Inl e \<Rightarrow> Inl e
      | Inr (host, base_url) \<Rightarrow>
          (case authorization_of he host (cb_secret b) of
             Inl e \<Rightarrow> Inl e
           | Inr authorization \<Rightarrow>
               (case he_build he host of
                  Inl e \<Rightarrow> Inl (BuildClient e)
                | Inr _ \<Rightarrow> Inr \<lparr>cl_host = host, cl_base_url = base_url, cl_authorization = authorization,
                    cl_retry_policy = cb_retry_policy b\<rparr>)))"

definition endpoint :: "http_env \<Rightarrow> api_client \<Rightarrow> string \<Rightarrow> api_error + url" where
  "endpoint he c e =
     (if he_url_parses he e then Inl (AbsoluteEndpoint e)
      else case he_join he (cl_base_url c) (dropWhile (\<lambda>x. x = CHR ''/'') e) of
        Inl source \<Rightarrow> Inl (InvalidEndpoint e source)
      | Inr u \<Rightarrow> Inr u)"

definition endpoint_with_segments :: "http_env \<Rightarrow> api_client \<Rightarrow> string \<Rightarrow> string list \<Rightarrow> api_error + url" where
  "endpoint_with_segments he c e segments =
     (case endpoint he c e of
        Inl x \<Rightarrow> Inl x
      | Inr u \<Rightarrow> (case he_push_segments he u segments of
          None \<Rightarrow> Inl (CannotAppendPathSegment (url_display u)) | Some v \<Rightarrow> Inr v))"

section \<open>Executing a request\<close>

text \<open>
  The loop over the attempts of one operation. \<open>attempt\<close> is one attempt, \<open>sleep\<close> the delay before
  the next one; \<open>delays\<close> are what is left of the policy's sequence.
\<close>

fun execute_loop ::
  "(api_error \<Rightarrow> bool) \<Rightarrow> (duration \<Rightarrow> 'w \<Rightarrow> 'w) \<Rightarrow> ('w \<Rightarrow> (api_error + 'a) \<times> 'w) \<Rightarrow>
   duration list \<Rightarrow> 'w \<Rightarrow> (api_error + 'a) \<times> 'w" where
  "execute_loop retryable sleep attempt delays w =
     (case attempt w of
        (Inr v, w') \<Rightarrow> (Inr v, w')
      | (Inl e, w') \<Rightarrow>
          if retryable e
          then case delays of
            [] \<Rightarrow> (Inl e, w')
          | d # ds \<Rightarrow> execute_loop retryable sleep attempt ds (sleep d w')
          else (Inl e, w'))"

declare execute_loop.simps [simp del]

definition execute ::
  "retry_policy \<Rightarrow> (duration \<Rightarrow> 'w \<Rightarrow> 'w) \<Rightarrow> request_metadata \<Rightarrow> ('w \<Rightarrow> (api_error + 'a) \<times> 'w) \<Rightarrow>
   'w \<Rightarrow> (api_error + 'a) \<times> 'w" where
  "execute policy sleep metadata attempt =
     execute_loop (rp_is_retryable policy metadata) sleep attempt (rp_delays policy metadata)"

text \<open>A response: its status and the chunks of its body, \<open>None\<close> where reading fails.\<close>

record http_response =
  rs_status :: nat
  rs_chunks :: "string option list"

fun collect_body :: "string \<Rightarrow> string option list \<Rightarrow> string" where
  "collect_body bytes [] = bytes"
| "collect_body bytes (None # chunks) = bytes"
| "collect_body bytes (Some chunk # chunks) =
     (if length bytes < MAX_ERROR_BODY_LENGTH
      then collect_body (bytes @ take (min (length chunk) (MAX_ERROR_BODY_LENGTH - length bytes)) chunk) chunks
      else bytes)"

definition ensure_success ::
  "(string \<Rightarrow> string option) \<Rightarrow> (string \<Rightarrow> string) \<Rightarrow> string \<Rightarrow> http_response \<Rightarrow> api_error + http_response" where
  "ensure_success parse lossy operation response =
     (if 200 \<le> rs_status response \<and> rs_status response < 300 then Inr response
      else let bytes = collect_body [] (rs_chunks response)
           in Inl (HttpStatus operation (rs_status response)
             (if bytes = [] then None else Some (error_body_from_bytes parse lossy bytes))))"

text \<open>One attempt: make the request (\<open>Inl\<close> when it cannot be made), send it, look at the status.\<close>

definition send_attempt ::
  "(string \<Rightarrow> string option) \<Rightarrow> (string \<Rightarrow> string) \<Rightarrow> string \<Rightarrow> api_error + 'r \<Rightarrow>
   ('r \<Rightarrow> 'w \<Rightarrow> (reqwest_error + http_response) \<times> 'w) \<Rightarrow> 'w \<Rightarrow> (api_error + http_response) \<times> 'w" where
  "send_attempt parse lossy operation request transport w =
     (case request of
        Inl e \<Rightarrow> (Inl e, w)
      | Inr r \<Rightarrow> (case transport r w of
          (Inl source, w') \<Rightarrow> (Inl (Request operation source), w')
        | (Inr response, w') \<Rightarrow> (ensure_success parse lossy operation response, w')))"

definition send_request ::
  "retry_policy \<Rightarrow> (duration \<Rightarrow> 'w \<Rightarrow> 'w) \<Rightarrow> (string \<Rightarrow> string option) \<Rightarrow> (string \<Rightarrow> string) \<Rightarrow>
   request_metadata \<Rightarrow> api_error + 'r \<Rightarrow> ('r \<Rightarrow> 'w \<Rightarrow> (reqwest_error + http_response) \<times> 'w) \<Rightarrow> 'w \<Rightarrow>
   (api_error + http_response) \<times> 'w" where
  "send_request policy sleep parse lossy metadata request transport =
     execute policy sleep metadata (send_attempt parse lossy (rm_operation metadata) request transport)"

definition metadata_new :: "string \<Rightarrow> string \<Rightarrow> bool \<Rightarrow> request_metadata" where
  "metadata_new operation http_method retry_safe =
     \<lparr>rm_operation = operation, rm_method = http_method, rm_retry_safe = retry_safe\<rparr>"

definition version_metadata :: request_metadata where
  "version_metadata = metadata_new ''version'' ''GET'' True"

text \<open>The default readiness probe: healthy if the version endpoint answers.\<close>

definition version_probe :: "(api_error \<Rightarrow> string) \<Rightarrow> api_error + 'v \<Rightarrow> probe_result" where
  "version_probe display r = (case r of Inr _ \<Rightarrow> PHealthy | Inl e \<Rightarrow> PUnhealthy (Some (display e)))"

section \<open>Attempts\<close>

text \<open>The same loop, over a world that also records the outcome of every attempt.\<close>

definition recorded :: "('w \<Rightarrow> 'r \<times> 'w) \<Rightarrow> 'w \<times> 'r list \<Rightarrow> 'r \<times> 'w \<times> 'r list" where
  "recorded attempt = (\<lambda>(w, rs). case attempt w of (r, w') \<Rightarrow> (r, w', rs @ [r]))"

definition unrecorded :: "(duration \<Rightarrow> 'w \<Rightarrow> 'w) \<Rightarrow> duration \<Rightarrow> 'w \<times> 'r list \<Rightarrow> 'w \<times> 'r list" where
  "unrecorded sleep d = (\<lambda>(w, rs). (sleep d w, rs))"

fun failed_retryably :: "(api_error \<Rightarrow> bool) \<Rightarrow> api_error + 'a \<Rightarrow> bool" where
  "failed_retryably retryable (Inl e) = retryable e"
| "failed_retryably retryable (Inr v) = False"

lemma recorded_pair [simp]:
  "recorded attempt (w, rs) = (case attempt w of (r, w') \<Rightarrow> (r, w', rs @ [r]))"
  "unrecorded sleep d (w, rs) = (sleep d w, rs)"
  by (simp_all add: recorded_def unrecorded_def)

lemma execute_recorded:
  "\<exists>earlier. execute_loop retryable (unrecorded sleep) (recorded attempt) delays (w, rs) =
      (case execute_loop retryable sleep attempt delays w of (r, w') \<Rightarrow> (r, w', rs @ earlier @ [r])) \<and>
    length earlier \<le> length delays \<and> list_all (failed_retryably retryable) earlier \<and>
    (failed_retryably retryable (fst (execute_loop retryable sleep attempt delays w)) \<longrightarrow> length earlier = length delays)"
proof (induction delays arbitrary: w rs)
  case Nil
  show ?case
    by (cases "attempt w"; cases "fst (attempt w)")
      (auto simp: execute_loop.simps [of _ _ _ "[]"] intro!: exI [of _ "[]"])
next
  case (Cons d ds)
  show ?case
  proof (cases "failed_retryably retryable (fst (attempt w))")
    case True
    then obtain e w' where a: "attempt w = (Inl e, w')" "retryable e"
      by (cases "attempt w"; cases "fst (attempt w)") auto
    obtain earlier where "execute_loop retryable (unrecorded sleep) (recorded attempt) ds (sleep d w', rs @ [Inl e]) =
        (case execute_loop retryable sleep attempt ds (sleep d w') of (r, w') \<Rightarrow> (r, w', (rs @ [Inl e]) @ earlier @ [r]))"
      "length earlier \<le> length ds" "list_all (failed_retryably retryable) earlier"
      "failed_retryably retryable (fst (execute_loop retryable sleep attempt ds (sleep d w'))) \<longrightarrow> length earlier = length ds"
      using Cons.IH [of "sleep d w'" "rs @ [Inl e]"] by blast
    with a show ?thesis
      by (intro exI [of _ "Inl e # earlier"]) (simp add: execute_loop.simps [of _ _ _ "d # ds"])
  next
    case False
    then show ?thesis
      by (cases "attempt w"; cases "fst (attempt w)")
        (auto simp: execute_loop.simps [of _ _ _ "d # ds"] intro!: exI [of _ "[]"])
  qed
qed

text \<open>
  C22. A request is retried as its policy says and no further. Under the exponential policy, with a
  back-off sequence as long as the configured number of retries, the attempts of a request are at
  most one more than that; every attempt but the last failed transiently, the answer is the
  outcome of the last one, and a transient failure is answered only when the retries are used
  up. A request that may not be repeated is attempted exactly once.
\<close>

theorem request_attempts:
  assumes "\<And>lo hi n j. length (backoff lo hi n j) = n"
  shows "\<exists>earlier w'. execute (exponential_policy backoff r) (unrecorded sleep) md (recorded attempt) (w, []) =
      (fst (execute (exponential_policy backoff r) sleep md attempt w), w',
       earlier @ [fst (execute (exponential_policy backoff r) sleep md attempt w)]) \<and>
    length earlier \<le> er_max_retries r \<and>
    list_all (failed_retryably is_transient) earlier \<and>
    (if rm_retry_safe md
     then failed_retryably is_transient (fst (execute (exponential_policy backoff r) sleep md attempt w)) \<longrightarrow>
       length earlier = er_max_retries r
     else earlier = [])"
proof -
  let ?retryable = "\<lambda>e. rm_retry_safe md \<and> is_transient e"
  let ?delays = "backoff (er_min_delay r) (er_max_delay r) (er_max_retries r) (er_jitter r)"
  obtain earlier where rec: "execute_loop ?retryable (unrecorded sleep) (recorded attempt) ?delays (w, []) =
      (case execute_loop ?retryable sleep attempt ?delays w of (r, w') \<Rightarrow> (r, w', [] @ earlier @ [r]))"
    "length earlier \<le> length ?delays" "list_all (failed_retryably ?retryable) earlier"
    "failed_retryably ?retryable (fst (execute_loop ?retryable sleep attempt ?delays w)) \<longrightarrow>
      length earlier = length ?delays"
    using execute_recorded [of ?retryable sleep attempt ?delays w "[]"] by blast
  have "failed_retryably ?retryable x \<longleftrightarrow> rm_retry_safe md \<and> failed_retryably is_transient x" for x :: "api_error + 'a"
    by (cases x) simp_all
  then show ?thesis
    using rec assms
    by (intro exI [of _ earlier])
      (auto simp: execute_def exponential_policy_def list_all_iff split: prod.splits)
qed

lemma collect_body_bound: "length bytes \<le> MAX_ERROR_BODY_LENGTH \<Longrightarrow> length (collect_body bytes chunks) \<le> MAX_ERROR_BODY_LENGTH"
  by (induction bytes chunks rule: collect_body.induct) auto

text \<open>Two transient failures and a success, with room for three retries.\<close>

definition demo_attempt :: "nat \<Rightarrow> (api_error + string) \<times> nat" where
  "demo_attempt n = (if n < 2 then Inl (HttpStatus ''version'' 503 None) else Inr ''ok'', n + 1)"

definition demo_backoff :: "duration \<Rightarrow> duration \<Rightarrow> nat \<Rightarrow> bool \<Rightarrow> duration list" where
  "demo_backoff lo hi n j = replicate n lo"

theorem request_attempts_witness:
  "\<exists>earlier w'. execute (exponential_policy demo_backoff conservative) (unrecorded (\<lambda>_ w. w)) version_metadata
      (recorded demo_attempt) (0, []) = (Inr ''ok'', w', earlier @ [Inr ''ok'']) \<and> length earlier \<le> 3"
proof -
  have "fst (execute (exponential_policy demo_backoff conservative) (\<lambda>_ w. w) version_metadata demo_attempt 0) = Inr ''ok''"
    by (simp add: execute_def exponential_policy_def conservative_def demo_backoff_def version_metadata_def metadata_new_def
        demo_attempt_def transient_status_def numeral_eq_Suc execute_loop.simps)
  then show ?thesis
    using request_attempts [of demo_backoff conservative "\<lambda>_ w. w" version_metadata demo_attempt 0]
    by (fastforce simp: demo_backoff_def conservative_def)
qed

end
