(* ===== verification/Endpoints.thy ===== *)
theory Endpoints
  imports Clash_Api Log Paths
begin

text \<open>
  The operations of the controller's client (\<^verbatim>\<open>crates/clash-api/src/api\<close>, \<^verbatim>\<open>stream.rs\<close> and the request
  methods of \<^verbatim>\<open>client.rs\<close>): the arguments with their validation, the request each operation makes, how
  it is sent and how its answer is read. The HTTP library is a parameter, and so is the decoding of
  a JSON body into the type of the answer; the JSON bodies of the requests are written out.
\<close>

section \<open>Requests\<close>

datatype json = JNull | JBool bool | JInt int | JStr string | JList "json list" | JObj "(string \<times> json) list"

record api_request =
  ar_method :: string
  ar_url :: url
  ar_authorization :: "string option"
  ar_query :: "(string \<times> string) list"
  ar_json :: "json option"

text \<open>
  The world of a client: the libraries of \<open>http_env\<close>, waiting, the two decodings of an error body,
  sending a request, reading a body to its end, and the two halves of a WebSocket handshake (a
  socket is a handle).
\<close>

record 'w api_env =
  ae_http :: http_env
  ae_sleep :: "duration \<Rightarrow> 'w \<Rightarrow> 'w"
  ae_parse :: "string \<Rightarrow> string option"
  ae_lossy :: "string \<Rightarrow> string"
  ae_transport :: "api_request \<Rightarrow> 'w \<Rightarrow> (reqwest_error + http_response) \<times> 'w"
  ae_bytes :: "http_response \<Rightarrow> 'w \<Rightarrow> (reqwest_error + string) \<times> 'w"
  ae_upgrade :: "api_request \<Rightarrow> 'w \<Rightarrow> (websocket_error + http_response) \<times> 'w"
  ae_into_websocket :: "http_response \<Rightarrow> 'w \<Rightarrow> (websocket_error + nat) \<times> 'w"

definition request_url :: "api_client \<Rightarrow> string \<Rightarrow> url \<Rightarrow> api_request" where
  "request_url c http_method u =
     \<lparr>ar_method = http_method, ar_url = u, ar_authorization = cl_authorization c, ar_query = [], ar_json = None\<rparr>"

definition request :: "'w api_env \<Rightarrow> api_client \<Rightarrow> string \<Rightarrow> string \<Rightarrow> api_error + api_request" where
  "request ae c http_method e = map_sum id (request_url c http_method) (endpoint (ae_http ae) c e)"

definition http_get :: "'w api_env \<Rightarrow> api_client \<Rightarrow> string \<Rightarrow> api_error + api_request" where
  "http_get ae c = request ae c ''GET''"

definition http_post :: "'w api_env \<Rightarrow> api_client \<Rightarrow> string \<Rightarrow> api_error + api_request" where
  "http_post ae c = request ae c ''POST''"

definition http_put :: "'w api_env \<Rightarrow> api_client \<Rightarrow> string \<Rightarrow> api_error + api_request" where
  "http_put ae c = request ae c ''PUT''"

definition http_patch :: "'w api_env \<Rightarrow> api_client \<Rightarrow> string \<Rightarrow> api_error + api_request" where
  "http_patch ae c = request ae c ''PATCH''"

definition http_delete :: "'w api_env \<Rightarrow> api_client \<Rightarrow> string \<Rightarrow> api_error + api_request" where
  "http_delete ae c = request ae c ''DELETE''"

text \<open>The builder's \<^verbatim>\<open>query\<close> and \<^verbatim>\<open>json\<close>.\<close>

definition add_query :: "(string \<times> string) list \<Rightarrow> api_request \<Rightarrow> api_request" where
  "add_query pairs r = r\<lparr>ar_query := ar_query r @ pairs\<rparr>"

definition with_json :: "json \<Rightarrow> api_request \<Rightarrow> api_request" where
  "with_json j r = r\<lparr>ar_json := Some j\<rparr>"

section \<open>Sending\<close>

definition client_request ::
  "'w api_env \<Rightarrow> api_client \<Rightarrow> request_metadata \<Rightarrow> api_error + api_request \<Rightarrow> 'w \<Rightarrow> (api_error + http_response) \<times> 'w" where
  "client_request ae c metadata r =
     send_request (cl_retry_policy c) (ae_sleep ae) (ae_parse ae) (ae_lossy ae) metadata r (ae_transport ae)"

definition decode_json ::
  "'w api_env \<Rightarrow> (string \<Rightarrow> string + 'a) \<Rightarrow> string \<Rightarrow> http_response \<Rightarrow> 'w \<Rightarrow> (api_error + 'a) \<times> 'w" where
  "decode_json ae decode operation response w =
     (case ae_bytes ae response w of
        (Inl source, w') \<Rightarrow> (Inl (Request operation source), w')
      | (Inr bytes, w') \<Rightarrow> (map_sum (Decode operation) id (decode bytes), w'))"

definition send_json ::
  "'w api_env \<Rightarrow> (string \<Rightarrow> string + 'a) \<Rightarrow> api_client \<Rightarrow> request_metadata \<Rightarrow> api_error + api_request \<Rightarrow>
   'w \<Rightarrow> (api_error + 'a) \<times> 'w" where
  "send_json ae decode c metadata r w =
     (case client_request ae c metadata r w of
        (Inl e, w') \<Rightarrow> (Inl e, w')
      | (Inr response, w') \<Rightarrow> decode_json ae decode (rm_operation metadata) response w')"

definition send_empty ::
  "'w api_env \<Rightarrow> api_client \<Rightarrow> request_metadata \<Rightarrow> api_error + api_request \<Rightarrow> 'w \<Rightarrow> (api_error + unit) \<times> 'w" where
  "send_empty ae c metadata r w = map_prod (map_sum id (\<lambda>_. ())) id (client_request ae c metadata r w)"

definition websocket_attempt ::
  "'w api_env \<Rightarrow> string \<Rightarrow> api_error + api_request \<Rightarrow> 'w \<Rightarrow> (api_error + nat) \<times> 'w" where
  "websocket_attempt ae operation r w =
     (case r of
        Inl e \<Rightarrow> (Inl e, w)
      | Inr q \<Rightarrow> (case ae_upgrade ae q w of
          (Inl source, w') \<Rightarrow> (Inl (WebSocket operation source), w')
        | (Inr response, w') \<Rightarrow> map_prod (map_sum (WebSocket operation) id) id (ae_into_websocket ae response w')))"

definition websocket ::
  "'w api_env \<Rightarrow> api_client \<Rightarrow> request_metadata \<Rightarrow> api_error + api_request \<Rightarrow> 'w \<Rightarrow> (api_error + nat) \<times> 'w" where
  "websocket ae c metadata r =
     execute (cl_retry_policy c) (ae_sleep ae) metadata (websocket_attempt ae (rm_operation metadata) r)"

text \<open>
  A stream of newline-delimited JSON: \<open>lines\<close> are what the line codec yields, \<open>Inl\<close> where it
  fails. Blank lines are skipped.
\<close>

definition stream_item :: "(string \<Rightarrow> string + 'a) \<Rightarrow> string \<Rightarrow> string + string \<Rightarrow> (api_error + 'a) option" where
  "stream_item decode operation line =
     (case line of
        Inr l \<Rightarrow> if trim l = [] then None else Some (map_sum (Decode operation) id (decode l))
      | Inl source \<Rightarrow> Some (Inl (StreamError operation source)))"

definition from_response ::
  "(http_response \<Rightarrow> (string + string) list) \<Rightarrow> (string \<Rightarrow> string + 'a) \<Rightarrow> string \<Rightarrow> http_response \<Rightarrow> (api_error + 'a) list" where
  "from_response codec decode operation response = List.map_filter (stream_item decode operation) (codec response)"

definition open_stream ::
  "'w api_env \<Rightarrow> (http_response \<Rightarrow> (string + string) list) \<Rightarrow> (string \<Rightarrow> string + 'a) \<Rightarrow> api_client \<Rightarrow>
   string \<Rightarrow> api_error + api_request \<Rightarrow> 'w \<Rightarrow> (api_error + (api_error + 'a) list) \<times> 'w" where
  "open_stream ae codec decode c operation r w =
     map_prod (map_sum id (from_response codec decode operation)) id
       (client_request ae c (metadata_new operation ''GET'' True) r w)"

text \<open>A request at a path with dynamic segments: the path is resolved once, before the first attempt.\<close>

definition at_segments ::
  "'w api_env \<Rightarrow> api_client \<Rightarrow> string \<Rightarrow> string list \<Rightarrow> (url \<Rightarrow> 'w \<Rightarrow> (api_error + 'a) \<times> 'w) \<Rightarrow>
   'w \<Rightarrow> (api_error + 'a) \<times> 'w" where
  "at_segments ae c e segments k w =
     (case endpoint_with_segments (ae_http ae) c e segments of Inl x \<Rightarrow> (Inl x, w) | Inr u \<Rightarrow> k u w)"

section \<open>Arguments\<close>

definition as_millis :: "duration \<Rightarrow> nat" where
  "as_millis d = d div 1000000"

definition parse_status :: "string \<Rightarrow> 16 word option" where
  "parse_status s =
     (let ds = (case s of c # cs \<Rightarrow> if c = CHR ''+'' then cs else s | [] \<Rightarrow> [])
      in if ds \<noteq> [] \<and> list_all is_ascii_digit ds \<and> digits_value 0 ds < 2 ^ 16
         then Some (word_of_nat (digits_value 0 ds)) else None)"

definition valid_status_item :: "string \<Rightarrow> bool" where
  "valid_status_item item \<longleftrightarrow>
     (case split_once ''-'' item of
        Some (lo, hi) \<Rightarrow>
          (case (parse_status lo, parse_status hi) of (Some l, Some h) \<Rightarrow> l \<le> h | _ \<Rightarrow> False)
      | None \<Rightarrow> parse_status item \<noteq> None)"

definition validate_expected_status :: "string \<Rightarrow> api_error + unit" where
  "validate_expected_status s =
     (if s = [] then Inl (InvalidArgument ''expected'' ''must not be empty'')
      else if list_all valid_status_item (split_slash [] s) then Inr ()
      else Inl (InvalidArgument ''expected'' (''invalid status expression `'' @ s @ ''`'')))"

datatype expected_status = ExpectedStatus (es_str: string)

definition expected_status_new :: "string \<Rightarrow> api_error + expected_status" where
  "expected_status_new s = map_sum id (\<lambda>_. ExpectedStatus s) (validate_expected_status s)"

record delay_query =
  dq_url :: url
  dq_timeout :: duration
  dq_expected :: "expected_status option"

definition delay_query_new :: "url \<Rightarrow> duration \<Rightarrow> api_error + delay_query" where
  "delay_query_new u timeout =
     (if as_millis timeout = 0 then Inl (InvalidArgument ''timeout'' ''must be at least one millisecond'')
      else if 2147483647 < as_millis timeout
      then Inl (InvalidArgument ''timeout'' ''does not fit Mihomo's group timeout'')
      else Inr \<lparr>dq_url = u, dq_timeout = timeout, dq_expected = None\<rparr>)"

definition with_expected :: "expected_status \<Rightarrow> delay_query \<Rightarrow> delay_query" where
  "with_expected e q = q\<lparr>dq_expected := Some e\<rparr>"

definition query_pairs :: "delay_query \<Rightarrow> (string \<times> string) list" where
  "query_pairs q =
     [(''url'', url_display (dq_url q)), (''timeout'', dec (as_millis (dq_timeout q)))] @
     (case dq_expected q of Some e \<Rightarrow> [(''expected'', es_str e)] | None \<Rightarrow> [])"

definition validate_proxy_timeout :: "delay_query \<Rightarrow> api_error + unit" where
  "validate_proxy_timeout q =
     (if 32767 < as_millis (dq_timeout q)
      then Inl (InvalidArgument ''timeout'' ''proxy delay endpoints accept at most 32767 milliseconds'')
      else Inr ())"

datatype connection_stream_query = ConnectionStreamQuery (csq_interval: duration)

text \<open>The bound is \<^verbatim>\<open>isize::MAX\<close> on the 64-bit targets.\<close>

definition connection_stream_query_new :: "duration \<Rightarrow> api_error + connection_stream_query" where
  "connection_stream_query_new interval =
     (if as_millis interval = 0 then Inl (InvalidArgument ''interval'' ''must be at least one millisecond'')
      else if 2 ^ 63 - 1 < as_millis interval
      then Inl (InvalidArgument ''interval'' ''does not fit Mihomo's millisecond query'')
      else Inr (ConnectionStreamQuery interval))"

definition connection_stream_query_default :: connection_stream_query where
  "connection_stream_query_default = ConnectionStreamQuery (from_secs 1)"

datatype dns_record_type = DnsRecordType (drt_str: string)

definition record_type_char :: "char \<Rightarrow> bool" where
  "record_type_char c \<longleftrightarrow> (65 \<le> (of_char c :: nat) \<and> (of_char c :: nat) \<le> 90) \<or> is_ascii_digit c \<or> c = CHR ''-''"

definition dns_record_type_new :: "string \<Rightarrow> api_error + dns_record_type" where
  "dns_record_type_new s =
     (if s = [] \<or> \<not> list_all record_type_char s
      then Inl (InvalidArgument ''type'' ''must be a case-sensitive miekg/dns record type'')
      else Inr (DnsRecordType s))"

record dns_query =
  dns_name :: string
  dns_record_type :: dns_record_type

definition dns_query_new :: "string \<Rightarrow> dns_record_type \<Rightarrow> api_error + dns_query" where
  "dns_query_new n t =
     (if n = [] then Inl (InvalidArgument ''name'' ''must not be empty'')
      else Inr \<lparr>dns_name = n, dns_record_type = t\<rparr>)"

datatype storage_key = StorageKey (sk_str: string)

definition storage_key_new :: "string \<Rightarrow> api_error + storage_key" where
  "storage_key_new s =
     (if s = [] then Inl (InvalidArgument ''key'' ''must not be empty'') else Inr (StorageKey s))"

datatype api_log_level = LevelDebug | LevelInfo | LevelWarning | LevelError | LevelSilent

fun log_query :: "api_log_level \<Rightarrow> (string \<times> string) list" where
  "log_query LevelDebug = [(''level'', ''debug'')]"
| "log_query LevelInfo = [(''level'', ''info'')]"
| "log_query LevelWarning = [(''level'', ''warning'')]"
| "log_query LevelError = [(''level'', ''error'')]"
| "log_query LevelSilent = [(''level'', ''silent'')]"

definition show_bool :: "bool \<Rightarrow> string" where
  "show_bool b = (if b then ''true'' else ''false'')"

record update_config_request =
  ucr_path :: string
  ucr_payload :: string

definition from_path :: "string \<Rightarrow> update_config_request" where
  "from_path p = \<lparr>ucr_path = p, ucr_payload = []\<rparr>"

definition from_payload :: "string \<Rightarrow> update_config_request" where
  "from_payload s = \<lparr>ucr_path = [], ucr_payload = s\<rparr>"

definition update_config_json :: "update_config_request \<Rightarrow> json" where
  "update_config_json r = JObj [(''path'', JStr (ucr_path r)), (''payload'', JStr (ucr_payload r))]"

record upgrade_options =
  uo_channel :: "string option"
  uo_force :: bool

definition upgrade_query :: "upgrade_options \<Rightarrow> (string \<times> string) list" where
  "upgrade_query o' =
     (case uo_channel o' of Some ch \<Rightarrow> [(''channel'', ch)] | None \<Rightarrow> []) @ [(''force'', show_bool (uo_force o'))]"

text \<open>A \<^verbatim>\<open>BTreeMap\<close> from rule indices: its entries in ascending order.\<close>

datatype rule_patch = RulePatch (rp_entries: "(nat \<times> bool) list")

definition rule_patch_new :: rule_patch where
  "rule_patch_new = RulePatch []"

fun btree_insert :: "nat \<Rightarrow> bool \<Rightarrow> (nat \<times> bool) list \<Rightarrow> (nat \<times> bool) list" where
  "btree_insert k v [] = [(k, v)]"
| "btree_insert k v ((k', v') # es) =
     (if k < k' then (k, v) # (k', v') # es
      else if k = k' then (k, v) # es
      else (k', v') # btree_insert k v es)"

definition set_disabled :: "nat \<Rightarrow> bool \<Rightarrow> rule_patch \<Rightarrow> rule_patch" where
  "set_disabled index disabled p = RulePatch (btree_insert index disabled (rp_entries p))"

definition rule_patch_json :: "rule_patch \<Rightarrow> json" where
  "rule_patch_json p = JObj (map (\<lambda>(index, disabled). (dec index, JBool disabled)) (rp_entries p))"

section \<open>Operations\<close>

subsection \<open>Configuration\<close>

definition api_configs ::
  "'w api_env \<Rightarrow> (string \<Rightarrow> string + 'a) \<Rightarrow> api_client \<Rightarrow> 'w \<Rightarrow> (api_error + 'a) \<times> 'w" where
  "api_configs ae decode c =
     send_json ae decode c (metadata_new ''configs'' ''GET'' True)
     (http_get ae c ''/configs'')"

definition api_update_config ::
  "'w api_env \<Rightarrow> api_client \<Rightarrow> update_config_request \<Rightarrow> bool \<Rightarrow> 'w \<Rightarrow> (api_error + unit) \<times> 'w" where
  "api_update_config ae c body force =
     send_empty ae c (metadata_new ''update_config'' ''PUT'' False)
     (map_sum id (\<lambda>r. with_json (update_config_json body) (add_query [(''force'', show_bool force)] r)) (http_put ae c ''/configs''))"

text \<open>\<open>patch\<close> is the JSON form of a \<^verbatim>\<open>ConfigPatch\<close>.\<close>

definition api_patch_config ::
  "'w api_env \<Rightarrow> api_client \<Rightarrow> json \<Rightarrow> 'w \<Rightarrow> (api_error + unit) \<times> 'w" where
  "api_patch_config ae c patch =
     send_empty ae c (metadata_new ''patch_config'' ''PATCH'' False)
     (map_sum id (with_json patch) (http_patch ae c ''/configs''))"

definition api_update_geo_databases ::
  "'w api_env \<Rightarrow> api_client \<Rightarrow> 'w \<Rightarrow> (api_error + unit) \<times> 'w" where
  "api_update_geo_databases ae c =
     send_empty ae c (metadata_new ''update_geo_databases'' ''POST'' False)
     (http_post ae c ''/configs/geo'')"

subsection \<open>Connections\<close>

definition api_connections ::
  "'w api_env \<Rightarrow> (string \<Rightarrow> string + 'a) \<Rightarrow> api_client \<Rightarrow> 'w \<Rightarrow> (api_error + 'a) \<times> 'w" where
  "api_connections ae decode c =
     send_json ae decode c (metadata_new ''connections'' ''GET'' True)
     (http_get ae c ''/connections'')"

definition api_connections_ws ::
  "'w api_env \<Rightarrow> api_client \<Rightarrow> connection_stream_query \<Rightarrow> 'w \<Rightarrow> (api_error + nat) \<times> 'w" where
  "api_connections_ws ae c query =
     websocket ae c (metadata_new ''connections_ws'' ''GET'' True)
     (map_sum id (add_query [(''interval'', dec (as_millis (csq_interval query)))]) (http_get ae c ''/connections''))"

definition api_close_connection ::
  "'w api_env \<Rightarrow> api_client \<Rightarrow> string \<Rightarrow> 'w \<Rightarrow> (api_error + unit) \<times> 'w" where
  "api_close_connection ae c uuid =
     at_segments ae c ''/connections'' [uuid] (\<lambda>u. send_empty ae c (metadata_new ''close_connection'' ''DELETE'' True)
       (Inr (request_url c ''DELETE'' u)))"

definition api_close_all_connections ::
  "'w api_env \<Rightarrow> api_client \<Rightarrow> 'w \<Rightarrow> (api_error + unit) \<times> 'w" where
  "api_close_all_connections ae c =
     send_empty ae c (metadata_new ''close_all_connections'' ''DELETE'' False)
     (http_delete ae c ''/connections'')"

subsection \<open>DNS, logs, maintenance, memory\<close>

definition api_dns_query ::
  "'w api_env \<Rightarrow> (string \<Rightarrow> string + 'a) \<Rightarrow> api_client \<Rightarrow> dns_query \<Rightarrow> 'w \<Rightarrow> (api_error + 'a) \<times> 'w" where
  "api_dns_query ae decode c query =
     send_json ae decode c (metadata_new ''dns_query'' ''GET'' True)
     (map_sum id (add_query [(''name'', dns_name query), (''type'', drt_str (dns_record_type query))]) (http_get ae c ''/dns/query''))"

definition api_logs ::
  "'w api_env \<Rightarrow> (http_response \<Rightarrow> (string + string) list) \<Rightarrow> (string \<Rightarrow> string + 'a) \<Rightarrow> api_client \<Rightarrow> api_log_level \<Rightarrow> 'w \<Rightarrow>
   (api_error + (api_error + 'a) list) \<times> 'w" where
  "api_logs ae codec decode c level =
     open_stream ae codec decode c ''logs''
     (map_sum id (add_query (log_query level)) (http_get ae c ''/logs''))"

definition api_logs_ws ::
  "'w api_env \<Rightarrow> api_client \<Rightarrow> api_log_level \<Rightarrow> 'w \<Rightarrow> (api_error + nat) \<times> 'w" where
  "api_logs_ws ae c level =
     websocket ae c (metadata_new ''logs_ws'' ''GET'' True)
     (map_sum id (add_query (log_query level)) (http_get ae c ''/logs''))"

definition api_structured_logs ::
  "'w api_env \<Rightarrow> (http_response \<Rightarrow> (string + string) list) \<Rightarrow> (string \<Rightarrow> string + 'a) \<Rightarrow> api_client \<Rightarrow> api_log_level \<Rightarrow> 'w \<Rightarrow>
   (api_error + (api_error + 'a) list) \<times> 'w" where
  "api_structured_logs ae codec decode c level =
     open_stream ae codec decode c ''structured_logs''
     (map_sum id (\<lambda>r. add_query [(''format'', ''structured'')] (add_query (log_query level) r)) (http_get ae c ''/logs''))"

definition api_structured_logs_ws ::
  "'w api_env \<Rightarrow> api_client \<Rightarrow> api_log_level \<Rightarrow> 'w \<Rightarrow> (api_error + nat) \<times> 'w" where
  "api_structured_logs_ws ae c level =
     websocket ae c (metadata_new ''structured_logs_ws'' ''GET'' True)
     (map_sum id (\<lambda>r. add_query [(''format'', ''structured'')] (add_query (log_query level) r)) (http_get ae c ''/logs''))"

definition api_hello ::
  "'w api_env \<Rightarrow> (string \<Rightarrow> string + 'a) \<Rightarrow> api_client \<Rightarrow> 'w \<Rightarrow> (api_error + 'a) \<times> 'w" where
  "api_hello ae decode c =
     send_json ae decode c (metadata_new ''hello'' ''GET'' True)
     (http_get ae c ''/'')"

definition api_collect_garbage ::
  "'w api_env \<Rightarrow> api_client \<Rightarrow> 'w \<Rightarrow> (api_error + unit) \<times> 'w" where
  "api_collect_garbage ae c =
     send_empty ae c (metadata_new ''collect_garbage'' ''PUT'' False)
     (http_put ae c ''/debug/gc'')"

definition api_flush_fake_ip_cache ::
  "'w api_env \<Rightarrow> api_client \<Rightarrow> 'w \<Rightarrow> (api_error + unit) \<times> 'w" where
  "api_flush_fake_ip_cache ae c =
     send_empty ae c (metadata_new ''flush_fake_ip_cache'' ''POST'' False)
     (http_post ae c ''/cache/fakeip/flush'')"

definition api_flush_dns_cache ::
  "'w api_env \<Rightarrow> api_client \<Rightarrow> 'w \<Rightarrow> (api_error + unit) \<times> 'w" where
  "api_flush_dns_cache ae c =
     send_empty ae c (metadata_new ''flush_dns_cache'' ''POST'' False)
     (http_post ae c ''/cache/dns/flush'')"

definition api_restart ::
  "'w api_env \<Rightarrow> (string \<Rightarrow> string + 'a) \<Rightarrow> api_client \<Rightarrow> 'w \<Rightarrow> (api_error + 'a) \<times> 'w" where
  "api_restart ae decode c =
     send_json ae decode c (metadata_new ''restart'' ''POST'' False)
     (http_post ae c ''/restart'')"

definition api_upgrade ::
  "'w api_env \<Rightarrow> (string \<Rightarrow> string + 'a) \<Rightarrow> api_client \<Rightarrow> upgrade_options \<Rightarrow> 'w \<Rightarrow> (api_error + 'a) \<times> 'w" where
  "api_upgrade ae decode c options =
     send_json ae decode c (metadata_new ''upgrade'' ''POST'' False)
     (map_sum id (add_query (upgrade_query options)) (http_post ae c ''/upgrade''))"

definition api_upgrade_ui ::
  "'w api_env \<Rightarrow> (string \<Rightarrow> string + 'a) \<Rightarrow> api_client \<Rightarrow> 'w \<Rightarrow> (api_error + 'a) \<times> 'w" where
  "api_upgrade_ui ae decode c =
     send_json ae decode c (metadata_new ''upgrade_ui'' ''POST'' False)
     (http_post ae c ''/upgrade/ui'')"

definition api_upgrade_geo_databases ::
  "'w api_env \<Rightarrow> api_client \<Rightarrow> 'w \<Rightarrow> (api_error + unit) \<times> 'w" where
  "api_upgrade_geo_databases ae c =
     send_empty ae c (metadata_new ''upgrade_geo_databases'' ''POST'' False)
     (http_post ae c ''/upgrade/geo'')"

definition api_memory ::
  "'w api_env \<Rightarrow> (http_response \<Rightarrow> (string + string) list) \<Rightarrow> (string \<Rightarrow> string + 'a) \<Rightarrow> api_client \<Rightarrow> 'w \<Rightarrow>
   (api_error + (api_error + 'a) list) \<times> 'w" where
  "api_memory ae codec decode c =
     open_stream ae codec decode c ''memory''
     (http_get ae c ''/memory'')"

definition api_memory_ws ::
  "'w api_env \<Rightarrow> api_client \<Rightarrow> 'w \<Rightarrow> (api_error + nat) \<times> 'w" where
  "api_memory_ws ae c =
     websocket ae c (metadata_new ''memory_ws'' ''GET'' True)
     (http_get ae c ''/memory'')"

subsection \<open>Proxies\<close>

definition api_groups ::
  "'w api_env \<Rightarrow> (string \<Rightarrow> string + 'a) \<Rightarrow> api_client \<Rightarrow> 'w \<Rightarrow> (api_error + 'a) \<times> 'w" where
  "api_groups ae decode c =
     send_json ae decode c (metadata_new ''groups'' ''GET'' True)
     (http_get ae c ''/group/'')"

definition api_group ::
  "'w api_env \<Rightarrow> (string \<Rightarrow> string + 'a) \<Rightarrow> api_client \<Rightarrow> string \<Rightarrow> 'w \<Rightarrow> (api_error + 'a) \<times> 'w" where
  "api_group ae decode c n =
     at_segments ae c ''/group'' [n, []] (\<lambda>u. send_json ae decode c (metadata_new ''group'' ''GET'' True)
       (Inr (request_url c ''GET'' u)))"

definition api_group_delay ::
  "'w api_env \<Rightarrow> (string \<Rightarrow> string + 'a) \<Rightarrow> api_client \<Rightarrow> string \<Rightarrow> delay_query \<Rightarrow> 'w \<Rightarrow> (api_error + 'a) \<times> 'w" where
  "api_group_delay ae decode c n query =
     at_segments ae c ''/group'' [n, ''delay''] (\<lambda>u. send_json ae decode c (metadata_new ''group_delay'' ''GET'' False)
       (Inr (add_query (query_pairs query) (request_url c ''GET'' u))))"

definition api_proxies ::
  "'w api_env \<Rightarrow> (string \<Rightarrow> string + 'a) \<Rightarrow> api_client \<Rightarrow> 'w \<Rightarrow> (api_error + 'a) \<times> 'w" where
  "api_proxies ae decode c =
     send_json ae decode c (metadata_new ''proxies'' ''GET'' True)
     (http_get ae c ''/proxies/'')"

definition api_proxy ::
  "'w api_env \<Rightarrow> (string \<Rightarrow> string + 'a) \<Rightarrow> api_client \<Rightarrow> string \<Rightarrow> 'w \<Rightarrow> (api_error + 'a) \<times> 'w" where
  "api_proxy ae decode c n =
     at_segments ae c ''/proxies'' [n, []] (\<lambda>u. send_json ae decode c (metadata_new ''proxy'' ''GET'' True)
       (Inr (request_url c ''GET'' u)))"

definition api_proxy_delay ::
  "'w api_env \<Rightarrow> (string \<Rightarrow> string + 'a) \<Rightarrow> api_client \<Rightarrow> string \<Rightarrow> delay_query \<Rightarrow> 'w \<Rightarrow> (api_error + 'a) \<times> 'w" where
  "api_proxy_delay ae decode c n query w =
     (case validate_proxy_timeout query of
        Inl e \<Rightarrow> (Inl e, w)
      | Inr _ \<Rightarrow> at_segments ae c ''/proxies'' [n, ''delay''] (\<lambda>u. send_json ae decode c (metadata_new ''proxy_delay'' ''GET'' False)
       (Inr (add_query (query_pairs query) (request_url c ''GET'' u)))) w)"

definition api_select_proxy ::
  "'w api_env \<Rightarrow> api_client \<Rightarrow> string \<Rightarrow> string \<Rightarrow> 'w \<Rightarrow> (api_error + unit) \<times> 'w" where
  "api_select_proxy ae c g target =
     at_segments ae c ''/proxies'' [g, []] (\<lambda>u. send_empty ae c (metadata_new ''select_proxy'' ''PUT'' False)
       (Inr (with_json (JObj [(''name'', JStr target)]) (request_url c ''PUT'' u))))"

definition api_clear_proxy_selection ::
  "'w api_env \<Rightarrow> api_client \<Rightarrow> string \<Rightarrow> 'w \<Rightarrow> (api_error + unit) \<times> 'w" where
  "api_clear_proxy_selection ae c g =
     at_segments ae c ''/proxies'' [g, []] (\<lambda>u. send_empty ae c (metadata_new ''clear_proxy_selection'' ''DELETE'' False)
       (Inr (request_url c ''DELETE'' u)))"

definition api_proxy_providers ::
  "'w api_env \<Rightarrow> (string \<Rightarrow> string + 'a) \<Rightarrow> api_client \<Rightarrow> 'w \<Rightarrow> (api_error + 'a) \<times> 'w" where
  "api_proxy_providers ae decode c =
     send_json ae decode c (metadata_new ''proxy_providers'' ''GET'' True)
     (http_get ae c ''/providers/proxies/'')"

definition api_proxy_provider ::
  "'w api_env \<Rightarrow> (string \<Rightarrow> string + 'a) \<Rightarrow> api_client \<Rightarrow> string \<Rightarrow> 'w \<Rightarrow> (api_error + 'a) \<times> 'w" where
  "api_proxy_provider ae decode c provider =
     at_segments ae c ''/providers/proxies'' [provider, []] (\<lambda>u. send_json ae decode c (metadata_new ''proxy_provider'' ''GET'' True)
       (Inr (request_url c ''GET'' u)))"

definition api_update_proxy_provider ::
  "'w api_env \<Rightarrow> api_client \<Rightarrow> string \<Rightarrow> 'w \<Rightarrow> (api_error + unit) \<times> 'w" where
  "api_update_proxy_provider ae c provider =
     at_segments ae c ''/providers/proxies'' [provider, []] (\<lambda>u. send_empty ae c (metadata_new ''update_proxy_provider'' ''PUT'' False)
       (Inr (request_url c ''PUT'' u)))"

definition api_healthcheck_proxy_provider ::
  "'w api_env \<Rightarrow> api_client \<Rightarrow> string \<Rightarrow> 'w \<Rightarrow> (api_error + unit) \<times> 'w" where
  "api_healthcheck_proxy_provider ae c provider =
     at_segments ae c ''/providers/proxies'' [provider, ''healthcheck''] (\<lambda>u. send_empty ae c (metadata_new ''healthcheck_proxy_provider'' ''GET'' False)
       (Inr (request_url c ''GET'' u)))"

definition api_provider_proxy ::
  "'w api_env \<Rightarrow> (string \<Rightarrow> string + 'a) \<Rightarrow> api_client \<Rightarrow> string \<Rightarrow> string \<Rightarrow> 'w \<Rightarrow> (api_error + 'a) \<times> 'w" where
  "api_provider_proxy ae decode c provider n =
     at_segments ae c ''/providers/proxies'' [provider, n, []] (\<lambda>u. send_json ae decode c (metadata_new ''provider_proxy'' ''GET'' True)
       (Inr (request_url c ''GET'' u)))"

definition api_provider_proxy_delay ::
  "'w api_env \<Rightarrow> (string \<Rightarrow> string + 'a) \<Rightarrow> api_client \<Rightarrow> string \<Rightarrow> string \<Rightarrow> delay_query \<Rightarrow> 'w \<Rightarrow> (api_error + 'a) \<times> 'w" where
  "api_provider_proxy_delay ae decode c provider n query w =
     (case validate_proxy_timeout query of
        Inl e \<Rightarrow> (Inl e, w)
      | Inr _ \<Rightarrow> at_segments ae c ''/providers/proxies'' [provider, n, ''healthcheck''] (\<lambda>u. send_json ae decode c (metadata_new ''provider_proxy_delay'' ''GET'' False)
       (Inr (add_query (query_pairs query) (request_url c ''GET'' u)))) w)"

subsection \<open>Rules, storage, traffic, version\<close>

definition api_rules ::
  "'w api_env \<Rightarrow> (string \<Rightarrow> string + 'a) \<Rightarrow> api_client \<Rightarrow> 'w \<Rightarrow> (api_error + 'a) \<times> 'w" where
  "api_rules ae decode c =
     send_json ae decode c (metadata_new ''rules'' ''GET'' True)
     (http_get ae c ''/rules/'')"

definition api_patch_rules ::
  "'w api_env \<Rightarrow> api_client \<Rightarrow> rule_patch \<Rightarrow> 'w \<Rightarrow> (api_error + unit) \<times> 'w" where
  "api_patch_rules ae c patch =
     send_empty ae c (metadata_new ''patch_rules'' ''PATCH'' False)
     (map_sum id (with_json (rule_patch_json patch)) (http_patch ae c ''/rules/disable''))"

definition api_rule_providers ::
  "'w api_env \<Rightarrow> (string \<Rightarrow> string + 'a) \<Rightarrow> api_client \<Rightarrow> 'w \<Rightarrow> (api_error + 'a) \<times> 'w" where
  "api_rule_providers ae decode c =
     send_json ae decode c (metadata_new ''rule_providers'' ''GET'' True)
     (http_get ae c ''/providers/rules/'')"

definition api_update_rule_provider ::
  "'w api_env \<Rightarrow> api_client \<Rightarrow> string \<Rightarrow> 'w \<Rightarrow> (api_error + unit) \<times> 'w" where
  "api_update_rule_provider ae c provider =
     at_segments ae c ''/providers/rules'' [provider, []] (\<lambda>u. send_empty ae c (metadata_new ''update_rule_provider'' ''PUT'' False)
       (Inr (request_url c ''PUT'' u)))"

definition api_storage_get ::
  "'w api_env \<Rightarrow> (string \<Rightarrow> string + 'a) \<Rightarrow> api_client \<Rightarrow> storage_key \<Rightarrow> 'w \<Rightarrow> (api_error + 'a) \<times> 'w" where
  "api_storage_get ae decode c key =
     at_segments ae c ''/storage'' [sk_str key] (\<lambda>u. send_json ae decode c (metadata_new ''storage_get'' ''GET'' True)
       (Inr (request_url c ''GET'' u)))"

definition api_storage_put ::
  "'w api_env \<Rightarrow> api_client \<Rightarrow> storage_key \<Rightarrow> json \<Rightarrow> 'w \<Rightarrow> (api_error + unit) \<times> 'w" where
  "api_storage_put ae c key val =
     at_segments ae c ''/storage'' [sk_str key] (\<lambda>u. send_empty ae c (metadata_new ''storage_put'' ''PUT'' False)
       (Inr (with_json val (request_url c ''PUT'' u))))"

definition api_storage_delete ::
  "'w api_env \<Rightarrow> api_client \<Rightarrow> storage_key \<Rightarrow> 'w \<Rightarrow> (api_error + unit) \<times> 'w" where
  "api_storage_delete ae c key =
     at_segments ae c ''/storage'' [sk_str key] (\<lambda>u. send_empty ae c (metadata_new ''storage_delete'' ''DELETE'' True)
       (Inr (request_url c ''DELETE'' u)))"

definition api_traffic ::
  "'w api_env \<Rightarrow> (http_response \<Rightarrow> (string + string) list) \<Rightarrow> (string \<Rightarrow> string + 'a) \<Rightarrow> api_client \<Rightarrow> 'w \<Rightarrow>
   (api_error + (api_error + 'a) list) \<times> 'w" where
  "api_traffic ae codec decode c =
     open_stream ae codec decode c ''traffic''
     (http_get ae c ''/traffic'')"

definition api_traffic_ws ::
  "'w api_env \<Rightarrow> api_client \<Rightarrow> 'w \<Rightarrow> (api_error + nat) \<times> 'w" where
  "api_traffic_ws ae c =
     websocket ae c (metadata_new ''traffic_ws'' ''GET'' True)
     (http_get ae c ''/traffic'')"

definition api_version ::
  "'w api_env \<Rightarrow> (string \<Rightarrow> string + 'a) \<Rightarrow> api_client \<Rightarrow> 'w \<Rightarrow> (api_error + 'a) \<times> 'w" where
  "api_version ae decode c = send_json ae decode c version_metadata (http_get ae c ''/version'')"

section \<open>What an operation sends\<close>

text \<open>The same world, which also records every request that is sent.\<close>

definition traced_api :: "'w api_env \<Rightarrow> ('w \<times> api_request list) api_env" where
  "traced_api ae =
     \<lparr>ae_http = ae_http ae,
      ae_sleep = (\<lambda>d (w, rs). (ae_sleep ae d w, rs)),
      ae_parse = ae_parse ae,
      ae_lossy = ae_lossy ae,
      ae_transport = (\<lambda>r (w, rs). case ae_transport ae r w of (a, w') \<Rightarrow> (a, w', rs @ [r])),
      ae_bytes = (\<lambda>x (w, rs). case ae_bytes ae x w of (a, w') \<Rightarrow> (a, w', rs)),
      ae_upgrade = (\<lambda>r (w, rs). case ae_upgrade ae r w of (a, w') \<Rightarrow> (a, w', rs @ [r])),
      ae_into_websocket = (\<lambda>x (w, rs). case ae_into_websocket ae x w of (a, w') \<Rightarrow> (a, w', rs))\<rparr>"

lemma traced_api_fields [simp]:
  "ae_http (traced_api ae) = ae_http ae"
  "ae_sleep (traced_api ae) d (w, rs) = (ae_sleep ae d w, rs)"
  "ae_parse (traced_api ae) = ae_parse ae"
  "ae_lossy (traced_api ae) = ae_lossy ae"
  "ae_transport (traced_api ae) r (w, rs) = (case ae_transport ae r w of (a, w') \<Rightarrow> (a, w', rs @ [r]))"
  "ae_bytes (traced_api ae) x (w, rs) = (case ae_bytes ae x w of (a, w') \<Rightarrow> (a, w', rs))"
  "ae_upgrade (traced_api ae) r (w, rs) = (case ae_upgrade ae r w of (a, w') \<Rightarrow> (a, w', rs @ [r]))"
  "ae_into_websocket (traced_api ae) x (w, rs) = (case ae_into_websocket ae x w of (a, w') \<Rightarrow> (a, w', rs))"
  by (simp_all add: traced_api_def)

text \<open>The operations of the client, as what they do to the world.\<close>

inductive operation :: "'w api_env \<Rightarrow> api_client \<Rightarrow> ('w \<Rightarrow> 'w) \<Rightarrow> bool"
  for ae :: "'w api_env" and c :: api_client where
  op_configs: "operation ae c (\<lambda>w. snd (api_configs ae (decode :: string \<Rightarrow> string + json) c w))"
| op_update_config: "operation ae c (\<lambda>w. snd (api_update_config ae c body force w))"
| op_patch_config: "operation ae c (\<lambda>w. snd (api_patch_config ae c patch w))"
| op_update_geo_databases: "operation ae c (\<lambda>w. snd (api_update_geo_databases ae c w))"
| op_connections: "operation ae c (\<lambda>w. snd (api_connections ae (decode :: string \<Rightarrow> string + json) c w))"
| op_connections_ws: "operation ae c (\<lambda>w. snd (api_connections_ws ae c query w))"
| op_close_connection: "operation ae c (\<lambda>w. snd (api_close_connection ae c uuid w))"
| op_close_all_connections: "operation ae c (\<lambda>w. snd (api_close_all_connections ae c w))"
| op_dns_query: "operation ae c (\<lambda>w. snd (api_dns_query ae (decode :: string \<Rightarrow> string + json) c query w))"
| op_logs: "operation ae c (\<lambda>w. snd (api_logs ae codec (decode :: string \<Rightarrow> string + json) c level w))"
| op_logs_ws: "operation ae c (\<lambda>w. snd (api_logs_ws ae c level w))"
| op_structured_logs: "operation ae c (\<lambda>w. snd (api_structured_logs ae codec (decode :: string \<Rightarrow> string + json) c level w))"
| op_structured_logs_ws: "operation ae c (\<lambda>w. snd (api_structured_logs_ws ae c level w))"
| op_hello: "operation ae c (\<lambda>w. snd (api_hello ae (decode :: string \<Rightarrow> string + json) c w))"
| op_collect_garbage: "operation ae c (\<lambda>w. snd (api_collect_garbage ae c w))"
| op_flush_fake_ip_cache: "operation ae c (\<lambda>w. snd (api_flush_fake_ip_cache ae c w))"
| op_flush_dns_cache: "operation ae c (\<lambda>w. snd (api_flush_dns_cache ae c w))"
| op_restart: "operation ae c (\<lambda>w. snd (api_restart ae (decode :: string \<Rightarrow> string + json) c w))"
| op_upgrade: "operation ae c (\<lambda>w. snd (api_upgrade ae (decode :: string \<Rightarrow> string + json) c options w))"
| op_upgrade_ui: "operation ae c (\<lambda>w. snd (api_upgrade_ui ae (decode :: string \<Rightarrow> string + json) c w))"
| op_upgrade_geo_databases: "operation ae c (\<lambda>w. snd (api_upgrade_geo_databases ae c w))"
| op_memory: "operation ae c (\<lambda>w. snd (api_memory ae codec (decode :: string \<Rightarrow> string + json) c w))"
| op_memory_ws: "operation ae c (\<lambda>w. snd (api_memory_ws ae c w))"
| op_groups: "operation ae c (\<lambda>w. snd (api_groups ae (decode :: string \<Rightarrow> string + json) c w))"
| op_group: "operation ae c (\<lambda>w. snd (api_group ae (decode :: string \<Rightarrow> string + json) c n w))"
| op_group_delay: "operation ae c (\<lambda>w. snd (api_group_delay ae (decode :: string \<Rightarrow> string + json) c n query w))"
| op_proxies: "operation ae c (\<lambda>w. snd (api_proxies ae (decode :: string \<Rightarrow> string + json) c w))"
| op_proxy: "operation ae c (\<lambda>w. snd (api_proxy ae (decode :: string \<Rightarrow> string + json) c n w))"
| op_proxy_delay: "operation ae c (\<lambda>w. snd (api_proxy_delay ae (decode :: string \<Rightarrow> string + json) c n query w))"
| op_select_proxy: "operation ae c (\<lambda>w. snd (api_select_proxy ae c g target w))"
| op_clear_proxy_selection: "operation ae c (\<lambda>w. snd (api_clear_proxy_selection ae c g w))"
| op_proxy_providers: "operation ae c (\<lambda>w. snd (api_proxy_providers ae (decode :: string \<Rightarrow> string + json) c w))"
| op_proxy_provider: "operation ae c (\<lambda>w. snd (api_proxy_provider ae (decode :: string \<Rightarrow> string + json) c provider w))"
| op_update_proxy_provider: "operation ae c (\<lambda>w. snd (api_update_proxy_provider ae c provider w))"
| op_healthcheck_proxy_provider: "operation ae c (\<lambda>w. snd (api_healthcheck_proxy_provider ae c provider w))"
| op_provider_proxy: "operation ae c (\<lambda>w. snd (api_provider_proxy ae (decode :: string \<Rightarrow> string + json) c provider n w))"
| op_provider_proxy_delay: "operation ae c (\<lambda>w. snd (api_provider_proxy_delay ae (decode :: string \<Rightarrow> string + json) c provider n query w))"
| op_rules: "operation ae c (\<lambda>w. snd (api_rules ae (decode :: string \<Rightarrow> string + json) c w))"
| op_patch_rules: "operation ae c (\<lambda>w. snd (api_patch_rules ae c patch w))"
| op_rule_providers: "operation ae c (\<lambda>w. snd (api_rule_providers ae (decode :: string \<Rightarrow> string + json) c w))"
| op_update_rule_provider: "operation ae c (\<lambda>w. snd (api_update_rule_provider ae c provider w))"
| op_storage_get: "operation ae c (\<lambda>w. snd (api_storage_get ae (decode :: string \<Rightarrow> string + json) c key w))"
| op_storage_put: "operation ae c (\<lambda>w. snd (api_storage_put ae c key val w))"
| op_storage_delete: "operation ae c (\<lambda>w. snd (api_storage_delete ae c key w))"
| op_traffic: "operation ae c (\<lambda>w. snd (api_traffic ae codec (decode :: string \<Rightarrow> string + json) c w))"
| op_traffic_ws: "operation ae c (\<lambda>w. snd (api_traffic_ws ae c w))"
| op_version: "operation ae c (\<lambda>w. snd (api_version ae (decode :: string \<Rightarrow> string + json) c w))"

text \<open>
  A policy that allows at most \<open>n\<close> further attempts, and those only of operations that may be
  repeated. The two policies of the client are such.
\<close>

definition sent :: "api_error + api_request \<Rightarrow> api_request list" where
  "sent r = (case r of Inl _ \<Rightarrow> [] | Inr q \<Rightarrow> [q])"

definition repeatable :: "api_request \<Rightarrow> bool" where
  "repeatable q \<longleftrightarrow> ar_method q \<in> {''GET'', ''DELETE''} \<and> ar_json q = None"

definition fit :: "api_client \<Rightarrow> request_metadata \<Rightarrow> api_error + api_request \<Rightarrow> bool" where
  "fit c md r \<longleftrightarrow>
     list_all (\<lambda>q. ar_authorization q = cl_authorization c \<and> (rm_retry_safe md \<longrightarrow> repeatable q)) (sent r)"

definition sent_well :: "nat \<Rightarrow> api_client \<Rightarrow> api_request list \<Rightarrow> bool" where
  "sent_well n c rs \<longleftrightarrow>
     (\<exists>k q. rs = replicate k q \<and> k \<le> n + 1 \<and> (k \<le> 1 \<or> repeatable q) \<and>
        (k = 0 \<or> ar_authorization q = cl_authorization c))"

lemma sent_well_Nil [simp]: "sent_well n c []"
  by (auto simp: sent_well_def intro: exI [of _ 0])

lemma sent_well_repeated:
  assumes "fit c md r" and "k \<le> n + 1" and "rm_retry_safe md \<or> k \<le> 1"
  shows "sent_well n c (concat (replicate k (sent r)))"
proof (cases r)
  case (Inl e)
  then show ?thesis
    by (simp add: sent_def)
next
  case (Inr q)
  have "concat (replicate k [q]) = replicate k q"
    by (induction k) simp_all
  then show ?thesis
    using assms Inr by (auto simp: sent_well_def sent_def fit_def intro!: exI [of _ k] exI [of _ q])
qed

locale bounded_policy =
  fixes p :: retry_policy and n :: nat
  assumes delays_bounded: "length (rp_delays p md) \<le> n"
    and retries_safe: "rp_is_retryable p md e \<Longrightarrow> rm_retry_safe md"
begin

lemma loop_sends:
  assumes "\<And>w rs. \<exists>x w'. attempt (w, rs) = (x, w', rs @ sent r)"
  shows "\<exists>k. snd (snd (execute_loop (rp_is_retryable p md) (ae_sleep (traced_api ae)) attempt delays (w, rs))) =
      rs @ concat (replicate k (sent r)) \<and> k \<le> length delays + 1 \<and> (rm_retry_safe md \<or> k \<le> 1)"
proof (induction delays arbitrary: w rs)
  case Nil
  obtain x w' where "attempt (w, rs) = (x, w', rs @ sent r)"
    using assms by blast
  then show ?case
    by (cases x) (auto simp: execute_loop.simps [of _ _ _ "[]"] intro!: exI [of _ 1])
next
  case (Cons d ds)
  obtain x w' where att: "attempt (w, rs) = (x, w', rs @ sent r)"
    using assms by blast
  show ?case
  proof (cases "\<exists>e. x = Inl e \<and> rp_is_retryable p md e")
    case True
    obtain k where "snd (snd (execute_loop (rp_is_retryable p md) (ae_sleep (traced_api ae)) attempt ds
        (ae_sleep ae d w', rs @ sent r))) = (rs @ sent r) @ concat (replicate k (sent r))" "k \<le> length ds + 1"
      using Cons.IH by blast
    then show ?thesis
      using True att retries_safe
      by (intro exI [of _ "Suc k"]) (auto simp: execute_loop.simps [of _ _ _ "d # ds"])
  next
    case False
    then show ?thesis
      using att
      by (cases x) (auto simp: execute_loop.simps [of _ _ _ "d # ds"] intro!: exI [of _ 1])
  qed
qed

lemma execute_sends:
  assumes "\<And>w rs. \<exists>x w'. attempt (w, rs) = (x, w', rs @ sent r)" and "fit c md r"
  shows "sent_well n c (snd (snd (execute p (ae_sleep (traced_api ae)) md attempt (w, []))))"
proof -
  obtain k where "snd (snd (execute p (ae_sleep (traced_api ae)) md attempt (w, []))) = concat (replicate k (sent r))"
    "k \<le> length (rp_delays p md) + 1" "rm_retry_safe md \<or> k \<le> 1"
    using loop_sends [OF assms(1), where delays = "rp_delays p md" and rs = "[]" and md = md and ae = ae and w = w] by (auto simp: execute_def)
  then show ?thesis
    using sent_well_repeated [OF assms(2), of k n] delays_bounded [of md] by simp
qed

lemma client_request_sends:
  assumes "cl_retry_policy c = p" and "fit c md r"
  shows "sent_well n c (snd (snd (client_request (traced_api ae) c md r (w, []))))"
proof -
  have "\<exists>x w'. send_attempt (ae_parse ae) (ae_lossy ae) (rm_operation md) r (ae_transport (traced_api ae)) (w, rs) =
      (x, w', rs @ sent r)" for w rs
    by (auto simp: send_attempt_def sent_def split: sum.splits prod.splits)
  then show ?thesis
    unfolding client_request_def send_request_def assms(1) traced_api_fields(3,4)
    by (intro execute_sends [OF _ assms(2)])
qed

lemma send_json_sends:
  assumes "cl_retry_policy c = p" and "fit c md r"
  shows "sent_well n c (snd (snd (send_json (traced_api ae) decode c md r (w, []))))"
  using client_request_sends [OF assms, of ae w]
  by (auto simp: send_json_def decode_json_def split: sum.splits prod.splits)

lemma send_empty_sends:
  assumes "cl_retry_policy c = p" and "fit c md r"
  shows "sent_well n c (snd (snd (send_empty (traced_api ae) c md r (w, []))))"
  using client_request_sends [OF assms, of ae w] by (simp add: send_empty_def)

lemma open_stream_sends:
  assumes "cl_retry_policy c = p" and "fit c (metadata_new opn ''GET'' True) r"
  shows "sent_well n c (snd (snd (open_stream (traced_api ae) codec decode c opn r (w, []))))"
  using client_request_sends [OF assms, of ae w] by (simp add: open_stream_def)

lemma websocket_sends:
  assumes "cl_retry_policy c = p" and "fit c md r"
  shows "sent_well n c (snd (snd (websocket (traced_api ae) c md r (w, []))))"
proof -
  have "\<exists>x w'. websocket_attempt (traced_api ae) (rm_operation md) r (w, rs) = (x, w', rs @ sent r)" for w rs
    by (auto simp: websocket_attempt_def sent_def split: sum.splits prod.splits)
  then show ?thesis
    unfolding websocket_def assms(1) by (intro execute_sends [OF _ assms(2)])
qed

lemma at_segments_sends:
  assumes "\<And>u. sent_well n c (snd (snd (k u (w, []))))"
  shows "sent_well n c (snd (snd (at_segments ae c e segments k (w, []))))"
  using assms by (auto simp: at_segments_def split: sum.splits)

lemmas sends = send_json_sends send_empty_sends open_stream_sends websocket_sends

end

interpretation single: bounded_policy no_retry 0
  by unfold_locales (simp_all add: no_retry_def)

lemma exponential_bounded:
  assumes "\<And>lo hi n j. length (backoff lo hi n j) = n"
  shows "bounded_policy (exponential_policy backoff er) (er_max_retries er)"
  by unfold_locales (simp_all add: exponential_policy_def assms)

text \<open>Which requests are fit for which operation.\<close>

lemma metadata_new_fields [simp]:
  "rm_operation (metadata_new opn m b) = opn" "rm_method (metadata_new opn m b) = m"
  "rm_retry_safe (metadata_new opn m b) = b"
  by (simp_all add: metadata_new_def)

lemma fit_request [simp]:
  "fit c md (Inr (request_url c m u)) \<longleftrightarrow> (rm_retry_safe md \<longrightarrow> m \<in> {''GET'', ''DELETE''})"
  "fit c md (Inr (add_query ps q)) \<longleftrightarrow> fit c md (Inr q)"
  "fit c (metadata_new opn m False) (Inr (with_json j q)) \<longleftrightarrow> fit c (metadata_new opn m False) (Inr q)"
  by (auto simp: fit_def sent_def request_url_def repeatable_def add_query_def with_json_def metadata_new_def)

lemma fit_map [simp]: "fit c md (map_sum id f (Inl e))"
  by (simp add: fit_def sent_def)

lemma fit_simple:
  assumes "\<And>u. fit c md (Inr (f (request_url c m u)))"
  shows "fit c md (map_sum id f (request ae c m e))"
  using assms by (cases "endpoint (ae_http ae) c e") (simp_all add: request_def fit_def sent_def)

lemma fit_plain: "(rm_retry_safe md \<longrightarrow> m \<in> {''GET'', ''DELETE''}) \<Longrightarrow> fit c md (request ae c m e)"
  using fit_simple [of c md id m ae e] by (simp add: sum.map_id)

lemmas api_defs =
  api_configs_def api_update_config_def api_patch_config_def api_update_geo_databases_def
  api_connections_def api_connections_ws_def api_close_connection_def api_close_all_connections_def
  api_dns_query_def api_logs_def api_logs_ws_def api_structured_logs_def api_structured_logs_ws_def
  api_hello_def api_collect_garbage_def api_flush_fake_ip_cache_def api_flush_dns_cache_def
  api_restart_def api_upgrade_def api_upgrade_ui_def api_upgrade_geo_databases_def api_memory_def
  api_memory_ws_def api_groups_def api_group_def api_group_delay_def api_proxies_def api_proxy_def
  api_select_proxy_def api_clear_proxy_selection_def api_proxy_providers_def api_proxy_provider_def
  api_update_proxy_provider_def api_healthcheck_proxy_provider_def api_provider_proxy_def
  api_rules_def api_patch_rules_def api_rule_providers_def api_update_rule_provider_def
  api_storage_get_def api_storage_put_def api_storage_delete_def api_traffic_def api_traffic_ws_def
  api_version_def

lemmas method_defs = http_get_def http_post_def http_put_def http_patch_def http_delete_def

lemma proxy_timeout_guard:
  "api_proxy_delay ae decode c n query w =
     (if 32767 < as_millis (dq_timeout query)
      then (Inl (InvalidArgument ''timeout'' ''proxy delay endpoints accept at most 32767 milliseconds''), w)
      else at_segments ae c ''/proxies'' [n, ''delay'']
        (\<lambda>u. send_json ae decode c (metadata_new ''proxy_delay'' ''GET'' False)
           (Inr (add_query (query_pairs query) (request_url c ''GET'' u)))) w)"
  "api_provider_proxy_delay ae decode c provider n query w =
     (if 32767 < as_millis (dq_timeout query)
      then (Inl (InvalidArgument ''timeout'' ''proxy delay endpoints accept at most 32767 milliseconds''), w)
      else at_segments ae c ''/providers/proxies'' [provider, n, ''healthcheck'']
        (\<lambda>u. send_json ae decode c (metadata_new ''provider_proxy_delay'' ''GET'' False)
           (Inr (add_query (query_pairs query) (request_url c ''GET'' u)))) w)"
  by (simp_all add: api_proxy_delay_def api_provider_proxy_delay_def validate_proxy_timeout_def)

lemma proxy_timeout_sends:
  assumes "bounded_policy (cl_retry_policy c) n"
  shows "sent_well n c (snd (snd (api_proxy_delay (traced_api ae) decode c m query (w, []))))"
    and "sent_well n c (snd (snd (api_provider_proxy_delay (traced_api ae) decode c provider m query (w, []))))"
  unfolding proxy_timeout_guard
  by (auto intro!: bounded_policy.send_json_sends [OF assms refl] bounded_policy.at_segments_sends [OF assms])

lemma operation_sends:
  assumes "bounded_policy (cl_retry_policy c) n" and "operation (traced_api ae) c f"
  shows "sent_well n c (snd (f (w, [])))"
  by (rule operation.cases [OF assms(2)]; (elim ssubst);
      ((rule proxy_timeout_sends [OF assms(1)]) |
       (simp only: api_defs method_defs version_metadata_def;
        intro bounded_policy.sends [OF assms(1) refl] bounded_policy.at_segments_sends [OF assms(1)] fit_simple fit_plain;
        simp)))

text \<open>
  C14. A request that the client sends more than once is one that may be repeated. Under the
  exponential policy every operation of the client sends one request over and over: at most one
  time more than the configured retries, with the client's credential, and more than once only
  when it is a read or a removal without a body. Configuration changes, selections, flushes,
  upgrades and restarts reach the controller at most once per call.
\<close>

theorem operations_repeat_safely:
  assumes "\<And>lo hi n j. length (backoff lo hi n j) = n"
    and "cl_retry_policy c = exponential_policy backoff er"
    and "operation (traced_api ae) c f"
  shows "\<exists>k q. snd (f (w, [])) = replicate k q \<and> k \<le> er_max_retries er + 1 \<and>
    (k \<le> 1 \<or> ar_method q \<in> {''GET'', ''DELETE''} \<and> ar_json q = None) \<and>
    (k = 0 \<or> ar_authorization q = cl_authorization c)"
proof -
  have "bounded_policy (cl_retry_policy c) (er_max_retries er)"
    using exponential_bounded [OF assms(1), where er = er] by (simp add: assms(2))
  from operation_sends [OF this assms(3), of w] show ?thesis
    by (simp add: sent_well_def repeatable_def)
qed

text \<open>A controller that answers 503 twice, then 200, over a client with three retries.\<close>

definition demo_url :: url where
  "demo_url = \<lparr>url_scheme = ''http'', url_authority = ''127.0.0.1'', url_path = ''/'', url_query = None,
     url_fragment = None, url_cannot_be_a_base = False\<rparr>"

definition demo_api :: "nat api_env" where
  "demo_api =
     \<lparr>ae_http = \<lparr>he_platform = Unix, he_os = ''linux'', he_local_url = demo_url, he_url_parses = (\<lambda>_. False),
        he_join = (\<lambda>u e. Inr (u\<lparr>url_path := url_path u @ e\<rparr>)),
        he_push_segments = (\<lambda>u ss. Some (u\<lparr>url_path := url_path u @ concat (map (\<lambda>s. ''/'' @ s) ss)\<rparr>)),
        he_header = Inr, he_build = (\<lambda>_. Inr ())\<rparr>,
      ae_sleep = (\<lambda>_ w. w), ae_parse = (\<lambda>_. None), ae_lossy = id,
      ae_transport = (\<lambda>_ w. (Inr \<lparr>rs_status = (if w < 2 then 503 else 200), rs_chunks = []\<rparr>, w + 1)),
      ae_bytes = (\<lambda>_ w. (Inr [], w)),
      ae_upgrade = (\<lambda>_ w. (Inr \<lparr>rs_status = 101, rs_chunks = []\<rparr>, w)),
      ae_into_websocket = (\<lambda>_ w. (Inr 0, w))\<rparr>"

definition demo_client :: api_client where
  "demo_client = \<lparr>cl_host = Http demo_url, cl_base_url = demo_url, cl_authorization = Some ''Bearer s'',
     cl_retry_policy = exponential_policy demo_backoff conservative\<rparr>"

theorem operations_repeat_safely_witness:
  "(\<exists>k q. snd (snd (api_storage_delete (traced_api demo_api) demo_client (StorageKey ''k'') (0, []))) = replicate k q \<and>
      k = 3 \<and> ar_method q = ''DELETE'' \<and> k \<le> er_max_retries conservative + 1) \<and>
   (\<exists>k q. snd (snd (api_restart (traced_api demo_api) (\<lambda>_. Inr JNull) demo_client (0, []))) = replicate k q \<and> k = 1)"
proof -
  have del: "snd (snd (api_storage_delete (traced_api demo_api) demo_client (StorageKey ''k'') (0, []))) =
      replicate 3 (request_url demo_client ''DELETE'' (demo_url\<lparr>url_path := ''/storage/k''\<rparr>))"
    by (simp add: api_storage_delete_def at_segments_def endpoint_with_segments_def endpoint_def send_empty_def
        client_request_def send_request_def execute_def execute_loop.simps send_attempt_def ensure_success_def
        demo_api_def demo_client_def demo_url_def exponential_policy_def conservative_def demo_backoff_def
        transient_status_def request_url_def numeral_eq_Suc)
  have res: "snd (snd (api_restart (traced_api demo_api) (\<lambda>_. Inr JNull) demo_client (0, []))) =
      replicate 1 (request_url demo_client ''POST'' (demo_url\<lparr>url_path := ''/restart''\<rparr>))"
    by (simp add: api_restart_def send_json_def http_post_def request_def endpoint_def
        client_request_def send_request_def execute_def execute_loop.simps send_attempt_def ensure_success_def
        demo_api_def demo_client_def demo_url_def exponential_policy_def conservative_def demo_backoff_def
        transient_status_def request_url_def numeral_eq_Suc)
  have len: "\<And>lo hi n j. length (demo_backoff lo hi n j) = n"
    by (simp add: demo_backoff_def)
  have pol: "cl_retry_policy demo_client = exponential_policy demo_backoff conservative"
    by (simp add: demo_client_def)
  obtain k q where "snd (snd (api_storage_delete (traced_api demo_api) demo_client (StorageKey ''k'') (0, []))) = replicate k q"
    "k \<le> er_max_retries conservative + 1"
    using operations_repeat_safely [OF len pol op_storage_delete [where key = "StorageKey ''k''"], where ae = demo_api and w = 0] by blast
  then have "k = 3 \<and> k \<le> er_max_retries conservative + 1"
    using del by (metis length_replicate)
  then have "3 \<le> er_max_retries conservative + 1"
    by simp
  then show ?thesis
    unfolding del res
    by (intro conjI exI [of _ 3] exI [of _ 1] exI [of _ "request_url demo_client ''DELETE'' (demo_url\<lparr>url_path := ''/storage/k''\<rparr>)"]
        exI [of _ "request_url demo_client ''POST'' (demo_url\<lparr>url_path := ''/restart''\<rparr>)"])
      (simp_all add: request_url_def)
qed

text \<open>Whatever the policy, the attempts of one operation send only its request.\<close>

lemma loop_sends_only:
  assumes "\<And>w rs. \<exists>x w'. attempt (w, rs) = (x, w', rs @ sent r)"
  shows "set (snd (snd (execute_loop retryable (ae_sleep (traced_api ae)) attempt delays (w, rs)))) \<subseteq> set rs \<union> set (sent r)"
proof (induction delays arbitrary: w rs)
  case Nil
  obtain x w' where "attempt (w, rs) = (x, w', rs @ sent r)"
    using assms by blast
  then show ?case
    by (cases x) (auto simp: execute_loop.simps [of _ _ _ "[]"])
next
  case (Cons d ds)
  obtain x w' where "attempt (w, rs) = (x, w', rs @ sent r)"
    using assms by blast
  then show ?case
    using Cons.IH [of "ae_sleep ae d w'" "rs @ sent r"]
    by (cases x) (auto simp: execute_loop.simps [of _ _ _ "d # ds"])
qed

lemma send_json_sends_only:
  "set (snd (snd (send_json (traced_api ae) decode c md r (w, [])))) \<subseteq> set (sent r)"
proof -
  have "\<exists>x w'. send_attempt (ae_parse ae) (ae_lossy ae) (rm_operation md) r (ae_transport (traced_api ae)) (w, rs) =
      (x, w', rs @ sent r)" for w rs
    by (auto simp: send_attempt_def sent_def split: sum.splits prod.splits)
  from loop_sends_only [OF this, where rs = "[]"]
  have "set (snd (snd (client_request (traced_api ae) c md r (w, [])))) \<subseteq> set (sent r)"
    by (simp add: client_request_def send_request_def execute_def)
  then show ?thesis
    by (auto simp: send_json_def decode_json_def split: sum.splits prod.splits)
qed

lemma delay_sends_only:
  assumes "q \<in> set (snd (snd (at_segments (traced_api ae) c e segments
    (\<lambda>u. send_json (traced_api ae) decode c md (Inr (add_query pairs (request_url c m u)))) (w, []))))"
  shows "ar_query q = pairs"
  using assms send_json_sends_only [of ae decode c md "Inr (add_query pairs (request_url c m u))" w for u]
  by (fastforce simp: at_segments_def sent_def add_query_def request_url_def split: sum.splits)

text \<open>
  C25. The delay tests never ask the core for a time-out it cannot hold. A query that was built is
  between one millisecond and the 32-bit bound of the group test; the tests of a single proxy refuse
  one above 32767 milliseconds before anything is sent, and every request they send names the
  time-out of the query, which the core's 16-bit parser can read back.
\<close>

theorem delay_timeouts_fit:
  assumes "delay_query_new u timeout = Inr query"
  shows "1 \<le> as_millis timeout \<and> as_millis timeout \<le> 2 ^ 31 - 1 \<and>
    list_all (\<lambda>q. (''timeout'', dec (as_millis timeout)) \<in> set (ar_query q))
      (snd (snd (api_group_delay (traced_api ae) group_decode c n query (w, [])))) \<and>
    (if as_millis timeout < 2 ^ 15
     then list_all (\<lambda>q. map_of (ar_query q) ''timeout'' = Some (dec (as_millis timeout)) \<and>
         digits_value 0 (dec (as_millis timeout)) < 2 ^ 15)
       (snd (snd (api_proxy_delay (traced_api ae) decode c n query (w, []))) @
        snd (snd (api_provider_proxy_delay (traced_api ae) decode c provider n query (w, []))))
     else (\<exists>m. api_proxy_delay (traced_api ae) decode c n query (w, []) = (Inl (InvalidArgument ''timeout'' m), w, []) \<and>
        api_provider_proxy_delay (traced_api ae) decode c provider n query (w, []) =
          (Inl (InvalidArgument ''timeout'' m), w, [])))"
proof -
  have query: "dq_timeout query = timeout" and bounds: "1 \<le> as_millis timeout" "as_millis timeout \<le> 2 ^ 31 - 1"
    using assms by (auto simp: delay_query_new_def split: if_splits)
  have pairs: "map_of (query_pairs query) ''timeout'' = Some (dec (as_millis timeout))"
    by (simp add: query_pairs_def query)
  then have member: "(''timeout'', dec (as_millis timeout)) \<in> set (query_pairs query)"
    by (rule map_of_SomeD)
  have g: "list_all (\<lambda>q. (''timeout'', dec (as_millis timeout)) \<in> set (ar_query q))
      (snd (snd (api_group_delay (traced_api ae) group_decode c n query (w, []))))"
    using member by (auto simp: list_all_iff api_group_delay_def dest!: delay_sends_only)
  have p: "q \<in> set (snd (snd (api_proxy_delay (traced_api ae) decode c n query (w, [])))) \<Longrightarrow> ar_query q = query_pairs query"
    "q \<in> set (snd (snd (api_provider_proxy_delay (traced_api ae) decode c provider n query (w, [])))) \<Longrightarrow>
      ar_query q = query_pairs query" for q
    by (auto simp: proxy_timeout_guard dest!: delay_sends_only split: if_splits)
  show ?thesis
  proof (cases "as_millis timeout < 2 ^ 15")
    case True
    then show ?thesis
      using bounds g p pairs by (auto simp: list_all_iff)
  next
    case False
    then show ?thesis
      using bounds g by (simp add: proxy_timeout_guard query)
  qed
qed

theorem delay_timeouts_fit_witness:
  "\<exists>query. delay_query_new demo_url (from_secs 40) = Inr query \<and>
     (\<exists>m. api_proxy_delay (traced_api demo_api) (\<lambda>_. Inr JNull) demo_client ''a'' query (0, []) =
        (Inl (InvalidArgument ''timeout'' m), 0, []))"
proof -
  have q: "delay_query_new demo_url (from_secs 40) = Inr \<lparr>dq_url = demo_url, dq_timeout = from_secs 40, dq_expected = None\<rparr>"
    by (simp add: delay_query_new_def as_millis_def from_secs_def)
  have "\<not> as_millis (from_secs 40) < 2 ^ 15"
    by (simp add: as_millis_def from_secs_def)
  then show ?thesis
    using delay_timeouts_fit [OF q, where ae = demo_api and c = demo_client and n = "''a''" and w = 0
        and decode = "\<lambda>_. Inr JNull" and group_decode = "\<lambda>_. Inr JNull" and provider = "''b''"] q
    by (auto simp only: if_False)
qed

end
