(* ===== verification/Acl.thy ===== *)
theory Acl
  imports Log Yaml Paths
begin

text \<open>
  Access to the service's pipe on Windows: the security descriptor of the pipe and of the file with
  the admitted users (\<^verbatim>\<open>nyanpasu_ipc/src/utils/acl.rs\<close>), and that file itself, a list of SIDs
  (\<^verbatim>\<open>nyanpasu-service-runtime/src/utils/acl.rs\<close>). The security functions of Windows are the record
  \<open>win32\<close>; a SID is its binary form, so its length in bytes is \<open>length\<close>. An \<^verbatim>\<open>anyhow\<close> error is its
  outermost context.
\<close>

section \<open>Results\<close>

definition and_then :: "'e + 'a \<Rightarrow> ('a \<Rightarrow> 'e + 'b) \<Rightarrow> 'e + 'b" where
  "and_then r f = (case r of Inl e \<Rightarrow> Inl e | Inr x \<Rightarrow> f x)"

definition with_context :: "string \<Rightarrow> string + 'a \<Rightarrow> string + 'a" where
  "with_context msg r = map_sum (\<lambda>_. msg) id r"

text \<open>\<^verbatim>\<open>collect::<Result<Vec<_>>>\<close>: the first error ends the iteration.\<close>

fun collect_results :: "('a \<Rightarrow> 'e + 'b) \<Rightarrow> 'a list \<Rightarrow> 'e + 'b list" where
  "collect_results f [] = Inr []"
| "collect_results f (x # xs) =
     and_then (f x) (\<lambda>y. and_then (collect_results f xs) (\<lambda>ys. Inr (y # ys)))"

lemma and_then_Inr [simp]: "and_then r f = Inr y \<longleftrightarrow> (\<exists>x. r = Inr x \<and> f x = Inr y)"
  by (cases r) (auto simp: and_then_def)

lemma and_then_simps [simp]: "and_then (Inl e) f = Inl e" "and_then (Inr x) f = f x"
  by (simp_all add: and_then_def)

lemma with_context_Inr [simp]: "with_context msg r = Inr y \<longleftrightarrow> r = Inr y"
  by (cases r) (auto simp: with_context_def)

lemma with_context_simps [simp]: "with_context msg (Inl e) = Inl msg" "with_context msg (Inr x) = Inr x"
  by (simp_all add: with_context_def)

lemma collect_results_Inr: "collect_results f xs = Inr ys \<longleftrightarrow> map f xs = map Inr ys"
proof (induction xs arbitrary: ys)
  case Nil
  then show ?case by auto
next
  case (Cons x xs)
  then show ?case by (cases ys) auto
qed

section \<open>Security descriptors\<close>

type_synonym sid = string

definition ADMINISTRATORS_GROUP_SID :: string where "ADMINISTRATORS_GROUP_SID = ''S-1-5-32-544''"
definition SYSTEM_SID :: string where "SYSTEM_SID = ''S-1-5-18''"
definition GENERIC_ALL :: u32 where "GENERIC_ALL = push_bit 28 1"

record access_allowed_ace =
  ace_mask :: u32
  ace_sid :: sid

record security_descriptor =
  sd_owner :: "sid option"
  sd_group :: "sid option"
  sd_dacl :: "access_allowed_ace list option"

text \<open>
  The functions of Windows the source calls. Adding an entry is given the size of the list's buffer,
  the entries it has and the new one.
\<close>

record win32 =
  wa_initialize_descriptor :: "string + unit"
  wa_string_sid :: "string \<Rightarrow> string + sid"
  wa_initialize_acl :: "nat \<Rightarrow> string + unit"
  wa_add_ace :: "nat \<Rightarrow> access_allowed_ace list \<Rightarrow> access_allowed_ace \<Rightarrow> string + unit"
  wa_set_dacl :: "string + unit"
  wa_set_owner :: "string + unit"
  wa_set_group :: "string + unit"
  wa_to_sddl :: "security_descriptor \<Rightarrow> string + string"

text \<open>\<^verbatim>\<open>size_of::<ACL>()\<close> and \<^verbatim>\<open>size_of::<ACCESS_ALLOWED_ACE>()\<close>.\<close>

definition SIZE_OF_ACL :: nat where "SIZE_OF_ACL = 8"
definition SIZE_OF_ACCESS_ALLOWED_ACE :: nat where "SIZE_OF_ACCESS_ALLOWED_ACE = 12"

definition calculate_ace_size :: "sid \<Rightarrow> nat" where
  "calculate_ace_size sid = SIZE_OF_ACCESS_ALLOWED_ACE + length sid - 4"

definition calculate_acl_size :: "sid list \<Rightarrow> nat" where
  "calculate_acl_size sids = foldl (\<lambda>total sid. total + calculate_ace_size sid) SIZE_OF_ACL sids + 256"

fun add_sids_to_acl ::
  "win32 \<Rightarrow> nat \<Rightarrow> access_allowed_ace list \<Rightarrow> (sid \<times> u32 option) list \<Rightarrow> string + access_allowed_ace list" where
  "add_sids_to_acl win capacity acl [] = Inr acl"
| "add_sids_to_acl win capacity acl ((sid, permissions) # sids) =
     (let ace = \<lparr>ace_mask = (case permissions of Some p \<Rightarrow> p | None \<Rightarrow> GENERIC_ALL), ace_sid = sid\<rparr>
      in and_then (with_context ''failed to add access allowed ace'' (wa_add_ace win capacity acl ace))
        (\<lambda>_. add_sids_to_acl win capacity (acl @ [ace]) sids))"

text \<open>The parameters are in the order of the source: first the group, then the owner.\<close>

definition set_owner_and_group ::
  "win32 \<Rightarrow> security_descriptor \<Rightarrow> sid \<Rightarrow> sid \<Rightarrow> string + security_descriptor" where
  "set_owner_and_group win sd grp owner =
     and_then (with_context ''failed to set owner'' (wa_set_owner win)) (\<lambda>_.
     and_then (with_context ''failed to set group'' (wa_set_group win)) (\<lambda>_.
       Inr (sd\<lparr>sd_owner := Some owner, sd_group := Some grp\<rparr>)))"

definition sid_or ::
  "win32 \<Rightarrow> string \<Rightarrow> string option \<Rightarrow> sid \<Rightarrow> string + sid" where
  "sid_or win msg given dflt =
     (case given of Some s \<Rightarrow> with_context msg (wa_string_sid win s) | None \<Rightarrow> Inr dflt)"

definition generate_security_descriptor_internal ::
  "win32 \<Rightarrow> (string \<times> u32 option) list \<Rightarrow> string option \<Rightarrow> string option \<Rightarrow> string + string" where
  "generate_security_descriptor_internal win sids_and_permissions owner grp =
     and_then (with_context ''failed to initialize security descriptor'' (wa_initialize_descriptor win)) (\<lambda>_.
     and_then (with_context ''failed to convert system sid string to psid'' (wa_string_sid win SYSTEM_SID)) (\<lambda>system_sid.
     and_then (with_context ''failed to convert admins sid string to psid''
       (wa_string_sid win ADMINISTRATORS_GROUP_SID)) (\<lambda>admins_sid.
     and_then (sid_or win ''failed to convert owner sid string to psid'' owner admins_sid) (\<lambda>owner_sid.
     and_then (sid_or win ''failed to convert group sid string to psid'' grp system_sid) (\<lambda>group_sid.
     and_then (collect_results (\<lambda>(sid, permissions).
         and_then (with_context (''failed to convert sid string to psid: '' @ sid) (wa_string_sid win sid))
           (\<lambda>owned_sid. Inr (owned_sid, permissions))) sids_and_permissions) (\<lambda>sids.
     let psids = [(owner_sid, None), (group_sid, None)] @ sids;
         acl_size = calculate_acl_size (map fst psids)
     in and_then (with_context ''failed to initialize acl'' (wa_initialize_acl win (acl_size + 256))) (\<lambda>_.
     and_then (with_context ''failed to add sids to acl'' (add_sids_to_acl win (acl_size + 256) [] psids)) (\<lambda>acl.
     and_then (with_context ''failed to set dacl to security descriptor'' (wa_set_dacl win)) (\<lambda>_.
     and_then (with_context ''failed to set owner and group''
       (set_owner_and_group win \<lparr>sd_owner = None, sd_group = None, sd_dacl = Some acl\<rparr> owner_sid group_sid)) (\<lambda>sd.
     with_context ''failed to convert security descriptor to sddl string'' (wa_to_sddl win sd)))))))))))"

definition generate_windows_security_descriptor ::
  "win32 \<Rightarrow> string list \<Rightarrow> string option \<Rightarrow> string option \<Rightarrow> string + string" where
  "generate_windows_security_descriptor win sids owner grp =
     generate_security_descriptor_internal win (map (\<lambda>sid. (sid, None)) sids) owner grp"

definition generate_security_descriptor_with_permissions ::
  "win32 \<Rightarrow> (string \<times> u32) list \<Rightarrow> string option \<Rightarrow> string option \<Rightarrow> string + string" where
  "generate_security_descriptor_with_permissions win sids_and_permissions owner grp =
     generate_security_descriptor_internal win
       (map (\<lambda>(sid, permissions). (sid, Some permissions)) sids_and_permissions) owner grp"

section \<open>The file of admitted users\<close>

definition ACL_FILE_NAME :: string where "ACL_FILE_NAME = ''acl.list''"

text \<open>\<open>ae_set_sddl\<close> converts a descriptor and installs it on a file.\<close>

record 'w acl_env =
  ae_win32 :: win32
  ae_config_dir :: path
  ae_exists :: "path \<Rightarrow> 'w \<Rightarrow> bool \<times> 'w"
  ae_create :: "path \<Rightarrow> 'w \<Rightarrow> (string + unit) \<times> 'w"
  ae_set_sddl :: "path \<Rightarrow> string \<Rightarrow> 'w \<Rightarrow> (string + unit) \<times> 'w"
  ae_open_read :: "path \<Rightarrow> 'w \<Rightarrow> (string + unit) \<times> 'w"
  ae_read :: "path \<Rightarrow> 'w \<Rightarrow> (string + string) \<times> 'w"
  ae_open_truncate :: "path \<Rightarrow> 'w \<Rightarrow> (string + unit) \<times> 'w"
  ae_write_all :: "path \<Rightarrow> string \<Rightarrow> 'w \<Rightarrow> (string + unit) \<times> 'w"

definition get_acl_path :: "'w acl_env \<Rightarrow> path" where
  "get_acl_path ae = path_join Windows (ae_config_dir ae) ACL_FILE_NAME"

definition create_acl_file :: "'w acl_env \<Rightarrow> ('w, string + unit) state" where
  "create_acl_file ae = do {
     exists \<leftarrow> State (ae_exists ae (get_acl_path ae));
     if exists then ret (Inr ())
     else try_op (ret (with_context ''failed to generate sddl''
         (generate_windows_security_descriptor (ae_win32 ae) [] None None))) (\<lambda>sddl.
       try_op (State (ae_create ae (get_acl_path ae))) (\<lambda>_.
       State (ae_set_sddl ae (get_acl_path ae) sddl)))
   }"

definition acl_line :: "string \<Rightarrow> string option" where
  "acl_line line = (let line = trim line in if prefix ''S-'' line then Some line else None)"

definition read_acl_file :: "'w acl_env \<Rightarrow> ('w, string + string list) state" where
  "read_acl_file ae = do {
     exists \<leftarrow> State (ae_exists ae (get_acl_path ae));
     if \<not> exists then ret (Inr [])
     else do {
       opened \<leftarrow> State (ae_open_read ae (get_acl_path ae));
       try_op (ret (with_context ''failed to open acl file'' opened)) (\<lambda>_. do {
         s \<leftarrow> State (ae_read ae (get_acl_path ae));
         try_op (ret (with_context ''failed to read acl file'' s)) (\<lambda>s.
           ret (Inr (List.map_filter acl_line (lines s))))
       })
     }
   }"

definition write_acl_file :: "'w acl_env \<Rightarrow> string list \<Rightarrow> ('w, string + unit) state" where
  "write_acl_file ae list = do {
     opened \<leftarrow> State (ae_open_truncate ae (get_acl_path ae));
     try_op (ret (with_context ''failed to open acl file'' opened)) (\<lambda>_. do {
       written \<leftarrow> State (ae_write_all ae (get_acl_path ae) (str_join [NL] list));
       ret (with_context ''failed to write acl file'' written)
     })
   }"

text \<open>The Windows part of \<^verbatim>\<open>install\<close>: the user joins the set of the listed ones, written in order.\<close>

definition admit_user :: "'w acl_env \<Rightarrow> string \<Rightarrow> ('w, string + unit) state" where
  "admit_user ae user =
     try_op (create_acl_file ae) (\<lambda>_.
     try_op (read_acl_file ae) (\<lambda>list.
       write_acl_file ae (sort (remdups (user # list)))))"

section \<open>The descriptor that is built\<close>

lemma wp_State: "wp (State f) Q s = (case f s of (a, s') \<Rightarrow> Q a s')"
  by (simp add: wp_def)

definition ace_of :: "sid \<times> u32 option \<Rightarrow> access_allowed_ace" where
  "ace_of = (\<lambda>(sid, permissions). \<lparr>ace_mask = (case permissions of Some p \<Rightarrow> p | None \<Rightarrow> GENERIC_ALL), ace_sid = sid\<rparr>)"

text \<open>The bytes an access control list takes: its header, and per entry 8 bytes and the SID.\<close>

definition acl_bytes :: "access_allowed_ace list \<Rightarrow> nat" where
  "acl_bytes acl = 8 + sum_list (map (\<lambda>ace. 8 + length (ace_sid ace)) acl)"

lemma calculate_acl_size_eq: "calculate_acl_size sids = 264 + sum_list (map (\<lambda>sid. 8 + length sid) sids)"
proof -
  have "foldl (\<lambda>total sid. total + calculate_ace_size sid) n sids = n + sum_list (map (\<lambda>sid. 8 + length sid) sids)" for n
    by (induction sids arbitrary: n) (simp_all add: calculate_ace_size_def SIZE_OF_ACCESS_ALLOWED_ACE_def)
  then show ?thesis by (simp add: calculate_acl_size_def SIZE_OF_ACL_def)
qed

lemma add_sids_fit:
  assumes "\<And>acl ace. acl_bytes (acl @ [ace]) \<le> capacity \<Longrightarrow> wa_add_ace win capacity acl ace = Inr ()"
    and "acl_bytes (acl @ map ace_of psids) \<le> capacity"
  shows "add_sids_to_acl win capacity acl psids = Inr (acl @ map ace_of psids)"
  using assms(2)
proof (induction psids arbitrary: acl)
  case Nil
  then show ?case by simp
next
  case (Cons p psids)
  obtain sid permissions where p: "p = (sid, permissions)" by (cases p)
  have "wa_add_ace win capacity acl (ace_of p) = Inr ()"
    using Cons.prems by (intro assms(1)) (simp add: acl_bytes_def)
  moreover have "add_sids_to_acl win capacity (acl @ [ace_of p]) psids = Inr ((acl @ [ace_of p]) @ map ace_of psids)"
    using Cons.prems by (intro Cons.IH) simp
  ultimately show ?case by (simp add: p Let_def ace_of_def)
qed

lemma sum_list_sids_le: "(\<And>sid. sid \<in> set sids \<Longrightarrow> length sid \<le> 68) \<Longrightarrow> sum_list (map (\<lambda>sid. 8 + length sid) sids) \<le> 76 * length sids"
proof (induction sids)
  case Nil
  then show ?case by simp
next
  case (Cons a sids)
  have "length a \<le> 68" using Cons.prems by simp
  moreover have "sum_list (map (\<lambda>sid. 8 + length sid) sids) \<le> 76 * length sids" using Cons by simp
  ultimately show ?case by simp
qed


definition demo_win32 :: win32 where
  "demo_win32 =
     \<lparr>wa_initialize_descriptor = Inr (), wa_string_sid = (\<lambda>s. Inr (take 68 s)), wa_initialize_acl = (\<lambda>_. Inr ()),
      wa_add_ace = (\<lambda>n acl ace. if acl_bytes (acl @ [ace]) \<le> n then Inr () else Inl ''the list is full''),
      wa_set_dacl = Inr (), wa_set_owner = Inr (), wa_set_group = Inr (),
      wa_to_sddl = (\<lambda>sd. case (sd_owner sd, sd_group sd) of
        (Some owner, Some grp) \<Rightarrow> Inr (''O:'' @ owner @ ''G:'' @ grp) | _ \<Rightarrow> Inl ''no owner'')\<rparr>"


section \<open>The admitted users\<close>

lemma lines_aux_line:
  assumes "NL \<notin> set e"
  shows "lines_aux acc (e @ NL # rest) =
    (let l = rev e @ acc in rev (if l \<noteq> [] \<and> hd l = char_of (13 :: nat) then tl l else l)) # lines_aux [] rest"
  using assms by (induction e arbitrary: acc) (auto simp: Let_def)

lemma lines_aux_last: "NL \<notin> set e \<Longrightarrow> lines_aux acc e = (if rev e @ acc = [] then [] else [rev acc @ e])"
  by (induction e arbitrary: acc) auto

lemma trim_end_trim_start: "trim_start s = [] \<Longrightarrow> trim_end s = []"
  by (cases s) auto

lemma trim_Nil [simp]: "trim [] = []"
  by (simp add: trim_def trim_start.simps)

lemma trim_start_cr [simp]: "trim_start [char_of (13 :: nat)] = []"
  by (simp add: trim_start.simps whitespace_len_def byte_at_def Let_def)

lemma trim_end_last_cr: "trim_end (s @ [char_of (13 :: nat)]) \<noteq> s @ [char_of (13 :: nat)]"
  by (induction s) auto

text \<open>An entry the list keeps as it is: one line, without white space around it.\<close>

definition plain_entry :: "string \<Rightarrow> bool" where
  "plain_entry e \<longleftrightarrow> NL \<notin> set e \<and> trim e = e"

lemma trim_start_length: "length (trim_start s) \<le> length s"
  by (induction s rule: trim_start.induct) (subst trim_start.simps, auto)

lemma trim_end_length: "length (trim_end s) \<le> length s"
  by (induction s) auto

lemma trim_start_shorter: "trim_start s = s \<or> length (trim_start s) < length s"
proof (cases "whitespace_len s = 0 \<or> s = []")
  case True
  then show ?thesis by (subst trim_start.simps) simp
next
  case False
  then have "length (drop (whitespace_len s) s) < length s" by simp
  with trim_start_length [of "drop (whitespace_len s) s"] have "length (trim_start (drop (whitespace_len s) s)) < length s"
    by (rule order.strict_trans1)
  with False show ?thesis by (subst (2) trim_start.simps) simp
qed

lemma trim_fixed: "trim s = s \<longleftrightarrow> trim_start s = s \<and> trim_end s = s"
  using trim_start_shorter [of s] trim_end_length [of "trim_start s"] by (auto simp: trim_def)

lemma trim_no_cr:
  assumes "trim e = e" and "e \<noteq> []"
  shows "last e \<noteq> char_of (13 :: nat)"
  using assms trim_end_last_cr [of "butlast e"] by (metis append_butlast_last_id trim_fixed)

lemma acl_lines_join:
  assumes "list_all plain_entry es"
  shows "List.map_filter acl_line (lines (str_join [NL] es)) = filter (prefix ''S-'') es"
  using assms
proof (induction es rule: induct_list012)
  case 1
  show ?case by (simp add: lines_def map_filter_simps)
next
  case (2 e)
  then show ?case
    by (auto simp: lines_def lines_aux_last plain_entry_def map_filter_simps acl_line_def Let_def)
next
  case (3 x y zs)
  have x: "NL \<notin> set x" "trim x = x" using 3 by (simp_all add: plain_entry_def)
  have "hd (rev x) \<noteq> char_of (13 :: nat)" if "x \<noteq> []"
    using that trim_no_cr [OF x(2)] by (simp add: hd_rev)
  then have "lines (str_join [NL] (x # y # zs)) = x # lines (str_join [NL] (y # zs))"
    using lines_aux_line [OF x(1), of "[]" "str_join [NL] (y # zs)"] by (auto simp: lines_def Let_def)
  with 3 x show ?case
    by (auto simp: map_filter_simps acl_line_def Let_def)
qed

lemma byte_at_append: "i < length a \<Longrightarrow> byte_at (a @ b) i = byte_at a i"
  by (simp add: byte_at_def nth_append)

definition whitespace_bytes :: "nat \<Rightarrow> nat \<Rightarrow> nat \<Rightarrow> nat" where
  "whitespace_bytes a b c =
     (if (9 \<le> a \<and> a \<le> 13) \<or> a = 32 then 1
      else if a = 194 \<and> (b = 133 \<or> b = 160) then 2
      else if (a = 225 \<and> b = 154 \<and> c = 128) \<or> (a = 227 \<and> b = 128 \<and> c = 128)
        \<or> (a = 226 \<and> b = 129 \<and> c = 159)
        \<or> (a = 226 \<and> b = 128 \<and> (128 \<le> c \<and> c \<le> 138 \<or> c = 168 \<or> c = 169 \<or> c = 175)) then 3
      else 0)"

lemma whitespace_len_bytes: "whitespace_len s = whitespace_bytes (byte_at s 0) (byte_at s 1) (byte_at s 2)"
  by (simp only: whitespace_len_def whitespace_bytes_def Let_def)

lemma whitespace_bytes_256:
  "whitespace_bytes 256 b c = 0"
  "0 < whitespace_bytes a 256 c \<Longrightarrow> whitespace_bytes a b' c' = 1 \<and> whitespace_bytes a 256 c = 1"
  "0 < whitespace_bytes a b 256 \<Longrightarrow> whitespace_bytes a b c' = whitespace_bytes a b 256 \<and> whitespace_bytes a b 256 \<le> 2"
  by (auto simp: whitespace_bytes_def split: if_splits)

lemma whitespace_bytes_le: "whitespace_bytes a b c \<le> 3"
  by (simp add: whitespace_bytes_def)

lemma byte_at_far: "length a \<le> i \<Longrightarrow> byte_at a i = 256"
  by (simp add: byte_at_def)

lemma whitespace_len_append:
  assumes "0 < whitespace_len a"
  shows "whitespace_len (a @ b) = whitespace_len a \<and> whitespace_len a \<le> length a"
proof -
  consider "length a = 0" | "length a = 1" | "length a = 2" | "3 \<le> length a" by linarith
  then show ?thesis
  proof cases
    case 1
    then have "whitespace_len a = 0" by (simp add: whitespace_len_bytes byte_at_far whitespace_bytes_256(1))
    with assms show ?thesis by simp
  next
    case 2
    then have "byte_at a 1 = 256" "byte_at (a @ b) 0 = byte_at a 0" by (simp_all add: byte_at_far byte_at_append)
    with whitespace_bytes_256(2) assms have "whitespace_len (a @ b) = 1 \<and> whitespace_len a = 1"
      unfolding whitespace_len_bytes by metis
    with 2 show ?thesis by simp
  next
    case 3
    then have "byte_at a 2 = 256" "byte_at (a @ b) 0 = byte_at a 0" "byte_at (a @ b) 1 = byte_at a 1"
      by (simp_all add: byte_at_far byte_at_append)
    with whitespace_bytes_256(3) assms have "whitespace_len (a @ b) = whitespace_len a \<and> whitespace_len a \<le> 2"
      unfolding whitespace_len_bytes by metis
    with 3 show ?thesis by simp
  next
    case 4
    then have "byte_at (a @ b) 0 = byte_at a 0" by (intro byte_at_append) linarith
    with 4 show ?thesis
      using whitespace_bytes_le [of "byte_at a 0" "byte_at a 1" "byte_at a 2"]
      by (simp add: whitespace_len_bytes byte_at_append)
  qed
qed

lemma trim_start_blank_append: "trim_start a = [] \<Longrightarrow> trim_start b = [] \<Longrightarrow> trim_start (a @ b) = []"
proof (induction a rule: trim_start.induct)
  case (1 s)
  show ?case
  proof (cases "s = []")
    case True
    with 1 show ?thesis by simp
  next
    case False
    with 1(2) have pos: "0 < whitespace_len s" "trim_start (drop (whitespace_len s) s) = []"
      by (subst (asm) trim_start.simps, auto split: if_splits)+
    then have "trim_start (drop (whitespace_len s) s @ b) = []" using 1 False by auto
    then show ?thesis
      using pos False whitespace_len_append [OF pos(1), of b]
      by (subst trim_start.simps) simp
  qed
qed

lemma trim_end_rest: "\<exists>ws. s = trim_end s @ ws \<and> trim_start ws = []"
  by (induction s) (auto intro: exI [of _ "[]"] simp: trim_start.simps [of "[]"])

lemma trim_end_idem: "trim_end (trim_end s) = trim_end s"
proof (induction s)
  case (Cons c cs)
  obtain ws where ws: "cs = trim_end cs @ ws" "trim_start ws = []" using trim_end_rest by blast
  have "trim_start (c # trim_end cs) = [] \<Longrightarrow> trim_start (c # cs) = []"
    using trim_start_blank_append [of "c # trim_end cs" ws] ws by simp
  with Cons show ?case by auto
qed simp

lemma trim_start_fixed: "trim_start s = s \<longleftrightarrow> whitespace_len s = 0 \<or> s = []"
proof
  assume "trim_start s = s"
  then have "whitespace_len s \<noteq> 0 \<Longrightarrow> s \<noteq> [] \<Longrightarrow> length (trim_start (drop (whitespace_len s) s)) = length s"
    by (subst (asm) trim_start.simps) simp
  moreover have "length (trim_start (drop (whitespace_len s) s)) \<le> length s - whitespace_len s"
    using trim_start_length [of "drop (whitespace_len s) s"] by simp
  ultimately show "whitespace_len s = 0 \<or> s = []" by (cases "s = []"; cases "whitespace_len s = 0") force+
next
  assume "whitespace_len s = 0 \<or> s = []"
  then show "trim_start s = s" by (subst trim_start.simps) simp
qed

lemma trim_start_idem: "trim_start (trim_start s) = trim_start s"
  by (induction s rule: trim_start.induct) (subst (2 3) trim_start.simps, auto simp: trim_start_fixed)

lemma trim_idem [simp]: "trim (trim s) = trim s"
proof -
  let ?t = "trim_start s"
  obtain ws where ws: "?t = trim_end ?t @ ws" using trim_end_rest by blast
  have "whitespace_len ?t = 0 \<or> ?t = []" using trim_start_idem [of s] by (simp add: trim_start_fixed)
  then have "whitespace_len (trim_end ?t) = 0 \<or> trim_end ?t = []"
    using whitespace_len_append [of "trim_end ?t" ws] ws by (metis append_is_Nil_conv gr0I)
  then have "trim_start (trim_end ?t) = trim_end ?t" by (simp add: trim_start_fixed)
  then show ?thesis by (simp add: trim_def trim_end_idem)
qed

lemma set_trim_start: "set (trim_start s) \<subseteq> set s"
  by (induction s rule: trim_start.induct) (subst trim_start.simps, auto dest: in_set_dropD)

lemma set_trim: "set (trim s) \<subseteq> set s"
proof -
  obtain ws where "trim_start s = trim_end (trim_start s) @ ws" using trim_end_rest by blast
  then have "set (trim_end (trim_start s)) \<subseteq> set (trim_start s)" by (metis Un_upper1 set_append)
  with set_trim_start [of s] show ?thesis by (auto simp: trim_def)
qed

lemma lines_aux_no_newline: "NL \<notin> set acc \<Longrightarrow> l \<in> set (lines_aux acc s) \<Longrightarrow> NL \<notin> set l"
proof (induction acc s rule: lines_aux.induct)
  case (1 acc)
  then show ?case by (auto split: if_splits)
next
  case (2 acc c cs)
  then show ?case by (cases acc) (auto split: if_splits)
qed

lemma listed_plain: "list_all plain_entry (List.map_filter acl_line (lines s))"
  using set_trim lines_aux_no_newline [of "[]" _ s]
  by (fastforce simp: list_all_iff map_filter_def acl_line_def Let_def plain_entry_def lines_def split: if_splits)

lemma listed_sids: "e \<in> set (List.map_filter acl_line (lines s)) \<Longrightarrow> prefix ''S-'' e"
  by (auto simp: map_filter_def acl_line_def Let_def split: if_splits)

text \<open>What a file system promises about the file: its contents, and what the calls do to them.\<close>

definition acl_contents :: "'w acl_env \<Rightarrow> ('w \<Rightarrow> string option) \<Rightarrow> bool" where
  "acl_contents ae contents \<longleftrightarrow> (let p = get_acl_path ae in
     (\<forall>w. ae_exists ae p w = (contents w \<noteq> None, w)) \<and>
     (\<forall>w t. contents w = Some t \<longrightarrow> ae_open_read ae p w = (Inr (), w) \<and> ae_read ae p w = (Inr t, w)) \<and>
     (\<forall>w w'. ae_create ae p w = (Inr (), w') \<longrightarrow> contents w' = Some '''') \<and>
     (\<forall>w w' sddl. ae_set_sddl ae p sddl w = (Inr (), w') \<longrightarrow> contents w' = contents w) \<and>
     (\<forall>w w'. ae_open_truncate ae p w = (Inr (), w') \<longrightarrow> contents w' = Some '''') \<and>
     (\<forall>w w' s. contents w = Some '''' \<and> ae_write_all ae p s w = (Inr (), w') \<longrightarrow> contents w' = Some s))"

definition listed :: "string option \<Rightarrow> string list" where
  "listed contents = (case contents of None \<Rightarrow> [] | Some t \<Rightarrow> List.map_filter acl_line (lines t))"

lemma acl_contentsD:
  assumes "acl_contents ae contents"
  shows "ae_exists ae (get_acl_path ae) w = (contents w \<noteq> None, w)"
    and "contents w = Some t \<Longrightarrow> ae_open_read ae (get_acl_path ae) w = (Inr (), w)"
    and "contents w = Some t \<Longrightarrow> ae_read ae (get_acl_path ae) w = (Inr t, w)"
    and "ae_create ae (get_acl_path ae) w = (Inr (), w') \<Longrightarrow> contents w' = Some ''''"
    and "ae_set_sddl ae (get_acl_path ae) sddl w = (Inr (), w') \<Longrightarrow> contents w' = contents w"
    and "ae_open_truncate ae (get_acl_path ae) w = (Inr (), w') \<Longrightarrow> contents w' = Some ''''"
    and "contents w = Some '''' \<Longrightarrow> ae_write_all ae (get_acl_path ae) s w = (Inr (), w') \<Longrightarrow> contents w' = Some s"
  using assms unfolding acl_contents_def Let_def by blast+

lemma read_acl_listed:
  assumes "acl_contents ae contents"
  shows "run_state (read_acl_file ae) w = (Inr (listed (contents w)), w)"
proof (cases "contents w")
  case None
  with acl_contentsD(1) [OF assms] show ?thesis by (simp add: read_acl_file_def listed_def)
next
  case (Some t)
  with acl_contentsD(1-3) [OF assms] show ?thesis by (simp add: read_acl_file_def listed_def try_op_def)
qed

lemma listed_Nil [simp]: "listed None = []" "listed (Some []) = []"
  by (simp_all add: listed_def lines_def map_filter_simps)

lemma create_acl_keeps_list:
  assumes "acl_contents ae contents" and "run_state (create_acl_file ae) w = (Inr (), w')"
  shows "listed (contents w') = listed (contents w)"
proof (cases "contents w")
  case None
  have "wp (create_acl_file ae) (\<lambda>r v. r = Inr () \<longrightarrow> contents v = Some '''') w"
    unfolding create_acl_file_def
    by (simp add: wp_simps wp_State acl_contentsD(1) [OF assms(1)] None split: sum.split prod.split)
      (metis acl_contentsD(4,5) [OF assms(1)])
  with assms(2) None show ?thesis by (simp add: wp_def)
next
  case (Some t)
  with acl_contentsD(1) [OF assms(1)] assms(2) show ?thesis by (simp add: create_acl_file_def)
qed

lemma write_acl_written:
  assumes "acl_contents ae contents" and "run_state (write_acl_file ae es) w = (Inr (), w')"
  shows "contents w' = Some (str_join [NL] es)"
proof -
  have "wp (write_acl_file ae es) (\<lambda>r v. r = Inr () \<longrightarrow> contents v = Some (str_join [NL] es)) w"
    unfolding write_acl_file_def
    by (simp add: wp_simps wp_State with_context_def split: sum.split prod.split)
      (metis acl_contentsD(6,7) [OF assms(1)])
  with assms(2) show ?thesis by (simp add: wp_def)
qed


definition demo_acl :: "string option acl_env" where
  "demo_acl =
     \<lparr>ae_win32 = demo_win32, ae_config_dir = ''C'', ae_exists = (\<lambda>_ w. (w \<noteq> None, w)), ae_create = (\<lambda>_ _. (Inr (), Some '''')),
      ae_set_sddl = (\<lambda>_ _ w. (Inr (), w)), ae_open_read = (\<lambda>_ w. (Inr (), w)),
      ae_read = (\<lambda>_ w. (Inr (case w of Some t \<Rightarrow> t | None \<Rightarrow> ''''), w)), ae_open_truncate = (\<lambda>_ w. (Inr (), Some '''')),
      ae_write_all = (\<lambda>_ s w. (Inr (), Some s))\<rparr>"


end
