(* ===== verification/Commands.thy ===== *)
theory Commands
  imports Ipc Acl
begin

text \<open>
  The command line of the service (\<^verbatim>\<open>nyanpasu-service-runtime\<close>: \<^verbatim>\<open>cmds\<close>, \<^verbatim>\<open>utils\<close>, \<^verbatim>\<open>logging.rs\<close>,
  \<^verbatim>\<open>lib.rs\<close>, \<^verbatim>\<open>consts.rs\<close>): installing, removing, starting, stopping, restarting and updating the
  system service, reporting its status, and the remote calls to a running one. The crate
  \<^verbatim>\<open>service-manager\<close>, the file system, the tools of the system, the other processes and the answers
  of the running service are the record \<open>cmd_env\<close>, whose fields act on an abstract world.
\<close>

section \<open>Data\<close>

datatype target_os = LinuxOs | MacOs | WindowsOs

datatype sm_status = SmNotInstalled | SmStopped "string option" | SmRunning

datatype ipc_status = NotInstalledS | StoppedS | RunningS

text \<open>\<open>Panicked\<close> is no value of the source: the program panics with that message.\<close>

datatype command_error =
    PermissionDenied
  | ServiceNotInstalled
  | ServiceAlreadyInstalled
  | ServiceAlreadyStopped
  | ServiceAlreadyRunning
  | JoinError string
  | CommandIo string
  | SimdError string
  | CommandOther string
  | Panicked string

fun command_error_display :: "command_error \<Rightarrow> string" where
  "command_error_display PermissionDenied = ''permission denied''"
| "command_error_display ServiceNotInstalled = ''service not installed''"
| "command_error_display ServiceAlreadyInstalled = ''service not running''"
| "command_error_display ServiceAlreadyStopped = ''service not running''"
| "command_error_display ServiceAlreadyRunning = ''service already running''"
| "command_error_display (JoinError e) = ''join error: '' @ e"
| "command_error_display (CommandIo e) = ''io error: '' @ e"
| "command_error_display (SimdError e) = ''serde error: '' @ e"
| "command_error_display (CommandOther e) = e"
| "command_error_display (Panicked e) = e"

definition APP_NAME :: string where "APP_NAME = ''nyanpasu-service''"
definition SERVICE_LABEL :: string where "SERVICE_LABEL = ''moe.elaina.'' @ APP_NAME"
definition NYANPASU_USER_GROUP :: string where "NYANPASU_USER_GROUP = ''nyanpasu''"

datatype local_ipc_policy_arg = ForceArg | PreferArg | DisableArg

fun policy_of_arg :: "local_ipc_policy_arg \<Rightarrow> local_ipc_policy" where
  "policy_of_arg ForceArg = Force"
| "policy_of_arg PreferArg = Prefer"
| "policy_of_arg DisableArg = Disable"

fun policy_value :: "local_ipc_policy_arg \<Rightarrow> string" where
  "policy_value ForceArg = ''force''"
| "policy_value PreferArg = ''prefer''"
| "policy_value DisableArg = ''disable''"

record install_command =
  ic_user :: string
  ic_data_dir :: os_path
  ic_config_dir :: os_path
  ic_app_dir :: os_path
  ic_policy :: local_ipc_policy_arg

record server_context =
  sc_config_dir :: os_path
  sc_data_dir :: os_path
  sc_app_dir :: os_path
  sc_service :: bool
  sc_policy :: local_ipc_policy_arg

record status_command =
  st_json :: bool
  st_skip_service_check :: bool
  st_exit_code :: bool

record update_command =
  uc_check :: bool
  uc_from :: "os_path option"

datatype rpc_command =
    RpcStartCore core_type os_path
  | RpcStopCore
  | RpcRestartCore
  | RpcApplyConfig core_type os_path "revision_id_info option"
  | RpcCheckConfig core_type os_path
  | RpcRecoverCore
  | RpcInspectLogs
  | RpcSetDns "string list option"

datatype commands =
    CmdInstall install_command
  | CmdUninstall
  | CmdStart
  | CmdStop
  | CmdRestart
  | CmdServer server_context
  | CmdStatus status_command
  | CmdUpdate update_command
  | CmdRpc rpc_command
  | CmdCompletions string

record cli =
  cli_verbose :: bool
  cli_version :: bool
  cli_command :: "commands option"

text \<open>
  An argument of the installed service: a text of the program, or a path. The restart policy of the
  installed service is the default of the service manager's library.
\<close>

datatype service_arg = ArgText string | ArgPath os_path

record service_install_ctx =
  si_label :: string
  si_program :: os_path
  si_args :: "service_arg list"
  si_contents :: "string option"
  si_username :: "string option"
  si_working_directory :: "os_path option"
  si_environment :: "(string \<times> string) list option"
  si_autostart :: bool

record status_info =
  info_name :: string
  info_version :: string
  info_status :: ipc_status
  info_server :: "status_body option"

text \<open>
  What a command uses outside the sources. A label of the service manager is the text it was parsed
  from. \<open>ce_tool\<close> runs a program, \<open>None\<close> when it cannot be executed. \<open>ce_status_probe\<close> is the
  client's status call under a timeout of three seconds, \<open>None\<close> when the time is up;
  \<open>ce_stop_timed_out\<close> tells whether the stop of the service took more than eight seconds.
\<close>

record 'w cmd_env =
  ce_os :: target_os
  ce_app_version :: string
  ce_exe_suffix :: string
  ce_pid :: u32
  ce_data_dir :: os_path
  ce_config_dir :: os_path
  ce_logs_dir :: os_path
  ce_acl :: "'w acl_env"
  ce_parse_label :: "string \<Rightarrow> string + string"
  ce_qualified_name :: "string \<Rightarrow> string"
  ce_debug_status :: "sm_status \<Rightarrow> string"
  ce_native :: "'w \<Rightarrow> (string + unit) \<times> 'w"
  ce_available :: "'w \<Rightarrow> (string + bool) \<times> 'w"
  ce_status :: "string \<Rightarrow> 'w \<Rightarrow> (string + sm_status) \<times> 'w"
  ce_start :: "string \<Rightarrow> 'w \<Rightarrow> (string + unit) \<times> 'w"
  ce_stop :: "string \<Rightarrow> 'w \<Rightarrow> (string + unit) \<times> 'w"
  ce_install :: "service_install_ctx \<Rightarrow> 'w \<Rightarrow> (string + unit) \<times> 'w"
  ce_uninstall :: "string \<Rightarrow> 'w \<Rightarrow> (string + unit) \<times> 'w"
  ce_launchctl :: "string list \<Rightarrow> 'w \<Rightarrow> (string + cmd_output) \<times> 'w"
  ce_tool :: "string \<Rightarrow> string list \<Rightarrow> 'w \<Rightarrow> cmd_output option \<times> 'w"
  ce_sleep :: "duration \<Rightarrow> 'w \<Rightarrow> unit \<times> 'w"
  ce_stop_timed_out :: "'w \<Rightarrow> bool \<times> 'w"
  ce_processes :: "'w \<Rightarrow> (u32 \<times> string option) list \<times> 'w"
  ce_kill :: "u32 \<Rightarrow> 'w \<Rightarrow> unit \<times> 'w"
  ce_exists :: "os_path \<Rightarrow> 'w \<Rightarrow> bool \<times> 'w"
  ce_create_dir_all :: "os_path \<Rightarrow> 'w \<Rightarrow> (string + unit) \<times> 'w"
  ce_symlink_metadata :: "os_path \<Rightarrow> 'w \<Rightarrow> meta_answer \<times> 'w"
  ce_set_mode :: "os_path \<Rightarrow> nat \<Rightarrow> 'w \<Rightarrow> (string + unit) \<times> 'w"
  ce_harden_acl :: "os_path \<Rightarrow> 'w \<Rightarrow> (string + unit) \<times> 'w"
  ce_verify_acl :: "os_path \<Rightarrow> 'w \<Rightarrow> (string + unit) \<times> 'w"
  ce_subscriber :: "bool \<Rightarrow> bool \<Rightarrow> 'w \<Rightarrow> (string + unit) \<times> 'w"
  ce_current_exe :: "'w \<Rightarrow> (string + os_path) \<times> 'w"
  ce_copy :: "os_path \<Rightarrow> os_path \<Rightarrow> 'w \<Rightarrow> (string + unit) \<times> 'w"
  ce_home :: "'w \<Rightarrow> string option"
  ce_status_probe :: "'w \<Rightarrow> (client_error + status_body) option \<times> 'w"
  ce_client :: "ipc_op \<Rightarrow> req_body option \<Rightarrow> 'w \<Rightarrow> (client_error + payload) \<times> 'w"
  ce_client_text :: "client_error \<Rightarrow> string"
  ce_version_parse :: "string \<Rightarrow> version option"
  ce_version_gt :: "version \<Rightarrow> version \<Rightarrow> bool"
  ce_info_json :: "status_info \<Rightarrow> string + string"
  ce_info_debug :: "status_info \<Rightarrow> string"
  ce_apply_json :: "payload \<Rightarrow> string + string"
  ce_show_path :: "os_path \<Rightarrow> string"
  ce_show_version :: "version \<Rightarrow> string"
  ce_completions :: "string \<Rightarrow> string"
  ce_print :: "string \<Rightarrow> 'w \<Rightarrow> unit \<times> 'w"
  ce_elevated :: "'w \<Rightarrow> bool \<times> 'w"

text \<open>The conversions of \<^verbatim>\<open>?\<close>: an I/O error and an \<^verbatim>\<open>anyhow\<close> error.\<close>

definition io_state :: "('w, string + 'a) state \<Rightarrow> ('w, command_error + 'a) state" where
  "io_state m = do { r \<leftarrow> m; ret (map_sum CommandIo id r) }"

definition other_op :: "('w, string + 'a) state \<Rightarrow> ('w, command_error + 'a) state" where
  "other_op m = do { r \<leftarrow> m; ret (map_sum CommandOther id r) }"

text \<open>A blocking task that panics fails to join.\<close>

definition spawn_blocking :: "('w, command_error + 'a) state \<Rightarrow> ('w, command_error + 'a) state" where
  "spawn_blocking m = do { r \<leftarrow> m; ret (case r of Inl (Panicked e) \<Rightarrow> Inl (JoinError e) | _ \<Rightarrow> r) }"

section \<open>The system service\<close>

definition normalize_status :: "sm_status \<Rightarrow> bool \<Rightarrow> sm_status" where
  "normalize_status status plist_exists =
     (if status = SmNotInstalled \<and> plist_exists then SmStopped None else status)"

definition plist_path :: "'w cmd_env \<Rightarrow> string \<Rightarrow> os_path" where
  "plist_path ce label =
     os_join Unix (OsUtf8 ''/Library/LaunchDaemons'') (ce_qualified_name ce label @ ''.plist'')"

definition svc_status :: "'w cmd_env \<Rightarrow> string \<Rightarrow> ('w, string + sm_status) state" where
  "svc_status ce label =
     try_op (State (ce_status ce label)) (\<lambda>status.
       if ce_os ce = MacOs
       then do { plist_exists \<leftarrow> State (ce_exists ce (plist_path ce label)); ret (Inr (normalize_status status plist_exists)) }
       else ret (Inr status))"

definition LAUNCHD_SYSTEM_DOMAIN :: string where "LAUNCHD_SYSTEM_DOMAIN = ''system''"

definition bootout_args :: "'w cmd_env \<Rightarrow> string \<Rightarrow> string list" where
  "bootout_args ce label = [''bootout'', LAUNCHD_SYSTEM_DOMAIN @ ''/'' @ ce_qualified_name ce label]"

definition bootstrap_args :: "'w cmd_env \<Rightarrow> string \<Rightarrow> string list" where
  "bootstrap_args ce label = [''bootstrap'', LAUNCHD_SYSTEM_DOMAIN, ce_show_path ce (plist_path ce label)]"

definition launchctl_run :: "'w cmd_env \<Rightarrow> string list \<Rightarrow> ('w, string + unit) state" where
  "launchctl_run ce args =
     try_op (State (ce_launchctl ce args)) (\<lambda>output.
       if co_success output then ret (Inr ())
       else ret (Inl (''launchctl '' @ str_join '' '' args @ '' failed with status '' @ co_code output @ '': '' @
         trim (co_stderr output) @ trim (co_stdout output))))"

definition svc_start :: "'w cmd_env \<Rightarrow> string \<Rightarrow> ('w, string + unit) state" where
  "svc_start ce label =
     (if ce_os ce = MacOs then launchctl_run ce (bootstrap_args ce label) else State (ce_start ce label))"

definition svc_stop :: "'w cmd_env \<Rightarrow> string \<Rightarrow> ('w, string + unit) state" where
  "svc_stop ce label =
     (if ce_os ce = MacOs then launchctl_run ce (bootout_args ce label) else State (ce_stop ce label))"

definition get_service_manager :: "'w cmd_env \<Rightarrow> ('w, string + unit) state" where
  "get_service_manager ce =
     try_op (State (ce_native ce)) (\<lambda>_. do {
       available \<leftarrow> State (ce_available ce);
       try_op (ret (with_context
         ''service manager is not available, please make sure you are running as root or administrator'' available))
         (\<lambda>available. if available then ret (Inr ()) else ret (Inl ''service manager not available''))
     })"

section \<open>Control commands\<close>

definition start_with :: "'w cmd_env \<Rightarrow> ('w, command_error + unit) state" where
  "start_with ce =
     try_op (io_state (ret (ce_parse_label ce SERVICE_LABEL))) (\<lambda>label.
     try_op (io_state (svc_status ce label)) (\<lambda>status.
     try_op (case status of
         SmNotInstalled \<Rightarrow> ret (Inl ServiceNotInstalled)
       | SmStopped _ \<Rightarrow> io_state (svc_start ce label)
       | SmRunning \<Rightarrow> ret (Inl ServiceAlreadyRunning)) (\<lambda>_. do {
     _ \<leftarrow> State (ce_sleep ce (from_secs 3));
     try_op (io_state (svc_status ce label)) (\<lambda>status.
       if status \<noteq> SmRunning
       then ret (Inl (CommandOther (''service start failed, status: '' @ ce_debug_status ce status)))
       else ret (Inr ()))
     })))"

definition start_cmd :: "'w cmd_env \<Rightarrow> ('w, command_error + unit) state" where
  "start_cmd ce = try_op (other_op (get_service_manager ce)) (\<lambda>_. start_with ce)"

definition is_stopped :: "sm_status \<Rightarrow> bool" where
  "is_stopped status \<longleftrightarrow> (case status of SmStopped _ \<Rightarrow> True | _ \<Rightarrow> False)"

definition stop_impl ::
  "'w cmd_env \<Rightarrow> (string \<Rightarrow> ('w, command_error + unit) state) \<Rightarrow> ('w, command_error + unit) state" where
  "stop_impl ce stop_it =
     try_op (io_state (ret (ce_parse_label ce SERVICE_LABEL))) (\<lambda>label.
     try_op (io_state (svc_status ce label)) (\<lambda>status.
     try_op (case status of
         SmNotInstalled \<Rightarrow> ret (Inl ServiceNotInstalled)
       | SmStopped _ \<Rightarrow> ret (Inl ServiceAlreadyStopped)
       | SmRunning \<Rightarrow> stop_it label) (\<lambda>_. do {
     _ \<leftarrow> State (ce_sleep ce (from_secs 3));
     try_op (io_state (svc_status ce label)) (\<lambda>status.
       if \<not> is_stopped status
       then ret (Inl (CommandOther (''service stop failed, status: '' @ ce_debug_status ce status)))
       else ret (Inr ()))
     })))"

text \<open>The processes the fallback of a stop kills: those that work in a directory named after the service.\<close>

fun kill_processes :: "'w cmd_env \<Rightarrow> (u32 \<times> string option) list \<Rightarrow> ('w, unit) state" where
  "kill_processes ce [] = ret ()"
| "kill_processes ce ((pid, cwd) # ps) =
     (case cwd of
        Some path \<Rightarrow>
          if str_contains path APP_NAME \<and> pid \<noteq> ce_pid ce
          then do { _ \<leftarrow> State (ce_kill ce pid); kill_processes ce ps }
          else kill_processes ce ps
      | None \<Rightarrow> kill_processes ce ps)"

text \<open>
  The worker that stops the service runs in its own thread; when it takes too long it is abandoned,
  and its effect on the world is that of the call as far as the world let it happen.
\<close>

definition stop_running_service :: "'w cmd_env \<Rightarrow> string \<Rightarrow> ('w, command_error + unit) state" where
  "stop_running_service ce label = do {
     res \<leftarrow> try_op (get_service_manager ce) (\<lambda>_. svc_stop ce label);
     timed_out \<leftarrow> State (ce_stop_timed_out ce);
     if timed_out
     then do { ps \<leftarrow> State (ce_processes ce); kill_processes ce ps; ret (Inr ()) }
     else ret (map_sum CommandOther id res)
   }"

definition stop_with :: "'w cmd_env \<Rightarrow> ('w, command_error + unit) state" where
  "stop_with ce = stop_impl ce (stop_running_service ce)"

definition stop_cmd :: "'w cmd_env \<Rightarrow> ('w, command_error + unit) state" where
  "stop_cmd ce = try_op (other_op (get_service_manager ce)) (\<lambda>_. stop_with ce)"

definition restart_with :: "'w cmd_env \<Rightarrow> ('w, command_error + unit) state" where
  "restart_with ce =
     try_op (io_state (ret (ce_parse_label ce SERVICE_LABEL))) (\<lambda>label.
     try_op (io_state (svc_status ce label)) (\<lambda>status.
     try_op (case status of
         SmNotInstalled \<Rightarrow> ret (Inl ServiceNotInstalled)
       | SmStopped _ \<Rightarrow> io_state (svc_start ce label)
       | SmRunning \<Rightarrow> try_op (io_state (svc_stop ce label)) (\<lambda>_. do {
           _ \<leftarrow> State (ce_sleep ce (from_secs 3));
           io_state (svc_start ce label)
         })) (\<lambda>_. do {
     _ \<leftarrow> State (ce_sleep ce (from_secs 3));
     try_op (io_state (svc_status ce label)) (\<lambda>status.
       if status \<noteq> SmRunning
       then ret (Inl (CommandOther (''service restart failed, status: '' @ ce_debug_status ce status)))
       else ret (Inr ()))
     })))"

definition restart_cmd :: "'w cmd_env \<Rightarrow> ('w, command_error + unit) state" where
  "restart_cmd ce = try_op (other_op (get_service_manager ce)) (\<lambda>_. restart_with ce)"

definition uninstall_with :: "'w cmd_env \<Rightarrow> ('w, command_error + unit) state" where
  "uninstall_with ce =
     try_op (io_state (ret (ce_parse_label ce SERVICE_LABEL))) (\<lambda>label.
     try_op (io_state (svc_status ce label)) (\<lambda>status.
     try_op (case status of
         SmNotInstalled \<Rightarrow> ret (Inl ServiceNotInstalled)
       | SmStopped _ \<Rightarrow> io_state (State (ce_uninstall ce label))
       | SmRunning \<Rightarrow> try_op (io_state (svc_stop ce label)) (\<lambda>_. do {
           _ \<leftarrow> State (ce_sleep ce (from_secs 5));
           io_state (State (ce_uninstall ce label))
         })) (\<lambda>_.
     try_op (io_state (svc_status ce label)) (\<lambda>status.
       if status \<noteq> SmNotInstalled
       then ret (Inl (CommandOther (''service uninstall failed, status: '' @ ce_debug_status ce status)))
       else ret (Inr ())))))"

definition uninstall_cmd :: "'w cmd_env \<Rightarrow> ('w, command_error + unit) state" where
  "uninstall_cmd ce = try_op (other_op (get_service_manager ce)) (\<lambda>_. uninstall_with ce)"

section \<open>Installing\<close>

text \<open>The group whose members may use the socket (\<^verbatim>\<open>utils/os/user.rs\<close>); on Windows there is none.\<close>

definition tool_op :: "'w cmd_env \<Rightarrow> string \<Rightarrow> string list \<Rightarrow> ('w, command_error + cmd_output) state" where
  "tool_op ce program args = do {
     output \<leftarrow> State (ce_tool ce program args);
     ret (case output of None \<Rightarrow> Inl (Panicked ''failed to execute process'') | Some output \<Rightarrow> Inr output)
   }"

definition is_nyanpasu_group_exists :: "'w cmd_env \<Rightarrow> ('w, command_error + bool) state" where
  "is_nyanpasu_group_exists ce =
     (case ce_os ce of
        WindowsOs \<Rightarrow> ret (Inr False)
      | LinuxOs \<Rightarrow> try_op (tool_op ce ''getent'' [''group'', NYANPASU_USER_GROUP]) (\<lambda>output. ret (Inr (co_success output)))
      | MacOs \<Rightarrow> try_op (tool_op ce ''dseditgroup'' [''-o'', ''read'', NYANPASU_USER_GROUP])
          (\<lambda>output. ret (Inr (co_success output))))"

definition create_nyanpasu_group :: "'w cmd_env \<Rightarrow> ('w, command_error + unit) state" where
  "create_nyanpasu_group ce =
     (let answer = (\<lambda>output. ret (if co_success output then Inr ()
            else Inl (CommandOther ''failed to create nyanpasu group'')))
      in case ce_os ce of
        WindowsOs \<Rightarrow> ret (Inr ())
      | LinuxOs \<Rightarrow> try_op (tool_op ce ''groupadd'' [NYANPASU_USER_GROUP]) answer
      | MacOs \<Rightarrow> try_op (tool_op ce ''dseditgroup'' [''-o'', ''create'', NYANPASU_USER_GROUP]) answer)"

definition is_user_in_nyanpasu_group :: "'w cmd_env \<Rightarrow> string \<Rightarrow> ('w, command_error + bool) state" where
  "is_user_in_nyanpasu_group ce username =
     (case ce_os ce of
        WindowsOs \<Rightarrow> ret (Inr False)
      | LinuxOs \<Rightarrow> try_op (tool_op ce ''id'' [''-nG'', username])
          (\<lambda>output. ret (Inr (str_contains (co_stdout output) NYANPASU_USER_GROUP)))
      | MacOs \<Rightarrow> try_op (tool_op ce ''dseditgroup'' [''-o'', ''read'', NYANPASU_USER_GROUP])
          (\<lambda>output. ret (Inr (co_success output \<and> str_contains (co_stdout output) username))))"

definition add_user_to_nyanpasu_group :: "'w cmd_env \<Rightarrow> string \<Rightarrow> ('w, command_error + unit) state" where
  "add_user_to_nyanpasu_group ce username =
     (let answer = (\<lambda>output. ret (if co_success output then Inr ()
            else Inl (CommandOther ''failed to add user to nyanpasu group'')))
      in case ce_os ce of
        WindowsOs \<Rightarrow> ret (Inr ())
      | LinuxOs \<Rightarrow> try_op (tool_op ce ''usermod'' [''-aG'', NYANPASU_USER_GROUP, username]) answer
      | MacOs \<Rightarrow> try_op (tool_op ce ''dseditgroup''
          [''-o'', ''edit'', ''-a'', username, ''-t'', ''user'', NYANPASU_USER_GROUP]) answer)"

definition build_install_ctx ::
  "string \<Rightarrow> os_path \<Rightarrow> os_path \<Rightarrow> install_command \<Rightarrow> (string \<times> string) list \<Rightarrow> service_install_ctx" where
  "build_install_ctx label program working_directory ctx environment =
     \<lparr>si_label = label, si_program = program,
      si_args = [ArgText ''server'', ArgText ''--nyanpasu-data-dir'', ArgPath (ic_data_dir ctx),
        ArgText ''--nyanpasu-config-dir'', ArgPath (ic_config_dir ctx), ArgText ''--nyanpasu-app-dir'', ArgPath (ic_app_dir ctx),
        ArgText ''--local-ipc-policy'', ArgText (policy_value (ic_policy ctx)), ArgText ''--service''],
      si_contents = None, si_username = None, si_working_directory = Some working_directory,
      si_environment = Some environment, si_autostart = True\<rparr>"

definition os_platform :: "target_os \<Rightarrow> platform" where
  "os_platform os = (if os = WindowsOs then Windows else Unix)"

definition installed_binary :: "'w cmd_env \<Rightarrow> os_path" where
  "installed_binary ce =
     os_join (os_platform (ce_os ce)) (if ce_os ce = LinuxOs then OsUtf8 ''/usr/bin'' else ce_data_dir ce)
       (APP_NAME @ ce_exe_suffix ce)"

definition ensure_dir :: "'w cmd_env \<Rightarrow> os_path \<Rightarrow> ('w, command_error + unit) state" where
  "ensure_dir ce dir = do {
     exists \<leftarrow> State (ce_exists ce dir);
     if exists then ret (Inr ()) else io_state (State (ce_create_dir_all ce dir))
   }"

definition grant_user :: "'w cmd_env \<Rightarrow> string \<Rightarrow> ('w, command_error + unit) state" where
  "grant_user ce user =
     (if ce_os ce = WindowsOs then other_op (admit_user (ce_acl ce) user)
      else try_op (is_nyanpasu_group_exists ce) (\<lambda>exists.
        try_op (if exists then ret (Inr ()) else create_nyanpasu_group ce) (\<lambda>_.
        try_op (is_user_in_nyanpasu_group ce user) (\<lambda>member.
        if member then ret (Inr ()) else add_user_to_nyanpasu_group ce user))))"

definition install_with :: "'w cmd_env \<Rightarrow> install_command \<Rightarrow> ('w, command_error + unit) state" where
  "install_with ce ctx =
     try_op (io_state (ret (ce_parse_label ce SERVICE_LABEL))) (\<lambda>label.
     try_op (io_state (svc_status ce label)) (\<lambda>status.
     if status \<noteq> SmNotInstalled then ret (Inl ServiceAlreadyInstalled)
     else
     try_op (ensure_dir ce (ce_data_dir ce)) (\<lambda>_.
     try_op (ensure_dir ce (ce_config_dir ce)) (\<lambda>_.
     try_op (io_state (State (ce_current_exe ce))) (\<lambda>current_binary.
     try_op (if current_binary \<noteq> installed_binary ce
         then io_state (State (ce_copy ce current_binary (installed_binary ce))) else ret (Inr ())) (\<lambda>_.
     try_op (grant_user ce (ic_user ctx)) (\<lambda>_. do {
     home \<leftarrow> gets (ce_home ce);
     try_op (io_state (State (ce_install ce (build_install_ctx label (installed_binary ce) (ce_data_dir ce) ctx
         (case home of Some home \<Rightarrow> [(''HOME'', home)] | None \<Rightarrow> []))))) (\<lambda>_.
     try_op (io_state (svc_status ce label)) (\<lambda>status.
       if status = SmNotInstalled then ret (Inl (CommandOther ''Service install failed'')) else ret (Inr ())))
     })))))))"

definition install_cmd :: "'w cmd_env \<Rightarrow> install_command \<Rightarrow> ('w, command_error + unit) state" where
  "install_cmd ce ctx = try_op (other_op (get_service_manager ce)) (\<lambda>_. install_with ce ctx)"

section \<open>Status\<close>

fun map_service_status :: "sm_status \<Rightarrow> ipc_status" where
  "map_service_status SmNotInstalled = NotInstalledS"
| "map_service_status (SmStopped _) = StoppedS"
| "map_service_status SmRunning = RunningS"

definition status_info_of :: "'w cmd_env \<Rightarrow> sm_status \<Rightarrow> ('w, status_info) state" where
  "status_info_of ce status = (
     let info = \<lparr>info_name = APP_NAME, info_version = ce_app_version ce,
           info_status = map_service_status status, info_server = None\<rparr>
     in if info_status info = RunningS
        then do {
          answer \<leftarrow> State (ce_status_probe ce);
          ret (case answer of
              Some (Inr server) \<Rightarrow> info\<lparr>info_server := Some server\<rparr>
            | _ \<Rightarrow> info\<lparr>info_status := StoppedS\<rparr>)
        }
        else ret info)"

definition status_with :: "'w cmd_env \<Rightarrow> status_command \<Rightarrow> ('w, command_error + unit) state" where
  "status_with ce ctx =
     try_op (io_state (ret (ce_parse_label ce SERVICE_LABEL))) (\<lambda>label.
     try_op (if st_skip_service_check ctx then ret (Inr SmRunning) else io_state (svc_status ce label)) (\<lambda>status. do {
     info \<leftarrow> status_info_of ce status;
     try_op (if st_json ctx then ret (map_sum SimdError id (ce_info_json ce info)) else ret (Inr (ce_info_debug ce info))) (\<lambda>line. do {
     _ \<leftarrow> State (ce_print ce line);
     if st_exit_code ctx
     then ret (case info_status info of
         RunningS \<Rightarrow> Inr ()
       | StoppedS \<Rightarrow> Inl ServiceAlreadyStopped
       | NotInstalledS \<Rightarrow> Inl ServiceNotInstalled)
     else ret (Inr ())
     })}))"

definition status_cmd :: "'w cmd_env \<Rightarrow> status_command \<Rightarrow> ('w, command_error + unit) state" where
  "status_cmd ce ctx = try_op (other_op (get_service_manager ce)) (\<lambda>_. status_with ce ctx)"

section \<open>Update\<close>

datatype update_plan = Seed | ReplaceOffline | StopReplaceStart | UpToDate

fun plan_summary :: "update_plan \<Rightarrow> string" where
  "plan_summary Seed = ''would install: no service binary is present''"
| "plan_summary ReplaceOffline = ''would replace: the service is not answering''"
| "plan_summary StopReplaceStart = ''would update: stop the service, replace the binary, start it again''"
| "plan_summary UpToDate = ''up to date: the installed service is not older than the running binary''"

definition plan_update :: "(version \<Rightarrow> version \<Rightarrow> bool) \<Rightarrow> bool \<Rightarrow> version \<Rightarrow> version option \<Rightarrow> update_plan" where
  "plan_update gt binary_exists source inst =
     (if \<not> binary_exists then Seed
      else case inst of
        None \<Rightarrow> ReplaceOffline
      | Some v \<Rightarrow> if gt source v then StopReplaceStart else UpToDate)"

definition source_path :: "'w cmd_env \<Rightarrow> os_path option \<Rightarrow> ('w, command_error + os_path) state" where
  "source_path ce explicit =
     (case explicit of Some path \<Rightarrow> ret (Inr path) | None \<Rightarrow> io_state (State (ce_current_exe ce)))"

definition update_source :: "'w cmd_env \<Rightarrow> os_path option \<Rightarrow> ('w, command_error + os_path option) state" where
  "update_source ce from =
     (case from of
        None \<Rightarrow> ret (Inr None)
      | Some from \<Rightarrow> do {
          exists \<leftarrow> State (ce_exists ce from);
          ret (if exists then Inr (Some from)
            else Inl (CommandOther (''update source does not exist: '' @ ce_show_path ce from)))
        })"

definition update_binary :: "'w cmd_env \<Rightarrow> os_path" where
  "update_binary ce = os_join (os_platform (ce_os ce)) (ce_data_dir ce) (APP_NAME @ ce_exe_suffix ce)"

text \<open>The version of the answering service; a version that is none makes the program panic.\<close>

definition installed_version :: "'w cmd_env \<Rightarrow> bool \<Rightarrow> ('w, command_error + version option) state" where
  "installed_version ce binary_exists =
     (if \<not> binary_exists then ret (Inr None)
      else do {
        answer \<leftarrow> State (ce_client ce IpcStatus None);
        ret (case answer of
            Inr (PStatus status) \<Rightarrow>
              (case ce_version_parse ce (sb_version status) of
                 Some v \<Rightarrow> Inr (Some v) | None \<Rightarrow> Inl (Panicked ''called `Result::unwrap()` on an `Err` value''))
          | _ \<Rightarrow> Inr None)
      })"

definition copy_binary :: "'w cmd_env \<Rightarrow> os_path option \<Rightarrow> ('w, command_error + unit) state" where
  "copy_binary ce explicit =
     try_op (source_path ce explicit) (\<lambda>source. io_state (State (ce_copy ce source (update_binary ce))))"

definition print_check ::
  "'w cmd_env \<Rightarrow> os_path option \<Rightarrow> version option \<Rightarrow> update_plan \<Rightarrow> ('w, command_error + unit) state" where
  "print_check ce explicit inst plan =
     try_op (source_path ce explicit) (\<lambda>source. do {
       _ \<leftarrow> State (ce_print ce (''service binary: '' @ ce_show_path ce (update_binary ce)));
       _ \<leftarrow> State (ce_print ce (''update source: '' @ ce_show_path ce source));
       _ \<leftarrow> State (ce_print ce (''comparison version (running binary): '' @ ce_app_version ce));
       _ \<leftarrow> State (ce_print ce (case inst of
           Some v \<Rightarrow> ''installed version: '' @ ce_show_version ce v
         | None \<Rightarrow> ''installed version: unknown (the service did not answer)''));
       _ \<leftarrow> State (ce_print ce (plan_summary plan));
       ret (Inr ())
     })"

definition update_cmd :: "'w cmd_env \<Rightarrow> update_command \<Rightarrow> ('w, command_error + unit) state" where
  "update_cmd ce ctx =
     try_op (update_source ce (uc_from ctx)) (\<lambda>explicit. do {
     binary_exists \<leftarrow> State (ce_exists ce (update_binary ce));
     case ce_version_parse ce (ce_app_version ce) of
       None \<Rightarrow> ret (Inl (Panicked ''called `Result::unwrap()` on an `Err` value''))
     | Some client_version \<Rightarrow>
     try_op (installed_version ce binary_exists) (\<lambda>inst.
     let plan = plan_update (ce_version_gt ce) binary_exists client_version inst
     in if uc_check ctx then print_check ce explicit inst plan
        else case plan of
          Seed \<Rightarrow> copy_binary ce explicit
        | ReplaceOffline \<Rightarrow> copy_binary ce explicit
        | StopReplaceStart \<Rightarrow>
            try_op (spawn_blocking (stop_cmd ce)) (\<lambda>_.
            try_op (copy_binary ce explicit) (\<lambda>_.
            spawn_blocking (start_cmd ce)))
        | UpToDate \<Rightarrow> ret (Inr ()))
     })"

section \<open>Remote calls\<close>

text \<open>The names \<^verbatim>\<open>--core-type\<close> accepts; otherwise the older JSON form, read by \<open>json\<close>.\<close>

definition core_type_args :: "(string \<times> core_type) list" where
  "core_type_args =
     [(''mihomo'', ClashMihomo), (''mihomo-alpha'', ClashMihomoAlpha), (''clash-rs'', ClashClashRust),
      (''clash-rs-alpha'', ClashClashRustAlpha), (''clash'', ClashClashPremium), (''meow'', ClashMeow)]"

definition parse_core_type :: "(string \<Rightarrow> core_type option) \<Rightarrow> string \<Rightarrow> core_type option" where
  "parse_core_type json value =
     (case map_of core_type_args value of Some core \<Rightarrow> Some core | None \<Rightarrow> json value)"

text \<open>\<^verbatim>\<open>str::split\<close> at a character.\<close>

fun split_at :: "char \<Rightarrow> string \<Rightarrow> string list" where
  "split_at c [] = [[]]"
| "split_at c (x # xs) =
     (if x = c then [] # split_at c xs
      else case split_at c xs of [] \<Rightarrow> [[x]] | p # ps \<Rightarrow> (x # p) # ps)"

definition parse_revision_id :: "string \<Rightarrow> string + revision_id_info" where
  "parse_revision_id val =
     (case split_at (CHR '':'') val of
        [epoch, generation, effective_hash] \<Rightarrow>
          (case parse_u64 epoch of
             None \<Rightarrow> Inl (''`'' @ epoch @ ''` is not an epoch'')
           | Some e \<Rightarrow>
               (case parse_u64 generation of
                  None \<Rightarrow> Inl (''`'' @ generation @ ''` is not a generation'')
                | Some g \<Rightarrow> Inr \<lparr>rii_epoch = e, rii_generation = g, rii_effective_hash = effective_hash\<rparr>))
      | _ \<Rightarrow> Inl (''`'' @ val @ ''` is not <epoch>:<generation>:<effective-hash>''))"

definition rpc_call :: "'w cmd_env \<Rightarrow> ipc_op \<Rightarrow> req_body option \<Rightarrow> ('w, command_error + payload) state" where
  "rpc_call ce op body = do { r \<leftarrow> State (ce_client ce op body); ret (map_sum (CommandOther \<circ> ce_client_text ce) id r) }"

definition rpc_unit :: "'w cmd_env \<Rightarrow> ipc_op \<Rightarrow> req_body option \<Rightarrow> ('w, command_error + unit) state" where
  "rpc_unit ce op body = try_op (rpc_call ce op body) (\<lambda>_. ret (Inr ()))"

fun print_logs :: "'w cmd_env \<Rightarrow> string list \<Rightarrow> ('w, unit) state" where
  "print_logs ce [] = ret ()"
| "print_logs ce (log # logs) = do {
     _ \<leftarrow> State (ce_print ce (trim_matches (\<lambda>c. c = NL) log));
     print_logs ce logs
   }"

fun rpc :: "'w cmd_env \<Rightarrow> rpc_command \<Rightarrow> ('w, command_error + unit) state" where
  "rpc ce (RpcStartCore core_type config_file) = rpc_unit ce IpcCoreStart (Some (StartReq core_type config_file))"
| "rpc ce RpcStopCore = rpc_unit ce IpcCoreStop None"
| "rpc ce RpcRestartCore = rpc_unit ce IpcCoreRestart None"
| "rpc ce (RpcApplyConfig core_type config_file expected_revision) =
     try_op (rpc_call ce IpcCoreApply (Some (ApplyReq core_type config_file expected_revision))) (\<lambda>data.
     try_op (ret (map_sum CommandOther id (ce_apply_json ce data))) (\<lambda>line. do {
       _ \<leftarrow> State (ce_print ce line);
       ret (Inr ())
     }))"
| "rpc ce (RpcCheckConfig core_type config_file) = rpc_unit ce IpcCoreCheck (Some (CheckReq core_type config_file))"
| "rpc ce RpcRecoverCore = rpc_unit ce IpcCoreRecover None"
| "rpc ce RpcInspectLogs =
     try_op (rpc_call ce IpcLogsInspect None) (\<lambda>data. do {
       _ \<leftarrow> print_logs ce (case data of PLogs logs \<Rightarrow> logs | _ \<Rightarrow> []);
       ret (Inr ())
     })"
| "rpc ce (RpcSetDns dns_servers) = rpc_unit ce IpcNetworkSetDns (Some (SetDnsReq dns_servers))"

section \<open>Logging\<close>

definition ensure_plain_dir :: "'w cmd_env \<Rightarrow> os_path \<Rightarrow> ('w, string + unit) state" where
  "ensure_plain_dir ce dir = do {
     metadata \<leftarrow> State (ce_symlink_metadata ce dir);
     case metadata of
       MetaFound m \<Rightarrow>
         ret (if fm_symlink m \<or> fm_reparse m \<or> \<not> fm_dir m
           then Inl (''service log path is not a plain directory: '' @ ce_show_path ce dir) else Inr ())
     | MetaNotFound _ \<Rightarrow> State (ce_create_dir_all ce dir)
     | MetaFailed e \<Rightarrow> ret (Inl e)
   }"

definition harden_log_dir :: "'w cmd_env \<Rightarrow> os_path \<Rightarrow> ('w, string + unit) state" where
  "harden_log_dir ce dir =
     (if ce_os ce = WindowsOs
      then do {
        hardened \<leftarrow> State (ce_harden_acl ce dir);
        try_op (ret (map_sum (\<lambda>e. ''failed to protect the service log directory: '' @ e) id hardened)) (\<lambda>_. do {
          verified \<leftarrow> State (ce_verify_acl ce dir);
          ret (map_sum (\<lambda>e. ''the service log directory is not protected: '' @ e) id verified)
        })
      }
      else do {
        set \<leftarrow> State (ce_set_mode ce dir (7 * 8 * 8));
        ret (map_sum (\<lambda>e. ''failed to protect the service log directory: '' @ e) id set)
      })"

definition logging_init :: "'w cmd_env \<Rightarrow> bool \<Rightarrow> bool \<Rightarrow> ('w, string + unit) state" where
  "logging_init ce debug write_file =
     try_op (if write_file
         then try_op (ensure_plain_dir ce (ce_logs_dir ce)) (\<lambda>_. harden_log_dir ce (ce_logs_dir ce))
         else ret (Inr ())) (\<lambda>_.
     State (ce_subscriber ce debug write_file))"

section \<open>The program\<close>

definition is_unprivileged :: "commands option \<Rightarrow> bool" where
  "is_unprivileged command =
     (case command of
        None \<Rightarrow> True
      | Some (CmdStatus _) \<Rightarrow> True
      | Some (CmdRpc _) \<Rightarrow> True
      | Some (CmdCompletions _) \<Rightarrow> True
      | Some (CmdUpdate ctx) \<Rightarrow> uc_check ctx
      | _ \<Rightarrow> False)"

text \<open>\<open>print_version\<close> ends the process; \<open>server\<close> is the command that runs the server.\<close>

datatype command_end = ProcessExit nat | Finished "command_error + unit"

fun run_command ::
  "'w cmd_env \<Rightarrow> (server_context \<Rightarrow> ('w, command_error + unit) state) \<Rightarrow> commands \<Rightarrow> ('w, command_error + unit) state" where
  "run_command ce server (CmdInstall ctx) = spawn_blocking (install_cmd ce ctx)"
| "run_command ce server CmdUninstall = spawn_blocking (uninstall_cmd ce)"
| "run_command ce server CmdStart = spawn_blocking (start_cmd ce)"
| "run_command ce server CmdStop = spawn_blocking (stop_cmd ce)"
| "run_command ce server CmdRestart = spawn_blocking (restart_cmd ce)"
| "run_command ce server (CmdServer ctx) = server ctx"
| "run_command ce server (CmdStatus ctx) = status_cmd ce ctx"
| "run_command ce server (CmdUpdate ctx) = update_cmd ce ctx"
| "run_command ce server (CmdRpc ctx) = rpc ce ctx"
| "run_command ce server (CmdCompletions shell) = do { _ \<leftarrow> State (ce_print ce (ce_completions ce shell)); ret (Inr ()) }"

definition is_server :: "commands option \<Rightarrow> bool" where
  "is_server command \<longleftrightarrow> (case command of Some (CmdServer _) \<Rightarrow> True | _ \<Rightarrow> False)"

definition process ::
  "'w cmd_env \<Rightarrow> (server_context \<Rightarrow> ('w, command_error + unit) state) \<Rightarrow> cli \<Rightarrow> ('w, command_end) state" where
  "process ce server cli =
     (if cli_version cli then ret (ProcessExit 0)
      else do {
        elevated \<leftarrow> (if is_unprivileged (cli_command cli) then ret True else State (ce_elevated ce));
        if \<not> elevated then ret (Finished (Inl PermissionDenied))
        else do {
          r \<leftarrow> try_op (other_op (logging_init ce (cli_verbose cli) (is_server (cli_command cli)))) (\<lambda>_.
            case cli_command cli of
              Some command \<Rightarrow> run_command ce server command
            | None \<Rightarrow> ret (Inr ()));
          ret (Finished r)
        }
      })"

text \<open>The exit codes; a panic has none of its own here.\<close>

fun exit_code_of :: "command_error + unit \<Rightarrow> nat option" where
  "exit_code_of (Inr _) = Some 0"
| "exit_code_of (Inl PermissionDenied) = Some 64"
| "exit_code_of (Inl ServiceNotInstalled) = Some 100"
| "exit_code_of (Inl ServiceAlreadyInstalled) = Some 101"
| "exit_code_of (Inl ServiceAlreadyStopped) = Some 102"
| "exit_code_of (Inl ServiceAlreadyRunning) = Some 103"
| "exit_code_of (Inl (Panicked _)) = None"
| "exit_code_of (Inl _) = Some 1"

definition cli_handler ::
  "'w cmd_env \<Rightarrow> (server_context \<Rightarrow> ('w, command_error + unit) state) \<Rightarrow> cli \<Rightarrow> ('w, nat option) state" where
  "cli_handler ce server cli = do {
     f \<leftarrow> process ce server cli;
     ret (case f of ProcessExit n \<Rightarrow> Some n | Finished r \<Rightarrow> exit_code_of r)
   }"

end
