(* ===== verification/Commands_Facts.thy ===== *)
theory Commands_Facts
  imports Commands
begin

text \<open>
  What the commands do to the system. The interface \<open>recording_env\<close> is an environment whose world
  retains a record of the calls that change something outside the process, or go to the running
  service; \<open>traced\<close> turns every environment into one. The commands are then related to a
  specification: which requests each command makes in which state of the service, in which state it
  refuses, and what is confirmed when it succeeds.
\<close>

section \<open>Recorded calls\<close>

datatype call =
    QStart string
  | QStop string
  | QInstall service_install_ctx
  | QUninstall string
  | QLaunchctl "string list"
  | QTool string "string list"
  | QKill u32
  | QCopy os_path os_path
  | QCreateDir os_path
  | QProtect os_path
  | QAcl
  | QClient ipc_op "req_body option"

section \<open>What a control command is meant to do\<close>

text \<open>The request to start and to stop the service, as the platform makes it.\<close>

definition start_request :: "'w cmd_env \<Rightarrow> string \<Rightarrow> call" where
  "start_request ce label = (if ce_os ce = MacOs then QLaunchctl (bootstrap_args ce label) else QStart label)"

definition stop_request :: "'w cmd_env \<Rightarrow> string \<Rightarrow> call" where
  "stop_request ce label = (if ce_os ce = MacOs then QLaunchctl (bootout_args ce label) else QStop label)"

datatype control = CtlStart | CtlStop | CtlRestart | CtlUninstall

fun run_control :: "'w cmd_env \<Rightarrow> control \<Rightarrow> ('w, command_error + unit) state" where
  "run_control ce CtlStart = start_with ce"
| "run_control ce CtlStop = stop_with ce"
| "run_control ce CtlRestart = restart_with ce"
| "run_control ce CtlUninstall = uninstall_with ce"

fun refusal :: "control \<Rightarrow> sm_status \<Rightarrow> command_error option" where
  "refusal c SmNotInstalled = Some ServiceNotInstalled"
| "refusal CtlStart SmRunning = Some ServiceAlreadyRunning"
| "refusal CtlStop (SmStopped _) = Some ServiceAlreadyStopped"
| "refusal _ _ = None"

fun requests :: "'w cmd_env \<Rightarrow> string \<Rightarrow> control \<Rightarrow> sm_status \<Rightarrow> call list" where
  "requests ce l CtlStart _ = [start_request ce l]"
| "requests ce l CtlStop _ = [stop_request ce l]"
| "requests ce l CtlRestart SmRunning = [stop_request ce l, start_request ce l]"
| "requests ce l CtlRestart _ = [start_request ce l]"
| "requests ce l CtlUninstall SmRunning = [stop_request ce l, QUninstall l]"
| "requests ce l CtlUninstall _ = [QUninstall l]"

fun confirmed :: "control \<Rightarrow> sm_status \<Rightarrow> bool" where
  "confirmed CtlStart st = (st = SmRunning)"
| "confirmed CtlRestart st = (st = SmRunning)"
| "confirmed CtlStop st = is_stopped st"
| "confirmed CtlUninstall st = (st = SmNotInstalled)"

fun is_kill :: "call \<Rightarrow> bool" where
  "is_kill (QKill _) = True"
| "is_kill _ = False"

text \<open>
  The calls a command made in a state of the service, and its result: the requests of the command,
  or the first of them; processes are killed only by a stop, after its request, and never the
  command's own; on success the state that was meant has been observed last.
\<close>

definition control_calls :: "'w cmd_env \<Rightarrow> string \<Rightarrow> control \<Rightarrow> sm_status \<Rightarrow> call list \<Rightarrow> bool" where
  "control_calls ce l c status calls \<longleftrightarrow>
     (\<exists>asked kills. calls = asked @ map QKill kills \<and> prefix asked (requests ce l c status) \<and>
        (kills = [] \<or> c = CtlStop) \<and> ce_pid ce \<notin> set kills)"

definition control_outcome ::
  "'w cmd_env \<Rightarrow> string \<Rightarrow> control \<Rightarrow> sm_status \<Rightarrow> call list \<Rightarrow> (command_error + unit) \<Rightarrow> 'w \<Rightarrow> bool" where
  "control_outcome ce l c status calls r w' \<longleftrightarrow>
     (case refusal c status of
        Some e \<Rightarrow> r = Inl e \<and> calls = []
      | None \<Rightarrow> control_calls ce l c status calls \<and>
          (r = Inr () \<longrightarrow> (c \<noteq> CtlStop \<longrightarrow> calls = requests ce l c status) \<and>
             (\<exists>v final. run_state (svc_status ce l) v = (Inr final, w') \<and> confirmed c final)))"

definition control_done ::
  "'w cmd_env \<Rightarrow> ('w \<Rightarrow> call list) \<Rightarrow> 'w \<Rightarrow> string \<Rightarrow> control \<Rightarrow> sm_status \<Rightarrow> command_error + unit \<Rightarrow> 'w \<Rightarrow> bool" where
  "control_done ce record_of w l c status r w' \<longleftrightarrow>
     (\<exists>calls. record_of w' = record_of w @ calls \<and> control_outcome ce l c status calls r w')"

lemma calls_prefix: "prefix asked (requests ce l c st) \<Longrightarrow> control_calls ce l c st asked"
  unfolding control_calls_def by (intro exI [of _ asked] exI [of _ "[]"]) simp

section \<open>What a command may reach\<close>

definition within :: "(call \<Rightarrow> bool) \<Rightarrow> ('w \<Rightarrow> call list) \<Rightarrow> 'w \<Rightarrow> 'w \<Rightarrow> bool" where
  "within P record_of w w' \<longleftrightarrow> (\<exists>calls. record_of w' = record_of w @ calls \<and> list_all P calls)"

definition retains :: "(call \<Rightarrow> bool) \<Rightarrow> ('w \<Rightarrow> call list) \<Rightarrow> ('w, 'a) state \<Rightarrow> bool" where
  "retains P record_of m \<longleftrightarrow> (\<forall>w. wp m (\<lambda>_. within P record_of w) w)"

lemma within_trans: "within P record_of u v \<Longrightarrow> within P record_of v w \<Longrightarrow> within P record_of u w"
  by (auto simp: within_def)

fun is_remote :: "call \<Rightarrow> bool" where
  "is_remote (QClient _ _) = True"
| "is_remote _ = False"

definition permitted :: "commands \<Rightarrow> call \<Rightarrow> bool" where
  "permitted command = (case command of CmdRpc _ \<Rightarrow> is_remote | _ \<Rightarrow> (\<lambda>c. c = QClient IpcStatus None))"

section \<open>Environments that keep a record\<close>

locale recording_env =
  fixes ce :: "'w cmd_env" and record_of :: "'w \<Rightarrow> call list"
  assumes rec_start: "record_of (snd (ce_start ce l w)) = record_of w @ [QStart l]"
    and rec_stop: "record_of (snd (ce_stop ce l w)) = record_of w @ [QStop l]"
    and rec_install: "record_of (snd (ce_install ce c w)) = record_of w @ [QInstall c]"
    and rec_uninstall: "record_of (snd (ce_uninstall ce l w)) = record_of w @ [QUninstall l]"
    and rec_launchctl: "record_of (snd (ce_launchctl ce args w)) = record_of w @ [QLaunchctl args]"
    and rec_kill: "record_of (snd (ce_kill ce pid w)) = record_of w @ [QKill pid]"
    and rec_copy: "record_of (snd (ce_copy ce a b w)) = record_of w @ [QCopy a b]"
    and rec_client: "record_of (snd (ce_client ce op body w)) = record_of w @ [QClient op body]"
    and rec_probe: "record_of (snd (ce_status_probe ce w)) = record_of w @ [QClient IpcStatus None]"
    and rec_native: "record_of (snd (ce_native ce w)) = record_of w"
    and rec_available: "record_of (snd (ce_available ce w)) = record_of w"
    and rec_status: "record_of (snd (ce_status ce l w)) = record_of w"
    and rec_exists: "record_of (snd (ce_exists ce p w)) = record_of w"
    and rec_sleep: "record_of (snd (ce_sleep ce d w)) = record_of w"
    and rec_timed_out: "record_of (snd (ce_stop_timed_out ce w)) = record_of w"
    and rec_processes: "record_of (snd (ce_processes ce w)) = record_of w"
    and rec_current_exe: "record_of (snd (ce_current_exe ce w)) = record_of w"
    and rec_print: "record_of (snd (ce_print ce line w)) = record_of w"
    and rec_elevated: "record_of (snd (ce_elevated ce w)) = record_of w"
    and rec_subscriber: "record_of (snd (ce_subscriber ce b1 b2 w)) = record_of w"
begin

lemmas rec_facts =
  rec_start rec_stop rec_install rec_uninstall rec_launchctl rec_kill rec_copy rec_client rec_probe rec_native rec_available
  rec_status rec_exists rec_sleep rec_timed_out rec_processes rec_current_exe rec_print rec_elevated rec_subscriber

text \<open>A rule per effect: the record afterwards, whatever the answer.\<close>

lemma wp_quiet:
  assumes "\<And>w. record_of (snd (f w)) = record_of w" and "\<And>r w'. f w = (r, w') \<Longrightarrow> record_of w' = record_of w \<Longrightarrow> Q r w'"
  shows "wp (State f) Q w"
  using assms(1) [of w] assms(2) [of "fst (f w)" "snd (f w)"] by (simp add: wp_State case_prod_beta)

lemma wp_noted:
  assumes "\<And>w. record_of (snd (f w)) = record_of w @ [c]" and "\<And>r w'. f w = (r, w') \<Longrightarrow> record_of w' = record_of w @ [c] \<Longrightarrow> Q r w'"
  shows "wp (State f) Q w"
  using assms(1) [of w] assms(2) [of "fst (f w)" "snd (f w)"] by (simp add: wp_State case_prod_beta)

lemma wp_io_state: "wp (io_state m) Q w = wp m (\<lambda>r w'. Q (map_sum CommandIo id r) w') w"
  by (simp add: io_state_def wp_def split: prod.split)

lemma wp_other_op: "wp (other_op m) Q w = wp m (\<lambda>r w'. Q (map_sum CommandOther id r) w') w"
  by (simp add: other_op_def wp_def split: prod.split)

lemma wp_svc_status:
  assumes "\<And>r w'. run_state (svc_status ce label) w = (r, w') \<Longrightarrow> record_of w' = record_of w \<Longrightarrow> Q r w'"
  shows "wp (svc_status ce label) Q w"
proof -
  have "wp (svc_status ce label) (\<lambda>r w'. record_of w' = record_of w) w"
    unfolding svc_status_def
    by (auto simp: wp_simps intro!: wp_quiet [OF rec_status] wp_quiet [OF rec_exists] split: sum.split)
  with assms show ?thesis by (auto simp: wp_def split: prod.splits)
qed

lemma wp_svc_start:
  assumes "\<And>r w'. record_of w' = record_of w @ [start_request ce label] \<Longrightarrow> Q r w'"
  shows "wp (svc_start ce label) Q w"
  using assms unfolding svc_start_def launchctl_run_def start_request_def
  by (auto simp: wp_try_op wp_ret intro!: wp_noted [OF rec_start] wp_noted [OF rec_launchctl] split: sum.split)

lemma wp_svc_stop:
  assumes "\<And>r w'. record_of w' = record_of w @ [stop_request ce label] \<Longrightarrow> Q r w'"
  shows "wp (svc_stop ce label) Q w"
  using assms unfolding svc_stop_def launchctl_run_def stop_request_def
  by (auto simp: wp_try_op wp_ret intro!: wp_noted [OF rec_stop] wp_noted [OF rec_launchctl] split: sum.split)

lemma wp_get_service_manager:
  assumes "\<And>r w'. record_of w' = record_of w \<Longrightarrow> Q r w'"
  shows "wp (get_service_manager ce) Q w"
  using assms unfolding get_service_manager_def
  by (auto simp: wp_try_op wp_bind wp_ret intro!: wp_quiet [OF rec_native] wp_quiet [OF rec_available] split: sum.split)

lemma wp_kill_processes:
  assumes "\<And>w' kills. record_of w' = record_of w @ map QKill kills \<Longrightarrow> ce_pid ce \<notin> set kills \<Longrightarrow> Q () w'"
  shows "wp (kill_processes ce ps) Q w"
proof -
  have "wp (kill_processes ce ps)
      (\<lambda>_ w'. \<exists>kills. record_of w' = record_of w @ map QKill kills \<and> ce_pid ce \<notin> set kills) w" for w
  proof (induction ps arbitrary: w)
    case Nil
    show ?case by (simp add: wp_ret exI [of _ "[]"])
  next
    case (Cons p ps)
    obtain pid cwd where p: "p = (pid, cwd)" by (cases p)
    have "wp (State (ce_kill ce pid)) (\<lambda>_. wp (kill_processes ce ps)
        (\<lambda>_ w'. \<exists>kills. record_of w' = record_of w @ map QKill kills \<and> ce_pid ce \<notin> set kills)) w"
      if "pid \<noteq> ce_pid ce"
    proof (rule wp_noted [OF rec_kill])
      fix r w' assume "record_of w' = record_of w @ [QKill pid]"
      with that show "wp (kill_processes ce ps)
        (\<lambda>_ w'. \<exists>kills. record_of w' = record_of w @ map QKill kills \<and> ce_pid ce \<notin> set kills) w'"
        by (intro wp_mono [OF Cons.IH [of w']]) (auto intro: exI [of _ "pid # _"])
    qed
    with Cons.IH [of w] show ?case by (auto simp: p wp_bind split: option.split)
  qed
  then show ?thesis
  proof (rule wp_mono)
    fix a w' assume "\<exists>kills. record_of w' = record_of w @ map QKill kills \<and> ce_pid ce \<notin> set kills"
    with assms show "Q a w'" by (cases a) blast
  qed
qed

lemma wp_stop_running_service:
  assumes "\<And>r w' asked kills. record_of w' = record_of w @ asked @ map QKill kills \<Longrightarrow>
      prefix asked [stop_request ce label] \<Longrightarrow> ce_pid ce \<notin> set kills \<Longrightarrow> Q r w'"
  shows "wp (stop_running_service ce label) Q w"
proof -
  have finish: "wp (do { timed_out \<leftarrow> State (ce_stop_timed_out ce);
        if timed_out then do { ps \<leftarrow> State (ce_processes ce); kill_processes ce ps; ret (Inr ()) }
        else ret (map_sum CommandOther id res) }) Q v"
    if "record_of v = record_of w @ asked" "prefix asked [stop_request ce label]" for v asked res
    using that assms
    by (auto simp: wp_bind wp_ret intro!: wp_quiet [OF rec_timed_out] wp_quiet [OF rec_processes] wp_kill_processes)
      (metis append_Nil2 list.simps(8) set_empty empty_iff append.assoc)+
  show ?thesis
    unfolding stop_running_service_def
    by (subst wp_bind) (auto simp: wp_try_op intro!: wp_get_service_manager wp_svc_stop finish split: sum.split)
qed

lemma failed_early:
  assumes "record_of v = record_of w @ calls" and "prefix calls (requests ce l c st)" and "refusal c st = None"
  shows "control_done ce record_of w l c st (Inl e) v"
  using assms calls_prefix [OF assms(2)] by (auto simp: control_outcome_def control_done_def)

lemma refused: "refusal c st = Some e \<Longrightarrow> record_of v = record_of w \<Longrightarrow> control_done ce record_of w l c st (Inl e) v"
  by (simp add: control_outcome_def control_done_def)

lemma wp_confirm:
  assumes "record_of v = record_of w @ calls" and "control_calls ce l c st calls" and "refusal c st = None"
    and "c \<noteq> CtlStop \<Longrightarrow> calls = requests ce l c st"
    and "\<And>status. ok status = confirmed c status"
  shows "wp (try_op (io_state (svc_status ce l)) (\<lambda>status. if \<not> ok status then ret (Inl (e status)) else ret (Inr ())))
     (control_done ce record_of w l c st) v"
  unfolding wp_try_op wp_io_state
proof (rule wp_svc_status)
  fix r v' assume r: "run_state (svc_status ce l) v = (r, v')" "record_of v' = record_of v"
  show "case map_sum CommandIo id r of Inl e \<Rightarrow> control_done ce record_of w l c st (Inl e) v'
      | Inr status \<Rightarrow> wp (if \<not> ok status then ret (Inl (e status)) else ret (Inr ())) (control_done ce record_of w l c st) v'"
    using r assms by (auto simp: wp_ret control_outcome_def control_done_def split: sum.split)
qed

lemma wp_slept_confirm:
  assumes "record_of v = record_of w @ calls" and "control_calls ce l c st calls" and "refusal c st = None"
    and "c \<noteq> CtlStop \<Longrightarrow> calls = requests ce l c st"
    and "\<And>status. ok status = confirmed c status"
  shows "wp (do { _ \<leftarrow> State (ce_sleep ce d);
        try_op (io_state (svc_status ce l)) (\<lambda>status. if \<not> ok status then ret (Inl (e status)) else ret (Inr ())) })
     (control_done ce record_of w l c st) v"
  unfolding wp_bind using assms
  by (intro wp_quiet [OF rec_sleep] wp_confirm [where calls = calls]) simp_all

text \<open>The first part of every control command: the label, and the state of the service.\<close>

lemma wp_dispatch:
  assumes "ce_parse_label ce SERVICE_LABEL = Inr l" and "run_state (svc_status ce l) w = (Inr st, w1)"
    and "record_of w1 = record_of w \<Longrightarrow> wp (f l st) Q w1"
  shows "wp (try_op (io_state (ret (ce_parse_label ce SERVICE_LABEL))) (\<lambda>label.
     try_op (io_state (svc_status ce label)) (f label))) Q w"
proof -
  have "wp (svc_status ce l) (\<lambda>_ w'. record_of w' = record_of w) w"
    by (rule wp_svc_status)
  with assms(2) have "record_of w1 = record_of w" by (simp add: wp_def)
  moreover have "wp (svc_status ce l) R w = R (Inr st) w1" for R by (simp add: wp_def assms(2))
  ultimately show ?thesis using assms(1,3) by (simp add: wp_try_op wp_io_state wp_ret)
qed

text \<open>One request and what follows it; nested steps are taken one after the other.\<close>

lemma wp_request:
  assumes "\<And>R. (\<And>r v. record_of v = record_of w1 @ [q] \<Longrightarrow> R r v) \<Longrightarrow> wp m R w1"
    and "\<And>e v. record_of v = record_of w1 @ [q] \<Longrightarrow> Q (Inl e) v"
    and "\<And>v. record_of v = record_of w1 @ [q] \<Longrightarrow> wp g Q v"
  shows "wp (try_op (io_state m) (\<lambda>_. g)) Q w1"
  unfolding wp_try_op wp_io_state
  by (rule assms(1)) (use assms(2,3) in \<open>auto split: sum.split\<close>)

lemma wp_nested:
  "wp (try_op (try_op a f) g) Q w = wp (try_op a (\<lambda>x. try_op (f x) g)) Q w"
  "wp (try_op (State_Monad.bind m h) g) Q w = wp (State_Monad.bind m (\<lambda>x. try_op (h x) g)) Q w"
  by (simp_all add: wp_def try_op_def case_prod_beta sum.case_eq_if)

lemma try_op_bind: "try_op (State_Monad.bind m h) g = State_Monad.bind m (\<lambda>x. try_op (h x) g)"
  by (simp add: try_op_def)

lemma wp_sleep:
  "(\<And>v. record_of v = record_of w1 \<Longrightarrow> wp m Q v) \<Longrightarrow> wp (do { _ \<leftarrow> State (ce_sleep ce d); m }) Q w1"
  unfolding wp_bind by (rule wp_quiet [OF rec_sleep])

lemma start_control:
  assumes "ce_parse_label ce SERVICE_LABEL = Inr l" and "run_state (svc_status ce l) w = (Inr st, w1)"
  shows "wp (start_with ce) (control_done ce record_of w l CtlStart st) w"
  unfolding start_with_def
proof (rule wp_dispatch [OF assms])
  assume w1: "record_of w1 = record_of w"
  let ?rest = "do { _ \<leftarrow> State (ce_sleep ce (from_secs 3));
      try_op (io_state (svc_status ce l)) (\<lambda>status. if status \<noteq> SmRunning
        then ret (Inl (CommandOther (''service start failed, status: '' @ ce_debug_status ce status))) else ret (Inr ())) }"
  have "wp (try_op (io_state (svc_start ce l)) (\<lambda>_. ?rest)) (control_done ce record_of w l CtlStart (SmStopped d)) w1" for d
    by (rule wp_request [OF wp_svc_start]; (assumption | rule wp_sleep failed_early wp_confirm calls_prefix | simp add: w1)+)
  then show "wp (try_op (case st of SmNotInstalled \<Rightarrow> ret (Inl ServiceNotInstalled) | SmStopped _ \<Rightarrow> io_state (svc_start ce l)
        | SmRunning \<Rightarrow> ret (Inl ServiceAlreadyRunning)) (\<lambda>_. ?rest)) (control_done ce record_of w l CtlStart st) w1"
    by (cases st) (simp_all add: wp_try_op [of "ret _"] wp_ret refused w1)
qed

lemma restart_control:
  assumes "ce_parse_label ce SERVICE_LABEL = Inr l" and "run_state (svc_status ce l) w = (Inr st, w1)"
  shows "wp (restart_with ce) (control_done ce record_of w l CtlRestart st) w"
  unfolding restart_with_def
proof (rule wp_dispatch [OF assms])
  assume w1: "record_of w1 = record_of w"
  let ?rest = "do { _ \<leftarrow> State (ce_sleep ce (from_secs 3));
      try_op (io_state (svc_status ce l)) (\<lambda>status. if status \<noteq> SmRunning
        then ret (Inl (CommandOther (''service restart failed, status: '' @ ce_debug_status ce status))) else ret (Inr ())) }"
  have stopped: "wp (try_op (io_state (svc_start ce l)) (\<lambda>_. ?rest)) (control_done ce record_of w l CtlRestart (SmStopped d)) w1" for d
    by (rule wp_request [OF wp_svc_start]; (assumption | rule wp_sleep failed_early wp_confirm calls_prefix | simp add: w1)+)
  have closing: "wp (try_op (io_state (svc_start ce l)) (\<lambda>_. ?rest)) (control_done ce record_of w l CtlRestart SmRunning) u"
    if u: "record_of u = record_of w @ [stop_request ce l]" for u
  proof (rule wp_request [OF wp_svc_start])
    show "control_done ce record_of w l CtlRestart SmRunning (Inl e) v" if "record_of v = record_of u @ [start_request ce l]" for e v
      using that by (intro failed_early [where calls = "[stop_request ce l, start_request ce l]"]) (simp_all add: u)
    show "wp ?rest (control_done ce record_of w l CtlRestart SmRunning) v" if "record_of v = record_of u @ [start_request ce l]" for v
      using that by (intro wp_sleep wp_confirm [where calls = "[stop_request ce l, start_request ce l]"] calls_prefix) (simp_all add: u)
  qed assumption
  have running: "wp (try_op (io_state (svc_stop ce l)) (\<lambda>_. do { _ \<leftarrow> State (ce_sleep ce (from_secs 3));
      try_op (io_state (svc_start ce l)) (\<lambda>_. ?rest) })) (control_done ce record_of w l CtlRestart SmRunning) w1"
  proof (rule wp_request [OF wp_svc_stop])
    show "control_done ce record_of w l CtlRestart SmRunning (Inl e) v" if "record_of v = record_of w1 @ [stop_request ce l]" for e v
      using that by (intro failed_early [where calls = "[stop_request ce l]"]) (simp_all add: w1)
    show "wp (do { _ \<leftarrow> State (ce_sleep ce (from_secs 3)); try_op (io_state (svc_start ce l)) (\<lambda>_. ?rest) })
        (control_done ce record_of w l CtlRestart SmRunning) v" if "record_of v = record_of w1 @ [stop_request ce l]" for v
      using that by (intro wp_sleep closing) (simp add: w1)
  qed assumption
  show "wp (try_op (case st of SmNotInstalled \<Rightarrow> ret (Inl ServiceNotInstalled) | SmStopped _ \<Rightarrow> io_state (svc_start ce l)
        | SmRunning \<Rightarrow> try_op (io_state (svc_stop ce l)) (\<lambda>_. do { _ \<leftarrow> State (ce_sleep ce (from_secs 3)); io_state (svc_start ce l) }))
      (\<lambda>_. ?rest)) (control_done ce record_of w l CtlRestart st) w1"
  proof (cases st)
    case SmRunning
    show ?thesis unfolding SmRunning sm_status.case wp_nested(1) try_op_bind by (rule running)
  next
    case (SmStopped d)
    show ?thesis unfolding SmStopped sm_status.case by (rule stopped)
  qed (simp add: wp_try_op [of "ret _"] wp_ret refused w1)
qed

lemma uninstall_control:
  assumes "ce_parse_label ce SERVICE_LABEL = Inr l" and "run_state (svc_status ce l) w = (Inr st, w1)"
  shows "wp (uninstall_with ce) (control_done ce record_of w l CtlUninstall st) w"
  unfolding uninstall_with_def
proof (rule wp_dispatch [OF assms])
  assume w1: "record_of w1 = record_of w"
  let ?rest = "try_op (io_state (svc_status ce l)) (\<lambda>status. if status \<noteq> SmNotInstalled
        then ret (Inl (CommandOther (''service uninstall failed, status: '' @ ce_debug_status ce status))) else ret (Inr ()))"
  have un: "wp (State (ce_uninstall ce l)) R v" if "\<And>r v'. record_of v' = record_of v @ [QUninstall l] \<Longrightarrow> R r v'" for R v
    using that by (intro wp_noted [OF rec_uninstall])
  have stopped: "wp (try_op (io_state (State (ce_uninstall ce l))) (\<lambda>_. ?rest)) (control_done ce record_of w l CtlUninstall (SmStopped d)) w1" for d
    by (rule wp_request [OF un]; (assumption | rule wp_sleep failed_early wp_confirm calls_prefix | simp add: w1)+)
  have closing: "wp (try_op (io_state (State (ce_uninstall ce l))) (\<lambda>_. ?rest)) (control_done ce record_of w l CtlUninstall SmRunning) u"
    if u: "record_of u = record_of w @ [stop_request ce l]" for u
  proof (rule wp_request [OF un])
    show "control_done ce record_of w l CtlUninstall SmRunning (Inl e) v" if "record_of v = record_of u @ [QUninstall l]" for e v
      using that by (intro failed_early [where calls = "[stop_request ce l, QUninstall l]"]) (simp_all add: u)
    show "wp ?rest (control_done ce record_of w l CtlUninstall SmRunning) v" if "record_of v = record_of u @ [QUninstall l]" for v
      using that by (intro wp_sleep wp_confirm [where calls = "[stop_request ce l, QUninstall l]"] calls_prefix) (simp_all add: u)
  qed assumption
  have running: "wp (try_op (io_state (svc_stop ce l)) (\<lambda>_. do { _ \<leftarrow> State (ce_sleep ce (from_secs 5));
      try_op (io_state (State (ce_uninstall ce l))) (\<lambda>_. ?rest) })) (control_done ce record_of w l CtlUninstall SmRunning) w1"
  proof (rule wp_request [OF wp_svc_stop])
    show "control_done ce record_of w l CtlUninstall SmRunning (Inl e) v" if "record_of v = record_of w1 @ [stop_request ce l]" for e v
      using that by (intro failed_early [where calls = "[stop_request ce l]"]) (simp_all add: w1)
    show "wp (do { _ \<leftarrow> State (ce_sleep ce (from_secs 5)); try_op (io_state (State (ce_uninstall ce l))) (\<lambda>_. ?rest) })
        (control_done ce record_of w l CtlUninstall SmRunning) v" if "record_of v = record_of w1 @ [stop_request ce l]" for v
      using that by (intro wp_sleep closing) (simp add: w1)
  qed assumption
  show "wp (try_op (case st of SmNotInstalled \<Rightarrow> ret (Inl ServiceNotInstalled) | SmStopped _ \<Rightarrow> io_state (State (ce_uninstall ce l))
        | SmRunning \<Rightarrow> try_op (io_state (svc_stop ce l)) (\<lambda>_. do { _ \<leftarrow> State (ce_sleep ce (from_secs 5)); io_state (State (ce_uninstall ce l)) }))
      (\<lambda>_. ?rest)) (control_done ce record_of w l CtlUninstall st) w1"
  proof (cases st)
    case SmRunning
    show ?thesis unfolding SmRunning sm_status.case wp_nested(1) try_op_bind by (rule running)
  next
    case (SmStopped d)
    show ?thesis unfolding SmStopped sm_status.case by (rule stopped)
  qed (simp add: wp_try_op [of "ret _"] wp_ret refused w1)
qed

lemma stop_calls:
  assumes "prefix asked [stop_request ce l]" and "ce_pid ce \<notin> set kills"
  shows "control_calls ce l CtlStop st (asked @ map QKill kills)"
  using assms unfolding control_calls_def by (intro exI [of _ asked] exI [of _ kills]) simp

lemma stop_control:
  assumes "ce_parse_label ce SERVICE_LABEL = Inr l" and "run_state (svc_status ce l) w = (Inr st, w1)"
  shows "wp (stop_with ce) (control_done ce record_of w l CtlStop st) w"
  unfolding stop_with_def stop_impl_def
proof (rule wp_dispatch [OF assms], cases st)
  case SmRunning
  moreover assume "record_of w1 = record_of w"
  ultimately show "wp (try_op (case st of SmNotInstalled \<Rightarrow> ret (Inl ServiceNotInstalled)
        | SmStopped _ \<Rightarrow> ret (Inl ServiceAlreadyStopped) | SmRunning \<Rightarrow> stop_running_service ce l) (\<lambda>_. do {
      _ \<leftarrow> State (ce_sleep ce (from_secs 3));
      try_op (io_state (svc_status ce l)) (\<lambda>status. if \<not> is_stopped status
        then ret (Inl (CommandOther (''service stop failed, status: '' @ ce_debug_status ce status))) else ret (Inr ()))
      })) (control_done ce record_of w l CtlStop st) w1"
    unfolding wp_try_op
    by (auto intro!: wp_stop_running_service wp_slept_confirm stop_calls split: sum.split)
      (auto simp: control_done_def control_outcome_def intro!: stop_calls)
qed (simp_all add: wp_try_op wp_ret refused)

lemmas controls = start_control stop_control restart_control uninstall_control

lemma control_specified:
  assumes "ce_parse_label ce SERVICE_LABEL = Inr l" and "run_state (svc_status ce l) w = (Inr st, w1)"
  shows "wp (run_control ce c) (control_done ce record_of w l c st) w"
  using controls [OF assms] by (cases c) simp_all

text \<open>An operation whose calls all satisfy a predicate.\<close>

lemma retains_ret: "retains P record_of (ret x)"
  by (simp add: retains_def within_def wp_ret)

lemma retains_bind: "retains P record_of m \<Longrightarrow> (\<And>x. retains P record_of (f x)) \<Longrightarrow> retains P record_of (State_Monad.bind m f)"
  unfolding retains_def wp_bind by (blast intro: wp_mono within_trans)

lemma retains_try: "retains P record_of m \<Longrightarrow> (\<And>x. retains P record_of (f x)) \<Longrightarrow> retains P record_of (try_op m f)"
  unfolding try_op_def by (intro retains_bind) (auto intro: retains_ret split: sum.split)

lemma retains_io_state: "retains P record_of m \<Longrightarrow> retains P record_of (io_state m)"
  unfolding io_state_def by (intro retains_bind retains_ret)

lemma retains_other_op: "retains P record_of m \<Longrightarrow> retains P record_of (other_op m)"
  unfolding other_op_def by (intro retains_bind retains_ret)

lemma retains_quiet: "(\<And>w. record_of (snd (f w)) = record_of w) \<Longrightarrow> retains P record_of (State f)"
  by (auto simp: retains_def within_def intro!: wp_quiet)

lemma retains_noted: "(\<And>w. record_of (snd (f w)) = record_of w @ [c]) \<Longrightarrow> P c \<Longrightarrow> retains P record_of (State f)"
  by (auto simp: retains_def within_def intro!: wp_noted [where c = c])

lemmas retains_quiet_fields =
  retains_quiet [OF rec_native] retains_quiet [OF rec_available] retains_quiet [OF rec_status] retains_quiet [OF rec_exists]
  retains_quiet [OF rec_sleep] retains_quiet [OF rec_timed_out] retains_quiet [OF rec_processes] retains_quiet [OF rec_current_exe]
  retains_quiet [OF rec_print] retains_quiet [OF rec_elevated] retains_quiet [OF rec_subscriber]

lemmas retains_rules = retains_ret retains_bind retains_try retains_io_state retains_other_op retains_quiet_fields

lemma retains_get_service_manager: "retains P record_of (get_service_manager ce)"
  unfolding get_service_manager_def by (intro retains_rules) (auto intro: retains_ret)

lemma retains_svc_status: "retains P record_of (svc_status ce l)"
  unfolding svc_status_def by (intro retains_rules) (auto intro!: retains_rules)

lemma retains_print_logs: "retains P record_of (print_logs ce logs)"
  by (induction logs) (auto intro!: retains_rules)

lemma retains_rpc_call: "P (QClient op body) \<Longrightarrow> retains P record_of (rpc_call ce op body)"
  unfolding rpc_call_def by (intro retains_rules retains_noted [OF rec_client])

lemma retains_rpc: "(\<And>op body. P (QClient op body)) \<Longrightarrow> retains P record_of (rpc ce c)"
  by (cases c) (auto simp: rpc_unit_def intro!: retains_rules retains_rpc_call retains_print_logs)

lemma retains_status_cmd: "P (QClient IpcStatus None) \<Longrightarrow> retains P record_of (status_cmd ce ctx)"
  unfolding status_cmd_def status_with_def status_info_of_def Let_def
  by (auto intro!: retains_rules retains_get_service_manager retains_svc_status retains_noted [OF rec_probe])

lemma retains_source_path: "retains P record_of (source_path ce explicit)"
  unfolding source_path_def by (auto intro!: retains_rules split: option.split)

lemma retains_update_check:
  assumes "P (QClient IpcStatus None)" and "uc_check ctx"
  shows "retains P record_of (update_cmd ce ctx)"
  unfolding update_cmd_def update_source_def installed_version_def print_check_def Let_def
  using assms
  by (auto intro!: retains_rules retains_source_path retains_noted [OF rec_client] split: option.split)

lemma retains_logging: "retains P record_of (logging_init ce debug False)"
  unfolding logging_init_def by (auto intro!: retains_rules)

text \<open>What an unprivileged command may reach: the running service, and except for \<^verbatim>\<open>rpc\<close> only its status.\<close>

lemma retains_unprivileged:
  assumes "is_unprivileged (Some command)"
  shows "retains (permitted command) record_of (run_command ce server command)"
  using assms
  by (cases command) (auto simp: is_unprivileged_def permitted_def
      intro!: retains_rules retains_rpc retains_status_cmd retains_update_check)

lemma process_unprivileged:
  assumes "is_unprivileged (cli_command cli)"
  shows "retains (case cli_command cli of None \<Rightarrow> \<lambda>_. False | Some command \<Rightarrow> permitted command) record_of (process ce server cli)"
proof -
  have "\<not> is_server (cli_command cli)"
    using assms by (auto simp: is_unprivileged_def is_server_def split: option.splits commands.splits)
  then show ?thesis
    unfolding process_def using assms
    by (auto intro!: retains_rules retains_logging retains_unprivileged split: option.split)
qed

lemma retains_spawn_blocking: "retains P record_of m \<Longrightarrow> retains P record_of (spawn_blocking m)"
  unfolding spawn_blocking_def by (intro retains_bind retains_ret)

lemma retains_launchctl: "P (QLaunchctl args) \<Longrightarrow> retains P record_of (launchctl_run ce args)"
  unfolding launchctl_run_def by (auto intro!: retains_rules retains_noted [OF rec_launchctl])

lemma retains_svc_start: "P (start_request ce l) \<Longrightarrow> retains P record_of (svc_start ce l)"
  unfolding svc_start_def start_request_def by (auto intro!: retains_launchctl retains_noted [OF rec_start])

lemma retains_svc_stop: "P (stop_request ce l) \<Longrightarrow> retains P record_of (svc_stop ce l)"
  unfolding svc_stop_def stop_request_def by (auto intro!: retains_launchctl retains_noted [OF rec_stop])

lemma retains_start_cmd: "(\<And>l. P (start_request ce l)) \<Longrightarrow> retains P record_of (start_cmd ce)"
  unfolding start_cmd_def start_with_def
  by (auto intro!: retains_rules retains_get_service_manager retains_svc_status retains_svc_start split: sm_status.split)

lemma retains_kill: "(\<And>pid. P (QKill pid)) \<Longrightarrow> retains P record_of (kill_processes ce ps)"
  by (induction ps) (auto intro!: retains_rules retains_noted [OF rec_kill] split: option.split)

lemma retains_stop_cmd: "(\<And>l. P (stop_request ce l)) \<Longrightarrow> (\<And>pid. P (QKill pid)) \<Longrightarrow> retains P record_of (stop_cmd ce)"
  unfolding stop_cmd_def stop_with_def stop_impl_def stop_running_service_def
  by (auto intro!: retains_rules retains_get_service_manager retains_svc_status retains_svc_stop retains_kill split: sm_status.split)

lemma retains_copy_binary: "(\<And>source. P (QCopy source (update_binary ce))) \<Longrightarrow> retains P record_of (copy_binary ce explicit)"
  unfolding copy_binary_def by (auto intro!: retains_rules retains_source_path retains_noted [OF rec_copy])

lemma retains_update:
  assumes "P (QClient IpcStatus None)" and "\<And>source. P (QCopy source (update_binary ce))"
    and "\<And>l. P (start_request ce l)" and "\<And>l. P (stop_request ce l)" and "\<And>pid. P (QKill pid)"
  shows "retains P record_of (update_cmd ce ctx)"
  unfolding update_cmd_def update_source_def installed_version_def print_check_def Let_def
  using assms
  by (auto intro!: retains_rules retains_source_path retains_noted [OF rec_client] retains_copy_binary retains_spawn_blocking
      retains_stop_cmd retains_start_cmd split: option.split update_plan.split)

lemma start_cmd_calls:
  assumes l: "ce_parse_label ce SERVICE_LABEL = Inr l"
  shows "wp (start_cmd ce) (\<lambda>r w'. \<exists>calls. record_of w' = record_of w @ calls \<and> prefix calls [start_request ce l] \<and>
    (r = Inr () \<longrightarrow> calls = [start_request ce l])) w"
proof -
  let ?Q = "\<lambda>r w'. \<exists>calls. record_of w' = record_of w @ calls \<and> prefix calls [start_request ce l] \<and>
    (r = Inr () \<longrightarrow> calls = [start_request ce l])"
  have started: "wp (start_with ce) ?Q v" if v: "record_of v = record_of w" for v
  proof (cases "run_state (svc_status ce l) v")
    case (Pair s v1)
    show ?thesis
    proof (cases s)
      case (Inl e)
      have "wp (svc_status ce l) (\<lambda>_ w'. record_of w' = record_of v) v" by (rule wp_svc_status)
      with Pair have "record_of v1 = record_of v" by (simp add: wp_def)
      moreover have "wp (svc_status ce l) R v = R (Inl e) v1" for R by (simp add: wp_def Pair Inl)
      ultimately show ?thesis
        unfolding start_with_def by (simp add: wp_try_op wp_io_state wp_ret l v)
    next
      case (Inr st)
      have "wp (start_with ce) (control_done ce record_of v l CtlStart st) v"
        using start_control [OF l] Pair Inr by simp
      then show ?thesis
        by (rule wp_mono) (auto simp: control_done_def control_outcome_def control_calls_def v split: option.splits)
    qed
  qed
  show ?thesis
    unfolding start_cmd_def wp_try_op wp_other_op
    by (rule wp_get_service_manager) (auto intro: started split: sum.split)
qed

lemma copy_binary_calls:
  "wp (copy_binary ce explicit) (\<lambda>r w'. (record_of w' = record_of w \<and> r \<noteq> Inr ()) \<or>
     (\<exists>source. record_of w' = record_of w @ [QCopy source (update_binary ce)])) w"
proof -
  have copied: "wp (State (ce_copy ce source (update_binary ce))) (\<lambda>r w'. (record_of w' = record_of w \<and> r \<noteq> Inr ()) \<or>
     (\<exists>source. record_of w' = record_of w @ [QCopy source (update_binary ce)])) v" if "record_of v = record_of w" for v source
    using that by (intro wp_noted [OF rec_copy]) auto
  show ?thesis
    unfolding copy_binary_def source_path_def
    by (cases explicit) (auto simp: wp_try_op wp_io_state wp_ret split: sum.split intro!: wp_quiet [OF rec_current_exe] copied)
qed

lemma wp_spawn_blocking:
  "wp m Q w \<Longrightarrow> (\<And>e v. Q (Inl (Panicked e)) v \<Longrightarrow> Q (Inl (JoinError e)) v) \<Longrightarrow> wp (spawn_blocking m) Q w"
  by (auto simp: spawn_blocking_def wp_def split: prod.splits sum.splits command_error.splits)

text \<open>The last two steps of an update.\<close>

lemma replace_and_start_calls:
  assumes "ce_parse_label ce SERVICE_LABEL = Inr l"
  shows "wp (try_op (copy_binary ce explicit) (\<lambda>_. spawn_blocking (start_cmd ce)))
    (\<lambda>r w'. \<exists>source rest. record_of w' = record_of w @ rest \<and> prefix rest [QCopy source (update_binary ce), start_request ce l] \<and>
       (r = Inr () \<longrightarrow> rest = [QCopy source (update_binary ce), start_request ce l])) w"
    (is "wp _ ?Q w")
  unfolding wp_try_op
proof (rule wp_mono [OF copy_binary_calls])
  fix r :: "command_error + unit" and v
  assume "(record_of v = record_of w \<and> r \<noteq> Inr ()) \<or> (\<exists>source. record_of v = record_of w @ [QCopy source (update_binary ce)])"
  then consider "record_of v = record_of w" "r \<noteq> Inr ()" | source where "record_of v = record_of w @ [QCopy source (update_binary ce)]" by blast
  then show "case r of Inl e \<Rightarrow> ?Q (Inl e) v | Inr _ \<Rightarrow> wp (spawn_blocking (start_cmd ce)) ?Q v"
  proof cases
    case 1
    then show ?thesis by (cases r) auto
  next
    case 2
    have "wp (spawn_blocking (start_cmd ce)) ?Q v"
    proof (rule wp_spawn_blocking)
      show "wp (start_cmd ce) ?Q v"
      proof (rule wp_mono [OF start_cmd_calls [OF assms]])
        fix r' :: "command_error + unit" and v' assume "\<exists>calls. record_of v' = record_of v @ calls \<and> prefix calls [start_request ce l] \<and>
          (r' = Inr () \<longrightarrow> calls = [start_request ce l])"
        then obtain calls where "record_of v' = record_of v @ calls" "prefix calls [start_request ce l]"
          "r' = Inr () \<longrightarrow> calls = [start_request ce l]" by blast
        with 2 show "?Q r' v'"
          by (intro exI [of _ source] exI [of _ "QCopy source (update_binary ce) # calls"]) simp
      qed
    qed simp
    moreover have "?Q (Inl e) v" for e
      using 2 by (intro exI [of _ source] exI [of _ "[QCopy source (update_binary ce)]"]) simp
    ultimately show ?thesis by (cases r) auto
  qed
qed

end

section \<open>Every environment with a record\<close>

definition lifted :: "('w \<Rightarrow> 'a \<times> 'w) \<Rightarrow> 'w \<times> call list \<Rightarrow> 'a \<times> 'w \<times> call list" where
  "lifted f = (\<lambda>(w, calls). case f w of (r, w') \<Rightarrow> (r, w', calls))"

definition noted :: "call \<Rightarrow> ('w \<Rightarrow> 'a \<times> 'w) \<Rightarrow> 'w \<times> call list \<Rightarrow> 'a \<times> 'w \<times> call list" where
  "noted c f = (\<lambda>(w, calls). case f w of (r, w') \<Rightarrow> (r, w', calls @ [c]))"

lemma snd_lifted [simp]: "snd (snd (lifted f w)) = snd w" "snd (snd (noted c f w)) = snd w @ [c]"
  by (simp_all add: lifted_def noted_def case_prod_beta)

definition traced_acl :: "'w acl_env \<Rightarrow> ('w \<times> call list) acl_env" where
  "traced_acl ae =
     \<lparr>ae_win32 = ae_win32 ae, ae_config_dir = ae_config_dir ae, ae_exists = lifted \<circ> ae_exists ae,
      ae_create = noted QAcl \<circ> ae_create ae, ae_set_sddl = (\<lambda>p s. noted QAcl (ae_set_sddl ae p s)),
      ae_open_read = lifted \<circ> ae_open_read ae, ae_read = lifted \<circ> ae_read ae,
      ae_open_truncate = noted QAcl \<circ> ae_open_truncate ae, ae_write_all = (\<lambda>p s. noted QAcl (ae_write_all ae p s))\<rparr>"

definition traced :: "'w cmd_env \<Rightarrow> ('w \<times> call list) cmd_env" where
  "traced ce =
     \<lparr>ce_os = ce_os ce, ce_app_version = ce_app_version ce, ce_exe_suffix = ce_exe_suffix ce, ce_pid = ce_pid ce,
      ce_data_dir = ce_data_dir ce, ce_config_dir = ce_config_dir ce, ce_logs_dir = ce_logs_dir ce,
      ce_acl = traced_acl (ce_acl ce), ce_parse_label = ce_parse_label ce, ce_qualified_name = ce_qualified_name ce,
      ce_debug_status = ce_debug_status ce, ce_native = lifted (ce_native ce), ce_available = lifted (ce_available ce),
      ce_status = lifted \<circ> ce_status ce, ce_start = (\<lambda>l. noted (QStart l) (ce_start ce l)),
      ce_stop = (\<lambda>l. noted (QStop l) (ce_stop ce l)), ce_install = (\<lambda>c. noted (QInstall c) (ce_install ce c)),
      ce_uninstall = (\<lambda>l. noted (QUninstall l) (ce_uninstall ce l)),
      ce_launchctl = (\<lambda>args. noted (QLaunchctl args) (ce_launchctl ce args)),
      ce_tool = (\<lambda>program args. noted (QTool program args) (ce_tool ce program args)), ce_sleep = lifted \<circ> ce_sleep ce,
      ce_stop_timed_out = lifted (ce_stop_timed_out ce), ce_processes = lifted (ce_processes ce),
      ce_kill = (\<lambda>pid. noted (QKill pid) (ce_kill ce pid)), ce_exists = lifted \<circ> ce_exists ce,
      ce_create_dir_all = (\<lambda>p. noted (QCreateDir p) (ce_create_dir_all ce p)),
      ce_symlink_metadata = lifted \<circ> ce_symlink_metadata ce,
      ce_set_mode = (\<lambda>p m. noted (QProtect p) (ce_set_mode ce p m)),
      ce_harden_acl = (\<lambda>p. noted (QProtect p) (ce_harden_acl ce p)), ce_verify_acl = lifted \<circ> ce_verify_acl ce,
      ce_subscriber = (\<lambda>a b. lifted (ce_subscriber ce a b)), ce_current_exe = lifted (ce_current_exe ce),
      ce_copy = (\<lambda>a b. noted (QCopy a b) (ce_copy ce a b)), ce_home = ce_home ce \<circ> fst,
      ce_status_probe = noted (QClient IpcStatus None) (ce_status_probe ce),
      ce_client = (\<lambda>op body. noted (QClient op body) (ce_client ce op body)), ce_client_text = ce_client_text ce,
      ce_version_parse = ce_version_parse ce, ce_version_gt = ce_version_gt ce, ce_info_json = ce_info_json ce,
      ce_info_debug = ce_info_debug ce, ce_apply_json = ce_apply_json ce, ce_show_path = ce_show_path ce,
      ce_show_version = ce_show_version ce, ce_completions = ce_completions ce, ce_print = lifted \<circ> ce_print ce,
      ce_elevated = lifted (ce_elevated ce)\<rparr>"

interpretation tr: recording_env "traced ce" snd for ce :: "'w cmd_env"
  by unfold_locales (simp_all add: traced_def)


lemma tr_keeps:
  assumes "retains P snd m" and "run_state m (w, []) = (r, w', calls)"
  shows "list_all P calls"
  using assms unfolding retains_def by (fastforce simp: within_def dest: wp_run)


lemma retains_tool_op: "P (QTool program args) \<Longrightarrow> retains P snd (tool_op (traced ce) program args)"
  unfolding tool_op_def
  by (intro tr.retains_rules tr.retains_noted [where c = "QTool program args"]) (simp_all add: traced_def)

lemma retains_admit_user: "P QAcl \<Longrightarrow> retains P snd (admit_user (traced_acl ae) user)"
proof -
  assume "P QAcl"
  then have entry: "retains P snd (State (noted QAcl f))" for f :: "'a \<Rightarrow> 'b \<times> 'a"
    by (intro tr.retains_noted [where c = QAcl]) simp_all
  have lift: "retains P snd (State (lifted f))" for f :: "'a \<Rightarrow> 'b \<times> 'a"
    by (intro tr.retains_quiet) simp
  show ?thesis
    unfolding admit_user_def create_acl_file_def read_acl_file_def write_acl_file_def
    by (auto simp: traced_acl_def get_acl_path_def intro!: tr.retains_rules entry lift)
qed

lemma retains_grant_user:
  assumes "P QAcl" and "\<And>program args. P (QTool program args)"
  shows "retains P snd (grant_user (traced ce) user)"
proof -
  have acl: "retains P snd (admit_user (ce_acl (traced ce)) user)"
    using retains_admit_user [where P = P, OF assms(1)] by (simp add: traced_def)
  show ?thesis
    unfolding grant_user_def is_nyanpasu_group_exists_def create_nyanpasu_group_def is_user_in_nyanpasu_group_def
      add_user_to_nyanpasu_group_def Let_def
    using assms(2)
    by (auto intro!: tr.retains_rules retains_tool_op acl split: target_os.split)
qed

lemma retains_install:
  assumes "P QAcl" "\<And>program args. P (QTool program args)" "\<And>p. P (QCreateDir p)" "\<And>a b. P (QCopy a b)"
    and "\<And>l home. P (QInstall (build_install_ctx l (installed_binary (traced ce)) (ce_data_dir (traced ce)) ctx home))"
  shows "retains P snd (install_cmd (traced ce) ctx)"
proof -
  have "retains P snd (State (ce_create_dir_all (traced ce) p))" for p
    by (intro tr.retains_noted [where c = "QCreateDir p"]) (simp_all add: traced_def assms(3))
  then have dir: "retains P snd (ensure_dir (traced ce) p)" for p
    unfolding ensure_dir_def by (auto intro!: tr.retains_rules)
  have home: "retains P snd (gets (ce_home (traced ce)))"
    by (simp add: retains_def within_def wp_gets)
  show ?thesis
    unfolding install_cmd_def install_with_def using assms
    by (auto intro!: tr.retains_rules tr.retains_get_service_manager tr.retains_svc_status dir home retains_grant_user
        tr.retains_noted [OF tr.rec_copy] tr.retains_noted [OF tr.rec_install])
qed

lemma traced_fields [simp]:
  "ce_os (traced ce) = ce_os ce" "ce_data_dir (traced ce) = ce_data_dir ce" "ce_exe_suffix (traced ce) = ce_exe_suffix ce"
  by (simp_all add: traced_def)

lemma os_join_dir_inject:
  assumes "os_join Unix (OsUtf8 d) name = os_join Unix (OsUtf8 ''/usr/bin'') name" and "hd name \<noteq> CHR ''/''" and "name \<noteq> []"
  shows "d \<in> {''/usr/bin'', ''/usr/bin/''}"
proof -
  have "\<not> is_absolute name" using assms(2,3) by (cases name) (auto simp: is_absolute_def)
  with assms(1) have eq: "(if d = [] \<or> is_separator Unix (last d) then d else d @ ''/'') = ''/usr/bin/''"
    by (auto simp: path_join_def is_separator_def split: if_splits)
  show ?thesis
  proof (cases "d = [] \<or> is_separator Unix (last d)")
    case True
    with eq show ?thesis by simp
  next
    case False
    with eq have "d @ ''/'' = ''/usr/bin'' @ ''/''" by simp
    then show ?thesis by (simp only: append_same_eq) simp
  qed
qed

text \<open>
  C27. On Linux an update misses the installed service. \<^verbatim>\<open>install\<close> registers the binary under
  \<^verbatim>\<open>/usr/bin\<close>, \<^verbatim>\<open>update\<close> copies to the service's data directory: unless the two are the same directory, no
  run of \<^verbatim>\<open>update\<close>, whatever the system answers, writes the program of a service that \<^verbatim>\<open>install\<close> has
  registered.
\<close>

theorem update_misses_linux_service:
  assumes "ce_os ce = LinuxOs" and "ce_data_dir ce = OsUtf8 d" and "d \<notin> {''/usr/bin'', ''/usr/bin/''}"
    and "run_state (install_cmd (traced ce) ctx) (v, []) = (r1, v', installing)"
    and "run_state (update_cmd (traced ce) uc) (w, []) = (r2, w', updating)"
    and "QInstall entry \<in> set installing" and "QCopy source target \<in> set updating"
  shows "si_program entry \<noteq> target"
proof -
  let ?I = "\<lambda>c. \<forall>x. c = QInstall x \<longrightarrow> si_program x = installed_binary ce"
  let ?U = "\<lambda>c. \<forall>a b. c = QCopy a b \<longrightarrow> b = update_binary ce"
  have bin: "installed_binary (traced ce) = installed_binary ce" "update_binary (traced ce) = update_binary ce"
    by (simp_all add: installed_binary_def update_binary_def)
  have "retains ?I snd (install_cmd (traced ce) ctx)"
    by (rule retains_install) (simp_all add: build_install_ctx_def bin)
  from tr_keeps [OF this assms(4)] assms(6) have i: "si_program entry = installed_binary ce"
    by (auto simp: list_all_iff)
  have "retains ?U snd (update_cmd (traced ce) uc)"
    by (rule tr.retains_update) (simp_all add: start_request_def stop_request_def bin)
  from tr_keeps [OF this assms(5)] assms(7) have u: "target = update_binary ce"
    by (auto simp: list_all_iff)
  have "update_binary ce \<noteq> installed_binary ce"
    using os_join_dir_inject [of d "APP_NAME @ ce_exe_suffix ce"] assms(1-3)
    by (auto simp: update_binary_def installed_binary_def os_platform_def APP_NAME_def)
  with i u show ?thesis by simp
qed

text \<open>
  C12. An update replaces the binary of an answering service only if the service is older, and only
  after stopping it. If the running binary is not newer than the version the service reports,
  nothing is done. If it is newer, the service is stopped first; when that fails, nothing is
  replaced and the update fails; when it succeeds, the binary is copied, and only then the service
  started again; a successful update has done all three.
\<close>

theorem update_stops_before_replacing:
  assumes label: "ce_parse_label ce SERVICE_LABEL = Inr l"
    and source: "run_state (update_source (traced ce) (uc_from ctx)) (w, []) = (Inr explicit, w1)"
    and present: "ce_exists (traced ce) (update_binary ce) w1 = (True, w2)"
    and client: "ce_version_parse ce (ce_app_version ce) = Some client_version"
    and inst: "run_state (installed_version (traced ce) True) w2 = (Inr (Some inst), w3, asked)"
    and "\<not> uc_check ctx"
    and run: "run_state (update_cmd (traced ce) ctx) (w, []) = (r, w', calls)"
  shows "if ce_version_gt ce client_version inst
    then \<exists>stopped w4 stops rest. run_state (stop_cmd (traced ce)) (w3, asked) = (stopped, w4, asked @ stops) \<and>
      calls = asked @ stops @ rest \<and> list_all (\<lambda>c. \<forall>a b. c \<noteq> QCopy a b) stops \<and>
      (case stopped of
         Inl _ \<Rightarrow> rest = [] \<and> r \<noteq> Inr ()
       | Inr _ \<Rightarrow> \<exists>src. prefix rest [QCopy src (update_binary ce), start_request (traced ce) l] \<and>
           (r = Inr () \<longrightarrow> rest = [QCopy src (update_binary ce), start_request (traced ce) l]))
    else r = Inr () \<and> calls = asked"
proof -
  have fields: "ce_version_parse (traced ce) = ce_version_parse ce" "ce_app_version (traced ce) = ce_app_version ce"
    "ce_version_gt (traced ce) = ce_version_gt ce" "update_binary (traced ce) = update_binary ce"
    "ce_parse_label (traced ce) = ce_parse_label ce"
    by (simp_all add: traced_def update_binary_def)
  let ?go = "try_op (spawn_blocking (stop_cmd (traced ce))) (\<lambda>_. try_op (copy_binary (traced ce) explicit)
      (\<lambda>_. spawn_blocking (start_cmd (traced ce))))"
  have step: "run_state (if ce_version_gt ce client_version inst then ?go else ret (Inr ())) (w3, asked) = (r, w', calls)"
    using run assms(6)
    by (simp add: update_cmd_def try_op_def source fields present client inst plan_update_def Let_def split: if_splits)
  show ?thesis
  proof (cases "ce_version_gt ce client_version inst")
    case False
    with step show ?thesis by simp
  next
    case True
    obtain s w4 c4 where s: "run_state (stop_cmd (traced ce)) (w3, asked) = (s, w4, c4)" by (metis prod.exhaust)
    have "retains (\<lambda>c. \<forall>a b. c \<noteq> QCopy a b) snd (stop_cmd (traced ce))"
      by (rule tr.retains_stop_cmd) (simp_all add: stop_request_def)
    then obtain stops where stops: "c4 = asked @ stops" "list_all (\<lambda>c. \<forall>a b. c \<noteq> QCopy a b) stops"
      using s by (fastforce simp: retains_def within_def dest: wp_run)
    show ?thesis
    proof (cases s)
      case (Inl e)
      with step True s have "r \<noteq> Inr () \<and> calls = c4"
        by (auto simp: try_op_def spawn_blocking_def split: command_error.splits)
      with True s stops Inl show ?thesis by (auto intro!: exI [of _ "Inl e"])
    next
      case (Inr u)
      with step True s have "run_state (try_op (copy_binary (traced ce) explicit)
          (\<lambda>_. spawn_blocking (start_cmd (traced ce)))) (w4, c4) = (r, w', calls)"
        by (simp add: try_op_def spawn_blocking_def)
      from wp_run [OF tr.replace_and_start_calls this] label obtain src rest where
        "calls = c4 @ rest" "prefix rest [QCopy src (update_binary ce), start_request (traced ce) l]"
        "r = Inr () \<longrightarrow> rest = [QCopy src (update_binary ce), start_request (traced ce) l]"
        by (auto simp: fields)
      with True s stops Inr show ?thesis by (auto intro!: exI [of _ "Inr u"])
    qed
  qed
qed

section \<open>Exit codes and tokens\<close>

text \<open>
  The exit code of \<^verbatim>\<open>status --exit-code\<close>. When the service manager can be asked and the report
  can be rendered, the process exits with 0 exactly if the service is said to be running (or that
  check is skipped) and its server answers within three seconds; with 102 if it is stopped, and also
  if it is said to be running but its server does not answer in time or answers with an error; with 100
  if it is not installed.
\<close>

theorem status_exit_code:
  assumes "cli_command cli = Some (CmdStatus ctx)" and "\<not> cli_version cli" and "st_exit_code ctx"
    and "run_state (logging_init ce (cli_verbose cli) False) w = (Inr (), w1)"
    and "run_state (get_service_manager ce) w1 = (Inr (), w2)"
    and "ce_parse_label ce SERVICE_LABEL = Inr l"
    and "run_state (if st_skip_service_check ctx then ret (Inr SmRunning) else svc_status ce l) w2 = (Inr status, w3)"
    and "ce_status_probe ce w3 = (reply_in_time, w4)"
    and "\<And>info. ce_info_json ce info = Inr (json info)"
  shows "fst (run_state (cli_handler ce server cli) w) = Some (case status of
      SmNotInstalled \<Rightarrow> 100
    | SmStopped _ \<Rightarrow> 102
    | SmRunning \<Rightarrow> (case reply_in_time of Some (Inr _) \<Rightarrow> 0 | _ \<Rightarrow> 102))"
proof -
  have unprivileged: "is_unprivileged (cli_command cli)" "\<not> is_server (cli_command cli)"
    using assms(1) by (simp_all add: is_unprivileged_def is_server_def)
  let ?ask = "if st_skip_service_check ctx then ret (Inr SmRunning) else io_state (svc_status ce l)"
  let ?r = "case status of SmNotInstalled \<Rightarrow> Inl ServiceNotInstalled | SmStopped _ \<Rightarrow> Inl ServiceAlreadyStopped
       | SmRunning \<Rightarrow> (case reply_in_time of Some (Inr _) \<Rightarrow> Inr () | _ \<Rightarrow> Inl ServiceAlreadyStopped)"
  have ask: "wp ?ask Q w2 = Q (Inr status) w3" for Q
    using assms(7) by (auto simp: io_state_def wp_def)
  have label: "wp (io_state (ret (ce_parse_label ce SERVICE_LABEL))) Q v = Q (Inr l) v" for Q v
    by (simp add: io_state_def wp_def assms(6))
  have info: "wp (status_info_of ce status) (\<lambda>info _. (case info_status info of RunningS \<Rightarrow> Inr () | StoppedS \<Rightarrow> Inl ServiceAlreadyStopped
      | NotInstalledS \<Rightarrow> Inl ServiceNotInstalled) = ?r) w3"
    using assms(8) by (cases status) (auto simp: status_info_of_def Let_def wp_simps wp_State split: option.split sum.split)
  have print: "wp (State (ce_print ce line)) (\<lambda>_. Q) v \<longleftrightarrow> Q (snd (ce_print ce line v))" for line Q v
    by (simp add: wp_State case_prod_beta)
  have "wp (status_with ce ctx) (\<lambda>r _. r = ?r) w2"
    unfolding status_with_def wp_try_op label ask sum.case wp_bind
    by (rule wp_mono [OF info]) (cases "st_json ctx"; simp add: wp_simps wp_try_op print assms(3,9))
  then have "wp (cli_handler ce server cli) (\<lambda>code _. code = exit_code_of ?r) w"
    using assms(1,2,4,5) unprivileged
    by (simp add: cli_handler_def process_def status_cmd_def wp_def try_op_def other_op_def split: prod.splits)
  then show ?thesis
    by (cases status; cases reply_in_time) (auto simp: wp_def split: prod.splits sum.splits)
qed

lemma split_at_none: "c \<notin> set s \<Longrightarrow> split_at c s = [s]"
  by (induction s) auto

lemma split_at_append: "c \<notin> set a \<Longrightarrow> split_at c (a @ c # b) = a # split_at c b"
  by (induction a) auto

lemma split_at_join: "str_join [c] (split_at c s) = s"
proof (induction s)
  case (Cons x xs)
  obtain p ps where p: "split_at c xs = p # ps" by (cases "split_at c xs") (cases xs; auto split: list.splits if_splits)+
  with Cons show ?case by (cases ps) auto
qed simp

text \<open>The token \<^verbatim>\<open>/status\<close> prints for a revision.\<close>

definition revision_triple :: "revision_id_info \<Rightarrow> string" where
  "revision_triple i = show_u64 (rii_epoch i) @ '':'' @ show_u64 (rii_generation i) @ '':'' @ rii_effective_hash i"

lemma colon_not_digit: "CHR '':'' \<notin> set (show_u64 e)"
  by (rule digits_not_in) (simp add: is_ascii_digit_def)

text \<open>
  A revision token survives the command line. Reading the token of a revision gives the revision
  back whenever its hash has no colon, as every hash the manager computes. Conversely a
  token that is accepted consists of three parts, the first two numbers below \<open>2 ^ 64\<close>, so that two
  accepted tokens with the same canonical numbers and hash are the same request.
\<close>

theorem revision_token_roundtrip:
  assumes "CHR '':'' \<notin> set (rii_effective_hash i)"
  shows "parse_revision_id (revision_triple i) = Inr i \<and>
    (\<forall>t j. parse_revision_id t = Inr j \<longrightarrow>
       (\<exists>e g. t = e @ '':'' @ g @ '':'' @ rii_effective_hash j \<and> parse_u64 e = Some (rii_epoch j) \<and>
          parse_u64 g = Some (rii_generation j) \<and> CHR '':'' \<notin> set (rii_effective_hash j)))"
proof -
  have "\<exists>e g. t = e @ '':'' @ g @ '':'' @ rii_effective_hash j \<and> parse_u64 e = Some (rii_epoch j) \<and>
      parse_u64 g = Some (rii_generation j) \<and> CHR '':'' \<notin> set (rii_effective_hash j)" if "parse_revision_id t = Inr j" for t j
  proof -
    from that obtain e g h where s: "split_at (CHR '':'') t = [e, g, h]" "parse_u64 e = Some (rii_epoch j)"
      "parse_u64 g = Some (rii_generation j)" "rii_effective_hash j = h"
      by (auto simp: parse_revision_id_def split: list.splits option.splits)
    moreover have "t = e @ '':'' @ g @ '':'' @ h"
      using split_at_join [of "CHR '':''" t] s(1) by simp
    moreover have "p \<in> set (split_at c s) \<Longrightarrow> c \<notin> set p" for c s and p :: string
      by (induction s arbitrary: p) (auto split: list.splits if_splits)
    from this [of h "CHR '':''" t] s(1) have "CHR '':'' \<notin> set h" by simp
    ultimately show ?thesis by blast
  qed
  moreover have "split_at (CHR '':'') (revision_triple i) = [show_u64 (rii_epoch i), show_u64 (rii_generation i), rii_effective_hash i]"
    by (simp add: revision_triple_def split_at_append split_at_none colon_not_digit assms)
  ultimately show ?thesis by (simp add: parse_revision_id_def)
qed

section \<open>A small system\<close>

text \<open>
  A system whose world is the state of the service; the running service answers with version 1.0.0,
  the command line is of version 1.1.0.
\<close>

definition demo_status :: status_body where
  "demo_status = \<lparr>sb_version = ''1.0.0'',
     sb_core_infos = \<lparr>cf_type = None, cf_state = WireStopped None, cf_state_changed_at = 0, cf_config_path = None,
       cf_controller = None, cf_health = None, cf_revision = None, cf_detail = None\<rparr>,
     sb_service_data_dir = OsUtf8 ''/d'', sb_service_config_dir = OsUtf8 ''/c'', sb_config_dir = OsUtf8 ''/c'',
     sb_data_dir = OsUtf8 ''/d'', sb_logs = None\<rparr>"

definition demo_cmd :: "sm_status cmd_env" where
  "demo_cmd =
     \<lparr>ce_os = LinuxOs, ce_app_version = ''1.1.0'', ce_exe_suffix = '''', ce_pid = 7,
      ce_data_dir = OsUtf8 ''/d'', ce_config_dir = OsUtf8 ''/c'', ce_logs_dir = OsUtf8 ''/d/logs'',
      ce_acl = \<lparr>ae_win32 = demo_win32, ae_config_dir = ''/c'', ae_exists = (\<lambda>_ w. (True, w)), ae_create = (\<lambda>_ w. (Inr (), w)),
        ae_set_sddl = (\<lambda>_ _ w. (Inr (), w)), ae_open_read = (\<lambda>_ w. (Inr (), w)), ae_read = (\<lambda>_ w. (Inr '''', w)),
        ae_open_truncate = (\<lambda>_ w. (Inr (), w)), ae_write_all = (\<lambda>_ _ w. (Inr (), w))\<rparr>,
      ce_parse_label = Inr, ce_qualified_name = id, ce_debug_status = (\<lambda>_. ''status''),
      ce_native = (\<lambda>w. (Inr (), w)), ce_available = (\<lambda>w. (Inr True, w)), ce_status = (\<lambda>_ w. (Inr w, w)),
      ce_start = (\<lambda>_ _. (Inr (), SmRunning)), ce_stop = (\<lambda>_ _. (Inr (), SmStopped None)),
      ce_install = (\<lambda>_ _. (Inr (), SmStopped None)), ce_uninstall = (\<lambda>_ _. (Inr (), SmNotInstalled)),
      ce_launchctl = (\<lambda>_ w. (Inl ''none'', w)),
      ce_tool = (\<lambda>_ _ w. (Some \<lparr>co_success = True, co_code = ''0'', co_stdout = ''nyanpasu'', co_stderr = ''''\<rparr>, w)),
      ce_sleep = (\<lambda>_ w. ((), w)), ce_stop_timed_out = (\<lambda>w. (False, w)), ce_processes = (\<lambda>w. ([], w)), ce_kill = (\<lambda>_ w. ((), w)),
      ce_exists = (\<lambda>_ w. (True, w)), ce_create_dir_all = (\<lambda>_ w. (Inr (), w)),
      ce_symlink_metadata = (\<lambda>_ w. (MetaNotFound ''none'', w)), ce_set_mode = (\<lambda>_ _ w. (Inr (), w)),
      ce_harden_acl = (\<lambda>_ w. (Inr (), w)), ce_verify_acl = (\<lambda>_ w. (Inr (), w)), ce_subscriber = (\<lambda>_ _ w. (Inr (), w)),
      ce_current_exe = (\<lambda>w. (Inr (OsUtf8 ''/tmp/new''), w)), ce_copy = (\<lambda>_ _ w. (Inr (), w)), ce_home = (\<lambda>_. None),
      ce_status_probe = (\<lambda>w. (if w = SmRunning then Some (Inr demo_status) else None, w)),
      ce_client = (\<lambda>_ _ w. (Inr (PStatus demo_status), w)), ce_client_text = (\<lambda>_. ''client error''),
      ce_version_parse = (\<lambda>t. if t = ''1.0.0'' then Some (1, 0, 0) else if t = ''1.1.0'' then Some (1, 1, 0) else None),
      ce_version_gt = (\<lambda>(a, b, _) (c, d, _). c < a \<or> (a = c \<and> d < b)),
      ce_info_json = (\<lambda>_. Inr ''{}''), ce_info_debug = (\<lambda>_. ''info''), ce_apply_json = (\<lambda>_. Inr ''{}''),
      ce_show_path = (\<lambda>_. ''path''), ce_show_version = (\<lambda>_. ''version''), ce_completions = (\<lambda>_. ''script''),
      ce_print = (\<lambda>_ w. ((), w)), ce_elevated = (\<lambda>w. (False, w))\<rparr>"

lemmas demo_simps = demo_cmd_def traced_def lifted_def noted_def try_op_def io_state_def other_op_def spawn_blocking_def



theorem update_stops_before_replacing_witness:
  "\<exists>stops rest. snd (snd (run_state (update_cmd (traced demo_cmd) \<lparr>uc_check = False, uc_from = None\<rparr>) (SmRunning, []))) =
     [QClient IpcStatus None] @ stops @ rest \<and> list_all (\<lambda>c. \<forall>a b. c \<noteq> QCopy a b) stops \<and>
     rest = [QCopy (OsUtf8 ''/tmp/new'') (update_binary demo_cmd), QStart SERVICE_LABEL]"
proof -
  let ?ctx = "\<lparr>uc_check = False, uc_from = None\<rparr>"
  have stop: "run_state (stop_cmd (traced demo_cmd)) (SmRunning, [QClient IpcStatus None]) =
      (Inr (), SmStopped None, [QClient IpcStatus None, QStop SERVICE_LABEL])"
    by (simp add: stop_cmd_def stop_with_def stop_impl_def stop_running_service_def get_service_manager_def svc_status_def svc_stop_def
        is_stopped_def demo_simps)
  have run: "run_state (update_cmd (traced demo_cmd) ?ctx) (SmRunning, []) = (Inr (), SmRunning,
      [QClient IpcStatus None, QStop SERVICE_LABEL, QCopy (OsUtf8 ''/tmp/new'') (update_binary demo_cmd), QStart SERVICE_LABEL])"
    by (simp add: update_cmd_def update_source_def installed_version_def plan_update_def copy_binary_def source_path_def stop_cmd_def
        stop_with_def stop_impl_def stop_running_service_def get_service_manager_def svc_status_def svc_stop_def svc_start_def
        is_stopped_def start_cmd_def start_with_def update_binary_def demo_status_def demo_simps)
  have h: "ce_parse_label demo_cmd SERVICE_LABEL = Inr SERVICE_LABEL"
    "run_state (update_source (traced demo_cmd) (uc_from ?ctx)) (SmRunning, []) = (Inr None, SmRunning, [])"
    "ce_exists (traced demo_cmd) (update_binary demo_cmd) (SmRunning, []) = (True, SmRunning, [])"
    "ce_version_parse demo_cmd (ce_app_version demo_cmd) = Some (1, 1, 0)"
    "run_state (installed_version (traced demo_cmd) True) (SmRunning, []) = (Inr (Some (1, 0, 0)), SmRunning, [QClient IpcStatus None])"
    "\<not> uc_check ?ctx"
    by (simp_all add: update_source_def installed_version_def demo_status_def demo_simps)
  have s: "start_request (traced demo_cmd) SERVICE_LABEL = QStart SERVICE_LABEL" "ce_version_gt demo_cmd (1, 1, 0) (1, 0, 0)"
    by (simp_all add: start_request_def demo_simps)
  from update_stops_before_replacing [OF h run] obtain src where
    "[QStop SERVICE_LABEL, QCopy (OsUtf8 ''/tmp/new'') (update_binary demo_cmd), QStart SERVICE_LABEL] =
      [QStop SERVICE_LABEL] @ [QCopy src (update_binary demo_cmd), QStart SERVICE_LABEL]"
    by (auto simp: s stop)
  then show ?thesis
    by (intro exI [of _ "[QStop SERVICE_LABEL]"] exI [of _ "[QCopy src (update_binary demo_cmd), QStart SERVICE_LABEL]"])
      (simp add: run)
qed

theorem update_misses_linux_service_witness:
  "installed_binary demo_cmd = OsUtf8 ''/usr/bin/nyanpasu-service'' \<and> installed_binary demo_cmd \<noteq> update_binary demo_cmd"
proof -
  let ?ctx = "\<lparr>ic_user = ''u'', ic_data_dir = OsUtf8 ''/d'', ic_config_dir = OsUtf8 ''/c'', ic_app_dir = OsUtf8 ''/a'', ic_policy = DisableArg\<rparr>"
  let ?uc = "\<lparr>uc_check = False, uc_from = None\<rparr>"
  obtain r1 v' installing where i: "run_state (install_cmd (traced demo_cmd) ?ctx) (SmNotInstalled, []) = (r1, v', installing)"
    by (metis prod.exhaust)
  obtain r2 w' updating where u: "run_state (update_cmd (traced demo_cmd) ?uc) (SmRunning, []) = (r2, w', updating)"
    by (metis prod.exhaust)
  let ?entry = "build_install_ctx SERVICE_LABEL (installed_binary demo_cmd) (OsUtf8 ''/d'') ?ctx []"
  have member: "str_contains ''nyanpasu'' ''nyanpasu''" by (simp add: str_contains_def split_once.simps)
  have "QInstall ?entry \<in> set installing"
    using i by (auto simp: install_cmd_def install_with_def get_service_manager_def svc_status_def ensure_dir_def grant_user_def
        is_nyanpasu_group_exists_def is_user_in_nyanpasu_group_def tool_op_def installed_binary_def NYANPASU_USER_GROUP_def
        member gets_def demo_simps APP_NAME_def path_join_def is_absolute_def is_separator_def os_platform_def)
  moreover have "QCopy (OsUtf8 ''/tmp/new'') (update_binary demo_cmd) \<in> set updating"
    using u by (auto simp: update_cmd_def update_source_def installed_version_def plan_update_def copy_binary_def source_path_def stop_cmd_def
        stop_with_def stop_impl_def stop_running_service_def get_service_manager_def svc_status_def svc_stop_def svc_start_def
        is_stopped_def start_cmd_def start_with_def update_binary_def demo_status_def demo_simps)
  ultimately have "si_program ?entry \<noteq> update_binary demo_cmd"
    by (rule update_misses_linux_service [where d = "''/d''", OF _ _ _ i u, rotated 3]) (simp_all add: demo_cmd_def)
  then show ?thesis
    by (simp add: build_install_ctx_def installed_binary_def demo_cmd_def APP_NAME_def path_join_def is_absolute_def is_separator_def os_platform_def)
qed

theorem status_exit_code_witness:
  "fst (run_state (cli_handler demo_cmd (\<lambda>_. ret (Inr ())) \<lparr>cli_verbose = False, cli_version = False,
     cli_command = Some (CmdStatus \<lparr>st_json = True, st_skip_service_check = True, st_exit_code = True\<rparr>)\<rparr>) (SmStopped None)) = Some 102"
proof -
  have "run_state (logging_init demo_cmd False False) (SmStopped None) = (Inr (), SmStopped None)"
    "run_state (get_service_manager demo_cmd) (SmStopped None) = (Inr (), SmStopped None)"
    "ce_status_probe demo_cmd (SmStopped None) = (None, SmStopped None)" "\<And>i. ce_info_json demo_cmd i = Inr ''{}''"
    by (simp_all add: logging_init_def get_service_manager_def demo_simps)
  then show ?thesis
    by (subst status_exit_code [where ?w1.0 = "SmStopped None" and ?w2.0 = "SmStopped None" and status = SmRunning and
          ?w3.0 = "SmStopped None" and reply_in_time = None and ?w4.0 = "SmStopped None" and l = SERVICE_LABEL and json = "\<lambda>_. ''{}''"
          and ctx = "\<lparr>st_json = True, st_skip_service_check = True, st_exit_code = True\<rparr>"])
      (simp_all add: demo_cmd_def)
qed

theorem revision_token_roundtrip_witness:
  "parse_revision_id ''3:7:fedcba9876543210'' = Inr \<lparr>rii_epoch = 3, rii_generation = 7, rii_effective_hash = ''fedcba9876543210''\<rparr>"
proof -
  let ?i = "\<lparr>rii_epoch = 3, rii_generation = 7, rii_effective_hash = ''fedcba9876543210''\<rparr>"
  have "revision_triple ?i = ''3:7:fedcba9876543210''"
    by (simp add: revision_triple_def show_u64_def dec.simps digit_char_def char_of_def bit_0)
  with revision_token_roundtrip [of ?i] show ?thesis by simp
qed

end
