(* ===== verification/Server_Run.thy ===== *)
theory Server_Run
  imports Service_Facts Commands
begin

text \<open>
  The life of the server process: the \<^verbatim>\<open>server\<close> command up to the server (\<^verbatim>\<open>cmds/server.rs\<close>), building
  the manager, serving and shutting down (\<^verbatim>\<open>server/mod.rs\<close>), opening the socket or pipe
  (\<^verbatim>\<open>nyanpasu_ipc\<close>: \<^verbatim>\<open>server/mod.rs\<close>, \<^verbatim>\<open>utils\<close>), the tail of the service's own log (\<^verbatim>\<open>server/logger.rs\<close>) and the
  stop of the Windows service (\<^verbatim>\<open>win_service.rs\<close>). The HTTP server itself is a library: what it does
  until it ends is a sequence of service calls the world chooses.
\<close>

section \<open>Opening the socket\<close>

definition SERVICE_PLACEHOLDER :: string where "SERVICE_PLACEHOLDER = ''nyanpasu_ipc''"

definition ipc_socket_path :: "string \<Rightarrow> string" where
  "ipc_socket_path placeholder = ''/var/run/'' @ placeholder @ ''.sock''"

definition BACKSLASH :: char where "BACKSLASH = char_of (92 :: nat)"

definition get_name_string :: "platform \<Rightarrow> string \<Rightarrow> string" where
  "get_name_string plat placeholder =
     (if plat = Windows then [BACKSLASH, BACKSLASH, CHR ''.'', BACKSLASH] @ ''pipe'' @ [BACKSLASH] @ placeholder
      else ipc_socket_path placeholder)"

text \<open>
  The calls to the system: the listener is given its name, its mode where the platform sets it
  while binding, and the security descriptor on Windows; \<open>le_tool\<close> runs a program, \<open>Inl\<close> when
  it cannot be executed; \<open>le_serve\<close> is the server on the open listener.
\<close>

record 'w listen_env =
  le_os :: target_os
  le_win32 :: win32
  le_metadata_ok :: "string \<Rightarrow> 'w \<Rightarrow> bool \<times> 'w"
  le_remove_file :: "string \<Rightarrow> 'w \<Rightarrow> (string + unit) \<times> 'w"
  le_fs_name :: "string \<Rightarrow> string + string"
  le_deserialize_sd :: "string \<Rightarrow> string + string"
  le_bind :: "string \<Rightarrow> nat option \<Rightarrow> string option \<Rightarrow> 'w \<Rightarrow> (string + unit) \<times> 'w"
  le_tool :: "string \<Rightarrow> string list \<Rightarrow> 'w \<Rightarrow> (string + bool) \<times> 'w"
  le_serve :: "'w \<Rightarrow> (string + unit) \<times> 'w"

definition remove_socket_if_exists :: "'w listen_env \<Rightarrow> string \<Rightarrow> ('w, string + unit) state" where
  "remove_socket_if_exists le placeholder = do {
     found \<leftarrow> State (le_metadata_ok le (ipc_socket_path placeholder));
     if found then State (le_remove_file le (ipc_socket_path placeholder)) else ret (Inr ())
   }"

definition socket_tool :: "'w listen_env \<Rightarrow> string \<Rightarrow> string \<Rightarrow> string \<Rightarrow> string \<Rightarrow> ('w, string + unit) state" where
  "socket_tool le program arg msg placeholder =
     (if le_os le = WindowsOs then ret (Inr ())
      else try_op (State (le_tool le program [arg, ipc_socket_path placeholder])) (\<lambda>ok.
        ret (if ok then Inr () else Inl msg)))"

definition change_socket_group :: "'w listen_env \<Rightarrow> string \<Rightarrow> ('w, string + unit) state" where
  "change_socket_group le = socket_tool le ''chown'' (''root:'' @ NYANPASU_USER_GROUP) ''failed to change socket group''"

definition change_socket_mode :: "'w listen_env \<Rightarrow> string \<Rightarrow> ('w, string + unit) state" where
  "change_socket_mode le = socket_tool le ''chmod'' ''664'' ''failed to change socket mode''"

text \<open>\<^verbatim>\<open>0o664\<close>, set while binding where that is possible.\<close>

definition configure_listener_mode :: "target_os \<Rightarrow> nat option" where
  "configure_listener_mode os = (if os = LinuxOs then Some (6 * 64 + 6 * 8 + 4) else None)"

definition pipe_descriptor :: "'w listen_env \<Rightarrow> string list \<Rightarrow> string + string option" where
  "pipe_descriptor le sids =
     (if le_os le = WindowsOs
      then and_then (with_context ''failed to generate sdsf'' (generate_windows_security_descriptor (le_win32 le) sids None None))
        (\<lambda>sddl. and_then (le_deserialize_sd le sddl) (\<lambda>sd. Inr (Some sd)))
      else Inr None)"

definition create_server :: "'w listen_env \<Rightarrow> string \<Rightarrow> string list \<Rightarrow> ('w, string + unit) state" where
  "create_server le placeholder sids =
     try_op (ret (le_fs_name le (get_name_string (os_platform (le_os le)) placeholder))) (\<lambda>name.
     try_op (if le_os le = WindowsOs then ret (Inr ()) else remove_socket_if_exists le placeholder) (\<lambda>_.
     try_op (ret (pipe_descriptor le sids)) (\<lambda>sd.
     try_op (State (le_bind le name (configure_listener_mode (le_os le)) sd)) (\<lambda>_.
     try_op (change_socket_group le placeholder) (\<lambda>_.
     try_op (change_socket_mode le placeholder) (\<lambda>_.
     State (le_serve le)))))))"

section \<open>Serving and shutting down\<close>

text \<open>
  \<open>rn_requests\<close> are the calls the server handles until something ends the wait, and \<open>rn_ended\<close> is what
  did: the server itself with its result, or \<open>None\<close>, the cancelled token. While the server drains
  it may still handle requests, \<open>rn_draining\<close>, and \<open>rn_drained\<close> is \<open>None\<close> when the five seconds are up.
\<close>

record 'w run_env =
  rn_requests :: "'w \<Rightarrow> svc_op list \<times> 'w"
  rn_ended :: "'w \<Rightarrow> (string + unit) option \<times> 'w"
  rn_draining :: "'w \<Rightarrow> svc_op list \<times> 'w"
  rn_drained :: "'w \<Rightarrow> (string + unit) option \<times> 'w"

fun handle_requests :: "'w service_env \<Rightarrow> svc_op list \<Rightarrow> ('w service, unit) state" where
  "handle_requests se [] = ret ()"
| "handle_requests se (op # ops) = do { run_svc se op; handle_requests se ops }"

definition await_world :: "'w service_env \<Rightarrow> ('w \<Rightarrow> 'a \<times> 'w) \<Rightarrow> ('w service, 'a) state" where
  "await_world se op = on_sys (ext (mg_env (se_manager se)) op)"

definition serve_and_stop :: "'w run_env \<Rightarrow> 'w service_env \<Rightarrow> ('w service, string + unit) state" where
  "serve_and_stop rn se = do {
     ops \<leftarrow> await_world se (rn_requests rn);
     handle_requests se ops;
     ended \<leftarrow> await_world se (rn_ended rn);
     case ended of
       Some result \<Rightarrow> do { service_shutdown se; ret result }
     | None \<Rightarrow> do {
         service_shutdown se;
         ops \<leftarrow> await_world se (rn_draining rn);
         handle_requests se ops;
         drained \<leftarrow> await_world se (rn_drained rn);
         ret (case drained of Some result \<Rightarrow> result | None \<Rightarrow> Inr ())
       }
   }"

definition server_run ::
  "'w run_env \<Rightarrow> ('w manager \<Rightarrow> 'w service_env) \<Rightarrow> 'w env \<Rightarrow> probe_plan \<Rightarrow> os_path \<Rightarrow> local_ipc_policy \<Rightarrow>
   'w sys \<Rightarrow> (string + unit) \<times> 'w service option" where
  "server_run rn mk ev plan core_runtime_dir policy s =
     (case from_path_buf core_runtime_dir of
        Inl shown \<Rightarrow> (Inl (''core runtime dir is not UTF-8: '' @ shown), None)
      | Inr runtime_dir \<Rightarrow>
          (case service_new ev plan runtime_dir policy s of
             (Inl e, sv) \<Rightarrow> (Inl e, Some sv)
           | (Inr manager, sv) \<Rightarrow>
               (case run_state (serve_and_stop rn (mk manager)) sv of (r, sv') \<Rightarrow> (r, Some sv'))))"

section \<open>The server command\<close>

text \<open>
  \<open>sr_kill_by_pid_file\<close> and \<open>sr_create_pid_file\<close> are the library's; \<open>run\<close> is the server, given the
  directories, the policy and the admitted SIDs.
\<close>

record 'w server_env =
  sr_kill_by_pid_file :: "os_path \<Rightarrow> string list \<Rightarrow> 'w \<Rightarrow> (string + unit) \<times> 'w"
  sr_canonicalize :: "os_path \<Rightarrow> 'w \<Rightarrow> (string + os_path) \<times> 'w"
  sr_create_pid_file :: "os_path \<Rightarrow> u32 \<Rightarrow> 'w \<Rightarrow> (string + unit) \<times> 'w"

definition service_pid_file :: "'w cmd_env \<Rightarrow> os_path" where
  "service_pid_file ce = os_join (os_platform (ce_os ce)) (ce_data_dir ce) ''service.pid''"

definition service_core_runtime_dir :: "'w cmd_env \<Rightarrow> os_path" where
  "service_core_runtime_dir ce = os_join (os_platform (ce_os ce)) (ce_data_dir ce) ''core-runtime''"

definition server_inner ::
  "'w cmd_env \<Rightarrow> 'w server_env \<Rightarrow> (runtime_infos \<Rightarrow> local_ipc_policy \<Rightarrow> string list \<Rightarrow> ('w, string + unit) state) \<Rightarrow>
   server_context \<Rightarrow> ('w, command_error + unit) state" where
  "server_inner ce sr run ctx =
     try_op (io_state (State (sr_kill_by_pid_file sr (service_pid_file ce) [''mihomo'', ''clash'']))) (\<lambda>_.
     try_op (io_state (State (sr_canonicalize sr (sc_config_dir ctx)))) (\<lambda>config_dir.
     try_op (io_state (State (sr_canonicalize sr (sc_data_dir ctx)))) (\<lambda>data_dir.
     try_op (io_state (State (sr_canonicalize sr (sc_app_dir ctx)))) (\<lambda>app_dir.
     try_op (ensure_dir ce (ce_data_dir ce)) (\<lambda>_.
     try_op (ensure_dir ce (ce_config_dir ce)) (\<lambda>_. do {
     _ \<leftarrow> State (sr_create_pid_file sr (service_pid_file ce) (ce_pid ce));
     try_op (if ce_os ce = WindowsOs
         then do { sids \<leftarrow> read_acl_file (ce_acl ce);
           ret (map_sum CommandOther id (with_context ''failed to read acl file'' sids)) }
         else ret (Inr [])) (\<lambda>sids.
     other_op (run \<lparr>rt_service_data_dir = ce_data_dir ce, rt_service_config_dir = ce_config_dir ce,
         rt_config_dir = config_dir, rt_data_dir = data_dir, rt_app_dir = app_dir\<rparr> (policy_of_arg (sc_policy ctx)) sids))
     }))))))"

section \<open>Accepting connections\<close>

datatype io_error_kind = ConnectionRefused | ConnectionAborted | ConnectionReset | OtherErrorKind

fun is_connection_error :: "io_error_kind \<Rightarrow> bool" where
  "is_connection_error ConnectionRefused = True"
| "is_connection_error ConnectionAborted = True"
| "is_connection_error ConnectionReset = True"
| "is_connection_error OtherErrorKind = False"

text \<open>What it waits after an error, and the loop over the answers of the listener (a stream is a handle).\<close>

definition handle_accept_error :: "io_error_kind \<Rightarrow> duration list" where
  "handle_accept_error e = (if is_connection_error e then [] else [from_secs 1])"

fun accept :: "string \<Rightarrow> (io_error_kind + nat) list \<Rightarrow> duration list \<times> ((nat \<times> string) \<times> (io_error_kind + nat) list) option" where
  "accept addr [] = ([], None)"
| "accept addr (Inr stream # answers) = ([], Some ((stream, addr), answers))"
| "accept addr (Inl e # answers) =
     (case accept addr answers of (sleeps, r) \<Rightarrow> (handle_accept_error e @ sleeps, r))"

section \<open>The tail of the log\<close>

definition LOG_BUFFER_CAPACITY :: nat where "LOG_BUFFER_CAPACITY = 100"

text \<open>Pushing at the end of a full bounded queue drops its first element.\<close>

definition logger_write :: "string \<Rightarrow> string list \<Rightarrow> string list" where
  "logger_write msg buffer =
     (if length buffer < LOG_BUFFER_CAPACITY then buffer @ [msg] else tl buffer @ [msg])"

definition logger_retrieve :: "string list \<Rightarrow> string list \<times> string list" where
  "logger_retrieve buffer = (buffer, [])"

definition logger_inspect :: "string list \<Rightarrow> string list \<times> string list" where
  "logger_inspect buffer = (buffer, buffer)"

section \<open>Stopping the Windows service\<close>

definition STOP_PENDING_TICK :: duration where "STOP_PENDING_TICK = from_secs 2"
definition STOP_PENDING_DEADLINE :: duration where "STOP_PENDING_DEADLINE = from_secs 90"

text \<open>
  The loop that reports the progress of a stop. \<open>finished k\<close> and \<open>elapsed k\<close> are what the \<open>k\<close>-th test
  sees: whether the server thread has ended, and the time since the stop began. The result is
  the list of the reported checkpoints; \<open>None\<close> when the fuel ran out.
\<close>

fun report_progress :: "nat \<Rightarrow> (nat \<Rightarrow> bool) \<Rightarrow> (nat \<Rightarrow> duration) \<Rightarrow> nat \<Rightarrow> nat \<Rightarrow> nat list option" where
  "report_progress 0 finished elapsed k checkpoint = None"
| "report_progress (Suc fuel) finished elapsed k checkpoint =
     (if finished k then Some []
      else if STOP_PENDING_DEADLINE \<le> elapsed k then Some []
      else map_option ((#) (checkpoint + 1)) (report_progress fuel finished elapsed (k + 1) (checkpoint + 1)))"

definition stop_checkpoints :: "nat \<Rightarrow> (nat \<Rightarrow> bool) \<Rightarrow> (nat \<Rightarrow> duration) \<Rightarrow> nat list option" where
  "stop_checkpoints fuel finished elapsed = map_option ((#) 1) (report_progress fuel finished elapsed 0 1)"

text \<open>
  The service as the service control manager sees it. A control is handled on another thread and
  may cancel the token of the service; \<open>controls\<close> are those that arrive. \<open>set_status\<close> is what a report
  answers, \<open>published\<close> whether the server had published its own token when the stop began, \<open>ends\<close>
  whether the server thread ends at all, which the join at the end waits for. The result has the
  statuses reported, in order, and whether the server was told to stop; \<open>None\<close> while it waits.
\<close>

datatype service_control = Interrogate | StopControl | Preshutdown | OtherControl

datatype handler_result = HandlerNoError | HandlerNotImplemented

fun event_handler :: "service_control \<Rightarrow> bool \<Rightarrow> handler_result \<times> bool" where
  "event_handler Interrogate cancelled = (HandlerNoError, cancelled)"
| "event_handler StopControl cancelled = (HandlerNoError, True)"
| "event_handler Preshutdown cancelled = (HandlerNoError, True)"
| "event_handler OtherControl cancelled = (HandlerNotImplemented, cancelled)"

datatype scm_state = ScmRunning | ScmStopPending nat | ScmStopped

definition run_service ::
  "string + unit \<Rightarrow> (scm_state \<Rightarrow> string + unit) \<Rightarrow> service_control list \<Rightarrow> bool \<Rightarrow> bool \<Rightarrow>
   nat \<Rightarrow> (nat \<Rightarrow> bool) \<Rightarrow> (nat \<Rightarrow> duration) \<Rightarrow> ((string + unit) \<times> scm_state list \<times> bool) option" where
  "run_service register set_status controls published ends fuel finished elapsed =
     (case register of
        Inl e \<Rightarrow> Some (Inl e, [], False)
      | Inr _ \<Rightarrow>
          (case set_status ScmRunning of
             Inl e \<Rightarrow> Some (Inl e, [ScmRunning], False)
           | Inr _ \<Rightarrow>
               if \<not> foldl (\<lambda>cancelled control. snd (event_handler control cancelled)) False controls then None
               else case set_status (ScmStopPending 1) of
                 Inl e \<Rightarrow> Some (Inl e, [ScmRunning, ScmStopPending 1, ScmStopped], False)
               | Inr _ \<Rightarrow>
                   (case stop_checkpoints fuel finished elapsed of
                      None \<Rightarrow> None
                    | Some checkpoints \<Rightarrow>
                        if ends then Some (Inr (), ScmRunning # map ScmStopPending checkpoints @ [ScmStopped], published)
                        else None)))"

section \<open>Shutting down\<close>

lemma closing_svc: "sv_closing s \<Longrightarrow> run_state (run_svc se op) s = ((), s)"
  by (cases op) (simp_all add: ignore_def service_start_def service_stop_def service_restart_def service_apply_def service_check_def
      check_admit_def service_recover_def service_shutdown_def unless_closing_def gets_def try_op_def)

lemma closing_requests: "sv_closing s \<Longrightarrow> run_state (handle_requests se ops) s = ((), s)"
  by (induction ops) (simp_all add: closing_svc)

lemma shutdown_closes: "wp (service_shutdown se) (\<lambda>_ s'. sv_closing s') s"
  by (auto simp: service_shutdown_def wp_simps ignore_def wp_def [of "shutdown _"] split: prod.split)

lemma wp_await_closing: "sv_closing s \<Longrightarrow> wp (await_world se op) (\<lambda>_ s'. sv_closing s') s"
  by (auto simp: await_world_def wp_def on_sys_def split: prod.splits)

lemma wp_requests_closing: "sv_closing s \<Longrightarrow> wp (handle_requests se ops) (\<lambda>_ s'. sv_closing s') s"
  by (simp add: wp_def closing_requests)

lemma serve_closes: "wp (serve_and_stop rn se) (\<lambda>_ s'. sv_closing s') s"
proof -
  have drain: "wp (do { ops \<leftarrow> await_world se (rn_draining rn); handle_requests se ops;
      drained \<leftarrow> await_world se (rn_drained rn); ret (case drained of Some result \<Rightarrow> result | None \<Rightarrow> Inr ()) })
      (\<lambda>_ s'. sv_closing s') s" if "sv_closing s" for s
    unfolding wp_bind
    by (rule wp_mono [OF wp_await_closing [OF that]], rule wp_mono [OF wp_requests_closing], assumption,
        rule wp_mono [OF wp_await_closing], assumption, simp add: wp_ret)
  have finish: "wp (case ended of Some result \<Rightarrow> do { service_shutdown se; ret result }
      | None \<Rightarrow> do { service_shutdown se; ops \<leftarrow> await_world se (rn_draining rn); handle_requests se ops;
          drained \<leftarrow> await_world se (rn_drained rn); ret (case drained of Some result \<Rightarrow> result | None \<Rightarrow> Inr ()) })
      (\<lambda>_ s'. sv_closing s') s" for ended s
    by (cases ended)
      (simp_all only: option.case wp_bind [of "service_shutdown se"] wp_mono [OF shutdown_closes] wp_ret drain)
  have any: "wp m (\<lambda>_ _. True) s" for m :: "('a service, 'b) state" and s by (simp add: wp_def split: prod.split)
  show ?thesis
    unfolding serve_and_stop_def wp_bind [of "await_world se (rn_requests rn)"] wp_bind [of "handle_requests _ _"]
      wp_bind [of "await_world se (rn_ended rn)"]
    by (rule wp_mono [OF any], rule wp_mono [OF any], rule wp_mono [OF any], rule finish)
qed

text \<open>
  C13. The server never ends without shutting the manager down. Whatever requests it handled and
  whatever ended it, its own failure, the request to stop, or a drain that took too long, once the
  manager was built the service is closing when the server returns, and every later call leaves the
  whole state as it is. When the manager cannot be built, nothing is served and its error is returned.
\<close>

theorem server_ends_closed:
  assumes "server_run rn mk ev plan (OsUtf8 dir) policy s = (r, Some s')"
  shows "case service_new ev plan dir policy s of
      (Inl e, sv) \<Rightarrow> r = Inl e \<and> s' = sv
    | (Inr manager, _) \<Rightarrow> sv_closing s' \<and> run_state (handle_requests (mk manager) ops) s' = ((), s')"
proof (cases "service_new ev plan dir policy s")
  case (Pair built sv)
  show ?thesis
  proof (cases built)
    case (Inl e)
    with Pair assms show ?thesis by (simp add: server_run_def)
  next
    case (Inr manager)
    with Pair assms have "run_state (serve_and_stop rn (mk manager)) sv = (r, s')"
      by (auto simp: server_run_def split: prod.splits)
    from wp_run [OF serve_closes this] have "sv_closing s'" .
    with Pair Inr closing_requests show ?thesis by simp
  qed
qed

definition sim_run :: "sim run_env" where
  "sim_run = \<lparr>rn_requests = (\<lambda>w. ([], w)), rn_ended = (\<lambda>w. (None, w)), rn_draining = (\<lambda>w. ([SvcStop], w)),
     rn_drained = (\<lambda>w. (None, w))\<rparr>"

theorem server_ends_closed_witness:
  "\<exists>r s'. server_run sim_run (\<lambda>_. sim_service_env) sim_env sim_plan (OsUtf8 ''/r'') Disable sim_init = (r, Some s') \<and> sv_closing s'"
proof -
  have new: "service_new sim_env sim_plan ''/r'' Disable sim_init = (Inr sim_manager, sim_service)"
    using sim_build by (simp add: service_new_def sim_options_def sim_service_def)
  obtain r s' where "run_state (serve_and_stop sim_run sim_service_env) sim_service = (r, s')" by (metis prod.exhaust)
  then have run: "server_run sim_run (\<lambda>_. sim_service_env) sim_env sim_plan (OsUtf8 ''/r'') Disable sim_init = (r, Some s')"
    by (simp add: server_run_def new)
  from server_ends_closed [OF this] run show ?thesis by (simp add: new)
qed

section \<open>The log's tail\<close>

datatype log_op = LogWrite string | LogRetrieve | LogInspect

fun log_step :: "log_op \<Rightarrow> string list \<Rightarrow> string list list \<times> string list" where
  "log_step (LogWrite msg) buffer = ([], logger_write msg buffer)"
| "log_step LogRetrieve buffer = (case logger_retrieve buffer of (out, rest) \<Rightarrow> ([out], rest))"
| "log_step LogInspect buffer = (case logger_inspect buffer of (out, rest) \<Rightarrow> ([out], rest))"

fun run_log :: "log_op list \<Rightarrow> string list \<Rightarrow> string list list \<times> string list" where
  "run_log [] buffer = ([], buffer)"
| "run_log (op # ops) buffer =
     (case log_step op buffer of (out, buffer') \<Rightarrow> case run_log ops buffer' of (outs, final) \<Rightarrow> (out @ outs, final))"

text \<open>The specification keeps every line since the last retrieval; a reader sees the last hundred.\<close>

definition tail_of :: "string list \<Rightarrow> string list" where
  "tail_of ls = drop (length ls - LOG_BUFFER_CAPACITY) ls"

fun spec_log :: "log_op list \<Rightarrow> string list \<Rightarrow> string list list \<times> string list" where
  "spec_log [] ls = ([], ls)"
| "spec_log (LogWrite msg # ops) ls = spec_log ops (ls @ [msg])"
| "spec_log (LogRetrieve # ops) ls = (case spec_log ops [] of (outs, final) \<Rightarrow> (tail_of ls # outs, final))"
| "spec_log (LogInspect # ops) ls = (case spec_log ops ls of (outs, final) \<Rightarrow> (tail_of ls # outs, final))"

lemma write_tail: "logger_write msg (tail_of ls) = tail_of (ls @ [msg])"
proof (cases "length ls < LOG_BUFFER_CAPACITY")
  case True
  then show ?thesis by (simp add: logger_write_def tail_of_def)
next
  case False
  then have "tl (drop (length ls - LOG_BUFFER_CAPACITY) ls) = drop (Suc (length ls) - LOG_BUFFER_CAPACITY) ls"
    by (simp add: drop_Suc tl_drop Suc_diff_le)
  with False show ?thesis by (simp add: logger_write_def tail_of_def LOG_BUFFER_CAPACITY_def)
qed

text \<open>
  The tail of the log is what it should be. For every sequence of lines, retrievals and
  inspections, the bounded buffer answers what a specification answers that forgets nothing: the last
  hundred lines, or fewer, since the previous retrieval, in order; an inspection takes nothing away
  and no line is retrieved twice.
\<close>

theorem log_tail_refines_spec:
  "run_log ops (tail_of ls) = (fst (spec_log ops ls), tail_of (snd (spec_log ops ls))) \<and>
   length (snd (run_log ops (tail_of ls))) \<le> LOG_BUFFER_CAPACITY"
proof -
  have nil: "tail_of [] = []" by (simp add: tail_of_def)
  have "run_log ops (tail_of ls) = (fst (spec_log ops ls), tail_of (snd (spec_log ops ls)))"
  proof (induction ops ls rule: spec_log.induct)
    case (3 ops ls)
    then show ?case by (simp add: logger_retrieve_def nil split: prod.splits)
  qed (simp_all add: write_tail logger_inspect_def split: prod.splits)
  moreover have "length (tail_of x) \<le> LOG_BUFFER_CAPACITY" for x by (simp add: tail_of_def)
  ultimately show ?thesis by simp
qed

section \<open>Progress of a stop\<close>

lemma report_progress_total:
  assumes elapsed: "\<And>k. k * STOP_PENDING_TICK \<le> elapsed k" and "k \<le> 45" and "45 - k < fuel"
  shows "\<exists>n \<le> 45 - k. report_progress fuel finished elapsed k c = Some [c + 1..<c + 1 + n]"
  using assms(2,3)
proof (induction fuel arbitrary: k c)
  case 0
  then show ?case by simp
next
  case (Suc fuel)
  show ?case
  proof (cases "finished k \<or> STOP_PENDING_DEADLINE \<le> elapsed k")
    case True
    then show ?thesis by (intro exI [of _ 0]) auto
  next
    case False
    have "STOP_PENDING_DEADLINE = 45 * STOP_PENDING_TICK"
      by (simp add: STOP_PENDING_DEADLINE_def STOP_PENDING_TICK_def from_secs_def)
    with False elapsed [of k] have "k * STOP_PENDING_TICK < 45 * STOP_PENDING_TICK" by linarith
    then have "k < 45" by (metis mult_less_cancel2)
    then have "\<exists>n \<le> 45 - (k + 1). report_progress fuel finished elapsed (k + 1) (c + 1) = Some [c + 1 + 1..<c + 1 + 1 + n]"
      using Suc.prems by (intro Suc.IH) simp_all
    then obtain n where "n \<le> 45 - (k + 1)" "report_progress fuel finished elapsed (k + 1) (c + 1) = Some [c + 1 + 1..<c + 1 + 1 + n]"
      by blast
    then show ?thesis
      using False \<open>k < 45\<close> by (intro exI [of _ "Suc n"]) (simp add: upt_conv_Cons del: upt_Suc)
  qed
qed

text \<open>
  Stopping the Windows service reports progress for a bounded time. If every tick takes at least
  its two seconds, the loop ends after at most 45 ticks, whenever or if ever the server thread
  ends; the checkpoints it reports are 1, 2, 3 and so on without a gap, so the service control manager sees
  progress with every one of them, and a thread that hangs is no longer covered up after 90 seconds.
\<close>

theorem stop_checkpoints_end:
  assumes "\<And>k. k * STOP_PENDING_TICK \<le> elapsed k"
  shows "\<exists>n \<le> 46. stop_checkpoints 46 finished elapsed = Some [1..<n + 1]"
proof -
  obtain n where "n \<le> 45" "report_progress 46 finished elapsed 0 1 = Some [1 + 1..<1 + 1 + n]"
    using report_progress_total [OF assms, of 0 46 finished 1] by (auto simp del: upt_Suc)
  then show ?thesis
    by (intro exI [of _ "Suc n"]) (simp add: stop_checkpoints_def upt_conv_Cons del: upt_Suc)
qed

theorem stop_checkpoints_end_witness:
  "\<exists>n \<le> 46. stop_checkpoints 46 (\<lambda>k. k = 2) (\<lambda>k. k * STOP_PENDING_TICK) = Some [1..<n + 1]"
  by (rule stop_checkpoints_end) simp

text \<open>Connections are handed on in order; only errors that are not the peer's cost a second.\<close>

lemma accept_first:
  "accept addr (map Inl es @ Inr stream # answers) =
     (replicate (length (filter (Not \<circ> is_connection_error) es)) (from_secs 1), Some ((stream, addr), answers))"
  by (induction es) (simp_all add: handle_accept_error_def)

text \<open>
  Once the service was reported running, the last report of a service that returns is that it has
  stopped, and there is none of it before.
\<close>

lemma service_reports_end:
  assumes "run_service register set_status controls published ends fuel finished elapsed = Some (r, reports, told)"
    and "set_status ScmRunning = Inr ()" and "register = Inr ()"
  shows "\<exists>pending. reports = ScmRunning # map ScmStopPending pending @ [ScmStopped]"
  using assms
  by (auto simp: run_service_def split: sum.splits if_splits option.splits intro: exI [of _ "[1]"])

text \<open>A service that gets no control that stops it stays running, whatever else it is asked.\<close>

lemma service_waits:
  assumes "set controls \<subseteq> {Interrogate, OtherControl}" and "register = Inr ()" and "set_status ScmRunning = Inr ()"
  shows "run_service register set_status controls published ends fuel finished elapsed = None"
proof -
  have "foldl (\<lambda>cancelled control. snd (event_handler control cancelled)) False controls = False"
    using assms(1) by (induction controls rule: rev_induct) auto
  then show ?thesis
    using assms(2,3) by (simp add: run_service_def)
qed

end
