(* ===== verification/Distribution.thy ===== *)
theory Distribution
  imports Acl
begin

text \<open>
  The identity of a distributed core (\<^verbatim>\<open>nyanpasu-core-metadata\<close>: \<^verbatim>\<open>dist.rs\<close>): variant tags, normalised when
  they are made and when they are decoded, and distributions with their set of tags. A
  \<^verbatim>\<open>BTreeSet\<close> of tags is its sorted list without repetitions; strings are ordered bytewise.
\<close>

section \<open>Tags\<close>

definition ascii_lower :: "char \<Rightarrow> char" where
  "ascii_lower c = (if 65 \<le> (of_char c :: nat) \<and> (of_char c :: nat) \<le> 90 then char_of ((of_char c :: nat) + 32) else c)"

definition to_ascii_lowercase :: "string \<Rightarrow> string" where
  "to_ascii_lowercase s = map ascii_lower s"

datatype variant_tag = VariantTag (tag_str: string)

definition GROUP_CHANNEL :: string where "GROUP_CHANNEL = ''channel''"

definition variant_tag_new :: "string \<Rightarrow> variant_tag" where
  "variant_tag_new tag = VariantTag (to_ascii_lowercase (trim tag))"

definition tag_group :: "variant_tag \<Rightarrow> string option" where
  "tag_group t = map_option fst (split_once '':'' (tag_str t))"

definition tag_value_of :: "variant_tag \<Rightarrow> string" where
  "tag_value_of t = (case split_once '':'' (tag_str t) of Some (_, v) \<Rightarrow> v | None \<Rightarrow> tag_str t)"

text \<open>The derived order of the tags is that of their texts.\<close>

instantiation variant_tag :: linorder
begin

definition less_eq_variant_tag :: "variant_tag \<Rightarrow> variant_tag \<Rightarrow> bool" where
  "less_eq_variant_tag a b \<longleftrightarrow> tag_str a \<le> tag_str b"

definition less_variant_tag :: "variant_tag \<Rightarrow> variant_tag \<Rightarrow> bool" where
  "less_variant_tag a b \<longleftrightarrow> tag_str a < tag_str b"

instance
  by standard (auto simp: less_eq_variant_tag_def less_variant_tag_def variant_tag.expand)

end

section \<open>Distributions\<close>

record core_distribution =
  di_kind :: core_kind
  di_variant :: "string option"
  di_tags :: "variant_tag list"

definition distribution_new :: "core_kind \<Rightarrow> core_distribution" where
  "distribution_new kind = \<lparr>di_kind = kind, di_variant = None, di_tags = []\<rparr>"

text \<open>The set of tags a decoded list of texts gives.\<close>

definition decode_tags :: "string list \<Rightarrow> variant_tag list" where
  "decode_tags ts = sort (remdups (map variant_tag_new ts))"

definition tag_value :: "core_distribution \<Rightarrow> string \<Rightarrow> string option" where
  "tag_value d grp = map_option tag_value_of (List.find (\<lambda>t. tag_group t = Some grp) (di_tags d))"

definition channel :: "core_distribution \<Rightarrow> string option" where
  "channel d = tag_value d GROUP_CHANNEL"

section \<open>Normal forms\<close>

lemma ascii_lower_idem [simp]: "ascii_lower (ascii_lower c) = ascii_lower c"
  by (simp add: ascii_lower_def)

text \<open>Lowering a letter changes no byte of a white-space character.\<close>

definition lower_byte :: "nat \<Rightarrow> nat" where
  "lower_byte b = (if 65 \<le> b \<and> b \<le> 90 then b + 32 else b)"

lemma byte_at_lower: "byte_at (to_ascii_lowercase s) i = lower_byte (byte_at s i)"
  by (auto simp: byte_at_def to_ascii_lowercase_def lower_byte_def ascii_lower_def)

lemma lower_byte_eq: "n < 65 \<or> 122 < n \<Longrightarrow> lower_byte b = n \<longleftrightarrow> b = n"
  "n \<le> 65 \<or> 122 < n \<Longrightarrow> n \<le> lower_byte b \<longleftrightarrow> n \<le> b" "n < 65 \<or> 122 \<le> n \<Longrightarrow> lower_byte b \<le> n \<longleftrightarrow> b \<le> n"
  by (auto simp: lower_byte_def)

lemma whitespace_len_lower: "whitespace_len (to_ascii_lowercase s) = whitespace_len s"
  by (simp add: whitespace_len_bytes byte_at_lower whitespace_bytes_def lower_byte_eq)

lemma trim_start_lower: "trim_start (to_ascii_lowercase s) = to_ascii_lowercase (trim_start s)"
proof (induction s rule: trim_start.induct)
  case (1 s)
  show ?case
  proof (cases "whitespace_len s = 0 \<or> s = []")
    case True
    then have "trim_start s = s" "trim_start (to_ascii_lowercase s) = to_ascii_lowercase s"
      by (auto simp: trim_start_fixed whitespace_len_lower) (simp_all add: to_ascii_lowercase_def)
    then show ?thesis by simp
  next
    case False
    moreover have "to_ascii_lowercase (drop n s) = drop n (to_ascii_lowercase s)" for n
      by (simp add: to_ascii_lowercase_def drop_map)
    moreover have "to_ascii_lowercase s \<noteq> []" using False by (simp add: to_ascii_lowercase_def)
    ultimately show ?thesis
      using 1 by (subst (1 2) trim_start.simps) (simp add: whitespace_len_lower)
  qed
qed

lemma trim_end_lower: "trim_end (to_ascii_lowercase s) = to_ascii_lowercase (trim_end s)"
proof (induction s)
  case Nil
  show ?case by (simp add: to_ascii_lowercase_def)
next
  case (Cons c cs)
  have "trim_start (ascii_lower c # to_ascii_lowercase cs) = to_ascii_lowercase (trim_start (c # cs))"
    using trim_start_lower [of "c # cs"] by (simp add: to_ascii_lowercase_def)
  with Cons show ?case by (simp add: to_ascii_lowercase_def)
qed

lemma variant_tag_idem: "variant_tag_new (tag_str (variant_tag_new s)) = variant_tag_new s"
proof -
  have "trim (to_ascii_lowercase (trim s)) = to_ascii_lowercase (trim (trim s))"
    by (simp add: trim_def trim_start_lower trim_end_lower)
  then show ?thesis by (simp add: variant_tag_new_def to_ascii_lowercase_def comp_def)
qed

text \<open>
  C26. Tags have a normal form and sets of tags too. Whatever texts a manifest or a client sends,
  the decoded tags are sorted, without repetition and in normal form, so that encoding and decoding them
  again changes nothing, and two lists of texts that differ only in order, repetitions, letter case
  or surrounding white space are the same set. A tag is its group, a colon and its value, or its value
  alone when it has no group.
\<close>

theorem decoded_tags_normal:
  "sorted (decode_tags ts) \<and> distinct (decode_tags ts) \<and> decode_tags (map tag_str (decode_tags ts)) = decode_tags ts \<and>
   (set (map (to_ascii_lowercase \<circ> trim) ts) = set (map (to_ascii_lowercase \<circ> trim) us) \<longrightarrow> decode_tags ts = decode_tags us) \<and>
   tag_str t = (case tag_group t of Some g \<Rightarrow> g @ '':'' @ tag_value_of t | None \<Rightarrow> tag_value_of t)"
proof -
  have list: "decode_tags ts = sorted_list_of_set (set (map variant_tag_new ts))" for ts
    by (simp only: decode_tags_def sorted_list_of_set_sort_remdups)
  have "set (map variant_tag_new (map tag_str (decode_tags ts))) = set (map variant_tag_new ts)"
    by (force simp: list variant_tag_idem)
  then have "decode_tags (map tag_str (decode_tags ts)) = decode_tags ts" by (simp only: list)
  moreover have "set (map variant_tag_new ts) = VariantTag ` set (map (to_ascii_lowercase \<circ> trim) ts)" for ts
    by (auto simp: variant_tag_new_def image_image)
  then have "set (map (to_ascii_lowercase \<circ> trim) ts) = set (map (to_ascii_lowercase \<circ> trim) us) \<longrightarrow> decode_tags ts = decode_tags us"
    by (simp only: list) simp
  moreover have "tag_str t = (case tag_group t of Some g \<Rightarrow> g @ '':'' @ tag_value_of t | None \<Rightarrow> tag_value_of t)"
    by (auto simp: tag_group_def tag_value_of_def dest: split_once_Some split: option.split)
  ultimately show ?thesis by (simp add: decode_tags_def)
qed

theorem decoded_tags_normal_witness:
  "decode_tags ['' Channel:ALPHA '', ''goamd64:v2''] = decode_tags [''goamd64:v2'', ''channel:alpha'', ''GOAMD64:V2'']"
proof -
  have "to_ascii_lowercase (trim '' Channel:ALPHA '') = ''channel:alpha''" "to_ascii_lowercase (trim ''channel:alpha'') = ''channel:alpha''"
    "to_ascii_lowercase (trim ''goamd64:v2'') = ''goamd64:v2''" "to_ascii_lowercase (trim ''GOAMD64:V2'') = ''goamd64:v2''"
    by code_simp+
  then show ?thesis
    using decoded_tags_normal [of "['' Channel:ALPHA '', ''goamd64:v2'']" "[''goamd64:v2'', ''channel:alpha'', ''GOAMD64:V2'']" "VariantTag ''x''"]
    by auto
qed

section \<open>Looking up a group\<close>

lemma split_once_group: "CHR '':'' \<notin> set g \<Longrightarrow> split_once '':'' (g @ '':'' @ v) = Some (g, v)"
  by (induction g) (subst split_once.simps, auto)+

lemma tag_group_iff:
  assumes "CHR '':'' \<notin> set g"
  shows "tag_group t = Some g \<longleftrightarrow> t = VariantTag (g @ '':'' @ tag_value_of t)"
proof
  assume "tag_group t = Some g"
  then show "t = VariantTag (g @ '':'' @ tag_value_of t)"
    using split_once_Some [of "'':''" "tag_str t" g] by (cases t) (auto simp: tag_group_def tag_value_of_def)
next
  assume "t = VariantTag (g @ '':'' @ tag_value_of t)"
  then have "tag_str t = g @ '':'' @ tag_value_of t" by (metis variant_tag.sel)
  then show "tag_group t = Some g" by (simp add: tag_group_def split_once_group [OF assms, simplified])
qed

lemma append_le_iff: "(g @ a :: string) \<le> g @ b \<longleftrightarrow> a \<le> b"
  by (induction g) auto

text \<open>The value of a group is the least one the set has, and there is one exactly if the group is there.\<close>

lemma tag_value_least:
  assumes "CHR '':'' \<notin> set g" and "sorted (di_tags d)"
  shows "tag_value d g = Some v \<longleftrightarrow>
    VariantTag (g @ '':'' @ v) \<in> set (di_tags d) \<and> (\<forall>u. VariantTag (g @ '':'' @ u) \<in> set (di_tags d) \<longrightarrow> v \<le> u)"
  using assms(2) unfolding tag_value_def
proof (induction "di_tags d" arbitrary: d)
  case Nil
  then show ?case by simp
next
  case (Cons t ts)
  have val: "tag_value_of (VariantTag (g @ '':'' @ u)) = u" for u
    by (simp add: tag_value_of_def split_once_group [OF assms(1), simplified])
  show ?case
  proof (cases "tag_group t = Some g")
    case True
    then obtain u where t: "t = VariantTag (g @ '':'' @ u)" "tag_value_of t = u" using tag_group_iff [OF assms(1)] by blast
    have "u \<le> x" if "VariantTag (g @ '':'' @ x) \<in> set ts" for x
      using Cons.prems Cons.hyps(2) [symmetric] that t(1) by (auto simp: less_eq_variant_tag_def append_le_iff)
    then have least: "u \<le> x" if "VariantTag (g @ '':'' @ x) \<in> set (di_tags d)" for x
      using that t(1) by (auto simp: Cons.hyps(2) [symmetric])
    moreover have "VariantTag (g @ '':'' @ u) \<in> set (di_tags d)" by (simp add: Cons.hyps(2) [symmetric] t(1))
    ultimately show ?thesis using True t by (auto simp: Cons.hyps(2) [symmetric] intro: antisym)
  next
    case False
    then have other: "t \<noteq> VariantTag (g @ '':'' @ x)" for x using tag_group_iff [OF assms(1), of t] val by metis
    let ?d = "d\<lparr>di_tags := ts\<rparr>"
    have "(map_option tag_value_of (List.find (\<lambda>t. tag_group t = Some g) (di_tags ?d)) = Some v) =
      (VariantTag (g @ '':'' @ v) \<in> set (di_tags ?d) \<and> (\<forall>u. VariantTag (g @ '':'' @ u) \<in> set (di_tags ?d) \<longrightarrow> v \<le> u))"
      using Cons.prems by (intro Cons.hyps(1)) (simp_all add: Cons.hyps(2) [symmetric])
    with False other show ?thesis by (auto simp: Cons.hyps(2) [symmetric])
  qed
qed

end
