(* ===== verification/Spec2Isabelle.thy ===== *)
theory Spec2Isabelle
  imports Ipc_Facts Events_Facts Store_Safety Log_Facts Log_Sink Endpoints Commands_Facts Server_Run Distribution
begin

text \<open>
  A verification development of the Nyanpasu service: the core manager
  (\<^verbatim>\<open>crates/nyanpasu-core-manager\<close>), the service around it (\<^verbatim>\<open>crates/nyanpasu-service-runtime\<close>) with
  its command line, the client that talks to it (\<^verbatim>\<open>nyanpasu_ipc\<close>) and the client of a core's
  controller (\<^verbatim>\<open>crates/clash-api\<close>).

  \<^bold>\<open>The program.\<close> A proxy core (Mihomo, Clash Premium, Clash Rust, Meow) runs as a supervised child
  process. The manager starts, stops, restarts and switches it and applies configuration changes,
  each run of a core being one epoch with its own artifacts in a private runtime directory. An
  instance is one epoch's process with its monitor task, which follows the supervisor's events,
  probes the core's controller and publishes the instance's status. A core whose death cannot be
  proven is quarantined and blocks further operations until it is recovered. The service wraps
  the manager in request handlers and an event socket; the client calls them over a local socket.
  The commands of the executable install, start, stop, update and query that service through the
  operating system's service manager.

  \<^bold>\<open>Foundations.\<close> \<open>Prelude\<close> has the state monad's weakest preconditions (\<open>wp\<close>, with the collection
  \<open>wp_simps\<close>) and words; \<open>Rust_Strings\<close> the string functions, \<open>Paths\<close> the path functions of the
  standard library; \<open>Metadata\<close> and \<open>Errors\<close> the kinds, versions, features and errors.

  \<^bold>\<open>Configuration.\<close> \<open>Yaml\<close>, \<open>Canonical\<close> (\<^verbatim>\<open>config/mod.rs\<close>: canonical form and hash), \<open>Diff\<close>
  (\<^verbatim>\<open>config/diff.rs\<close>), \<open>Clash\<close> (\<^verbatim>\<open>config/clash.rs\<close>), \<open>Mihomo\<close> (\<^verbatim>\<open>config/mihomo.rs\<close>) and \<open>Config\<close>
  (preparation of effective documents, managed endpoints). Shown: the canonical form is sorted,
  duplicate-free and order-insensitive, the difference is exactly the differing paths, a change is
  sent as a patch only if every differing field is in the tables and the patch loses nothing, the
  bootstrap document opens no listener, and the hash of a prepared document is that of its bytes.

  \<^bold>\<open>Logs.\<close> \<open>Log\<close> is the parser of core output (\<^verbatim>\<open>log.rs\<close>), \<open>Log_Facts\<close> its bounds, totality, lossless
  continuation records and round trip; \<open>Log_Sink\<close> is the archive (\<^verbatim>\<open>log_sink.rs\<close>): records are
  archived in order, files stay within their limit plus one record, and a cancelled sink ends.

  \<^bold>\<open>Instances.\<close> \<open>Health\<close> (\<^verbatim>\<open>health/mod.rs\<close>, refined to an abstract tracker), \<open>Core_State\<close> (\<^verbatim>\<open>state.rs\<close>,
  \<^verbatim>\<open>spec.rs\<close>, the controller address of \<^verbatim>\<open>clash-api\<close>), \<open>Monitor\<close> (the monitor loop of \<^verbatim>\<open>instance.rs\<close> and
  \<^verbatim>\<open>health/driver.rs\<close>, one step function over the branches of their selects), \<open>Kind\<close> (\<^verbatim>\<open>kind.rs\<close>,
  \<^verbatim>\<open>capability.rs\<close>) and \<open>Instance\<close> (spawning, readiness and the stop protocol). \<open>Monitor_Facts\<close> shows
  that an instance is reported running only after a timely, acknowledged, healthy observation of
  its current run, and terminal exactly when supervision ended. \<open>Clash_Api\<close> is the client of a
  core's controller (\<^verbatim>\<open>crates/clash-api\<close>: \<^verbatim>\<open>client.rs\<close>, \<^verbatim>\<open>retry.rs\<close>, \<^verbatim>\<open>error.rs\<close>): its retries are bounded,
  and a request that may not be repeated is sent once. \<open>Endpoints\<close> has its operations
  (\<^verbatim>\<open>src/api\<close>, \<^verbatim>\<open>stream.rs\<close>) with their arguments: every operation sends one request, and repeats it
  only if it is a read or a removal without a body; the retry policies share the locale
  \<open>bounded_policy\<close>.

  \<^bold>\<open>The manager.\<close> \<open>Env\<close> is the process the manager runs in: a record \<open>env\<close> of what it calls outside
  the sources, and a record \<open>sys\<close> of its whole state. Between any two calls to the outside the
  other tasks run (\<open>interfere\<close>), so every interleaving at an await point is covered. \<open>Runtime_Store\<close>
  (\<^verbatim>\<open>config/runtime_store.rs\<close>), \<open>Manager\<close> (\<^verbatim>\<open>manager/mod.rs\<close>, \<^verbatim>\<open>publish.rs\<close>, \<^verbatim>\<open>quarantine.rs\<close>), \<open>Switching\<close>
  (\<^verbatim>\<open>switching.rs\<close>) and \<open>Apply\<close> (\<^verbatim>\<open>apply.rs\<close>) model every public operation on all its branches.
  \<open>Manager_Inv\<close> has the invariant and what the environment promises (\<open>env_ok\<close>: a supervisor ends
  only when its process tree is gone, the reaper tells the truth; every call may fail or time out).
  \<open>Manager_Rules\<close>, \<open>Instance_Rules\<close>, \<open>Stop_Rules\<close>, \<open>Control_Rules\<close> and \<open>Manager_Safety\<close> carry it
  through each operation and \<open>Manager_Reach\<close> to every reachable state: no core process is ever
  lost. \<open>Simulation\<close> is a concrete environment that satisfies \<open>env_ok\<close> and in which the operations
  run. \<open>Quarantine_Facts\<close> shows which calls are refused, without an effect, and what recovery does.

  \<^bold>\<open>Files.\<close> \<open>Store_Facts\<close>, \<open>Store_Files\<close> and \<open>Store_Safety\<close>: given file operations that mean what
  they are documented to (\<open>files_ok\<close>), replacing a configuration is all or nothing, a backup
  restores what it saved, and cleaning up an epoch touches no other epoch's file. The families of
  file names share the locale \<open>numbered_name\<close>, interpreted for each of them.

  \<^bold>\<open>The service.\<close> \<open>Wire\<close> has the types of the protocol (\<^verbatim>\<open>nyanpasu_ipc/src/api\<close>), \<open>Service\<close> the adapter
  over the manager (\<^verbatim>\<open>server/manager_bridge.rs\<close>), \<open>Ipc\<close> the contract, the request handlers
  (\<^verbatim>\<open>server/routing\<close>) and the client (\<^verbatim>\<open>nyanpasu_ipc/src/client\<close>), \<open>Events\<close> the event hub
  (\<^verbatim>\<open>server/events.rs\<close>), the bridge tasks and the sender of a socket (\<^verbatim>\<open>routing/ws.rs\<close>). \<open>Service_Facts\<close>
  lifts process safety to the service and shows that closing refuses every call and that the
  projections lose nothing; \<open>Ipc_Facts\<close> that a client's call is the service's call; \<open>Events_Facts\<close>
  that the feed's tasks end and leave every client with the current status.

  \<^bold>\<open>The executable.\<close> \<open>Acl\<close> is the security descriptor of the pipe (\<^verbatim>\<open>nyanpasu_ipc/src/utils/acl.rs\<close>)
  and the list of admitted users (\<^verbatim>\<open>utils/acl.rs\<close>): the buffer of the list is large enough, the
  descriptor grants what was asked for, and what an installation admits is read back. \<open>Commands\<close> has
  the command line (\<^verbatim>\<open>cmds\<close>, \<^verbatim>\<open>utils/service.rs\<close>, \<^verbatim>\<open>utils/os/user.rs\<close>, the log directory of
  \<^verbatim>\<open>logging.rs\<close>, the exit codes of \<^verbatim>\<open>lib.rs\<close>) over a record \<open>cmd_env\<close> of what it calls.
  \<open>Commands_Facts\<close> records the requests a command makes (the locale \<open>recording_env\<close>, interpreted on
  the tracing of any environment) and shows that the control commands follow a table of refusals,
  requests and confirmations, that nothing is changed without administrator rights, that an update
  stops the service before replacing its binary, what the exit code of \<^verbatim>\<open>status\<close> says and that a
  revision token survives the command line. \<open>Server_Run\<close> is the life of the server
  (\<^verbatim>\<open>cmds/server.rs\<close>, \<^verbatim>\<open>server/mod.rs\<close>, the listener of \<^verbatim>\<open>nyanpasu_ipc/src/server\<close>), the log tail
  (\<^verbatim>\<open>server/logger.rs\<close>) and the Windows service (\<^verbatim>\<open>win_service.rs\<close>): the server never ends without
  closing the service, the tail is the last hundred records, and the reports of a stop end, the
  last of them being that the service has stopped. \<open>Distribution\<close>
  (\<^verbatim>\<open>nyanpasu-core-metadata/src/dist.rs\<close>) shows that decoded tags are in normal form.

  \<^bold>\<open>Choices and bounds.\<close> Integers of the sources keep their width: epochs, generations, sequence
  numbers and sizes are 64-bit words. An operation is considered in states with epochs left
  (\<open>epoch_left\<close>: the counter is below its maximum), which no run of the program exhausts. Loops over
  data are recursions; the monitor, the driver, the sink and the bridge, which run forever, are step
  functions over explicit sequences of what wakes them, so no fuel is needed; waiting for an event
  is a parameter that may also give up. Mutexes of the manager and the adapter make their
  operations exclude each other, and each is one function. A panic of the log parser is the value
  \<open>None\<close>. Third-party crates (YAML, URLs, JSON, HTTP, dates, semantic versions, supervision,
  channels) and the operating system are parameters; where a property relies on them the
  hypothesis is named, and a witness instantiates it.

  \<^bold>\<open>Not modelled.\<close> The request timeout of the routes, which drops a running operation's future at
  an await point: the operations are modelled as run to their end, and where a dropped future
  stops depends on the executor. The types of the controller's answers and the JSON form of its
  configuration patch are derived by the serialisation library; decoding is a parameter. The parsing of the
  command line, the HTTP server, the tracing layers, the deadlock
  detector, the entry points and the output of the version are calls of
  libraries without a decision of the program's own. The event stream of the client's socket
  hands on what the library's socket yields.
\<close>

end
